(* ===== verification/Go_Prelude.thy ===== *)
theory Go_Prelude
  imports Main "HOL-Library.Sublist" "HOL-Library.Char_ord" "HOL-Library.List_Lexorder"
begin

text \<open>
  Shared vocabulary of the development.

  A Go string and a Go byte slice are both a \<open>char list\<close>: an Isabelle character is one byte, so
  \<open>length\<close> is Go's \<open>len\<close> and the conversions \<open>string(b)\<close> and \<open>[]byte(s)\<close> are the identity.
  A run-time panic, a \<open>panic(...)\<close> call and a \<open>Fatal\<close> log are values of \<open>fault\<close>, and code that may
  fail this way returns \<open>'a go\<close>.  The rest of the file models the functions of the standard
  packages \<open>strings\<close>, \<open>bytes\<close> and \<open>strconv\<close> that the sources call, with the facts the
  components share about them.
\<close>

named_theorems go_defs \<open>definitions a concrete run unfolds\<close>

text \<open>Numerals as bytes, for the simplifier.\<close>

lemmas byte_eval = char_of_def bit_0

type_synonym bytes = "char list"

section \<open>Faults\<close>

datatype fault =
    NilDeref            \<comment> \<open>nil pointer dereference\<close>
  | IndexRange          \<comment> \<open>index out of range\<close>
  | SliceRange          \<comment> \<open>slice bounds out of range\<close>
  | NilMapWrite         \<comment> \<open>assignment to entry in nil map\<close>
  | MakeSliceCap        \<comment> \<open>makeslice: cap out of range\<close>
  | PanicCall string    \<comment> \<open>\<open>panic(...)\<close>\<close>
  | FatalLog string     \<comment> \<open>\<open>logger.Fatal(...)\<close>: the process ends\<close>

datatype 'a go = Ok 'a | Fault fault

fun bind_go :: "'a go \<Rightarrow> ('a \<Rightarrow> 'b go) \<Rightarrow> 'b go" where
  "bind_go (Ok x) f = f x"
| "bind_go (Fault e) f = Fault e"

fun map_ok :: "('a \<Rightarrow> 'b) \<Rightarrow> 'a go \<Rightarrow> 'b go" where
  "map_ok f (Ok x) = Ok (f x)"
| "map_ok f (Fault e) = Fault e"

fun is_ok :: "'a go \<Rightarrow> bool" where
  "is_ok (Ok _) = True"
| "is_ok (Fault _) = False"

lemma bind_go_cong [fundef_cong]:
  "m = m' \<Longrightarrow> (\<And>x. m' = Ok x \<Longrightarrow> f x = f' x) \<Longrightarrow> bind_go m f = bind_go m' f'"
  by (cases m') auto

lemma bind_go_Ok_iff: "bind_go m f = Ok y \<longleftrightarrow> (\<exists>x. m = Ok x \<and> f x = Ok y)"
  by (cases m) auto

lemma bind_go_OkE [elim!]:
  assumes "bind_go m f = Ok y"
  obtains x where "m = Ok x" and "f x = Ok y"
  using assms by (cases m) auto

lemma bind_go_assoc: "bind_go (bind_go m f) g = bind_go m (\<lambda>x. bind_go (f x) g)"
  by (cases m) simp_all

lemma map_ok_Ok_iff: "map_ok f m = Ok y \<longleftrightarrow> (\<exists>x. m = Ok x \<and> y = f x)"
  by (cases m) auto

lemma map_ok_Fault_iff [simp]: "map_ok f m = Fault e \<longleftrightarrow> m = Fault e"
  by (cases m) simp_all

lemma bind_go_Fault_iff: "bind_go m f = Fault e \<longleftrightarrow> m = Fault e \<or> (\<exists>x. m = Ok x \<and> f x = Fault e)"
  by (cases m) simp_all

lemma is_ok_iff: "is_ok m \<longleftrightarrow> (\<exists>x. m = Ok x)"
  by (cases m) auto

lemma is_ok_bind: "is_ok (bind_go m f) \<longleftrightarrow> (\<exists>x. m = Ok x \<and> is_ok (f x))"
  by (cases m) auto

text \<open>A nil pointer is \<^const>\<open>None\<close>; reading through it is a fault.\<close>

fun deref :: "'a option \<Rightarrow> 'a go" where
  "deref None = Fault NilDeref"
| "deref (Some x) = Ok x"

lemma deref_Ok_iff [simp]: "deref p = Ok x \<longleftrightarrow> p = Some x"
  by (cases p) auto

text \<open>Indexing and slicing fault out of range.\<close>

definition at :: "'a list \<Rightarrow> nat \<Rightarrow> 'a go" where
  "at xs i = (if i < length xs then Ok (xs ! i) else Fault IndexRange)"

definition slice :: "'a list \<Rightarrow> nat \<Rightarrow> nat \<Rightarrow> 'a list go" where
  "slice xs lo hi = (if lo \<le> hi \<and> hi \<le> length xs then Ok (take (hi - lo) (drop lo xs)) else Fault SliceRange)"

lemma at_Ok_iff: "at xs i = Ok x \<longleftrightarrow> i < length xs \<and> x = xs ! i"
  by (auto simp: at_def)

lemma slice_Ok_iff:
  "slice xs lo hi = Ok ys \<longleftrightarrow> lo \<le> hi \<and> hi \<le> length xs \<and> ys = take (hi - lo) (drop lo xs)"
  by (auto simp: slice_def)

lemma slice_length: "slice xs lo hi = Ok ys \<Longrightarrow> length ys = hi - lo"
  by (auto simp: slice_Ok_iff)

section \<open>Package strings\<close>

definition HasPrefix :: "string \<Rightarrow> string \<Rightarrow> bool" where
  "HasPrefix s p = prefix p s"

definition HasSuffix :: "string \<Rightarrow> string \<Rightarrow> bool" where
  "HasSuffix s p = suffix p s"

definition TrimPrefix :: "string \<Rightarrow> string \<Rightarrow> string" where
  "TrimPrefix s p = (if HasPrefix s p then drop (length p) s else s)"

definition TrimSuffix :: "string \<Rightarrow> string \<Rightarrow> string" where
  "TrimSuffix s p = (if HasSuffix s p then take (length s - length p) s else s)"

fun Contains :: "string \<Rightarrow> string \<Rightarrow> bool" where
  "Contains [] p = (p = [])"
| "Contains (c # s) p = (HasPrefix (c # s) p \<or> Contains s p)"

fun Split :: "string \<Rightarrow> char \<Rightarrow> string list" where
  "Split [] sep = [[]]"
| "Split (c # s) sep =
     (if c = sep then [] # Split s sep
      else (case Split s sep of [] \<Rightarrow> [[c]] | w # ws \<Rightarrow> (c # w) # ws))"

text \<open>\<open>SplitN(s, sep, n)\<close>: at most \<open>n\<close> parts, the last one unsplit.\<close>

fun SplitN :: "string \<Rightarrow> char \<Rightarrow> nat \<Rightarrow> string list" where
  "SplitN s sep 0 = []"
| "SplitN s sep (Suc 0) = [s]"
| "SplitN s sep (Suc (Suc n)) =
     (case dropWhile (\<lambda>c. c \<noteq> sep) s of
        [] \<Rightarrow> [s]
      | _ # rest \<Rightarrow> takeWhile (\<lambda>c. c \<noteq> sep) s # SplitN rest sep (Suc n))"

fun Join :: "string list \<Rightarrow> string \<Rightarrow> string" where
  "Join [] sep = []"
| "Join [w] sep = w"
| "Join (w # v # ws) sep = w @ sep @ Join (v # ws) sep"

text \<open>
  \<open>unicode.IsSpace\<close> on UTF-8: the length in bytes of a leading white space rune, 0 when there is
  none.  Every multi-byte pattern starts with a UTF-8 leading byte, so it never matches inside
  another rune.
\<close>

definition space_len :: "string \<Rightarrow> nat" where
  "space_len s =
     (case s of [] \<Rightarrow> 0 | c # r \<Rightarrow>
        if c \<in> {CHR 0x09, CHR 0x0A, CHR 0x0B, CHR 0x0C, CHR 0x0D, CHR '' ''} then 1
        else if HasPrefix s [CHR 0xC2, CHR 0x85] \<or> HasPrefix s [CHR 0xC2, CHR 0xA0] then 2
        else if HasPrefix s [CHR 0xE1, CHR 0x9A, CHR 0x80]
              \<or> (HasPrefix s [CHR 0xE2, CHR 0x80] \<and> length s \<ge> 3
                   \<and> (CHR 0x80 \<le> s ! 2 \<and> s ! 2 \<le> CHR 0x8A \<or> s ! 2 \<in> {CHR 0xA8, CHR 0xA9, CHR 0xAF}))
              \<or> HasPrefix s [CHR 0xE2, CHR 0x81, CHR 0x9F]
              \<or> HasPrefix s [CHR 0xE3, CHR 0x80, CHR 0x80] then 3
        else 0)"

text \<open>\<open>strings.Fields\<close>: the accumulator is the field read so far.\<close>

fun fields_acc :: "string \<Rightarrow> nat \<Rightarrow> string \<Rightarrow> string list" where
  "fields_acc acc _ [] = (if acc = [] then [] else [acc])"
| "fields_acc acc (Suc k) (c # s) = fields_acc acc k s"
| "fields_acc acc 0 (c # s) =
     (case space_len (c # s) of
        0 \<Rightarrow> fields_acc (acc @ [c]) 0 s
      | Suc k \<Rightarrow> (if acc = [] then fields_acc [] k s else acc # fields_acc [] k s))"

definition Fields :: "string \<Rightarrow> string list" where
  "Fields s = fields_acc [] 0 s"

text \<open>\<open>strings.ToLower\<close>, exact on ASCII text, the only text the sources give it.\<close>

definition lower_char :: "char \<Rightarrow> char" where
  "lower_char c =
     (if CHR ''A'' \<le> c \<and> c \<le> CHR ''Z'' then ''abcdefghijklmnopqrstuvwxyz'' ! (of_char c - 65) else c)"

definition ToLower :: "string \<Rightarrow> string" where
  "ToLower s = map lower_char s"

definition TrimRight1 :: "string \<Rightarrow> char \<Rightarrow> string" where
  "TrimRight1 s c = rev (dropWhile (\<lambda>x. x = c) (rev s))"

text \<open>
  \<open>strings.TrimSpace\<close>: leading white space runes are dropped, then trailing ones (the last one, two
  or three bytes when they are one white space rune).
\<close>

fun trim_left :: "nat \<Rightarrow> string \<Rightarrow> string" where
  "trim_left _ [] = []"
| "trim_left (Suc k) (c # s) = trim_left k s"
| "trim_left 0 (c # s) = (case space_len (c # s) of 0 \<Rightarrow> c # s | Suc k \<Rightarrow> trim_left k s)"

definition last_space_len :: "string \<Rightarrow> nat" where
  "last_space_len s =
     (case filter (\<lambda>k. k \<le> length s \<and> space_len (drop (length s - k) s) = k) [1, 2, 3] of
        [] \<Rightarrow> 0 | k # _ \<Rightarrow> k)"

function trim_right :: "string \<Rightarrow> string" where
  "trim_right s =
     (if last_space_len s = 0 \<or> s = [] then s else trim_right (take (length s - last_space_len s) s))"
  by pat_completeness auto
termination by (relation "measure length") auto

declare trim_right.simps [simp del]

definition TrimSpace :: "string \<Rightarrow> string" where
  "TrimSpace s = trim_right (trim_left 0 s)"

text \<open>\<open>path.Clean\<close> and \<open>path.Join\<close>: \<open>acc\<close> holds the components kept so far, the last one first.\<close>

fun clean_comps :: "bool \<Rightarrow> string list \<Rightarrow> string list \<Rightarrow> string list" where
  "clean_comps rooted acc [] = rev acc"
| "clean_comps rooted acc (c # cs) =
     (if c = [] \<or> c = ''.'' then clean_comps rooted acc cs
      else if c = ''..'' then
        (if acc \<noteq> [] \<and> hd acc \<noteq> ''..'' then clean_comps rooted (tl acc) cs
         else if rooted then clean_comps rooted acc cs
         else clean_comps rooted (c # acc) cs)
      else clean_comps rooted (c # acc) cs)"

definition path_Clean :: "string \<Rightarrow> string" where
  "path_Clean p =
     (if p = [] then ''.''
      else
        (let rooted = (hd p = CHR ''/''); b = Join (clean_comps rooted [] (Split p (CHR ''/''))) ''/''
         in if rooted then CHR ''/'' # b else if b = [] then ''.'' else b))"

definition path_Join :: "string list \<Rightarrow> string" where
  "path_Join elems =
     (case filter (\<lambda>e. e \<noteq> []) elems of [] \<Rightarrow> [] | es \<Rightarrow> path_Clean (Join es ''/''))"

section \<open>Package strconv and the number verbs of fmt\<close>

fun dec_digits :: "nat \<Rightarrow> string" where
  "dec_digits n =
     (if n < 10 then [''0123456789'' ! n] else dec_digits (n div 10) @ [''0123456789'' ! (n mod 10)])"

declare dec_digits.simps [simp del]

definition Itoa :: "int \<Rightarrow> string" where
  "Itoa i = (if i < 0 then CHR ''-'' # dec_digits (nat (- i)) else dec_digits (nat i))"

definition hex_digit :: "nat \<Rightarrow> char" where
  "hex_digit n = ''0123456789abcdef'' ! n"

text \<open>\<open>strconv.AppendUint(_, c, 16)\<close> of a byte, and the two-digit form.\<close>

definition hex_byte2 :: "char \<Rightarrow> string" where
  "hex_byte2 c = [hex_digit (of_char c div 16), hex_digit (of_char c mod 16)]"

definition hex_byte1 :: "char \<Rightarrow> string" where
  "hex_byte1 c = (if (of_char c :: nat) < 16 then [hex_digit (of_char c)] else hex_byte2 c)"

lemmas string_defs [go_defs] =
  HasPrefix_def HasSuffix_def TrimPrefix_def TrimSuffix_def Fields_def space_len_def
  lower_char_def ToLower_def TrimRight1_def last_space_len_def TrimSpace_def path_Clean_def
  path_Join_def Itoa_def hex_digit_def hex_byte2_def hex_byte1_def
  at_def slice_def

section \<open>Facts about the string functions\<close>

lemma Split_nonempty [simp]: "Split s sep \<noteq> []"
  by (cases s) (auto split: list.splits)

lemma Join_Split: "Join (Split s sep) [sep] = s"
proof (induction s)
  case Nil
  then show ?case by simp
next
  case (Cons c s)
  obtain w ws where sp: "Split s sep = w # ws"
    by (cases "Split s sep") auto
  with Cons show ?case by (cases ws) auto
qed

lemma Split_no_sep: "w \<in> set (Split s sep) \<Longrightarrow> sep \<notin> set w"
proof (induction s arbitrary: w)
  case Nil
  then show ?case by simp
next
  case (Cons c s)
  then show ?case by (cases "Split s sep") (auto split: if_splits)
qed

lemma Split_append_sep: "sep \<notin> set w \<Longrightarrow> Split (w @ sep # s) sep = w # Split s sep"
  by (induction w) auto

lemma Split_no_occurrence: "sep \<notin> set w \<Longrightarrow> Split w sep = [w]"
  by (induction w) auto

lemma Split_Join:
  "ws \<noteq> [] \<Longrightarrow> (\<And>w. w \<in> set ws \<Longrightarrow> sep \<notin> set w) \<Longrightarrow> Split (Join ws [sep]) sep = ws"
  by (induction ws "[sep]" rule: Join.induct)
    (auto simp: Split_no_occurrence Split_append_sep)

lemma HasPrefix_append [simp]: "HasPrefix (p @ s) p"
  by (simp add: HasPrefix_def)

lemma TrimPrefix_append [simp]: "TrimPrefix (p @ s) p = s"
  by (simp add: TrimPrefix_def)

lemma TrimPrefix_no [simp]: "\<not> HasPrefix s p \<Longrightarrow> TrimPrefix s p = s"
  by (simp add: TrimPrefix_def)

lemma HasSuffix_append [simp]: "HasSuffix (s @ p) p"
  unfolding HasSuffix_def suffix_def by blast

lemma TrimSuffix_append [simp]: "TrimSuffix (s @ p) p = s"
  by (simp add: TrimSuffix_def)

lemma TrimSuffix_no [simp]: "\<not> HasSuffix s p \<Longrightarrow> TrimSuffix s p = s"
  by (simp add: TrimSuffix_def)

lemma TrimPrefix_suffix: "suffix (TrimPrefix s p) s"
  by (auto simp: TrimPrefix_def suffix_drop)

lemma TrimSuffix_length: "length (TrimSuffix s p) < length s \<longleftrightarrow> HasSuffix s p \<and> p \<noteq> []"
  by (auto simp: TrimSuffix_def HasSuffix_def suffix_def)

lemma SplitN_no_sep:
  "w \<in> set (butlast (SplitN s sep n)) \<Longrightarrow> sep \<notin> set w"
  by (induction s sep n arbitrary: w rule: SplitN.induct)
    (auto split: list.splits if_splits dest: set_takeWhileD)

lemma Join_SplitN: "0 < n \<Longrightarrow> Join (SplitN s sep n) [sep] = s"
proof (induction s sep n rule: SplitN.induct)
  case (3 s sep n)
  show ?case
  proof (cases "dropWhile (\<lambda>c. c \<noteq> sep) s")
    case Nil
    then show ?thesis by (simp only: SplitN.simps list.case Join.simps)
  next
    case (Cons d rest)
    then have d: "d = sep" using hd_dropWhile [of "\<lambda>c. c \<noteq> sep" s] by simp
    from Cons have s: "takeWhile (\<lambda>c. c \<noteq> sep) s @ d # rest = s"
      using takeWhile_dropWhile_id [of "\<lambda>c. c \<noteq> sep" s] by simp
    from 3 Cons have "Join (SplitN rest sep (Suc n)) [sep] = rest" by simp
    moreover obtain v vs where v: "SplitN rest sep (Suc n) = v # vs"
      by (cases n; cases "dropWhile (\<lambda>c. c \<noteq> sep) rest") auto
    ultimately have "Join (SplitN s sep (Suc (Suc n))) [sep] = takeWhile (\<lambda>c. c \<noteq> sep) s @ [sep] @ rest"
      using Cons by (simp only: SplitN.simps list.case Join.simps)
    with s d show ?thesis by simp
  qed
qed auto

lemma length_SplitN_le: "length (SplitN s sep n) \<le> n"
  by (induction s sep n rule: SplitN.induct) (auto split: list.splits)

lemma dec_digits_nonempty [simp]: "dec_digits n \<noteq> []"
  by (subst dec_digits.simps) simp

section \<open>64-bit integers\<close>

text \<open>The value of an \<open>int64\<close> after wrap-around, and a \<open>time.Duration\<close> of seconds.\<close>

definition wrap64 :: "int \<Rightarrow> int" where
  "wrap64 x = (x + 9223372036854775808) mod 18446744073709551616 - 9223372036854775808"

lemma wrap64_id: "- 9223372036854775808 \<le> x \<Longrightarrow> x < 9223372036854775808 \<Longrightarrow> wrap64 x = x"
  by (simp add: wrap64_def)

lemma wrap64_range: "- 9223372036854775808 \<le> wrap64 x \<and> wrap64 x < 9223372036854775808"
  using pos_mod_bound [of 18446744073709551616 "x + 9223372036854775808"]
    pos_mod_sign [of 18446744073709551616 "x + 9223372036854775808"]
  by (simp add: wrap64_def)

definition Second :: int where
  "Second = 1000000000"

text \<open>\<open>time.ParseDuration(fmt.Sprintf("%ds", n))\<close>: zero when the duration does not fit.\<close>

definition parse_seconds :: "int \<Rightarrow> int" where
  "parse_seconds n = (if \<bar>n\<bar> > 9223372036 then 0 else n * Second)"

lemmas int64_defs [go_defs] = wrap64_def Second_def parse_seconds_def

end
