(* ===== verification/Go_Net.thy ===== *)
theory Go_Net
  imports Go_Prelude
begin

text \<open>
  Package \<open>net\<close>, as far as the sources use it.  A \<open>net.IP\<close> is its byte slice: \<open>[]\<close> is nil (the
  package returns nil, 4 or 16 bytes, and JSON decoding an empty address yields nil).  A
  \<open>net.HardwareAddr\<close> is its byte slice too.
\<close>

type_synonym ip = bytes
type_synonym hwaddr = bytes

section \<open>IP addresses\<close>

definition v4InV6Prefix :: bytes where
  "v4InV6Prefix = replicate 10 (CHR 0x00) @ [CHR 0xFF, CHR 0xFF]"

definition IPv4 :: "char \<Rightarrow> char \<Rightarrow> char \<Rightarrow> char \<Rightarrow> ip" where
  "IPv4 a b c d = v4InV6Prefix @ [a, b, c, d]"

definition To4 :: "ip \<Rightarrow> ip" where
  "To4 p =
     (if length p = 4 then p
      else if length p = 16 \<and> take 12 p = v4InV6Prefix then drop 12 p
      else [])"

definition ip_Equal :: "ip \<Rightarrow> ip \<Rightarrow> bool" where
  "ip_Equal p q =
     (if length p = length q then p = q
      else if length p = 4 \<and> length q = 16 then take 12 q = v4InV6Prefix \<and> p = drop 12 q
      else if length p = 16 \<and> length q = 4 then take 12 p = v4InV6Prefix \<and> drop 12 p = q
      else False)"

definition byte_dec :: "char \<Rightarrow> string" where
  "byte_dec c = dec_digits (of_char c)"

text \<open>IPv6 text: the eight 16-bit groups, the longest run of zero groups written \<open>::\<close>.\<close>

fun groups16 :: "bytes \<Rightarrow> nat list" where
  "groups16 (a # b # r) = (256 * of_char a + of_char b) # groups16 r"
| "groups16 _ = []"

fun hex_nat :: "nat \<Rightarrow> string" where
  "hex_nat n = (if n < 16 then [hex_digit n] else hex_nat (n div 16) @ [hex_digit (n mod 16)])"

declare hex_nat.simps [simp del]

text \<open>
  The scan for the longest run: \<open>(e0, e1)\<close> is the best run so far (in groups, \<open>e0 = e1\<close> for none)
  and \<open>i\<close> the current group.  A run replaces the best one only when it is strictly longer.
\<close>

fun zero_run :: "nat list \<Rightarrow> nat \<Rightarrow> nat \<times> nat \<Rightarrow> nat \<times> nat" where
  "zero_run [] i best = best"
| "zero_run (g # gs) i (e0, e1) =
     (let r = length (takeWhile (\<lambda>x. x = 0) (g # gs))
      in zero_run gs (Suc i) (if r > e1 - e0 then (i, i + r) else (e0, e1)))"

definition ipv6_string :: "bytes \<Rightarrow> string" where
  "ipv6_string p =
     (let gs = groups16 p; (e0, e1) = zero_run gs 0 (0, 0)
      in if e1 - e0 \<le> 1 then Join (map hex_nat gs) '':''
         else Join (map hex_nat (take e0 gs)) '':'' @ ''::'' @ Join (map hex_nat (drop e1 gs)) '':'')"

definition ip_String :: "ip \<Rightarrow> string" where
  "ip_String p =
     (if p = [] then ''<nil>''
      else if To4 p \<noteq> [] then Join (map byte_dec (To4 p)) ''.''
      else if length p \<noteq> 16 then CHR ''?'' # concat (map hex_byte2 p)
      else ipv6_string p)"

section \<open>Parsing IP addresses\<close>

definition is_digit :: "char \<Rightarrow> bool" where
  "is_digit c = (CHR ''0'' \<le> c \<and> c \<le> CHR ''9'')"

definition dec_value :: "string \<Rightarrow> nat" where
  "dec_value s = foldl (\<lambda>n c. n * 10 + (of_char c - 48)) 0 s"

definition parse_octet :: "string \<Rightarrow> char option" where
  "parse_octet s =
     (if s \<noteq> [] \<and> list_all is_digit s \<and> (length s > 1 \<longrightarrow> hd s \<noteq> CHR ''0'') \<and> dec_value s \<le> 255
      then Some (char_of (dec_value s)) else None)"

definition parseIPv4 :: "string \<Rightarrow> ip" where
  "parseIPv4 s =
     (case map parse_octet (Split s (CHR ''.'')) of
        [Some a, Some b, Some c, Some d] \<Rightarrow> IPv4 a b c d
      | _ \<Rightarrow> [])"

definition hex_val :: "char \<Rightarrow> nat option" where
  "hex_val c =
     (if is_digit c then Some (of_char c - 48)
      else if CHR ''a'' \<le> c \<and> c \<le> CHR ''f'' then Some (of_char c - 87)
      else if CHR ''A'' \<le> c \<and> c \<le> CHR ''F'' then Some (of_char c - 55)
      else None)"

definition hex_value :: "string \<Rightarrow> nat" where
  "hex_value s = foldl (\<lambda>n c. n * 16 + (case hex_val c of Some v \<Rightarrow> v | None \<Rightarrow> 0)) 0 s"

text \<open>
  The loop of \<open>parseIPv6\<close>: \<open>n\<close> rounds are left (two bytes each), \<open>acc\<close> holds the bytes read and
  \<open>ell\<close> the position of the ellipsis.  The result is the rest of the string with both.
\<close>

fun v6_loop :: "nat \<Rightarrow> string \<Rightarrow> bytes \<Rightarrow> nat option \<Rightarrow> (string \<times> bytes \<times> nat option) option" where
  "v6_loop 0 s acc ell = Some (s, acc, ell)"
| "v6_loop (Suc n) s acc ell =
     (let h = takeWhile (\<lambda>c. hex_val c \<noteq> None) s; r = drop (length h) s
      in if h = [] \<or> hex_value h > 65535 then None
         else if r \<noteq> [] \<and> hd r = CHR ''.'' then
           (if ell = None \<and> length acc \<noteq> 12 then None
            else if length acc + 4 > 16 then None
            else if parseIPv4 s = [] then None
            else Some ([], acc @ To4 (parseIPv4 s), ell))
         else
           (let acc' = acc @ [char_of (hex_value h div 256), char_of (hex_value h mod 256)]
            in case r of
                 [] \<Rightarrow> Some ([], acc', ell)
               | c # r1 \<Rightarrow>
                   if c \<noteq> CHR '':'' \<or> r1 = [] then None
                   else if hd r1 = CHR '':'' then
                     (if ell \<noteq> None then None
                      else if tl r1 = [] then Some ([], acc', Some (length acc'))
                      else v6_loop n (tl r1) acc' (Some (length acc')))
                   else v6_loop n r1 acc' ell))"

definition parseIPv6 :: "string \<Rightarrow> ip" where
  "parseIPv6 s =
     (if s = ''::'' then replicate 16 (CHR 0x00)
      else case (if HasPrefix s ''::'' then v6_loop 8 (drop 2 s) [] (Some 0) else v6_loop 8 s [] None) of
             None \<Rightarrow> []
           | Some (rest, acc, ell) \<Rightarrow>
               if rest \<noteq> [] then []
               else if length acc < 16 then
                 (case ell of None \<Rightarrow> []
                  | Some e \<Rightarrow> take e acc @ replicate (16 - length acc) (CHR 0x00) @ drop e acc)
               else if ell \<noteq> None then [] else acc)"

definition ParseIP :: "string \<Rightarrow> ip" where
  "ParseIP s =
     (case dropWhile (\<lambda>c. c \<noteq> CHR ''.'' \<and> c \<noteq> CHR '':'') s of
        [] \<Rightarrow> []
      | c # _ \<Rightarrow> if c = CHR ''.'' then parseIPv4 s else parseIPv6 s)"

text \<open>Whether \<open>net.ParseCIDR\<close> accepts a string.\<close>

definition ParseCIDR_ok :: "string \<Rightarrow> bool" where
  "ParseCIDR_ok s =
     (case dropWhile (\<lambda>c. c \<noteq> CHR ''/'') s of
        [] \<Rightarrow> False
      | _ # msk \<Rightarrow>
          (let addr = takeWhile (\<lambda>c. c \<noteq> CHR ''/'') s; v4 = parseIPv4 addr
           in (v4 \<noteq> [] \<or> parseIPv6 addr \<noteq> []) \<and> msk \<noteq> [] \<and> list_all is_digit msk
              \<and> dec_value msk \<le> (if v4 \<noteq> [] then 32 else 128)))"

section \<open>Address classes\<close>

definition octet :: "ip \<Rightarrow> nat \<Rightarrow> nat" where
  "octet p i = of_char (p ! i)"

definition IsPrivate :: "ip \<Rightarrow> bool" where
  "IsPrivate p =
     (let q = To4 p
      in if q \<noteq> [] then
           octet q 0 = 10 \<or> (octet q 0 = 172 \<and> octet q 1 div 16 = 1) \<or> (octet q 0 = 192 \<and> octet q 1 = 168)
         else length p = 16 \<and> octet p 0 div 2 = 126)"

definition IsGlobalUnicast :: "ip \<Rightarrow> bool" where
  "IsGlobalUnicast p =
     (let q = To4 p
      in (length p = 4 \<or> length p = 16)
       \<and> \<not> ip_Equal p (IPv4 (CHR 0xFF) (CHR 0xFF) (CHR 0xFF) (CHR 0xFF))
       \<and> \<not> (ip_Equal p (IPv4 (CHR 0x00) (CHR 0x00) (CHR 0x00) (CHR 0x00)) \<or> ip_Equal p (replicate 16 (CHR 0x00)))
       \<and> \<not> (if q \<noteq> [] then octet q 0 = 127 else ip_Equal p (replicate 15 (CHR 0x00) @ [CHR 0x01]))
       \<and> \<not> (if q \<noteq> [] then octet q 0 div 16 = 14 else octet p 0 = 255)
       \<and> \<not> (if q \<noteq> [] then octet q 0 = 169 \<and> octet q 1 = 254
            else octet p 0 = 254 \<and> octet p 1 div 64 = 2))"

section \<open>Hardware addresses\<close>

definition mac_String :: "hwaddr \<Rightarrow> string" where
  "mac_String m = Join (map hex_byte2 m) '':''"

text \<open>\<open>xtoi2\<close>: two hexadecimal digits, followed by the separator or by the end.\<close>

definition xtoi2 :: "string \<Rightarrow> char \<Rightarrow> char option" where
  "xtoi2 s e =
     (case s of
        a # b # r \<Rightarrow>
          (if r \<noteq> [] \<and> hd r \<noteq> e then None
           else case (hex_val a, hex_val b) of
                  (Some x, Some y) \<Rightarrow> Some (char_of (16 * x + y))
                | _ \<Rightarrow> None)
      | _ \<Rightarrow> None)"

fun mac_colons :: "nat \<Rightarrow> string \<Rightarrow> char \<Rightarrow> hwaddr option" where
  "mac_colons 0 s e = Some []"
| "mac_colons (Suc n) s e =
     (case xtoi2 s e of
        None \<Rightarrow> None
      | Some b \<Rightarrow> map_option ((#) b) (mac_colons n (drop 3 s) e))"

lemma mac_colons_numeral [simp]:
  "mac_colons (numeral k) s e =
     (case xtoi2 s e of
        None \<Rightarrow> None
      | Some b \<Rightarrow> map_option ((#) b) (mac_colons (pred_numeral k) (drop 3 s) e))"
  by (simp add: numeral_eq_Suc)

fun mac_dots :: "nat \<Rightarrow> string \<Rightarrow> hwaddr option" where
  "mac_dots 0 s = Some []"
| "mac_dots (Suc n) s =
     (case (xtoi2 (take 2 s) (CHR 0x00), xtoi2 (drop 2 s) (CHR ''.'')) of
        (Some a, Some b) \<Rightarrow> map_option (\<lambda>r. a # b # r) (mac_dots n (drop 5 s))
      | _ \<Rightarrow> None)"

text \<open>\<^const>\<open>None\<close> is the error of \<open>net.ParseMAC\<close>.\<close>

definition ParseMAC :: "string \<Rightarrow> hwaddr option" where
  "ParseMAC s =
     (if length s < 14 then None
      else if s ! 2 = CHR '':'' \<or> s ! 2 = CHR ''-'' then
        (if (length s + 1) mod 3 \<noteq> 0 then None
         else let n = (length s + 1) div 3
              in if n = 6 \<or> n = 8 \<or> n = 20 then mac_colons n s (s ! 2) else None)
      else if s ! 4 = CHR ''.'' then
        (if (length s + 1) mod 5 \<noteq> 0 then None
         else let n = 2 * (length s + 1) div 5
              in if n = 6 \<or> n = 8 \<or> n = 20 then mac_dots (n div 2) s else None)
      else None)"

section \<open>Host and port\<close>

text \<open>The host of \<open>net.SplitHostPort\<close>; \<^const>\<open>None\<close> is its error.\<close>

definition SplitHostPort :: "string \<Rightarrow> string option" where
  "SplitHostPort hp =
     (if CHR '':'' \<notin> set hp then None
      else
        (let i = length hp - 1 - length (takeWhile (\<lambda>c. c \<noteq> CHR '':'') (rev hp))
         in if hd hp = CHR ''['' then
              (if CHR '']'' \<notin> set hp then None
               else
                 (let e = length (takeWhile (\<lambda>c. c \<noteq> CHR '']'') hp)
                  in if e + 1 \<noteq> i then None
                     else if CHR ''['' \<in> set (drop 1 hp) \<or> CHR '']'' \<in> set (drop (e + 1) hp) then None
                     else Some (take (e - 1) (drop 1 hp))))
            else
              (if CHR '':'' \<in> set (take i hp) \<or> CHR ''['' \<in> set hp \<or> CHR '']'' \<in> set hp then None
               else Some (take i hp))))"

lemmas net_defs [go_defs] =
  v4InV6Prefix_def IPv4_def To4_def ip_Equal_def byte_dec_def ipv6_string_def ip_String_def
  is_digit_def dec_value_def parse_octet_def parseIPv4_def hex_val_def hex_value_def parseIPv6_def
  ParseIP_def ParseCIDR_ok_def octet_def IsPrivate_def IsGlobalUnicast_def mac_String_def
  xtoi2_def ParseMAC_def SplitHostPort_def

section \<open>Round trips\<close>

lemma of_char_lt [simp]: "(of_char c :: nat) < 256"
proof (cases c)
  case (Char b0 b1 b2 b3 b4 b5 b6 b7)
  then show ?thesis
    using horner_sum_of_bool_2_less [of "[b0, b1, b2, b3, b4, b5, b6, b7]"] by simp
qed

lemma of_char_le [simp]: "(of_char c :: nat) \<le> 255"
  using of_char_lt [of c] by linarith

lemma digit_char [simp]: "n < 10 \<Longrightarrow> is_digit (''0123456789'' ! n)"
  "n < 10 \<Longrightarrow> of_char (''0123456789'' ! n) = 48 + n"
  "n < 10 \<Longrightarrow> ''0123456789'' ! n = CHR ''0'' \<longleftrightarrow> n = 0"
  by (auto simp: is_digit_def less_Suc_eq numeral_eq_Suc)

lemma dec_digits_digits: "list_all is_digit (dec_digits n)"
  by (induction n rule: dec_digits.induct) (subst dec_digits.simps, simp)

lemma dec_value_snoc: "dec_value (s @ [c]) = dec_value s * 10 + (of_char c - 48)"
  by (simp add: dec_value_def)

lemma dec_value_dec_digits [simp]: "dec_value (dec_digits n) = n"
proof (induction n rule: dec_digits.induct)
  case (1 n)
  show ?case
  proof (cases "n < 10")
    case True
    then show ?thesis by (subst dec_digits.simps) (simp add: dec_value_def)
  next
    case False
    with 1 show ?thesis by (subst dec_digits.simps) (simp add: dec_value_snoc)
  qed
qed

lemma dec_digits_hd: "hd (dec_digits n) = CHR ''0'' \<longleftrightarrow> n = 0"
proof (induction n rule: dec_digits.induct)
  case (1 n)
  show ?case
  proof (cases "n < 10")
    case True
    then show ?thesis by (subst dec_digits.simps) simp
  next
    case False
    with 1 show ?thesis by (subst dec_digits.simps) (simp add: div_greater_zero_iff)
  qed
qed

lemma dec_digits_0 [simp]: "dec_digits 0 = ''0''"
  by (subst dec_digits.simps) simp

lemma parse_octet_byte_dec [simp]: "parse_octet (byte_dec c) = Some c"
proof -
  have "length (dec_digits (of_char c)) > 1 \<longrightarrow> hd (dec_digits (of_char c)) \<noteq> CHR ''0''"
    by (cases "(of_char c :: nat) = 0") (simp_all add: dec_digits_hd)
  then show ?thesis
    by (simp add: parse_octet_def byte_dec_def dec_digits_digits)
qed

lemma digits_not_in:
  assumes "\<not> is_digit c" shows "c \<notin> set (dec_digits n)"
  using dec_digits_digits [of n] assms by (auto simp: list_all_iff)

lemma byte_dec_no_sep [simp]:
  "CHR ''.'' \<notin> set (byte_dec c)" "CHR '':'' \<notin> set (byte_dec c)" "CHR '','' \<notin> set (byte_dec c)"
  "CHR ''/'' \<notin> set (byte_dec c)"
  by (simp_all add: byte_dec_def digits_not_in is_digit_def)

lemma length_4E:
  assumes "length p = 4"
  obtains a b c d where "p = [a, b, c, d]"
proof -
  have "p = [p ! 0, p ! 1, p ! 2, p ! 3]"
    using assms by (auto intro!: nth_equalityI simp: less_Suc_eq numeral_eq_Suc)
  then show ?thesis by (rule that)
qed

lemma parseIPv4_print:
  assumes "length p = 4"
  shows "parseIPv4 (Join (map byte_dec p) ''.'') = v4InV6Prefix @ p"
proof -
  from assms obtain a b c d where p: "p = [a, b, c, d]" by (rule length_4E)
  have s: "Split (Join (map byte_dec p) ''.'') (CHR ''.'') = map byte_dec p"
    using assms by (intro Split_Join) auto
  show ?thesis unfolding parseIPv4_def s by (simp add: p IPv4_def)
qed

lemma first_sep:
  assumes "CHR ''.'' \<notin> set w" and "CHR '':'' \<notin> set w"
  shows "dropWhile (\<lambda>c. c \<noteq> CHR ''.'' \<and> c \<noteq> CHR '':'') (w @ CHR ''.'' # s) = CHR ''.'' # s"
  using assms by (induction w) auto

lemma ip_String_4: "length p = 4 \<Longrightarrow> ip_String p = Join (map byte_dec p) ''.''"
  by (auto simp: ip_String_def To4_def)

lemma To4_mapped [simp]: "length p = 4 \<Longrightarrow> To4 (v4InV6Prefix @ p) = p"
  by (simp add: To4_def v4InV6Prefix_def)

lemma ParseIP_ip_String:
  assumes "length p = 4"
  shows "ParseIP (ip_String p) = v4InV6Prefix @ p"
proof -
  from assms obtain a b c d where p: "p = [a, b, c, d]" by (rule length_4E)
  have "ParseIP (ip_String p) = parseIPv4 (Join (map byte_dec p) ''.'')"
    unfolding ip_String_4 [OF assms] by (simp add: ParseIP_def p first_sep)
  then show ?thesis by (simp add: parseIPv4_print assms)
qed

lemma To4_length: "To4 p = [] \<or> length (To4 p) = 4"
  by (auto simp: To4_def)

lemma To4_idem [simp]: "To4 (To4 p) = To4 p"
  using To4_length [of p] by (auto simp: To4_def)

lemma hex_digit_table:
  "list_all (\<lambda>n. hex_val (hex_digit n) = Some n \<and> hex_digit n \<noteq> CHR '':'' \<and> lower_char (hex_digit n) = hex_digit n) [0..<16]"
  by code_simp

lemma hex_digit_props:
  assumes "n < 16"
  shows "hex_val (hex_digit n) = Some n" "hex_digit n \<noteq> CHR '':''" "lower_char (hex_digit n) = hex_digit n"
  using assms hex_digit_table by (auto simp: list_all_iff)

lemma length_hex_byte2 [simp]: "length (hex_byte2 c) = 2"
  by (simp add: hex_byte2_def)

lemma hex_halves: "char_of (16 * (of_char c div 16) + of_char c mod 16 :: nat) = c"
  by simp

lemma xtoi2_hex_byte2:
  "r = [] \<or> hd r = e \<Longrightarrow> xtoi2 (hex_byte2 c @ r) e = Some c"
  using hex_halves [of c]
  by (auto simp: xtoi2_def hex_byte2_def hex_digit_props less_mult_imp_div_less)

lemma mac_colons_print:
  "mac_colons (length m) (mac_String m) (CHR '':'') = Some m"
proof (induction m)
  case (Cons c m)
  have *: "drop 3 (hex_byte2 c @ '':'' @ s) = s" for s by (simp add: hex_byte2_def)
  show ?case
  proof (cases m)
    case Nil
    then show ?thesis using xtoi2_hex_byte2 [of "[]" "CHR '':''" c] by (simp add: mac_String_def)
  next
    case (Cons d m')
    then have "mac_String (c # m) = hex_byte2 c @ '':'' @ mac_String m"
      by (simp add: mac_String_def)
    with Cons.IH xtoi2_hex_byte2 [of "'':'' @ mac_String m" "CHR '':''" c] * [of "mac_String m"]
    show ?thesis by simp
  qed
qed simp

lemma length_mac_String: "m \<noteq> [] \<Longrightarrow> length (mac_String m) = 3 * length m - 1"
proof (induction m rule: induct_list012)
  case (3 x y zs)
  then show ?case by (simp add: mac_String_def)
qed (simp_all add: mac_String_def)

lemma ParseMAC_print:
  assumes "length m = 6 \<or> length m = 8 \<or> length m = 20"
  shows "ParseMAC (mac_String m) = Some m"
proof -
  obtain c d m' where m: "m = c # d # m'"
  proof (cases m rule: remdups_adj.cases)
    case (3 x y xs)
    then show ?thesis using that by blast
  qed (use assms in auto)
  then have *: "mac_String m ! 2 = CHR '':''"
    by (simp add: mac_String_def hex_byte2_def)
  have l: "length (mac_String m) = 3 * length m - 1" using m by (intro length_mac_String) simp
  have "(length (mac_String m) + 1) div 3 = length m" "(length (mac_String m) + 1) mod 3 = 0"
    using l m by auto
  then show ?thesis
    using assms * mac_colons_print [of m] l by (auto simp: ParseMAC_def Let_def)
qed

lemma ToLower_hex_byte2 [simp]: "map lower_char (hex_byte2 c) = hex_byte2 c"
  by (simp add: hex_byte2_def hex_digit_props less_mult_imp_div_less)

lemma ToLower_mac_String [simp]: "ToLower (mac_String m) = mac_String m"
  by (induction m rule: induct_list012) (simp_all add: mac_String_def ToLower_def lower_char_def)

section \<open>What the parsers accept\<close>

lemma parse_octet_chars: "parse_octet w \<noteq> None \<Longrightarrow> \<not> is_digit e \<Longrightarrow> e \<notin> set w"
  by (auto simp: parse_octet_def list_all_iff split: if_splits)

lemma parseIPv4_chars:
  assumes "parseIPv4 s \<noteq> []" and "\<not> is_digit e" and "e \<noteq> CHR ''.''"
  shows "e \<notin> set s"
proof -
  from assms(1) obtain a b c d where "map parse_octet (Split s (CHR ''.'')) = [Some a, Some b, Some c, Some d]"
    by (auto simp: parseIPv4_def split: list.splits option.splits)
  then have "\<forall>x \<in> set (map parse_octet (Split s (CHR ''.''))). x \<noteq> None" by simp
  then have "\<forall>w \<in> set (Split s (CHR ''.'')). e \<notin> set w"
    using parse_octet_chars assms(2) by auto
  moreover have "set (Join ws [e]) \<subseteq> insert e (\<Union> (set ` set ws))" for ws and e :: char
    by (induction ws "[e]" rule: Join.induct) auto
  from this [of "Split s (CHR ''.'')" "CHR ''.''"] have "set s \<subseteq> insert (CHR ''.'') (\<Union> (set ` set (Split s (CHR ''.''))))"
    by (simp only: Join_Split)
  ultimately show ?thesis using assms(3) by auto
qed

lemma parseIPv4_no_slash: "parseIPv4 s \<noteq> [] \<Longrightarrow> CHR ''/'' \<notin> set s"
  by (erule parseIPv4_chars) (simp_all add: is_digit_def)

lemma ParseIP_v4:
  assumes "parseIPv4 s \<noteq> []" and "ParseIP s \<noteq> []"
  shows "ParseIP s = parseIPv4 s"
proof -
  have c: "CHR '':'' \<notin> set s" using assms(1) by (rule parseIPv4_chars) (simp_all add: is_digit_def)
  show ?thesis
  proof (cases "dropWhile (\<lambda>c. c \<noteq> CHR ''.'' \<and> c \<noteq> CHR '':'') s")
    case Nil
    with assms(2) show ?thesis by (simp add: ParseIP_def)
  next
    case (Cons x r)
    then have "x = CHR ''.'' \<or> x = CHR '':''"
      using hd_dropWhile [of "\<lambda>c. c \<noteq> CHR ''.'' \<and> c \<noteq> CHR '':''" s] by auto
    moreover have "x \<in> set s" using Cons by (metis list.set_intros(1) set_dropWhileD)
    ultimately show ?thesis using c Cons by (auto simp: ParseIP_def)
  qed
qed

lemma To4_parseIPv4: "parseIPv4 s \<noteq> [] \<Longrightarrow> To4 (parseIPv4 s) \<noteq> []"
  by (auto simp: parseIPv4_def IPv4_def split: list.splits option.splits)

lemma hex_run_no_slash: "CHR ''/'' \<notin> set (takeWhile (\<lambda>c. hex_val c \<noteq> None) s)"
  by (auto dest!: set_takeWhileD simp: hex_val_def is_digit_def split: if_splits)

lemma v6_loop_no_slash:
  "v6_loop n s acc ell = Some ([], acc', ell') \<Longrightarrow> CHR ''/'' \<notin> set s"
proof (induction n arbitrary: s acc ell)
  case (Suc n)
  let ?h = "takeWhile (\<lambda>c. hex_val c \<noteq> None) s"
  have s: "s = ?h @ drop (length ?h) s"
    by (metis dropWhile_eq_drop takeWhile_dropWhile_id)
  have "CHR ''/'' \<notin> set (drop (length ?h) s)" if v6: "parseIPv4 s = []"
  proof (cases "drop (length ?h) s")
    case r: (Cons c r1)
    show ?thesis
    proof (cases r1)
      case Nil
      with Suc.prems v6 r show ?thesis by (simp add: Let_def split: if_splits)
    next
      case (Cons d r2)
      with Suc.prems v6 r show ?thesis by (auto simp: Let_def split: if_splits dest!: Suc.IH)
    qed
  qed simp
  with s hex_run_no_slash parseIPv4_no_slash [of s] show ?case
    by (metis UnE set_append)
qed simp

lemma v4InV6Prefix_nonempty [simp]: "v4InV6Prefix \<noteq> []"
  by (simp add: v4InV6Prefix_def)

lemma parseIPv6_no_slash:
  assumes "parseIPv6 s \<noteq> []"
  shows "CHR ''/'' \<notin> set s"
proof (cases "HasPrefix s ''::''")
  case True
  then obtain r where s: "s = '':'' @ '':'' @ r" by (auto simp: HasPrefix_def prefix_def)
  with assms True show ?thesis
    by (auto simp: parseIPv6_def split: if_splits option.splits dest: v6_loop_no_slash)
next
  case False
  with assms show ?thesis
    by (auto simp: parseIPv6_def split: if_splits option.splits dest: v6_loop_no_slash)
qed

lemma ParseIP_no_slash: "ParseIP s \<noteq> [] \<Longrightarrow> CHR ''/'' \<notin> set s"
  using parseIPv4_no_slash parseIPv6_no_slash
  by (auto simp: ParseIP_def split: list.splits if_splits)

lemma ParseIP_cases: "ParseIP s \<noteq> [] \<Longrightarrow> parseIPv4 s \<noteq> [] \<or> parseIPv6 s \<noteq> []"
  by (auto simp: ParseIP_def split: list.splits if_splits)

lemma at_slash:
  "CHR ''/'' \<notin> set s \<Longrightarrow> dropWhile (\<lambda>c. c \<noteq> CHR ''/'') (s @ CHR ''/'' # m) = CHR ''/'' # m"
  "CHR ''/'' \<notin> set s \<Longrightarrow> takeWhile (\<lambda>c. c \<noteq> CHR ''/'') (s @ CHR ''/'' # m) = s"
  by (induction s) auto

lemma ParseCIDR_host:
  assumes "ParseIP s \<noteq> []"
  shows "ParseCIDR_ok (s @ ''/32'')"
    and "parseIPv4 s = [] \<Longrightarrow> ParseCIDR_ok (s @ ''/128'')"
  using at_slash [OF ParseIP_no_slash [OF assms]] ParseIP_cases [OF assms]
  by (auto simp: ParseCIDR_ok_def is_digit_def dec_value_def)

end
