(* ===== verification/Ipxe_Script.thy ===== *)
theory Ipxe_Script
  imports Go_Prelude
begin

text \<open>
  The iPXE script builder of \<open>src/ipxe/script.go\<close>.  A script is its byte buffer.  \<open>Args\<close> and \<open>Or\<close>
  cut the last byte of the buffer off before they append, so they fault on an empty one; every
  operation is a function \<open>script \<Rightarrow> script go\<close> and a body is a list of statements run in order.
  The locale \<open>script_op\<close> is the contract that every operation, every sequence of operations and
  every boot script keeps.
\<close>

abbreviation nl :: char where
  "nl \<equiv> CHR 0x0A"

section \<open>The builder\<close>

record script =
  buf :: bytes

text \<open>A sequence of statements.\<close>

fun run_steps :: "('s \<Rightarrow> 's go) list \<Rightarrow> 's \<Rightarrow> 's go" where
  "run_steps [] s = Ok s"
| "run_steps (f # fs) s = bind_go (f s) (run_steps fs)"

definition append_buf :: "bytes \<Rightarrow> script \<Rightarrow> script go" where
  "append_buf b s = Ok (s\<lparr>buf := buf s @ b\<rparr>)"

text \<open>The argument loop \<open>append(append(s.buf, ' '), arg...)\<close>.\<close>

fun append_args :: "string list \<Rightarrow> bytes \<Rightarrow> bytes" where
  "append_args [] b = b"
| "append_args (arg # args) b = append_args args ((b @ '' '') @ arg)"

text \<open>\<open>s.buf[:len(s.buf)-1]\<close>\<close>

definition cut_last :: "script \<Rightarrow> bytes go" where
  "cut_last s = (if buf s = [] then Fault SliceRange else slice (buf s) 0 (length (buf s) - 1))"

definition Args :: "string list \<Rightarrow> script \<Rightarrow> script go" where
  "Args args s = bind_go (cut_last s) (\<lambda>b. Ok (s\<lparr>buf := append_args args b @ [nl]\<rparr>))"

definition AppendString :: "string \<Rightarrow> script \<Rightarrow> script go" where
  "AppendString str s = Ok (s\<lparr>buf := (buf s @ str) @ [nl]\<rparr>)"

definition PhoneHome :: "string \<Rightarrow> script \<Rightarrow> script go" where
  "PhoneHome typ s = append_buf
     ([nl] @ ''params'' @ [nl] @ ''param body Device connected to DHCP system'' @ [nl]
      @ ''param type '' @ typ @ [nl] @ ''imgfetch ${tinkerbell}/phone-home##params'' @ [nl]
      @ ''imgfree'' @ [nl] @ [nl]) s"

definition Chain :: "string \<Rightarrow> script \<Rightarrow> script go" where
  "Chain uri s = Ok (s\<lparr>buf := ((buf s @ ''chain --autofree '') @ uri) @ [nl]\<rparr>)"

definition DHCP_cmd :: "script \<Rightarrow> script go" where
  "DHCP_cmd s = append_buf (''dhcp'' @ [nl]) s"

definition Boot :: "script \<Rightarrow> script go" where
  "Boot s = append_buf (''boot'' @ [nl]) s"

definition Bytes :: "script \<Rightarrow> bytes" where
  "Bytes s = buf s"

definition Initrd :: "string \<Rightarrow> string list \<Rightarrow> script \<Rightarrow> script go" where
  "Initrd uri args s = Ok (s\<lparr>buf := append_args args ((buf s @ ''initrd '') @ uri) @ [nl]\<rparr>)"

definition Kernel :: "string \<Rightarrow> string list \<Rightarrow> script \<Rightarrow> script go" where
  "Kernel uri args s = Ok (s\<lparr>buf := append_args args ((buf s @ ''kernel '') @ uri) @ [nl]\<rparr>)"

definition Or :: "string \<Rightarrow> script \<Rightarrow> script go" where
  "Or line s = bind_go (cut_last s) (\<lambda>b. Ok (s\<lparr>buf := ((b @ '' || '') @ line) @ [nl]\<rparr>))"

definition Echo :: "string \<Rightarrow> script \<Rightarrow> script go" where
  "Echo message s = Ok (s\<lparr>buf := ((buf s @ ''echo '') @ message) @ [nl]\<rparr>)"

definition Reset :: "script \<Rightarrow> script go" where
  "Reset s = Echo ''Tinkerbell Boots iPXE'' (s\<lparr>buf := ''#!ipxe'' @ [nl, nl]\<rparr>)"

definition Set :: "string \<Rightarrow> string \<Rightarrow> script \<Rightarrow> script go" where
  "Set name value s = Ok (s\<lparr>buf := (((buf s @ ''set '') @ name) @ '' '' @ value) @ [nl]\<rparr>)"

definition Shell :: "script \<Rightarrow> script go" where
  "Shell s = append_buf (''shell'' @ [nl]) s"

definition Sleep :: "int \<Rightarrow> script \<Rightarrow> script go" where
  "Sleep value s = append_buf (''sleep '' @ Itoa value @ [nl]) s"

definition NewScript :: "script go" where
  "NewScript = Reset \<lparr>buf = []\<rparr>"

lemmas script_defs [go_defs] =
  append_buf_def cut_last_def Args_def AppendString_def PhoneHome_def Chain_def DHCP_cmd_def Boot_def
  Bytes_def Initrd_def Kernel_def Or_def Echo_def Reset_def Set_def Shell_def Sleep_def NewScript_def

section \<open>The contract of a script operation\<close>

text \<open>
  A script is well formed when it ends in a newline.  An operation extends a script when the
  old buffer, but for its final newline, is a prefix of the new one without its final newline:
  nothing that was written is lost.
\<close>

definition script_ok :: "script \<Rightarrow> bool" where
  "script_ok s \<longleftrightarrow> (\<exists>b. buf s = b @ [nl])"

definition extends :: "script \<Rightarrow> script \<Rightarrow> bool" where
  "extends s s' \<longleftrightarrow> prefix (butlast (buf s)) (butlast (buf s'))"

locale script_op =
  fixes f :: "script \<Rightarrow> script go"
  assumes op_ok: "script_ok s \<Longrightarrow> \<exists>s'. f s = Ok s' \<and> script_ok s' \<and> extends s s'"
begin

lemma op_Ok: "script_ok s \<Longrightarrow> is_ok (f s)"
  using op_ok by (auto simp: is_ok_iff)

lemma op_keeps:
  assumes "script_ok s" and "f s = Ok s'"
  shows "script_ok s' \<and> extends s s'"
  using op_ok [OF assms(1)] assms(2) by auto

lemma op_keeps_prefix:
  assumes "script_ok s" and "f s = Ok s'" and "prefix p (butlast (buf s))"
  shows "prefix p (buf s')"
proof -
  have "prefix (butlast (buf s)) (butlast (buf s'))"
    using op_keeps [OF assms(1,2)] by (simp add: extends_def)
  with assms(3) show ?thesis
    by (meson prefix_order.trans prefixeq_butlast)
qed

end

lemma script_ok_last: "script_ok s \<longleftrightarrow> buf s \<noteq> [] \<and> last (buf s) = nl"
  by (auto simp: script_ok_def) (metis append_butlast_last_id)

lemma append_args_eq: "append_args args b = b @ concat (map (\<lambda>a. CHR '' '' # a) args)"
  by (induction args b rule: append_args.induct) auto

lemma cut_last_ok: "script_ok s \<Longrightarrow> cut_last s = Ok (butlast (buf s))"
  by (auto simp: script_ok_def cut_last_def slice_def)

lemma extends_refl [simp]: "extends s s"
  by (simp add: extends_def)

lemma extends_trans [trans]: "extends s s' \<Longrightarrow> extends s' s'' \<Longrightarrow> extends s s''"
  unfolding extends_def by (rule prefix_order.trans)

lemma extends_append:
  "buf s' = butlast (buf s) @ b @ [nl] \<Longrightarrow> script_ok s' \<and> extends s s'"
  by (simp add: extends_def script_ok_def butlast_append)

text \<open>An operation that appends complete lines, and one that continues the last line.\<close>

lemma script_op_append:
  assumes "\<And>s. f s = Ok (s\<lparr>buf := buf s @ b @ [nl]\<rparr>)"
  shows "script_op f"
proof
  fix s assume "script_ok s"
  then show "\<exists>s'. f s = Ok s' \<and> script_ok s' \<and> extends s s'"
    by (auto simp: assms script_ok_def extends_def butlast_append)
qed

lemma script_op_continue:
  assumes "\<And>s. f s = bind_go (cut_last s) (\<lambda>c. Ok (s\<lparr>buf := c @ b @ [nl]\<rparr>))"
  shows "script_op f"
proof
  fix s assume "script_ok s"
  then show "\<exists>s'. f s = Ok s' \<and> script_ok s' \<and> extends s s'"
    by (auto simp: assms cut_last_ok script_ok_def extends_def butlast_append)
qed

text \<open>Sequences and branches of operations are operations.\<close>

lemma script_op_Ok: "script_op Ok"
  by unfold_locales simp

lemma script_op_run_steps: "list_all script_op fs \<Longrightarrow> script_op (run_steps fs)"
proof (induction fs)
  case Nil
  show ?case by unfold_locales simp
next
  case (Cons f fs)
  then have f: "script_op f" and fs: "script_op (run_steps fs)" by simp_all
  show ?case
  proof
    fix s assume "script_ok s"
    then obtain s1 where 1: "f s = Ok s1" "script_ok s1" "extends s s1"
      using script_op.op_ok [OF f] by blast
    then obtain s2 where "run_steps fs s1 = Ok s2" "script_ok s2" "extends s1 s2"
      using script_op.op_ok [OF fs] by blast
    with 1 show "\<exists>s'. run_steps (f # fs) s = Ok s' \<and> script_ok s' \<and> extends s s'"
      by (auto intro: extends_trans)
  qed
qed

lemma run_steps_append: "run_steps (fs @ gs) s = bind_go (run_steps fs s) (run_steps gs)"
  by (induction fs arbitrary: s) (auto simp: bind_go_assoc intro: bind_go_cong)

interpretation op_Args: script_op "Args args" for args
  by (rule script_op_continue [where b = "concat (map (\<lambda>a. CHR '' '' # a) args)"])
    (simp add: Args_def append_args_eq)

interpretation op_AppendString: script_op "AppendString str" for str
  by (rule script_op_append [where b = str]) (simp add: AppendString_def)

interpretation op_PhoneHome: script_op "PhoneHome ty" for ty
  by (rule script_op_append [where b = "[nl] @ ''params'' @ [nl]
      @ ''param body Device connected to DHCP system'' @ [nl] @ ''param type '' @ ty @ [nl]
      @ ''imgfetch ${tinkerbell}/phone-home##params'' @ [nl] @ ''imgfree'' @ [nl]"])
    (simp add: PhoneHome_def append_buf_def)

interpretation op_Chain: script_op "Chain uri" for uri
  by (rule script_op_append [where b = "''chain --autofree '' @ uri"]) (simp add: Chain_def)

interpretation op_DHCP: script_op DHCP_cmd
  by (rule script_op_append [where b = "''dhcp''"]) (simp add: DHCP_cmd_def append_buf_def)

interpretation op_Boot: script_op Boot
  by (rule script_op_append [where b = "''boot''"]) (simp add: Boot_def append_buf_def)

interpretation op_Initrd: script_op "Initrd uri args" for uri args
  by (rule script_op_append
      [where b = "''initrd '' @ uri @ concat (map (\<lambda>a. CHR '' '' # a) args)"])
    (simp add: Initrd_def append_args_eq)

interpretation op_Kernel: script_op "Kernel uri args" for uri args
  by (rule script_op_append
      [where b = "''kernel '' @ uri @ concat (map (\<lambda>a. CHR '' '' # a) args)"])
    (simp add: Kernel_def append_args_eq)

interpretation op_Or: script_op "Or line" for line
  by (rule script_op_continue [where b = "'' || '' @ line"]) (simp add: Or_def)

interpretation op_Echo: script_op "Echo message" for message
  by (rule script_op_append [where b = "''echo '' @ message"]) (simp add: Echo_def)

interpretation op_Set: script_op "Set name value" for name "value"
  by (rule script_op_append [where b = "''set '' @ name @ '' '' @ value"]) (simp add: Set_def)

interpretation op_Shell: script_op Shell
  by (rule script_op_append [where b = "''shell''"]) (simp add: Shell_def append_buf_def)

interpretation op_Sleep: script_op "Sleep value" for "value"
  by (rule script_op_append [where b = "''sleep '' @ Itoa value"])
    (simp add: Sleep_def append_buf_def)

lemmas script_op_intros =
  script_op_Ok script_op_run_steps
  op_Args.script_op_axioms op_AppendString.script_op_axioms op_PhoneHome.script_op_axioms
  op_Chain.script_op_axioms op_DHCP.script_op_axioms op_Boot.script_op_axioms
  op_Initrd.script_op_axioms op_Kernel.script_op_axioms op_Or.script_op_axioms
  op_Echo.script_op_axioms op_Set.script_op_axioms op_Shell.script_op_axioms
  op_Sleep.script_op_axioms

lemma NewScript_eq:
  "NewScript = Ok \<lparr>buf = ''#!ipxe'' @ [nl, nl] @ ''echo Tinkerbell Boots iPXE'' @ [nl]\<rparr>"
  by (simp add: NewScript_def Reset_def Echo_def)

section \<open>A script as a list of lines\<close>

text \<open>
  The abstract view: a script is a list of lines and a builder call either adds lines or
  continues the last one.  \<open>stmt\<close> names the builder calls, \<open>exec_stmt\<close> runs one on the buffer and
  \<open>stmt_lines\<close> is what it does to the lines.
\<close>

datatype stmt =
    SArgs "string list"
  | SAppendString string
  | SPhoneHome string
  | SChain string
  | SDHCP
  | SBoot
  | SInitrd string "string list"
  | SKernel string "string list"
  | SOr string
  | SEcho string
  | SSet string string
  | SShell
  | SSleep int

primrec exec_stmt :: "stmt \<Rightarrow> script \<Rightarrow> script go" where
  "exec_stmt (SArgs args) = Args args"
| "exec_stmt (SAppendString str) = AppendString str"
| "exec_stmt (SPhoneHome ty) = PhoneHome ty"
| "exec_stmt (SChain uri) = Chain uri"
| "exec_stmt SDHCP = DHCP_cmd"
| "exec_stmt SBoot = Boot"
| "exec_stmt (SInitrd uri args) = Initrd uri args"
| "exec_stmt (SKernel uri args) = Kernel uri args"
| "exec_stmt (SOr line) = Or line"
| "exec_stmt (SEcho message) = Echo message"
| "exec_stmt (SSet name v) = Set name v"
| "exec_stmt SShell = Shell"
| "exec_stmt (SSleep v) = Sleep v"

definition spaced :: "string list \<Rightarrow> string" where
  "spaced args = concat (map (\<lambda>a. CHR '' '' # a) args)"

definition on_last :: "(string \<Rightarrow> string) \<Rightarrow> string list \<Rightarrow> string list" where
  "on_last f ls = butlast ls @ [f (last ls)]"

primrec stmt_lines :: "stmt \<Rightarrow> string list \<Rightarrow> string list" where
  "stmt_lines (SArgs args) ls = on_last (\<lambda>l. l @ spaced args) ls"
| "stmt_lines (SAppendString str) ls = ls @ [str]"
| "stmt_lines (SPhoneHome ty) ls = ls @ [[], ''params'',
     ''param body Device connected to DHCP system'', ''param type '' @ ty,
     ''imgfetch ${tinkerbell}/phone-home##params'', ''imgfree'', []]"
| "stmt_lines (SChain uri) ls = ls @ [''chain --autofree '' @ uri]"
| "stmt_lines SDHCP ls = ls @ [''dhcp'']"
| "stmt_lines SBoot ls = ls @ [''boot'']"
| "stmt_lines (SInitrd uri args) ls = ls @ [''initrd '' @ uri @ spaced args]"
| "stmt_lines (SKernel uri args) ls = ls @ [''kernel '' @ uri @ spaced args]"
| "stmt_lines (SOr line) ls = on_last (\<lambda>l. l @ '' || '' @ line) ls"
| "stmt_lines (SEcho message) ls = ls @ [''echo '' @ message]"
| "stmt_lines (SSet name v) ls = ls @ [''set '' @ name @ '' '' @ v]"
| "stmt_lines SShell ls = ls @ [''shell'']"
| "stmt_lines (SSleep v) ls = ls @ [''sleep '' @ Itoa v]"

definition render :: "string list \<Rightarrow> bytes" where
  "render ls = concat (map (\<lambda>l. l @ [nl]) ls)"

definition new_lines :: "string list" where
  "new_lines = [''#!ipxe'', [], ''echo Tinkerbell Boots iPXE'']"

lemma render_append [simp]: "render (ls @ ms) = render ls @ render ms"
  by (simp add: render_def)

lemma render_simps [simp]: "render [] = []" "render (l # ls) = l @ nl # render ls"
  by (simp_all add: render_def)

lemma render_on_last:
  assumes "ls \<noteq> []"
  shows "cut_last \<lparr>buf = render ls\<rparr> = Ok (render (butlast ls) @ last ls)"
proof -
  have "render ls = render (butlast ls @ [last ls])" using assms by simp
  also have "\<dots> = render (butlast ls) @ last ls @ [nl]" unfolding render_append by simp
  finally show ?thesis by (simp add: cut_last_ok script_ok_def butlast_append)
qed

lemma stmt_lines_nonempty: "ls \<noteq> [] \<Longrightarrow> stmt_lines c ls \<noteq> []"
  by (cases c) (simp_all add: on_last_def)

lemma exec_stmt_refines:
  "ls \<noteq> [] \<Longrightarrow> exec_stmt c \<lparr>buf = render ls\<rparr> = Ok \<lparr>buf = render (stmt_lines c ls)\<rparr>"
  by (cases c)
    (simp_all add: Args_def Or_def render_on_last on_last_def append_args_eq spaced_def
      AppendString_def PhoneHome_def Chain_def DHCP_cmd_def Boot_def Initrd_def Kernel_def
      Echo_def Set_def Shell_def Sleep_def append_buf_def)

lemma exec_stmts_refine:
  "ls \<noteq> [] \<Longrightarrow>
   run_steps (map exec_stmt cs) \<lparr>buf = render ls\<rparr> = Ok \<lparr>buf = render (fold stmt_lines cs ls)\<rparr>"
  by (induction cs arbitrary: ls) (simp_all add: exec_stmt_refines stmt_lines_nonempty)

lemma NewScript_render: "NewScript = Ok \<lparr>buf = render new_lines\<rparr>"
  by (simp add: NewScript_eq new_lines_def)

text \<open>
  C10: whatever builder calls are made on a new script, in any order and with any arguments,
  none of them faults and the bytes are exactly the lines that the calls describe: the
  \<open>#!ipxe\<close> header, then one or more newline-terminated lines per call, with \<open>Args\<close> and \<open>Or\<close>
  continuing the line before them.
\<close>

theorem script_refines_lines:
  "map_ok Bytes (bind_go NewScript (run_steps (map exec_stmt cs))) =
   Ok (render (fold stmt_lines cs new_lines))"
  by (simp add: NewScript_render exec_stmts_refine Bytes_def new_lines_def del: render_simps)

end
