(* ===== verification/Conf.thy ===== *)
theory Conf
  imports Go_Net
begin

text \<open>
  The configuration of \<open>src/conf\<close>.  The environment is a partial function, the addresses of the
  interfaces (\<open>net.InterfaceAddrs\<close>) and the URL that \<open>env.URL\<close> returns are arguments.  The package
  variables that other packages read form the record \<open>conf\<close>.
\<close>

type_synonym env = "string \<Rightarrow> string option"

definition Getenv :: "env \<Rightarrow> string \<Rightarrow> string" where
  "Getenv env k = (case env k of None \<Rightarrow> [] | Some v \<Rightarrow> v)"

section \<open>Package variables\<close>

record conf =
  PublicIPv4 :: ip
  PublicFQDN :: string
  PublicSyslogIPv4 :: ip
  PublicSyslogFQDN :: string
  DHCPLeaseTime :: int
  DNSServers :: "ip list"
  ignoredOUIs :: "string set option"
  ignoredGIs :: "string set option"
  TrustedProxies :: "string list"
  HollowClientID :: string
  HollowClientRequestSecret :: string
  OsieVendorServicesURL :: string
  FacilityCode :: string
  MirrorBaseURL :: string

datatype netaddr = IPNet ip | OtherAddr

text \<open>The interface loop: the first global unicast IPv4 address.\<close>

fun first_public :: "netaddr list \<Rightarrow> ip option" where
  "first_public [] = None"
| "first_public (OtherAddr # addrs) = first_public addrs"
| "first_public (IPNet p # addrs) =
     (let v4 = To4 p in if v4 = [] \<or> \<not> IsGlobalUnicast v4 then first_public addrs else Some v4)"

definition mustPublicIPv4 :: "env \<Rightarrow> netaddr list option \<Rightarrow> ip go" where
  "mustPublicIPv4 env ifaddrs =
     (case env ''PUBLIC_IP'' of
        Some s \<Rightarrow>
          (let a = To4 (ParseIP s)
           in if a \<noteq> [] then Ok a else Fault (PanicCall ''PUBLIC_IP must be an IPv4 address''))
      | None \<Rightarrow>
          (case ifaddrs of
             None \<Rightarrow> Fault (PanicCall ''unable to auto-detect public IPv4'')
           | Some addrs \<Rightarrow>
               (case first_public addrs of
                  Some v4 \<Rightarrow> Ok v4
                | None \<Rightarrow> Fault (PanicCall ''unable to auto-detect public IPv4''))))"

definition mustPublicSyslogIPv4 :: "env \<Rightarrow> ip \<Rightarrow> ip go" where
  "mustPublicSyslogIPv4 env publicIPv4 =
     (case env ''PUBLIC_SYSLOG_IP'' of
        Some s \<Rightarrow>
          (let a = To4 (ParseIP s)
           in if a \<noteq> [] then Ok a else Fault (PanicCall ''PUBLIC_SYSLOG_IP must be an IPv4 address''))
      | None \<Rightarrow> Ok publicIPv4)"

definition ParseIPv4s :: "string \<Rightarrow> ip list" where
  "ParseIPv4s str = map (\<lambda>s. To4 (ParseIP s)) (Split str (CHR '',''))"

section \<open>Ignored hardware and relays\<close>

text \<open>A nil map is \<^const>\<open>None\<close>; a \<open>map[string]struct{}\<close> is the set of its keys.\<close>

fun add_ouis :: "string list \<Rightarrow> string set \<Rightarrow> string set go" where
  "add_ouis [] ignore = Ok ignore"
| "add_ouis (oui # ouis) ignore =
     (if ParseMAC (oui @ '':00:00:00'') = None
      then Fault (PanicCall (''invalid oui in TINK_IGNORED_OUIS oui='' @ oui))
      else add_ouis ouis (insert (ToLower oui) ignore))"

definition getIgnoredMACs :: "env \<Rightarrow> string set option go" where
  "getIgnoredMACs env =
     (let macs = Getenv env ''TINK_IGNORED_OUIS''
      in if macs = [] then Ok None
         else
           (let parts = Split macs (CHR '','')
            in if parts = [] then Ok None else map_ok Some (add_ouis parts {})))"

definition ShouldIgnoreOUI :: "conf \<Rightarrow> string \<Rightarrow> bool go" where
  "ShouldIgnoreOUI c mac =
     (case ignoredOUIs c of
        None \<Rightarrow> Ok False
      | Some m \<Rightarrow> bind_go (slice mac 0 8) (\<lambda>p. Ok (ToLower p \<in> m)))"

fun add_gis :: "string list \<Rightarrow> string set \<Rightarrow> string set go" where
  "add_gis [] ignore = Ok ignore"
| "add_gis (ip # ips) ignore =
     (if ParseIP ip = []
      then Fault (PanicCall (''invalid ip address in TINK_IGNORED_GIS ip='' @ ip))
      else add_gis ips (insert ip ignore))"

definition getIgnoredGIs :: "env \<Rightarrow> string set option go" where
  "getIgnoredGIs env =
     (let ips = Getenv env ''TINK_IGNORED_GIS''
      in if ips = [] then Ok None
         else
           (let parts = Split ips (CHR '','')
            in if parts = [] then Ok None else map_ok Some (add_gis parts {})))"

definition ShouldIgnoreGI :: "conf \<Rightarrow> string \<Rightarrow> bool" where
  "ShouldIgnoreGI c ip = (case ignoredGIs c of None \<Rightarrow> False | Some m \<Rightarrow> ip \<in> m)"

section \<open>Trusted proxies\<close>

fun trust :: "string list \<Rightarrow> string list go" where
  "trust [] = Ok []"
| "trust (entry # rest) =
     (let cidr = TrimSpace entry
      in if cidr = [] then trust rest
         else if ParseCIDR_ok cidr then map_ok ((#) cidr) (trust rest)
         else
           (let ip = ParseIP cidr
            in if ip = [] then Fault (PanicCall (''invalid ip cidr in TRUSTED_PROXIES cidr='' @ cidr))
               else map_ok ((#) (cidr @ (if To4 ip \<noteq> [] then ''/32'' else ''/128''))) (trust rest)))"

definition parseTrustedProxies :: "env \<Rightarrow> string list go" where
  "parseTrustedProxies env = trust (Split (Getenv env ''TRUSTED_PROXIES'') (CHR '',''))"

section \<open>The mirror\<close>

record url =
  Scheme :: string
  RawQuery :: string
  Fragment :: string
  url_String :: string

definition buildMirrorBaseURL :: "url \<Rightarrow> string + string" where
  "buildMirrorBaseURL host =
     (if Scheme host \<noteq> ''http'' \<and> Scheme host \<noteq> ''https'' then
        Inl (''parsed scheme is neither http nor https: '' @ Scheme host)
      else if RawQuery host \<noteq> [] then
        Inl (''parsed URL should not contain a query: '' @ RawQuery host)
      else if Fragment host \<noteq> [] then
        Inl (''parsed URL should not contain a fragment: '' @ Fragment host)
      else Inr (TrimRight1 (url_String host) (CHR ''/'')))"

text \<open>The panic message also quotes the string, which is empty.\<close>

definition mustBuildMirrorBaseURL :: "url \<Rightarrow> string go" where
  "mustBuildMirrorBaseURL host =
     (case buildMirrorBaseURL host of
        Inl err \<Rightarrow> Fault (PanicCall (''conf: MirrorBaseURL: '' @ err))
      | Inr s \<Rightarrow> if s = [] then Fault (PanicCall ''conf: MirrorBaseURL: '') else Ok s)"

lemmas conf_defs [go_defs] =
  Getenv_def mustPublicIPv4_def mustPublicSyslogIPv4_def ParseIPv4s_def getIgnoredMACs_def
  ShouldIgnoreOUI_def getIgnoredGIs_def ShouldIgnoreGI_def parseTrustedProxies_def
  buildMirrorBaseURL_def mustBuildMirrorBaseURL_def

section \<open>Properties of the configuration\<close>

lemma first_public_length: "first_public addrs = Some p \<Longrightarrow> length p = 4"
  by (induction addrs rule: first_public.induct)
    (use To4_length in \<open>auto simp: Let_def split: if_splits\<close>)

lemma mustPublicIPv4_length: "mustPublicIPv4 env ifaddrs = Ok p \<Longrightarrow> length p = 4"
  using To4_length first_public_length
  by (auto simp: mustPublicIPv4_def Let_def split: option.splits if_splits)

lemma add_ouis_Ok:
  "add_ouis ouis S = Ok T \<Longrightarrow> T = S \<union> ToLower ` set ouis"
  by (induction ouis S rule: add_ouis.induct) (auto split: if_splits)

lemma getIgnoredMACs_Ok:
  assumes "getIgnoredMACs env = Ok (Some m)"
  shows "m = ToLower ` set (Split (Getenv env ''TINK_IGNORED_OUIS'') (CHR '',''))"
  using assms add_ouis_Ok
  by (fastforce simp: getIgnoredMACs_def Let_def map_ok_Ok_iff split: if_splits)

lemma take_8_mac_String:
  assumes "3 \<le> length hw"
  shows "take 8 (mac_String hw) = mac_String (take 3 hw)"
proof -
  obtain a b c r where hw: "hw = a # b # c # r"
    using assms by (metis Suc_le_length_iff numeral_3_eq_3)
  have "take 8 (mac_String [a, b, c]) = mac_String [a, b, c]"
    by (intro take_all) (simp add: length_mac_String)
  then show ?thesis unfolding hw by (cases r) (simp_all add: mac_String_def hex_byte2_def)
qed

lemma slice_mac_String:
  "3 \<le> length hw \<Longrightarrow> slice (mac_String hw) 0 8 = Ok (mac_String (take 3 hw))"
  using take_8_mac_String [of hw] length_mac_String [of hw]
  by (cases "hw = []") (auto simp: slice_def)

lemma trust_valid: "trust entries = Ok ps \<Longrightarrow> list_all ParseCIDR_ok ps"
proof (induction entries arbitrary: ps)
  case (Cons entry rest)
  let ?c = "TrimSpace entry"
  have host: "ParseCIDR_ok (?c @ (if To4 (ParseIP ?c) \<noteq> [] then ''/32'' else ''/128''))"
    if "ParseIP ?c \<noteq> []"
  proof (cases "To4 (ParseIP ?c) = []")
    case True
    then have "parseIPv4 ?c = []" using that ParseIP_v4 To4_parseIPv4 by metis
    with that True show ?thesis by (simp add: ParseCIDR_host)
  qed (use that in \<open>simp add: ParseCIDR_host\<close>)
  with Cons show ?case
    by (auto simp: Let_def map_ok_Ok_iff split: if_splits)
qed simp

text \<open>
  A device is ignored exactly when its first three octets are one of the comma-separated
  entries of \<open>TINK_IGNORED_OUIS\<close>, whatever the case of the letters in the entry.
\<close>

lemma ShouldIgnoreOUI_iff:
  assumes "getIgnoredMACs env = Ok (ignoredOUIs c)" and "3 \<le> length hw"
  shows "ShouldIgnoreOUI c (mac_String hw) =
    Ok (Getenv env ''TINK_IGNORED_OUIS'' \<noteq> [] \<and>
        mac_String (take 3 hw) \<in> ToLower ` set (Split (Getenv env ''TINK_IGNORED_OUIS'') (CHR '','')))"
proof (cases "ignoredOUIs c")
  case None
  with assms(1) show ?thesis
    by (auto simp: ShouldIgnoreOUI_def getIgnoredMACs_def Let_def map_ok_Ok_iff split: if_splits)
next
  case (Some m)
  with assms(1) have "Getenv env ''TINK_IGNORED_OUIS'' \<noteq> []"
    by (auto simp: getIgnoredMACs_def Let_def)
  with Some assms getIgnoredMACs_Ok [of env m] show ?thesis
    by (simp add: ShouldIgnoreOUI_def slice_mac_String)
qed

text \<open>
  Every entry of \<open>TRUSTED_PROXIES\<close> that \<open>parseTrustedProxies\<close> returns is one \<open>net.ParseCIDR\<close>
  accepts, so a bare address has become a host prefix and no later parse of the list can fail.
\<close>

lemma parseTrustedProxies_valid:
  assumes "parseTrustedProxies env = Ok ps"
  shows "list_all ParseCIDR_ok ps"
  using assms trust_valid by (simp add: parseTrustedProxies_def)

text \<open>
  A list of IPv4 addresses printed with commas is read back by \<open>ParseIPv4s\<close> as the same list
  in the same order.
\<close>

lemma ParseIPv4s_print:
  assumes "ips \<noteq> []" and "\<forall>p \<in> set ips. length p = 4"
  shows "ParseIPv4s (Join (map ip_String ips) '','') = ips"
proof -
  have "CHR '','' \<notin> set (ip_String p)" if "p \<in> set ips" for p
  proof -
    from assms(2) that have "length p = 4" by simp
    then show ?thesis
      by (auto simp: ip_String_4 elim!: length_4E)
  qed
  then have "Split (Join (map ip_String ips) '','') (CHR '','') = map ip_String ips"
    using assms(1) by (intro Split_Join) auto
  then show ?thesis
    using assms(2) by (simp add: ParseIPv4s_def ParseIP_ip_String map_idI)
qed

lemma ParseIPv4s_print_sample:
  "ParseIPv4s (Join (map ip_String [[CHR 0x08, CHR 0x08, CHR 0x08, CHR 0x08],
      [CHR 0x01, CHR 0x01, CHR 0x01, CHR 0x01]]) '','') =
    [[CHR 0x08, CHR 0x08, CHR 0x08, CHR 0x08], [CHR 0x01, CHR 0x01, CHR 0x01, CHR 0x01]]"
  by (rule ParseIPv4s_print) simp_all

section \<open>A sample configuration\<close>

text \<open>The defaults of the package variables, on a server at 192.168.1.1 that ignores one vendor.\<close>

definition sample_env :: env where
  "sample_env = [''TINK_IGNORED_OUIS'' \<mapsto> ''02:0C:29'', ''TRUSTED_PROXIES'' \<mapsto> ''10.0.0.0/8, 10.1.2.3'']"

definition sample_conf :: conf where
  "sample_conf = \<lparr>
     PublicIPv4 = [CHR 0xC0, CHR 0xA8, CHR 0x01, CHR 0x01], PublicFQDN = ''192.168.1.1'',
     PublicSyslogIPv4 = [CHR 0xC0, CHR 0xA8, CHR 0x01, CHR 0x01], PublicSyslogFQDN = ''192.168.1.1'',
     DHCPLeaseTime = 172800000000000,
     DNSServers = [[CHR 0x08, CHR 0x08, CHR 0x08, CHR 0x08], [CHR 0x08, CHR 0x08, CHR 0x04, CHR 0x04]],
     ignoredOUIs = Some {''02:0c:29''}, ignoredGIs = None, TrustedProxies = [],
     HollowClientID = [], HollowClientRequestSecret = [], OsieVendorServicesURL = [],
     FacilityCode = ''ewr1'', MirrorBaseURL = ''http://install.ewr1.packet.net''\<rparr>"

lemma sample_ignored: "getIgnoredMACs sample_env = Ok (ignoredOUIs sample_conf)"
proof -
  have "ParseMAC ''02:0C:29:00:00:00'' \<noteq> None"
    by (simp add: ParseMAC_def xtoi2_def hex_val_def is_digit_def)
  then show ?thesis
    by (auto simp: getIgnoredMACs_def sample_env_def sample_conf_def Getenv_def ToLower_def
        lower_char_def Let_def)
qed

lemma ShouldIgnoreOUI_iff_sample:
  "ShouldIgnoreOUI sample_conf (mac_String [CHR 0x02, CHR 0x0C, CHR 0x29, CHR 0xAA, CHR 0xBB, CHR 0xCC]) = Ok True"
  using ShouldIgnoreOUI_iff [OF sample_ignored,
      of "[CHR 0x02, CHR 0x0C, CHR 0x29, CHR 0xAA, CHR 0xBB, CHR 0xCC]"]
  by (simp add: sample_env_def Getenv_def ToLower_def lower_char_def mac_String_def hex_byte2_def
      hex_digit_def)

lemma sample_proxies: "parseTrustedProxies sample_env = Ok [''10.0.0.0/8'', ''10.1.2.3/32'']"
proof -
  have "TrimSpace ''10.0.0.0/8'' = ''10.0.0.0/8''" and "TrimSpace '' 10.1.2.3'' = ''10.1.2.3''"
    by code_simp+
  moreover have "ParseCIDR_ok ''10.0.0.0/8''" by (simp add: net_defs)
  moreover have "\<not> ParseCIDR_ok ''10.1.2.3''" by (simp add: ParseCIDR_ok_def)
  moreover have "ParseIP ''10.1.2.3'' = v4InV6Prefix @ [CHR 0x0A, CHR 0x01, CHR 0x02, CHR 0x03]"
    by (simp add: ParseIP_def parseIPv4_def parse_octet_def is_digit_def dec_value_def IPv4_def byte_eval)
  ultimately show ?thesis by (simp add: parseTrustedProxies_def sample_env_def Getenv_def)
qed

lemma parseTrustedProxies_valid_sample: "list_all ParseCIDR_ok [''10.0.0.0/8'', ''10.1.2.3/32'']"
  by (rule parseTrustedProxies_valid [OF sample_proxies])

end
