(* ===== verification/Dhcp4_Lib.thy ===== *)
theory Dhcp4_Lib
  imports Go_Net
begin

text \<open>
  The library github.com/packethost/dhcp4-go, which the sources call and do not contain.  A packet
  is a value of a type \<open>'p\<close>, and what the sources call of the library is the record \<open>'p dhcp4\<close>, an
  argument of every definition that uses it.  An \<open>OptionMap\<close> is a Go map from option codes to byte
  slices, nil when it is \<^const>\<open>None\<close>.  The predicate \<open>dhcp4_ok\<close> states the documented behaviour that the
  theorems rely on; \<open>ref_dhcp4\<close> is an instance over RFC 2132 option encoding that satisfies it.
\<close>

type_synonym omap = "(nat \<rightharpoonup> bytes) option"

section \<open>Option codes\<close>

text \<open>The codes that IANA assigns to the options which the sources name.\<close>

definition OptionSubnetMask :: nat where "OptionSubnetMask = 1"
definition OptionRouter :: nat where "OptionRouter = 3"
definition OptionDomainServer :: nat where "OptionDomainServer = 6"
definition OptionLogServer :: nat where "OptionLogServer = 7"
definition OptionHostname :: nat where "OptionHostname = 12"
definition OptionVendorSpecific :: nat where "OptionVendorSpecific = 43"
definition OptionAddressTime :: nat where "OptionAddressTime = 51"
definition OptionDHCPServerID :: nat where "OptionDHCPServerID = 54"
definition OptionClassID :: nat where "OptionClassID = 60"
definition OptionUserClass :: nat where "OptionUserClass = 77"
definition OptionRelayAgentInformation :: nat where "OptionRelayAgentInformation = 82"
definition OptionClientSystem :: nat where "OptionClientSystem = 93"
definition OptionUUIDGUID :: nat where "OptionUUIDGUID = 97"

definition MessageTypeDiscover :: nat where "MessageTypeDiscover = 1"
definition MessageTypeOffer :: nat where "MessageTypeOffer = 2"
definition MessageTypeRequest :: nat where "MessageTypeRequest = 3"
definition MessageTypeAck :: nat where "MessageTypeAck = 5"

lemmas option_codes [go_defs] =
  OptionSubnetMask_def OptionRouter_def OptionDomainServer_def OptionLogServer_def
  OptionHostname_def OptionVendorSpecific_def OptionAddressTime_def OptionDHCPServerID_def
  OptionClassID_def OptionUserClass_def OptionRelayAgentInformation_def OptionClientSystem_def
  OptionUUIDGUID_def MessageTypeDiscover_def MessageTypeOffer_def MessageTypeRequest_def
  MessageTypeAck_def

section \<open>The library interface\<close>

text \<open>
  \<open>om_Deserialize m b e\<close> is the map after reading \<open>b\<close> into \<open>m\<close> and whether there was no error; \<open>e\<close> is
  the flag \<open>IgnoreMissingEndTag\<close>.  \<open>pk_File\<close> is the 128-byte file field, and \<open>pk_setFile\<close> a write through
  the slice that \<open>File\<close> returns.  Durations are in nanoseconds.
\<close>

record 'p dhcp4 =
  om_GetOption :: "omap \<Rightarrow> nat \<Rightarrow> bytes option"
  om_GetString :: "omap \<Rightarrow> nat \<Rightarrow> string option"
  om_GetIP :: "omap \<Rightarrow> nat \<Rightarrow> ip option"
  om_GetUint8 :: "omap \<Rightarrow> nat \<Rightarrow> nat option"
  om_SetOption :: "omap \<Rightarrow> nat \<Rightarrow> bytes \<Rightarrow> omap go"
  om_SetString :: "omap \<Rightarrow> nat \<Rightarrow> string \<Rightarrow> omap go"
  om_SetIP :: "omap \<Rightarrow> nat \<Rightarrow> ip \<Rightarrow> omap go"
  om_SetDuration :: "omap \<Rightarrow> nat \<Rightarrow> int \<Rightarrow> omap go"
  om_Serialize :: "omap \<Rightarrow> bytes"
  om_Deserialize :: "omap \<Rightarrow> bytes \<Rightarrow> bool \<Rightarrow> omap \<times> bool"
  pk_GetOption :: "'p \<Rightarrow> nat \<Rightarrow> bytes option"
  pk_GetString :: "'p \<Rightarrow> nat \<Rightarrow> string option"
  pk_GetUint16 :: "'p \<Rightarrow> nat \<Rightarrow> nat option"
  pk_GetMessageType :: "'p \<Rightarrow> nat"
  pk_GetCHAddr :: "'p \<Rightarrow> hwaddr"
  pk_GetGIAddr :: "'p \<Rightarrow> ip"
  pk_GetYIAddr :: "'p \<Rightarrow> ip"
  pk_GetSIAddr :: "'p \<Rightarrow> ip"
  pk_File :: "'p \<Rightarrow> bytes"
  pk_SetOption :: "'p \<Rightarrow> nat \<Rightarrow> bytes \<Rightarrow> 'p"
  pk_SetString :: "'p \<Rightarrow> nat \<Rightarrow> string \<Rightarrow> 'p"
  pk_SetIP :: "'p \<Rightarrow> nat \<Rightarrow> ip \<Rightarrow> 'p"
  pk_SetYIAddr :: "'p \<Rightarrow> ip \<Rightarrow> 'p"
  pk_SetSIAddr :: "'p \<Rightarrow> ip \<Rightarrow> 'p"
  pk_setFile :: "'p \<Rightarrow> bytes \<Rightarrow> 'p"
  CreateOffer :: "'p \<Rightarrow> 'p"
  CreateAck :: "'p \<Rightarrow> 'p"

section \<open>Documented behaviour\<close>

text \<open>The maps that fit the one-byte codes and lengths of the encoding.\<close>

definition omap_wf :: "(nat \<rightharpoonup> bytes) \<Rightarrow> bool" where
  "omap_wf m \<longleftrightarrow> (\<forall>k v. m k = Some v \<longrightarrow> 1 \<le> k \<and> k \<le> 254 \<and> length v \<le> 255)"

text \<open>An option map is a Go map: reads of a nil map find nothing, writes to it panic.\<close>

definition om_laws :: "'p dhcp4 \<Rightarrow> bool" where
  "om_laws L \<longleftrightarrow>
     (\<forall>m k. om_GetOption L m k = (case m of None \<Rightarrow> None | Some f \<Rightarrow> f k)) \<and>
     (\<forall>m k. om_GetString L m k = om_GetOption L m k) \<and>
     (\<forall>m k v. length v = 4 \<longrightarrow> om_GetOption L m k = Some v \<longrightarrow> om_GetIP L m k = Some v) \<and>
     (\<forall>m k. om_GetOption L m k = None \<longrightarrow> om_GetIP L m k = None \<and> om_GetUint8 L m k = None) \<and>
     (\<forall>m k c. om_GetOption L m k = Some [c] \<longrightarrow> om_GetUint8 L m k = Some (of_char c)) \<and>
     (\<forall>f k v. om_SetOption L (Some f) k v = Ok (Some (f(k \<mapsto> v)))) \<and>
     (\<forall>k v. om_SetOption L None k v = Fault NilMapWrite) \<and>
     (\<forall>m k v. om_SetString L m k v = om_SetOption L m k v) \<and>
     (\<forall>m k v. om_SetIP L m k v = om_SetOption L m k (To4 v)) \<and>
     (\<forall>m k d. \<exists>v. length v = 4 \<and> om_SetDuration L m k d = om_SetOption L m k v)"

definition codec_laws :: "'p dhcp4 \<Rightarrow> bool" where
  "codec_laws L \<longleftrightarrow>
     (\<forall>f e. omap_wf f \<longrightarrow> om_Deserialize L (Some Map.empty) (om_Serialize L (Some f)) e = (Some f, True)) \<and>
     (\<forall>f b e. omap_wf f \<longrightarrow> (\<exists>g ok. om_Deserialize L (Some f) b e = (Some g, ok) \<and> omap_wf g))"

text \<open>The fields of a packet are independent of each other.\<close>

definition pk_laws :: "'p dhcp4 \<Rightarrow> bool" where
  "pk_laws L \<longleftrightarrow>
     (\<forall>p k v j. pk_GetOption L (pk_SetOption L p k v) j = (if j = k then Some v else pk_GetOption L p j)) \<and>
     (\<forall>p a j. pk_GetOption L (pk_SetYIAddr L p a) j = pk_GetOption L p j) \<and>
     (\<forall>p a j. pk_GetOption L (pk_SetSIAddr L p a) j = pk_GetOption L p j) \<and>
     (\<forall>p b j. pk_GetOption L (pk_setFile L p b) j = pk_GetOption L p j) \<and>
     (\<forall>p k. pk_GetString L p k = pk_GetOption L p k) \<and>
     (\<forall>p k v. pk_SetString L p k v = pk_SetOption L p k v) \<and>
     (\<forall>p k a. pk_SetIP L p k a = pk_SetOption L p k (To4 a)) \<and>
     (\<forall>p a. length a = 4 \<longrightarrow> pk_GetYIAddr L (pk_SetYIAddr L p a) = a) \<and>
     (\<forall>p a. pk_GetYIAddr L (pk_SetSIAddr L p a) = pk_GetYIAddr L p) \<and>
     (\<forall>p k v. pk_GetYIAddr L (pk_SetOption L p k v) = pk_GetYIAddr L p) \<and>
     (\<forall>p b. pk_GetYIAddr L (pk_setFile L p b) = pk_GetYIAddr L p) \<and>
     (\<forall>p a. length a = 4 \<longrightarrow> pk_GetSIAddr L (pk_SetSIAddr L p a) = a) \<and>
     (\<forall>p a. pk_GetSIAddr L (pk_SetYIAddr L p a) = pk_GetSIAddr L p) \<and>
     (\<forall>p k v. pk_GetSIAddr L (pk_SetOption L p k v) = pk_GetSIAddr L p) \<and>
     (\<forall>p b. pk_GetSIAddr L (pk_setFile L p b) = pk_GetSIAddr L p) \<and>
     (\<forall>p. length (pk_File L p) = 128) \<and>
     (\<forall>p b. length b = 128 \<longrightarrow> pk_File L (pk_setFile L p b) = b) \<and>
     (\<forall>p a. pk_File L (pk_SetYIAddr L p a) = pk_File L p) \<and>
     (\<forall>p a. pk_File L (pk_SetSIAddr L p a) = pk_File L p) \<and>
     (\<forall>p k v. pk_File L (pk_SetOption L p k v) = pk_File L p)"

text \<open>A new reply has the message type of its kind and an empty file field.\<close>

definition reply_laws :: "'p dhcp4 \<Rightarrow> bool" where
  "reply_laws L \<longleftrightarrow>
     (\<forall>p. pk_GetMessageType L (CreateOffer L p) = MessageTypeOffer) \<and>
     (\<forall>p. pk_GetMessageType L (CreateAck L p) = MessageTypeAck) \<and>
     (\<forall>p k v. k \<noteq> 53 \<longrightarrow> pk_GetMessageType L (pk_SetOption L p k v) = pk_GetMessageType L p) \<and>
     (\<forall>p a. pk_GetMessageType L (pk_SetYIAddr L p a) = pk_GetMessageType L p) \<and>
     (\<forall>p a. pk_GetMessageType L (pk_SetSIAddr L p a) = pk_GetMessageType L p) \<and>
     (\<forall>p b. pk_GetMessageType L (pk_setFile L p b) = pk_GetMessageType L p) \<and>
     (\<forall>p. pk_File L (CreateOffer L p) = replicate 128 (CHR 0x00)) \<and>
     (\<forall>p. pk_File L (CreateAck L p) = replicate 128 (CHR 0x00))"

definition dhcp4_ok :: "'p dhcp4 \<Rightarrow> bool" where
  "dhcp4_ok L \<longleftrightarrow> om_laws L \<and> codec_laws L \<and> pk_laws L \<and> reply_laws L"

text \<open>The laws as rewrite rules.\<close>

lemma om_simps:
  assumes "dhcp4_ok L"
  shows "om_GetOption L (Some f) k = f k"
    and "om_GetOption L None k = None"
    and "om_GetString L m k = om_GetOption L m k"
    and "om_SetOption L (Some f) k v = Ok (Some (f(k \<mapsto> v)))"
    and "om_SetOption L None k v = Fault NilMapWrite"
    and "om_SetString L m k v = om_SetOption L m k v"
    and "om_SetIP L m k a = om_SetOption L m k (To4 a)"
  using assms by (simp_all add: dhcp4_ok_def om_laws_def)

lemma om_get_laws:
  assumes "dhcp4_ok L"
  shows "\<forall>m k v. length v = 4 \<longrightarrow> om_GetOption L m k = Some v \<longrightarrow> om_GetIP L m k = Some v"
    and "\<forall>m k. om_GetOption L m k = None \<longrightarrow> om_GetIP L m k = None \<and> om_GetUint8 L m k = None"
    and "\<forall>m k c. om_GetOption L m k = Some [c] \<longrightarrow> om_GetUint8 L m k = Some (of_char c)"
    and "\<forall>m k d. \<exists>v. length v = 4 \<and> om_SetDuration L m k d = om_SetOption L m k v"
proof -
  note * = assms [unfolded dhcp4_ok_def om_laws_def]
  show "\<forall>m k v. length v = 4 \<longrightarrow> om_GetOption L m k = Some v \<longrightarrow> om_GetIP L m k = Some v"
    using * by (elim conjE)
  show "\<forall>m k. om_GetOption L m k = None \<longrightarrow> om_GetIP L m k = None \<and> om_GetUint8 L m k = None"
    using * by (elim conjE)
  show "\<forall>m k c. om_GetOption L m k = Some [c] \<longrightarrow> om_GetUint8 L m k = Some (of_char c)"
    using * by (elim conjE)
  show "\<forall>m k d. \<exists>v. length v = 4 \<and> om_SetDuration L m k d = om_SetOption L m k v"
    using * by (elim conjE)
qed

lemma om_GetIP_4:
  "dhcp4_ok L \<Longrightarrow> om_GetOption L m k = Some v \<Longrightarrow> length v = 4 \<Longrightarrow> om_GetIP L m k = Some v"
  using om_get_laws(1) by blast

lemma om_GetIP_None: "dhcp4_ok L \<Longrightarrow> om_GetOption L m k = None \<Longrightarrow> om_GetIP L m k = None"
  using om_get_laws(2) by blast

lemma om_GetUint8_1:
  "dhcp4_ok L \<Longrightarrow> om_GetOption L m k = Some [c] \<Longrightarrow> om_GetUint8 L m k = Some (of_char c)"
  using om_get_laws(3) by blast

lemma om_SetDuration_ex:
  assumes "dhcp4_ok L"
  obtains v where "length v = 4" and "om_SetDuration L m k d = om_SetOption L m k v"
  using om_get_laws(4) [OF assms] by blast

lemma om_round_trip:
  "dhcp4_ok L \<Longrightarrow> omap_wf f \<Longrightarrow>
   om_Deserialize L (Some Map.empty) (om_Serialize L (Some f)) e = (Some f, True)"
  by (simp add: dhcp4_ok_def codec_laws_def)

lemma om_Deserialize_wf:
  assumes "dhcp4_ok L" and "omap_wf f"
  obtains g ok where "om_Deserialize L (Some f) b e = (Some g, ok)" and "omap_wf g"
  using assms unfolding dhcp4_ok_def codec_laws_def by blast

lemma pk_simps:
  assumes "dhcp4_ok L"
  shows "pk_GetOption L (pk_SetOption L p k v) j = (if j = k then Some v else pk_GetOption L p j)"
    and "pk_GetOption L (pk_SetYIAddr L p a) j = pk_GetOption L p j"
    and "pk_GetOption L (pk_SetSIAddr L p a) j = pk_GetOption L p j"
    and "pk_GetOption L (pk_setFile L p b) j = pk_GetOption L p j"
    and "pk_GetString L p k = pk_GetOption L p k"
    and "pk_SetString L p k v = pk_SetOption L p k v"
    and "pk_SetIP L p k a = pk_SetOption L p k (To4 a)"
    and "length a = 4 \<Longrightarrow> pk_GetYIAddr L (pk_SetYIAddr L p a) = a"
    and "pk_GetYIAddr L (pk_SetSIAddr L p a) = pk_GetYIAddr L p"
    and "pk_GetYIAddr L (pk_SetOption L p k v) = pk_GetYIAddr L p"
    and "pk_GetYIAddr L (pk_setFile L p b) = pk_GetYIAddr L p"
    and "length a = 4 \<Longrightarrow> pk_GetSIAddr L (pk_SetSIAddr L p a) = a"
    and "pk_GetSIAddr L (pk_SetYIAddr L p a) = pk_GetSIAddr L p"
    and "pk_GetSIAddr L (pk_SetOption L p k v) = pk_GetSIAddr L p"
    and "pk_GetSIAddr L (pk_setFile L p b) = pk_GetSIAddr L p"
    and "length (pk_File L p) = 128"
    and "length b = 128 \<Longrightarrow> pk_File L (pk_setFile L p b) = b"
    and "pk_File L (pk_SetYIAddr L p a) = pk_File L p"
    and "pk_File L (pk_SetSIAddr L p a) = pk_File L p"
    and "pk_File L (pk_SetOption L p k v) = pk_File L p"
  using assms by (simp_all add: dhcp4_ok_def pk_laws_def)

lemma reply_simps:
  assumes "dhcp4_ok L"
  shows "pk_GetMessageType L (CreateOffer L p) = MessageTypeOffer"
    and "pk_GetMessageType L (CreateAck L p) = MessageTypeAck"
    and "k \<noteq> 53 \<Longrightarrow> pk_GetMessageType L (pk_SetOption L p k v) = pk_GetMessageType L p"
    and "pk_GetMessageType L (pk_SetYIAddr L p a) = pk_GetMessageType L p"
    and "pk_GetMessageType L (pk_SetSIAddr L p a) = pk_GetMessageType L p"
    and "pk_GetMessageType L (pk_setFile L p b) = pk_GetMessageType L p"
    and "pk_File L (CreateOffer L p) = replicate 128 (CHR 0x00)"
    and "pk_File L (CreateAck L p) = replicate 128 (CHR 0x00)"
  using assms by (simp_all add: dhcp4_ok_def reply_laws_def)

lemma omap_wf_empty [simp]: "omap_wf Map.empty"
  by (simp add: omap_wf_def)

lemma omap_wf_update: "omap_wf f \<Longrightarrow> 1 \<le> k \<Longrightarrow> k \<le> 254 \<Longrightarrow> length v \<le> 255 \<Longrightarrow> omap_wf (f(k \<mapsto> v))"
  by (simp add: omap_wf_def)

section \<open>An instance: the encoding of RFC 2132\<close>

record rpacket =
  r_opts :: "nat \<rightharpoonup> bytes"
  r_ch :: hwaddr
  r_gi :: ip
  r_yi :: ip
  r_si :: ip
  r_file :: bytes

definition tlv :: "(nat \<rightharpoonup> bytes) \<Rightarrow> nat \<Rightarrow> bytes" where
  "tlv f k = (case f k of None \<Rightarrow> [] | Some v \<Rightarrow> char_of k # char_of (length v) # v)"

definition ref_Serialize :: "omap \<Rightarrow> bytes" where
  "ref_Serialize m =
     (case m of None \<Rightarrow> [] | Some f \<Rightarrow> concat (map (tlv f) [1..<255]) @ [CHR 0xFF])"

function ref_read :: "bytes \<Rightarrow> bool \<Rightarrow> (nat \<rightharpoonup> bytes) \<Rightarrow> (nat \<rightharpoonup> bytes) \<times> bool" where
  "ref_read [] e f = (f, e)"
| "ref_read (c # r) e f =
     (if c = CHR 0xFF then (f, True)
      else if c = CHR 0x00 then ref_read r e f
      else case r of
             [] \<Rightarrow> (f, False)
           | l # r' \<Rightarrow>
               if length r' < of_char l then (f, False)
               else ref_read (drop (of_char l) r') e (f(of_char c \<mapsto> take (of_char l) r')))"
  by pat_completeness auto
termination by (relation "measure (\<lambda>(b, _). length b)") auto

definition ref_Deserialize :: "omap \<Rightarrow> bytes \<Rightarrow> bool \<Rightarrow> omap \<times> bool" where
  "ref_Deserialize m b e = (case m of None \<Rightarrow> (None, False) | Some f \<Rightarrow> map_prod Some id (ref_read b e f))"

definition set_map :: "omap \<Rightarrow> nat \<Rightarrow> bytes \<Rightarrow> omap go" where
  "set_map m k v = (case m of None \<Rightarrow> Fault NilMapWrite | Some f \<Rightarrow> Ok (Some (f(k \<mapsto> v))))"

definition get_map :: "omap \<Rightarrow> nat \<Rightarrow> bytes option" where
  "get_map m k = (case m of None \<Rightarrow> None | Some f \<Rightarrow> f k)"

definition be32 :: "nat \<Rightarrow> bytes" where
  "be32 n = [char_of (n div 16777216), char_of (n div 65536), char_of (n div 256), char_of n]"

definition ref_type :: "rpacket \<Rightarrow> nat" where
  "ref_type p = (case r_opts p 53 of Some [c] \<Rightarrow> of_char c | _ \<Rightarrow> 0)"

definition ref_reply :: "char \<Rightarrow> rpacket \<Rightarrow> rpacket" where
  "ref_reply ty p = \<lparr>r_opts = [53 \<mapsto> [ty]], r_ch = r_ch p, r_gi = r_gi p, r_yi = replicate 4 (CHR 0x00),
     r_si = replicate 4 (CHR 0x00), r_file = []\<rparr>"

definition ref_dhcp4 :: "rpacket dhcp4" where
  "ref_dhcp4 = \<lparr>
     om_GetOption = get_map,
     om_GetString = get_map,
     om_GetIP = get_map,
     om_GetUint8 = (\<lambda>m k. case get_map m k of Some [c] \<Rightarrow> Some (of_char c) | _ \<Rightarrow> None),
     om_SetOption = set_map,
     om_SetString = set_map,
     om_SetIP = (\<lambda>m k a. set_map m k (To4 a)),
     om_SetDuration = (\<lambda>m k d. set_map m k (be32 (nat (d div 1000000000)))),
     om_Serialize = ref_Serialize,
     om_Deserialize = ref_Deserialize,
     pk_GetOption = r_opts,
     pk_GetString = r_opts,
     pk_GetUint16 = (\<lambda>p k. case r_opts p k of Some [a, b] \<Rightarrow> Some (256 * of_char a + of_char b) | _ \<Rightarrow> None),
     pk_GetMessageType = ref_type,
     pk_GetCHAddr = r_ch,
     pk_GetGIAddr = r_gi,
     pk_GetYIAddr = r_yi,
     pk_GetSIAddr = r_si,
     pk_File = (\<lambda>p. take 128 (r_file p @ replicate 128 (CHR 0x00))),
     pk_SetOption = (\<lambda>p k v. p\<lparr>r_opts := (r_opts p)(k \<mapsto> v)\<rparr>),
     pk_SetString = (\<lambda>p k v. p\<lparr>r_opts := (r_opts p)(k \<mapsto> v)\<rparr>),
     pk_SetIP = (\<lambda>p k a. p\<lparr>r_opts := (r_opts p)(k \<mapsto> To4 a)\<rparr>),
     pk_SetYIAddr = (\<lambda>p a. p\<lparr>r_yi := a\<rparr>),
     pk_SetSIAddr = (\<lambda>p a. p\<lparr>r_si := a\<rparr>),
     pk_setFile = (\<lambda>p b. p\<lparr>r_file := b\<rparr>),
     CreateOffer = ref_reply (CHR 0x02),
     CreateAck = ref_reply (CHR 0x05)\<rparr>"

lemma char_of_special:
  fixes n :: nat
  assumes "1 \<le> n" and "n \<le> 254"
  shows "(char_of n :: char) \<noteq> CHR 0xFF" and "(char_of n :: char) \<noteq> CHR 0x00"
proof -
  have n: "of_char (char_of n :: char) = n" using assms by simp
  show "(char_of n :: char) \<noteq> CHR 0xFF"
  proof
    assume "(char_of n :: char) = CHR 0xFF"
    then have "n = of_char (CHR 0xFF)" using n by (simp only:)
    with assms show False by simp
  qed
  show "(char_of n :: char) \<noteq> CHR 0x00"
  proof
    assume "(char_of n :: char) = CHR 0x00"
    then have "n = of_char (CHR 0x00)" using n by (simp only:)
    with assms show False by simp
  qed
qed

lemma ref_read_tlv:
  assumes "\<forall>k \<in> set ks. 1 \<le> k \<and> k \<le> 254" and "omap_wf f"
  shows "ref_read (concat (map (tlv f) ks) @ [CHR 0xFF]) e g =
    ((\<lambda>k. if k \<in> set ks \<and> f k \<noteq> None then f k else g k), True)"
  using assms(1)
proof (induction ks arbitrary: g)
  case (Cons k ks)
  show ?case
  proof (cases "f k")
    case None
    then have "tlv f k = []" by (simp add: tlv_def)
    with Cons None show ?thesis by (auto simp: fun_eq_iff)
  next
    case (Some v)
    with assms(2) have v: "length v \<le> 255" by (auto simp: omap_wf_def)
    have k: "1 \<le> k" "k \<le> 254" using Cons.prems by auto
    let ?r = "concat (map (tlv f) ks) @ [CHR 0xFF]"
    have "ref_read (concat (map (tlv f) (k # ks)) @ [CHR 0xFF]) e g = ref_read ?r e (g(k \<mapsto> v))"
      using v k char_of_special [OF k] by (simp add: tlv_def Some)
    also have "\<dots> = ((\<lambda>j. if j \<in> set ks \<and> f j \<noteq> None then f j else (g(k \<mapsto> v)) j), True)"
      using Cons by (intro Cons.IH) auto
    finally show ?thesis using Some by (auto simp: fun_eq_iff)
  qed
qed simp

lemma ref_read_wf: "omap_wf f \<Longrightarrow> omap_wf (fst (ref_read b e f))"
proof (induction b e f rule: ref_read.induct)
  case (2 c r e f)
  have c: "c \<noteq> CHR 0x00 \<Longrightarrow> c \<noteq> CHR 0xFF \<Longrightarrow> 1 \<le> (of_char c :: nat) \<and> of_char c \<le> (254 :: nat)"
  proof -
    assume *: "c \<noteq> CHR 0x00" "c \<noteq> CHR 0xFF"
    have "(of_char c :: nat) \<noteq> of_char (CHR 0x00)"
      using *(1) by (simp only: of_char_eq_iff not_False_eq_True)
    moreover have "(of_char c :: nat) \<noteq> of_char (CHR 0xFF)"
      using *(2) by (simp only: of_char_eq_iff not_False_eq_True)
    moreover note of_char_le [of c]
    ultimately show ?thesis by (simp del: of_char_le)
  qed
  show ?case
    using 2 c by (auto split: list.split simp del: fun_upd_apply simp: omap_wf_update)
qed simp

lemma length_be32: "length (be32 n) = 4"
  by (simp add: be32_def)

lemma ref_om_laws: "om_laws ref_dhcp4"
  unfolding om_laws_def ref_dhcp4_def
  by (auto simp: get_map_def set_map_def split: option.splits intro: length_be32)

lemma ref_codec_laws: "codec_laws ref_dhcp4"
proof -
  have "(\<lambda>k. if k \<in> set [1..<255] \<and> f k \<noteq> None then f k else None) = f" if "omap_wf f" for f
  proof
    fix k
    show "(if k \<in> set [1..<255] \<and> f k \<noteq> None then f k else None) = f k"
      using that [unfolded omap_wf_def, rule_format, of k] by (cases "f k") auto
  qed
  then have "ref_read (concat (map (tlv f) [1..<255]) @ [CHR 0xFF]) e Map.empty = (f, True)"
    if "omap_wf f" for f e
    using ref_read_tlv [of "[1..<255]" f e Map.empty] that by simp
  moreover have "\<exists>g ok. map_prod Some id (ref_read b e f) = (Some g, ok) \<and> omap_wf g"
    if "omap_wf f" for f b e
    using ref_read_wf [OF that, of b e] by (cases "ref_read b e f") simp
  ultimately show ?thesis
    by (simp add: codec_laws_def ref_dhcp4_def ref_Serialize_def ref_Deserialize_def)
qed

lemma ref_pk_laws: "pk_laws ref_dhcp4"
  by (auto simp: pk_laws_def ref_dhcp4_def)

lemma ref_reply_laws: "reply_laws ref_dhcp4"
  by (simp add: reply_laws_def ref_dhcp4_def ref_reply_def ref_type_def MessageTypeOffer_def
      MessageTypeAck_def)

lemma ref_dhcp4_ok: "dhcp4_ok ref_dhcp4"
  by (simp add: dhcp4_ok_def ref_om_laws ref_codec_laws ref_pk_laws ref_reply_laws)

text \<open>A discover message of a PXE client, and an empty reply.\<close>

definition sample_req :: rpacket where
  "sample_req = \<lparr>r_opts = [53 \<mapsto> [CHR 0x01], 60 \<mapsto> ''PXEClient'', 93 \<mapsto> [CHR 0x00, CHR 0x07]],
     r_ch = [CHR 0x02, CHR 0x00, CHR 0x00, CHR 0x00, CHR 0x00, CHR 0x01], r_gi = replicate 4 (CHR 0x00),
     r_yi = replicate 4 (CHR 0x00), r_si = replicate 4 (CHR 0x00), r_file = []\<rparr>"

definition sample_rep :: rpacket where
  "sample_rep = ref_reply (CHR 0x02) sample_req"

end
