(* ===== verification/Dhcp_Config.thy ===== *)
theory Dhcp_Config
  imports Dhcp4_Lib
begin

text \<open>
  The DHCP settings of a job, \<open>src/dhcp/config.go\<close>: an address and an option map.  Setters write
  through the map, so they fault when it is nil.  The order in which a Go \<open>range\<close> visits a map is
  unspecified: \<open>ApplyTo\<close> takes it as the argument \<open>ord\<close>, a function that lists the keys of a map.
\<close>

section \<open>The operations\<close>

record config =
  addr :: ip
  opts :: omap

definition new_config :: config where
  "new_config = \<lparr>addr = [], opts = None\<rparr>"

type_synonym map_order = "(nat \<rightharpoonup> bytes) \<Rightarrow> nat list"

definition order_ok :: "map_order \<Rightarrow> bool" where
  "order_ok ord \<longleftrightarrow> (\<forall>m. finite (dom m) \<longrightarrow> distinct (ord m) \<and> set (ord m) = dom m)"

fun apply_opts :: "'p dhcp4 \<Rightarrow> (nat \<rightharpoonup> bytes) \<Rightarrow> nat list \<Rightarrow> 'p \<Rightarrow> 'p" where
  "apply_opts L m [] rep = rep"
| "apply_opts L m (o' # os) rep =
     apply_opts L m os (case m o' of None \<Rightarrow> rep | Some v \<Rightarrow> pk_SetOption L rep o' v)"

definition ApplyTo :: "'p dhcp4 \<Rightarrow> map_order \<Rightarrow> config \<Rightarrow> 'p \<Rightarrow> bool \<times> 'p" where
  "ApplyTo L ord c rep =
     (if addr c = [] then (False, rep)
      else
        (let rep1 = pk_SetYIAddr L rep (addr c)
         in (True, case opts c of None \<Rightarrow> rep1 | Some m \<Rightarrow> apply_opts L m (ord m) rep1)))"

definition Address :: "config \<Rightarrow> ip" where
  "Address c = addr c"

definition Netmask :: "'p dhcp4 \<Rightarrow> config \<Rightarrow> ip" where
  "Netmask L c = (case om_GetIP L (opts c) OptionSubnetMask of None \<Rightarrow> [] | Some nm \<Rightarrow> nm)"

definition Gateway :: "'p dhcp4 \<Rightarrow> config \<Rightarrow> ip" where
  "Gateway L c = (case om_GetIP L (opts c) OptionRouter of None \<Rightarrow> [] | Some gw \<Rightarrow> gw)"

definition Hostname :: "'p dhcp4 \<Rightarrow> config \<Rightarrow> string" where
  "Hostname L c = (case om_GetString L (opts c) OptionHostname of None \<Rightarrow> [] | Some hn \<Rightarrow> hn)"

definition Setup :: "'p dhcp4 \<Rightarrow> ip \<Rightarrow> ip \<Rightarrow> ip \<Rightarrow> config \<Rightarrow> config go" where
  "Setup L address netmask gateway c =
     (let v4 = To4 address
      in if v4 \<noteq> [] then
           bind_go (if netmask \<noteq> [] then om_SetIP L (Some Map.empty) OptionSubnetMask netmask
                    else Ok (Some Map.empty)) (\<lambda>o1.
           bind_go (if gateway \<noteq> [] then om_SetIP L o1 OptionRouter gateway else Ok o1) (\<lambda>o2.
           Ok (c\<lparr>addr := v4, opts := o2\<rparr>)))
         else Ok (c\<lparr>addr := [], opts := None\<rparr>))"

definition SetLeaseTime :: "'p dhcp4 \<Rightarrow> int \<Rightarrow> config \<Rightarrow> config go" where
  "SetLeaseTime L d c = map_ok (\<lambda>m. c\<lparr>opts := m\<rparr>) (om_SetDuration L (opts c) OptionAddressTime d)"

definition SetHostname :: "'p dhcp4 \<Rightarrow> string \<Rightarrow> config \<Rightarrow> config go" where
  "SetHostname L s c =
     (if s = [] then Ok c
      else map_ok (\<lambda>m. c\<lparr>opts := m\<rparr>) (om_SetString L (opts c) OptionHostname s))"

definition SetDHCPServer :: "'p dhcp4 \<Rightarrow> ip \<Rightarrow> config \<Rightarrow> config go" where
  "SetDHCPServer L ip c =
     (let v4 = To4 ip
      in if v4 = [] then Ok c
         else map_ok (\<lambda>m. c\<lparr>opts := m\<rparr>) (om_SetOption L (opts c) OptionDHCPServerID v4))"

text \<open>The loop of \<open>SetDNSServers\<close>: non IPv4 addresses are skipped.\<close>

fun dns_bytes :: "ip list \<Rightarrow> bytes" where
  "dns_bytes [] = []"
| "dns_bytes (ip # ips) = (let v4 = To4 ip in if v4 = [] then dns_bytes ips else v4 @ dns_bytes ips)"

definition SetDNSServers :: "'p dhcp4 \<Rightarrow> ip list \<Rightarrow> config \<Rightarrow> config go" where
  "SetDNSServers L ips c =
     (if ips = [] then Ok c
      else
        (let b = dns_bytes ips
         in if b = [] then Ok c
            else map_ok (\<lambda>m. c\<lparr>opts := m\<rparr>) (om_SetOption L (opts c) OptionDomainServer b)))"

definition SetOpt43SubOpt :: "'p dhcp4 \<Rightarrow> nat \<Rightarrow> string \<Rightarrow> config \<Rightarrow> config go" where
  "SetOpt43SubOpt L subOpt s c =
     (if s = [] then Ok c
      else
        (let (n, ok) =
           (case om_GetOption L (opts c) OptionVendorSpecific of
              None \<Rightarrow> (Some Map.empty, True)
            | Some cur \<Rightarrow> om_Deserialize L (Some Map.empty) cur False)
         in if \<not> ok then Ok c
            else
              bind_go (om_SetOption L n subOpt s) (\<lambda>n'.
              map_ok (\<lambda>m. c\<lparr>opts := m\<rparr>)
                (om_SetOption L (opts c) OptionVendorSpecific (om_Serialize L n')))))"

lemmas config_defs [go_defs] =
  new_config_def ApplyTo_def Address_def Netmask_def Gateway_def Hostname_def Setup_def
  SetLeaseTime_def SetHostname_def SetDHCPServer_def SetDNSServers_def SetOpt43SubOpt_def

section \<open>Applying a configuration to a reply\<close>

lemma apply_opts_get:
  assumes "dhcp4_ok L" and "distinct ks"
  shows "pk_GetOption L (apply_opts L m ks rep) k =
    (if k \<in> set ks \<and> m k \<noteq> None then m k else pk_GetOption L rep k)"
  using assms(2)
  by (induction ks arbitrary: rep) (auto simp: pk_simps [OF assms(1)] split: option.splits)

lemma apply_opts_fields:
  assumes "dhcp4_ok L"
  shows "pk_GetYIAddr L (apply_opts L m ks rep) = pk_GetYIAddr L rep"
    and "pk_GetSIAddr L (apply_opts L m ks rep) = pk_GetSIAddr L rep"
    and "pk_File L (apply_opts L m ks rep) = pk_File L rep"
  by (induction ks arbitrary: rep; simp add: pk_simps [OF assms] split: option.splits)+

definition config_wf :: "config \<Rightarrow> bool" where
  "config_wf c \<longleftrightarrow> (if addr c = [] then opts c = None
     else length (addr c) = 4 \<and> (\<exists>m. opts c = Some m \<and> finite (dom m)))"

text \<open>The option map that a reply gets, as a function of the configuration alone.\<close>

definition config_options :: "config \<Rightarrow> (nat \<rightharpoonup> bytes)" where
  "config_options c = (case opts c of None \<Rightarrow> Map.empty | Some m \<Rightarrow> m)"

lemma ApplyTo_get:
  assumes "dhcp4_ok L" and "order_ok ord" and "config_wf c" and "addr c \<noteq> []"
  shows "pk_GetOption L (snd (ApplyTo L ord c rep)) = (pk_GetOption L rep ++ config_options c)"
proof
  fix k
  from assms(3,4) obtain m where m: "opts c = Some m" "finite (dom m)"
    by (auto simp: config_wf_def)
  with assms(2) have d: "distinct (ord m)" and s: "set (ord m) = dom m" by (auto simp: order_ok_def)
  show "pk_GetOption L (snd (ApplyTo L ord c rep)) k = (pk_GetOption L rep ++ config_options c) k"
    using assms(4) m s
    by (auto simp: ApplyTo_def config_options_def apply_opts_get [OF assms(1) d] pk_simps [OF assms(1)]
        map_add_def split: option.splits)
qed

text \<open>The increasing order of the keys, one of the orders a \<open>range\<close> may take.\<close>

definition key_order :: map_order where
  "key_order m = sorted_list_of_set (dom m)"

lemma order_ok_key_order: "order_ok key_order"
  by (simp add: order_ok_def key_order_def)

section \<open>The setters on a configuration with an address\<close>

lemma config_wf_cases:
  assumes "config_wf c" and "addr c \<noteq> []"
  obtains m where "opts c = Some m" and "finite (dom m)" and "length (addr c) = 4"
  using assms by (auto simp: config_wf_def)

lemma config_wf_update:
  "config_wf c \<Longrightarrow> addr c \<noteq> [] \<Longrightarrow> opts c = Some m \<Longrightarrow> config_wf (c\<lparr>opts := Some (m(k \<mapsto> v))\<rparr>)"
  by (auto simp: config_wf_def)

lemma Setup_v4:
  assumes "dhcp4_ok L" and "To4 a \<noteq> []"
  shows "Setup L a nm gw c = Ok (c\<lparr>addr := To4 a, opts := Some
    (\<lambda>k. if k = OptionRouter \<and> gw \<noteq> [] then Some (To4 gw)
         else if k = OptionSubnetMask \<and> nm \<noteq> [] then Some (To4 nm) else None)\<rparr>)"
  using assms(2) by (auto simp: Setup_def om_simps [OF assms(1)] option_codes fun_eq_iff)

lemma Setup_other: "To4 a = [] \<Longrightarrow> Setup L a nm gw c = Ok (c\<lparr>addr := [], opts := None\<rparr>)"
  by (simp add: Setup_def)

lemma Setup_wf: "dhcp4_ok L \<Longrightarrow> \<exists>c'. Setup L a nm gw c = Ok c' \<and> config_wf c' \<and> addr c' = To4 a"
proof (cases "To4 a = []")
  case False
  assume "dhcp4_ok L"
  have "dom (\<lambda>k. if k = OptionRouter \<and> gw \<noteq> [] then Some (To4 gw)
      else if k = OptionSubnetMask \<and> nm \<noteq> [] then Some (To4 nm) else None) \<subseteq> {OptionRouter, OptionSubnetMask}"
    by (auto simp: dom_def split: if_splits)
  then have "finite (dom (\<lambda>k. if k = OptionRouter \<and> gw \<noteq> [] then Some (To4 gw)
      else if k = OptionSubnetMask \<and> nm \<noteq> [] then Some (To4 nm) else None))"
    by (rule finite_subset) simp
  with False To4_length [of a] show ?thesis
    using \<open>dhcp4_ok L\<close> by (simp add: Setup_v4 config_wf_def)
qed (simp add: Setup_other config_wf_def)

lemma SetHostname_get:
  assumes "dhcp4_ok L" and "opts c = Some m"
  shows "SetHostname L s c = Ok (if s = [] then c else c\<lparr>opts := Some (m(OptionHostname \<mapsto> s))\<rparr>)"
  by (simp add: SetHostname_def om_simps [OF assms(1)] assms(2))

lemma SetDHCPServer_get:
  assumes "dhcp4_ok L" and "opts c = Some m"
  shows "SetDHCPServer L a c =
    Ok (if To4 a = [] then c else c\<lparr>opts := Some (m(OptionDHCPServerID \<mapsto> To4 a))\<rparr>)"
  by (simp add: SetDHCPServer_def om_simps [OF assms(1)] assms(2))

lemma SetDNSServers_get:
  assumes "dhcp4_ok L" and "opts c = Some m"
  shows "SetDNSServers L ips c =
    Ok (if dns_bytes ips = [] then c else c\<lparr>opts := Some (m(OptionDomainServer \<mapsto> dns_bytes ips))\<rparr>)"
  by (auto simp: SetDNSServers_def Let_def om_simps [OF assms(1)] assms(2))

lemma SetLeaseTime_get:
  assumes "dhcp4_ok L" and "opts c = Some m"
  obtains v where "length v = 4" and "SetLeaseTime L d c = Ok (c\<lparr>opts := Some (m(OptionAddressTime \<mapsto> v))\<rparr>)"
proof -
  obtain v where "length v = 4" and "om_SetDuration L (opts c) OptionAddressTime d = om_SetOption L (opts c) OptionAddressTime v"
    using om_SetDuration_ex [OF assms(1)] by metis
  then show ?thesis
    using that assms(2) by (simp add: SetLeaseTime_def om_simps [OF assms(1)])
qed

lemma SetLeaseTime_nil:
  assumes "dhcp4_ok L" and "opts c = None"
  shows "SetLeaseTime L d c = Fault NilMapWrite"
proof -
  obtain v where "om_SetDuration L (opts c) OptionAddressTime d = om_SetOption L (opts c) OptionAddressTime v"
    using om_SetDuration_ex [OF assms(1)] by metis
  then show ?thesis using assms(2) by (simp add: SetLeaseTime_def om_simps [OF assms(1)])
qed

text \<open>The bytes of the DNS option are the IPv4 servers, four bytes each and in order.\<close>

lemma dns_bytes_concat: "dns_bytes ips = concat (filter (\<lambda>b. b \<noteq> []) (map To4 ips))"
  by (induction ips) (auto simp: Let_def)

text \<open>
  C16: \<open>ApplyTo\<close> refuses a configuration without an address and leaves the reply as it is.
  Otherwise, whatever order the map is visited in, the reply has every option of the
  configuration, keeps its other options, its file and its next server, and gets the address.
\<close>

theorem ApplyTo_exact:
  assumes "dhcp4_ok L" and "order_ok ord" and "config_wf c"
  shows "if addr c = [] then ApplyTo L ord c rep = (False, rep)
    else fst (ApplyTo L ord c rep) \<and>
      pk_GetOption L (snd (ApplyTo L ord c rep)) = (pk_GetOption L rep ++ config_options c) \<and>
      pk_GetYIAddr L (snd (ApplyTo L ord c rep)) = addr c \<and>
      pk_GetSIAddr L (snd (ApplyTo L ord c rep)) = pk_GetSIAddr L rep \<and>
      pk_File L (snd (ApplyTo L ord c rep)) = pk_File L rep"
proof (cases "addr c = []")
  case False
  then obtain m where m: "opts c = Some m" and l: "length (addr c) = 4"
    using assms(3) by (auto elim: config_wf_cases)
  have "snd (ApplyTo L ord c rep) = apply_opts L m (ord m) (pk_SetYIAddr L rep (addr c))"
    and "fst (ApplyTo L ord c rep)"
    using False m by (simp_all add: ApplyTo_def)
  then show ?thesis
    using False ApplyTo_get [OF assms False, of rep]
    by (simp add: apply_opts_fields [OF assms(1)] pk_simps [OF assms(1)] l)
qed (simp add: ApplyTo_def)

text \<open>
  C17: setting a sub-option of option 43 keeps every other sub-option: when option 43 is absent, or
  is the encoding of a map, it decodes afterwards to that map with the one sub-option replaced,
  and no other option of the configuration changes.
\<close>

theorem SetOpt43SubOpt_keeps_others:
  assumes "dhcp4_ok L" and "opts c = Some m"
    and "m OptionVendorSpecific = (if n = Map.empty then None else Some (om_Serialize L (Some n)))"
    and "omap_wf n" and "s \<noteq> []" and "length s \<le> 255" and "1 \<le> k" and "k \<le> 254"
  shows "\<exists>b. SetOpt43SubOpt L k s c = Ok (c\<lparr>opts := Some (m(OptionVendorSpecific \<mapsto> b))\<rparr>) \<and>
    om_Deserialize L (Some Map.empty) b False = (Some (n(k \<mapsto> s)), True)"
proof -
  have wf: "omap_wf (n(k \<mapsto> s))" using assms(4,6,7,8) by (simp add: omap_wf_update)
  have "(case om_GetOption L (opts c) OptionVendorSpecific of None \<Rightarrow> (Some Map.empty, True)
      | Some cur \<Rightarrow> om_Deserialize L (Some Map.empty) cur False) = (Some n, True)"
    using assms(2,3) om_round_trip [OF assms(1,4)] by (simp add: om_simps [OF assms(1)])
  then have "SetOpt43SubOpt L k s c =
      Ok (c\<lparr>opts := Some (m(OptionVendorSpecific \<mapsto> om_Serialize L (Some (n(k \<mapsto> s)))))\<rparr>)"
    using assms(2,5) by (simp add: SetOpt43SubOpt_def om_simps [OF assms(1)])
  then show ?thesis using om_round_trip [OF assms(1) wf, of False] by blast
qed

section \<open>Samples\<close>

definition sample_config :: config where
  "sample_config = \<lparr>addr = [CHR 0xC0, CHR 0xA8, CHR 0x01, CHR 0x05], opts = Some [OptionHostname \<mapsto> ''node'']\<rparr>"

theorem ApplyTo_exact_witness:
  "pk_GetOption ref_dhcp4 (snd (ApplyTo ref_dhcp4 key_order sample_config sample_rep)) OptionHostname = Some ''node'' \<and>
   pk_GetYIAddr ref_dhcp4 (snd (ApplyTo ref_dhcp4 key_order sample_config sample_rep)) =
     [CHR 0xC0, CHR 0xA8, CHR 0x01, CHR 0x05]"
proof -
  have "config_wf sample_config" by (simp add: config_wf_def sample_config_def)
  from ApplyTo_exact [OF ref_dhcp4_ok order_ok_key_order this, of sample_rep]
  show ?thesis by (simp add: sample_config_def config_options_def)
qed

theorem SetOpt43SubOpt_keeps_others_witness:
  "\<exists>b. SetOpt43SubOpt ref_dhcp4 116 ''vlan100'' sample_config =
      Ok (sample_config\<lparr>opts := Some ([OptionHostname \<mapsto> ''node''](OptionVendorSpecific \<mapsto> b))\<rparr>) \<and>
    om_Deserialize ref_dhcp4 (Some Map.empty) b False = (Some (Map.empty(116 \<mapsto> ''vlan100'')), True)"
  by (rule SetOpt43SubOpt_keeps_others [OF ref_dhcp4_ok])
    (simp_all add: sample_config_def option_codes)

end
