(* ===== verification/Ipxe_Options.thy ===== *)
theory Ipxe_Options
  imports Dhcp4_Lib Conf
begin

text \<open>
  The iPXE side of DHCP, \<open>src/ipxe/dhcp_options.go\<close>: recognising iPXE clients, the encapsulated
  options of a reply, and the printing of encapsulated options.
\<close>

section \<open>Option and feature codes\<close>

definition EncapsulatedOptions :: nat where "EncapsulatedOptions = 175"
definition OptionNoPXEDHCP :: nat where "OptionNoPXEDHCP = 176"
definition FeatureHTTP :: nat where "FeatureHTTP = 19"

section \<open>Requests and replies\<close>

text \<open>The package variable: the encoding of the one option \<open>ipxe.no-pxedhcp\<close>.\<close>

definition encapOptions :: "'p dhcp4 \<Rightarrow> bytes" where
  "encapOptions L = om_Serialize L (Some [OptionNoPXEDHCP \<mapsto> [CHR 0x01]])"

definition ipxe_Setup :: "'p dhcp4 \<Rightarrow> conf \<Rightarrow> 'p \<Rightarrow> 'p" where
  "ipxe_Setup L c rep =
     pk_SetIP L (pk_SetOption L rep EncapsulatedOptions (encapOptions L)) OptionLogServer
       (PublicSyslogIPv4 c)"

definition IsTinkerbellIPXE :: "'p dhcp4 \<Rightarrow> 'p \<Rightarrow> bool" where
  "IsTinkerbellIPXE L req =
     ((case pk_GetOption L req OptionUserClass of None \<Rightarrow> [] | Some uc \<Rightarrow> uc) = ''Tinkerbell'')"

definition ParseOptions :: "'p dhcp4 \<Rightarrow> bytes \<Rightarrow> omap" where
  "ParseOptions L b =
     (let (nested, ok) = om_Deserialize L (Some Map.empty) b True in if ok then nested else None)"

definition GetEncapsulatedOptions :: "'p dhcp4 \<Rightarrow> 'p \<Rightarrow> omap" where
  "GetEncapsulatedOptions L req =
     (case pk_GetString L req OptionUserClass of
        Some v \<Rightarrow>
          if v \<noteq> ''iPXE'' then None
          else (case pk_GetOption L req EncapsulatedOptions of None \<Rightarrow> None | Some x \<Rightarrow> ParseOptions L x)
      | None \<Rightarrow> (case pk_GetOption L req EncapsulatedOptions of None \<Rightarrow> None | Some x \<Rightarrow> ParseOptions L x))"

definition HasFeature :: "'p dhcp4 \<Rightarrow> omap \<Rightarrow> nat \<Rightarrow> bool" where
  "HasFeature L om feature =
     (if om = None then False
      else case om_GetUint8 L om feature of None \<Rightarrow> False | Some v \<Rightarrow> v = 1)"

definition IsIPXE :: "'p dhcp4 \<Rightarrow> 'p \<Rightarrow> bool" where
  "IsIPXE L req =
     (let om = GetEncapsulatedOptions L req in om \<noteq> None \<and> HasFeature L om FeatureHTTP)"

section \<open>Printing of encapsulated options\<close>

datatype formatter = formatFeature | formatOption | formatVersion

record optionInfo =
  Name :: string
  Type :: string
  Format :: formatter

text \<open>The verb \<open>%d\<close> of a byte and \<open>%v\<close> of a byte slice.\<close>

definition fmt_bytes :: "bytes \<Rightarrow> string" where
  "fmt_bytes b = ''['' @ Join (map byte_dec b) '' '' @ '']''"

definition run_formatFeature :: "optionInfo \<Rightarrow> bytes \<Rightarrow> string \<times> string" where
  "run_formatFeature info b =
     (case b of
        [v] \<Rightarrow> (if Type info = ''bool'' \<and> v = CHR 0x01 then (Name info, ''true'') else (Name info, byte_dec v))
      | _ \<Rightarrow> (Name info, b))"

text \<open>
  The case \<open>"hex"\<close> allocates \<open>len(b)*2 + len(b) - 1\<close> bytes of capacity, a negative number for an empty
  value.
\<close>

definition run_formatOption :: "optionInfo \<Rightarrow> bytes \<Rightarrow> (string \<times> string) go" where
  "run_formatOption info b =
     (if Type info = ''string'' \<or> Type info = [] then Ok (Name info, fmt_bytes b)
      else if Type info = ''hex'' then
        (if int (length b) * 2 + int (length b) - 1 < 0 then Fault MakeSliceCap
         else Ok (Name info, fmt_bytes (Join (map hex_byte1 b) '':'')))
      else if Type info = ''bool'' \<and> b = [CHR 0x01] then Ok (Name info, ''true'')
      else if Type info = ''bool'' \<or> Type info = ''uint8'' \<or> Type info = ''int8'' then
        (case b of [v] \<Rightarrow> Ok (Name info, byte_dec v) | _ \<Rightarrow> Ok (Name info, fmt_bytes b))
      else Ok (Name info, fmt_bytes b))"

definition run_formatVersion :: "optionInfo \<Rightarrow> bytes \<Rightarrow> string \<times> string" where
  "run_formatVersion info b =
     (case b of
        [x, y, z] \<Rightarrow> (Name info, byte_dec x @ ''.'' @ byte_dec y @ ''.'' @ byte_dec z)
      | _ \<Rightarrow> (Name info, b))"

definition run_format :: "optionInfo \<Rightarrow> bytes \<Rightarrow> (string \<times> string) go" where
  "run_format info b =
     (case Format info of
        formatFeature \<Rightarrow> Ok (run_formatFeature info b)
      | formatOption \<Rightarrow> run_formatOption info b
      | formatVersion \<Rightarrow> Ok (run_formatVersion info b))"

definition options :: "nat \<rightharpoonup> optionInfo" where
  "options = map_of
    [(1, \<lparr>Name = ''ipxe.priority'', Type = ''int8'', Format = formatOption\<rparr>),
     (8, \<lparr>Name = ''ipxe.keep-san'', Type = ''bool'', Format = formatOption\<rparr>),
     (9, \<lparr>Name = ''ipxe.skip-san-boot'', Type = ''bool'', Format = formatOption\<rparr>),
     (85, \<lparr>Name = ''ipxe.syslogs'', Type = ''string'', Format = formatOption\<rparr>),
     (91, \<lparr>Name = ''ipxe.cert'', Type = ''hex'', Format = formatOption\<rparr>),
     (92, \<lparr>Name = ''ipxe.privkey'', Type = ''hex'', Format = formatOption\<rparr>),
     (93, \<lparr>Name = ''ipxe.crosscert'', Type = ''hex'', Format = formatOption\<rparr>),
     (176, \<lparr>Name = ''ipxe.no-pxedhcp'', Type = ''bool'', Format = formatOption\<rparr>),
     (177, \<lparr>Name = ''ipxe.bus-id'', Type = ''hex'', Format = formatOption\<rparr>),
     (189, \<lparr>Name = ''ipxe.bios-drive'', Type = ''uint8'', Format = formatOption\<rparr>),
     (190, \<lparr>Name = ''ipxe.username'', Type = ''string'', Format = formatOption\<rparr>),
     (191, \<lparr>Name = ''ipxe.password'', Type = ''string'', Format = formatOption\<rparr>),
     (192, \<lparr>Name = ''ipxe.reverse-username'', Type = ''string'', Format = formatOption\<rparr>),
     (193, \<lparr>Name = ''ipxe.reverse-password'', Type = ''string'', Format = formatOption\<rparr>),
     (235, \<lparr>Name = ''ipxe.version'', Type = ''string'', Format = formatVersion\<rparr>),
     (203, \<lparr>Name = ''iscsi-initiator-iqn'', Type = ''string'', Format = formatOption\<rparr>),
     (16, \<lparr>Name = ''ipxe.pxeext'', Type = ''uint8'', Format = formatFeature\<rparr>),
     (17, \<lparr>Name = ''ipxe.iscsi'', Type = ''bool'', Format = formatFeature\<rparr>),
     (18, \<lparr>Name = ''ipxe.aoe'', Type = ''bool'', Format = formatFeature\<rparr>),
     (19, \<lparr>Name = ''ipxe.http'', Type = ''bool'', Format = formatFeature\<rparr>),
     (20, \<lparr>Name = ''ipxe.https'', Type = ''bool'', Format = formatFeature\<rparr>),
     (21, \<lparr>Name = ''ipxe.tftp'', Type = ''bool'', Format = formatFeature\<rparr>),
     (22, \<lparr>Name = ''ipxe.ftp'', Type = ''bool'', Format = formatFeature\<rparr>),
     (23, \<lparr>Name = ''ipxe.dns'', Type = ''bool'', Format = formatFeature\<rparr>),
     (24, \<lparr>Name = ''ipxe.bzimage'', Type = ''bool'', Format = formatFeature\<rparr>),
     (25, \<lparr>Name = ''ipxe.multiboot'', Type = ''bool'', Format = formatFeature\<rparr>),
     (26, \<lparr>Name = ''ipxe.slam'', Type = ''bool'', Format = formatFeature\<rparr>),
     (27, \<lparr>Name = ''ipxe.srp'', Type = ''bool'', Format = formatFeature\<rparr>),
     (32, \<lparr>Name = ''ipxe.nbi'', Type = ''bool'', Format = formatFeature\<rparr>),
     (33, \<lparr>Name = ''ipxe.pxe'', Type = ''bool'', Format = formatFeature\<rparr>),
     (34, \<lparr>Name = ''ipxe.elf'', Type = ''bool'', Format = formatFeature\<rparr>),
     (35, \<lparr>Name = ''ipxe.comboot'', Type = ''bool'', Format = formatFeature\<rparr>),
     (36, \<lparr>Name = ''ipxe.efi'', Type = ''bool'', Format = formatFeature\<rparr>),
     (37, \<lparr>Name = ''ipxe.fcoe'', Type = ''bool'', Format = formatFeature\<rparr>),
     (38, \<lparr>Name = ''ipxe.vlan'', Type = ''bool'', Format = formatFeature\<rparr>),
     (39, \<lparr>Name = ''ipxe.menu'', Type = ''bool'', Format = formatFeature\<rparr>),
     (40, \<lparr>Name = ''ipxe.sdi'', Type = ''bool'', Format = formatFeature\<rparr>),
     (41, \<lparr>Name = ''ipxe.nfs'', Type = ''bool'', Format = formatFeature\<rparr>)]"

definition option_info :: "nat \<Rightarrow> optionInfo" where
  "option_info k =
     (case options k of
        Some info \<Rightarrow> info
      | None \<Rightarrow> \<lparr>Name = ''ipxe.option('' @ dec_digits k @ '')'', Type = [], Format = formatOption\<rparr>)"

fun format_fields :: "(nat \<rightharpoonup> bytes) \<Rightarrow> nat list \<Rightarrow> string list go" where
  "format_fields m [] = Ok []"
| "format_fields m (k # ks) =
     (case m k of
        None \<Rightarrow> format_fields m ks
      | Some v \<Rightarrow>
          bind_go (run_format (option_info k) v) (\<lambda>(n, s).
          map_ok (\<lambda>fs. n # s # fs) (format_fields m ks)))"

text \<open>\<open>ks\<close> is the order in which the \<open>range\<close> visits the map.\<close>

definition FormatOptions :: "nat list \<Rightarrow> omap \<Rightarrow> string list go" where
  "FormatOptions ks om = (case om of None \<Rightarrow> Ok [] | Some m \<Rightarrow> format_fields m ks)"

lemmas ipxe_option_defs [go_defs] =
  EncapsulatedOptions_def OptionNoPXEDHCP_def FeatureHTTP_def encapOptions_def ipxe_Setup_def
  IsTinkerbellIPXE_def ParseOptions_def GetEncapsulatedOptions_def HasFeature_def IsIPXE_def
  fmt_bytes_def run_formatFeature_def run_formatOption_def run_formatVersion_def run_format_def
  option_info_def FormatOptions_def

section \<open>Behaviour\<close>

lemma encap_round_trip:
  assumes "dhcp4_ok L"
  shows "ParseOptions L (encapOptions L) = Some [OptionNoPXEDHCP \<mapsto> [CHR 0x01]]"
proof -
  have "omap_wf [OptionNoPXEDHCP \<mapsto> [CHR 0x01]]"
    by (simp add: omap_wf_def OptionNoPXEDHCP_def)
  from om_round_trip [OF assms this, of True] show ?thesis
    by (simp add: ParseOptions_def encapOptions_def)
qed

lemma ipxe_Setup_fields:
  assumes "dhcp4_ok L"
  shows "pk_GetOption L (ipxe_Setup L c rep) = (pk_GetOption L rep)
      (EncapsulatedOptions \<mapsto> encapOptions L, OptionLogServer \<mapsto> To4 (PublicSyslogIPv4 c))"
    and "pk_GetYIAddr L (ipxe_Setup L c rep) = pk_GetYIAddr L rep"
    and "pk_GetSIAddr L (ipxe_Setup L c rep) = pk_GetSIAddr L rep"
    and "pk_File L (ipxe_Setup L c rep) = pk_File L rep"
  by (auto simp: ipxe_Setup_def pk_simps [OF assms] fun_eq_iff)

lemma GetEncapsulatedOptions_eq:
  "dhcp4_ok L \<Longrightarrow> GetEncapsulatedOptions L req =
     (if pk_GetOption L req OptionUserClass \<in> {None, Some ''iPXE''}
      then (case pk_GetOption L req EncapsulatedOptions of None \<Rightarrow> None | Some x \<Rightarrow> ParseOptions L x)
      else None)"
  by (auto simp: GetEncapsulatedOptions_def pk_simps split: option.splits)

lemma hex_option_info:
  "Format (option_info k) = formatOption \<and> Type (option_info k) = ''hex'' \<longleftrightarrow> k \<in> {91, 92, 93, 177}"
  by (simp add: option_info_def options_def)

lemma run_format_fault:
  "run_format (option_info k) v = Fault e \<longleftrightarrow> k \<in> {91, 92, 93, 177} \<and> v = [] \<and> e = MakeSliceCap"
proof -
  have "run_format info v = Fault e \<longleftrightarrow>
      Format info = formatOption \<and> Type info = ''hex'' \<and> v = [] \<and> e = MakeSliceCap" for info
    by (cases v) (auto simp: run_format_def run_formatOption_def split: formatter.splits list.splits)
  then show ?thesis unfolding hex_option_info [symmetric] by blast
qed

lemma format_fields_fault:
  "(\<exists>e. format_fields m ks = Fault e) \<longleftrightarrow>
     (\<exists>k \<in> set ks. \<exists>v e. m k = Some v \<and> run_format (option_info k) v = Fault e)"
proof (induction ks)
  case (Cons k ks)
  show ?case
  proof (cases "m k")
    case None
    with Cons show ?thesis by auto
  next
    case (Some v)
    show ?thesis
    proof (cases "run_format (option_info k) v")
      case (Ok r)
      with Some Cons show ?thesis by (cases r) auto
    next
      case (Fault e)
      with Some show ?thesis by auto
    qed
  qed
qed simp

text \<open>
  C30: printing the encapsulated options of a request panics exactly when one of the hexadecimal
  options (\<open>ipxe.cert\<close>, \<open>ipxe.privkey\<close>, \<open>ipxe.crosscert\<close>, \<open>ipxe.bus-id\<close>) is present with an empty value,
  because its buffer is then allocated with capacity -1.
\<close>

theorem FormatOptions_panics_iff:
  assumes "set ks = dom m"
  shows "(\<exists>e. FormatOptions ks (Some m) = Fault e) \<longleftrightarrow>
    (\<exists>k. (k = 91 \<or> k = 92 \<or> k = 93 \<or> k = 177) \<and> m k = Some [])"
  using assms unfolding FormatOptions_def option.case format_fields_fault run_format_fault
  by (auto simp: dom_def)

theorem FormatOptions_panics_iff_witness:
  "\<exists>e. FormatOptions [19, 91] (Some [19 \<mapsto> [CHR 0x01], 91 \<mapsto> []]) = Fault e"
proof -
  have "set [19, 91] = dom [19 \<mapsto> [CHR 0x01], 91 \<mapsto> []]" by auto
  from FormatOptions_panics_iff [OF this] show ?thesis by (auto intro: exI [of _ 91])
qed

section \<open>The numbers of the options\<close>

text \<open>The constants of the package, by their names.\<close>

definition option_consts :: "(string \<times> nat) list" where
  "option_consts =
    [(''EncapsulatedOptions'', 175), (''OptionPriority'', 1), (''OptionKeepSAN'', 8), (''OptionSkipSANBoot'', 9),
     (''OptionUserClass'', 77), (''OptionSyslogs'', 85), (''OptionCertificate'', 91), (''OptionPrivateKey'', 92),
     (''OptionCrossCert'', 93), (''OptionNoPXEDHCP'', 176), (''OptionBusID'', 177), (''OptionBIOSDrive'', 189),
     (''OptionUsername'', 190), (''OptionPassword'', 191), (''OptionReverseUsername'', 192),
     (''OptionReversePassword'', 193), (''OptionInitiatorIQN'', 203), (''OptionVersion'', 235)]"

definition feature_consts :: "(string \<times> nat) list" where
  "feature_consts =
    [(''FeaturePXEXT'', 16), (''FeatureISCSI'', 17), (''FeatureAoE'', 18), (''FeatureHTTP'', 19),
     (''FeatureHTTPS'', 20), (''FeatureTFTP'', 21), (''FeatureFTP'', 22), (''FeatureDNS'', 23),
     (''FeatureBzImage'', 24), (''FeatureMultiboot'', 25), (''FeatureSLAM'', 26), (''FeatureSRP'', 27),
     (''FeatureNBI'', 32), (''FeaturePXE'', 33), (''FeatureELF'', 34), (''FeatureCOMBOOT'', 35), (''FeatureEFI'', 36),
     (''FeatureFCoE'', 37), (''FeatureVLAN'', 38), (''FeatureMenu'', 39), (''FeatureSDI'', 40), (''FeatureNFS'', 41)]"

text \<open>No number is used twice, and every one but the encapsulation itself and the user class has a printed name.\<close>

lemma consts_distinct: "distinct (map snd (option_consts @ feature_consts))"
  by code_simp

lemma consts_have_names:
  "list_all (\<lambda>(n, k). options k = None \<longleftrightarrow> n = ''EncapsulatedOptions'' \<or> n = ''OptionUserClass'') (option_consts @ feature_consts)"
  by (simp add: option_consts_def feature_consts_def options_def)

end
