(* ===== verification/Dhcp_Pxe.thy ===== *)
theory Dhcp_Pxe
  imports Ipxe_Options
begin

text \<open>
  PXE requests and replies, \<open>src/dhcp/pxe.go\<close> and \<open>src/dhcp/dhcp.go\<close>.  The span context that
  \<open>trace.SpanContextFromContext\<close> reads from the context is the argument \<open>sc\<close>.
\<close>

section \<open>The client architecture\<close>

definition procArchTypes :: "string list" where
  "procArchTypes =
    [''x86 BIOS'', ''NEC/PC98 (DEPRECATED)'', ''Itanium'', ''DEC Alpha (DEPRECATED)'',
     ''Arc x86 (DEPRECATED)'', ''Intel Lean Client (DEPRECATED)'', ''x86 UEFI'', ''x64 UEFI'',
     ''EFI Xscale (DEPRECATED)'', ''EBC'', ''ARM 32-bit UEFI'', ''ARM 64-bit UEFI'',
     ''PowerPC Open Firmware'', ''PowerPC ePAPR'', ''POWER OPAL v3'', ''x86 uefi boot from http'',
     ''x64 uefi boot from http'', ''ebc boot from http'', ''arm uefi 32 boot from http'',
     ''arm uefi 64 boot from http'', ''pc/at bios boot from http'', ''arm 32 uboot'',
     ''arm 64 uboot'', ''arm uboot 32 boot from http'', ''arm uboot 64 boot from http'',
     ''RISC-V 32-bit UEFI'', ''RISC-V 32-bit UEFI boot from http'', ''RISC-V 64-bit UEFI'',
     ''RISC-V 64-bit UEFI boot from http'', ''RISC-V 128-bit UEFI'',
     ''RISC-V 128-bit UEFI boot from http'', ''s390 Basic'', ''s390 Extended'']"

definition ProcessorArchType :: "'p dhcp4 \<Rightarrow> 'p \<Rightarrow> string" where
  "ProcessorArchType L req =
     (case pk_GetUint16 L req OptionClientSystem of
        None \<Rightarrow> []
      | Some v \<Rightarrow> if v \<ge> length procArchTypes then [] else procArchTypes ! v)"

definition Arch :: "'p dhcp4 \<Rightarrow> 'p \<Rightarrow> string" where
  "Arch L req =
     (let arch = ProcessorArchType L req
      in if arch = ''x86 BIOS'' \<or> arch = ''x64 UEFI'' \<or> arch = ''x64 uefi boot from http'' then ''x86_64''
         else if arch = ''ARM 64-bit UEFI'' \<or> arch = ''arm uefi 64 boot from http'' then ''aarch64''
         else arch)"

definition IsARM :: "'p dhcp4 \<Rightarrow> 'p \<Rightarrow> bool" where
  "IsARM L req = Contains (ToLower (ProcessorArchType L req)) ''arm''"

definition IsUEFI :: "'p dhcp4 \<Rightarrow> 'p \<Rightarrow> bool" where
  "IsUEFI L req = Contains (ToLower (ProcessorArchType L req)) ''uefi''"

section \<open>PXE requests and replies\<close>

definition IsPXE :: "'p dhcp4 \<Rightarrow> 'p \<Rightarrow> bool" where
  "IsPXE L req =
     (if pk_GetOption L req OptionUUIDGUID \<noteq> None then True
      else case pk_GetString L req OptionClassID of
             None \<Rightarrow> False
           | Some cls \<Rightarrow> HasPrefix cls ''PXEClient'' \<or> HasPrefix cls ''HTTPClient'')"

definition IsHTTPClient :: "'p dhcp4 \<Rightarrow> 'p \<Rightarrow> bool" where
  "IsHTTPClient L req =
     (if IsIPXE L req then True
      else case pk_GetString L req OptionClassID of
             None \<Rightarrow> False
           | Some classID \<Rightarrow> HasPrefix classID ''HTTPClient'')"

definition copyGUID :: "'p dhcp4 \<Rightarrow> 'p \<Rightarrow> 'p \<Rightarrow> bool \<times> 'p" where
  "copyGUID L rep req =
     (case pk_GetOption L req OptionUUIDGUID of
        None \<Rightarrow> (False, rep)
      | Some guid \<Rightarrow>
          if length guid \<noteq> 17 \<or> guid ! 0 \<noteq> CHR 0x00 then (False, rep)
          else (True, pk_SetOption L rep OptionUUIDGUID guid))"

record spanctx =
  TraceID :: bytes
  SpanID :: bytes
  TraceFlags :: char

text \<open>\<open>trace.SpanContext.IsSampled\<close>: bit 0 of the flags\<close>

definition IsSampled :: "spanctx \<Rightarrow> bool" where
  "IsSampled sc \<longleftrightarrow> odd (of_char (TraceFlags sc) :: nat)"

text \<open>The Go types \<open>[16]byte\<close> and \<open>[8]byte\<close> of the two identifiers.\<close>

definition spanctx_ok :: "spanctx \<Rightarrow> bool" where
  "spanctx_ok sc \<longleftrightarrow> length (TraceID sc) = 16 \<and> length (SpanID sc) = 8"

definition binaryTpFromContext :: "spanctx \<Rightarrow> bytes" where
  "binaryTpFromContext sc =
     [CHR 0x00] @ TraceID sc @ SpanID sc @ (if IsSampled sc then [CHR 0x01] else [CHR 0x00])"

definition SetupPXE :: "'p dhcp4 \<Rightarrow> spanctx \<Rightarrow> 'p \<Rightarrow> 'p \<Rightarrow> (bool \<times> 'p) go" where
  "SetupPXE L sc rep req =
     (if \<not> IsPXE L req then Ok (False, rep)
      else
        (let rep1 = snd (copyGUID L rep req);
             pxeVendorOptions =
               (case pk_GetOption L rep1 OptionVendorSpecific of
                  None \<Rightarrow> Some Map.empty
                | Some cur \<Rightarrow> fst (om_Deserialize L (Some Map.empty) cur False))
         in case pxeVendorOptions of
              None \<Rightarrow> Fault NilMapWrite
            | Some m \<Rightarrow>
                Ok (True, pk_SetOption L rep1 OptionVendorSpecific
                  (om_Serialize L (Some (m(6 \<mapsto> [CHR 0x08], 69 \<mapsto> binaryTpFromContext sc)))))))"

text \<open>\<open>copy(file, filename)\<close> overwrites the first bytes of the field; a \<open>Fatal\<close> ends the process.\<close>

definition SetFilename :: "'p dhcp4 \<Rightarrow> 'p \<Rightarrow> string \<Rightarrow> ip \<Rightarrow> bool \<Rightarrow> string \<Rightarrow> 'p go" where
  "SetFilename L rep filename nextServer httpClient httpServerFQDN =
     (let rep1 = pk_SetSIAddr L rep (To4 nextServer);
          filename1 = (if httpClient then ''http://'' @ path_Join [httpServerFQDN, filename] else filename);
          rep2 = (if httpClient then pk_SetString L rep1 OptionClassID ''HTTPClient'' else rep1);
          file = pk_File L rep2
      in if length filename1 > length file then Fault (FatalLog ''filename too long, would be truncated'')
         else Ok (pk_setFile L rep2 (filename1 @ drop (length filename1) file)))"

section \<open>Replies\<close>

datatype 'p reply = Ack 'p | Offer 'p

definition includeOption82 :: "'p dhcp4 \<Rightarrow> 'p \<Rightarrow> 'p \<Rightarrow> 'p" where
  "includeOption82 L req res =
     (case pk_GetOption L req OptionRelayAgentInformation of
        None \<Rightarrow> res
      | Some opt82 \<Rightarrow> pk_SetOption L res OptionRelayAgentInformation opt82)"

definition NewAck :: "'p dhcp4 \<Rightarrow> 'p \<Rightarrow> 'p reply" where
  "NewAck L req = Ack (includeOption82 L req (CreateAck L req))"

definition NewOffer :: "'p dhcp4 \<Rightarrow> 'p \<Rightarrow> 'p reply" where
  "NewOffer L req = Offer (includeOption82 L req (CreateOffer L req))"

definition NewReply :: "'p dhcp4 \<Rightarrow> 'p \<Rightarrow> 'p reply option" where
  "NewReply L req =
     (let t = pk_GetMessageType L req
      in if t = MessageTypeDiscover then Some (NewOffer L req)
         else if t = MessageTypeRequest then Some (NewAck L req)
         else None)"

fun Packet :: "'p reply \<Rightarrow> 'p" where
  "Packet (Ack p) = p"
| "Packet (Offer p) = p"

text \<open>\<open>write\<close> is the reply writer of the server; its error is wrapped.\<close>

fun Send :: "('p \<Rightarrow> string option) \<Rightarrow> 'p reply \<Rightarrow> string option" where
  "Send write (Ack p) = map_option (\<lambda>e. ''failed to write ACK: '' @ e) (write p)"
| "Send write (Offer p) = map_option (\<lambda>e. ''failed to write OFFER: '' @ e) (write p)"

lemmas pxe_defs [go_defs] =
  ProcessorArchType_def Arch_def IsARM_def IsUEFI_def IsPXE_def IsHTTPClient_def copyGUID_def
  binaryTpFromContext_def SetupPXE_def SetFilename_def includeOption82_def NewAck_def NewOffer_def
  NewReply_def

section \<open>The architecture tables\<close>

lemma length_procArchTypes: "length procArchTypes = 33"
  by (simp add: procArchTypes_def)

lemma uefi_table:
  "[v \<leftarrow> [0..<33]. Contains (ToLower (procArchTypes ! v)) ''uefi''] =
   [6, 7, 10, 11, 15, 16, 18, 19, 25, 26, 27, 28, 29, 30]"
  by code_simp

lemma arm_table:
  "[v \<leftarrow> [0..<33]. Contains (ToLower (procArchTypes ! v)) ''arm''] = [10, 11, 18, 19, 21, 22, 23, 24]"
  by code_simp

lemma filter_upt_iff: "[v \<leftarrow> [0..<n]. P v] = xs \<Longrightarrow> v < n \<and> P v \<longleftrightarrow> v \<in> set xs"
  by auto

lemma arch_contains:
  "ProcessorArchType L req = [] \<or> (\<exists>v. pk_GetUint16 L req OptionClientSystem = Some v \<and> v < 33 \<and>
     ProcessorArchType L req = procArchTypes ! v)"
  by (auto simp: ProcessorArchType_def length_procArchTypes split: option.splits)

text \<open>
  The client architecture decides the firmware flags exactly as the IANA table says: UEFI for
  the listed codes, Arm for the listed codes, and neither for a request without the option or with
  a code past the table.
\<close>

lemma firmware_flags:
  "(IsUEFI L req \<longleftrightarrow> (\<exists>v. pk_GetUint16 L req OptionClientSystem = Some v \<and>
      v \<in> {6, 7, 10, 11, 15, 16, 18, 19, 25, 26, 27, 28, 29, 30})) \<and>
   (IsARM L req \<longleftrightarrow> (\<exists>v. pk_GetUint16 L req OptionClientSystem = Some v \<and>
      v \<in> {10, 11, 18, 19, 21, 22, 23, 24}))"
proof (cases "pk_GetUint16 L req OptionClientSystem")
  case None
  then show ?thesis by (simp add: IsUEFI_def IsARM_def ProcessorArchType_def ToLower_def)
next
  case (Some v)
  show ?thesis
  proof (cases "v < 33")
    case True
    have "Contains (ToLower (procArchTypes ! v)) ''uefi'' \<longleftrightarrow>
        v \<in> set [6, 7, 10, 11, 15, 16, 18, 19, 25, 26, 27, 28, 29, 30]"
      using filter_upt_iff [OF uefi_table, of v] True by blast
    moreover have "Contains (ToLower (procArchTypes ! v)) ''arm'' \<longleftrightarrow> v \<in> set [10, 11, 18, 19, 21, 22, 23, 24]"
      using filter_upt_iff [OF arm_table, of v] True by blast
    ultimately show ?thesis
      using Some True by (simp add: IsUEFI_def IsARM_def ProcessorArchType_def length_procArchTypes)
  next
    case False
    with Some show ?thesis
      by (auto simp: IsUEFI_def IsARM_def ProcessorArchType_def length_procArchTypes ToLower_def)
  qed
qed

section \<open>Replies to PXE clients\<close>

lemma copyGUID_fields:
  assumes "dhcp4_ok L"
  shows "k \<noteq> OptionUUIDGUID \<Longrightarrow> pk_GetOption L (snd (copyGUID L rep req)) k = pk_GetOption L rep k"
    and "pk_GetYIAddr L (snd (copyGUID L rep req)) = pk_GetYIAddr L rep"
    and "pk_GetSIAddr L (snd (copyGUID L rep req)) = pk_GetSIAddr L rep"
    and "pk_File L (snd (copyGUID L rep req)) = pk_File L rep"
  by (auto simp: copyGUID_def pk_simps [OF assms] split: option.splits)

lemma copyGUID_get:
  assumes "dhcp4_ok L"
  shows "pk_GetOption L (snd (copyGUID L rep req)) OptionUUIDGUID =
    (case pk_GetOption L req OptionUUIDGUID of
       Some g \<Rightarrow> if length g = 17 \<and> hd g = CHR 0x00 then Some g else pk_GetOption L rep OptionUUIDGUID
     | None \<Rightarrow> pk_GetOption L rep OptionUUIDGUID)"
proof (cases "pk_GetOption L req OptionUUIDGUID")
  case (Some g)
  then show ?thesis by (cases g) (auto simp: copyGUID_def pk_simps [OF assms])
qed (simp add: copyGUID_def)

lemma length_binaryTp: "spanctx_ok sc \<Longrightarrow> length (binaryTpFromContext sc) = 26"
  by (simp add: binaryTpFromContext_def spanctx_ok_def)

text \<open>The sub-options of option 43 that a reply has, as far as they decode.\<close>

definition vendor_options :: "'p dhcp4 \<Rightarrow> 'p \<Rightarrow> omap" where
  "vendor_options L p =
     (case pk_GetOption L p OptionVendorSpecific of
        None \<Rightarrow> Some Map.empty
      | Some cur \<Rightarrow> fst (om_Deserialize L (Some Map.empty) cur False))"

lemma vendor_options_wf:
  assumes "dhcp4_ok L"
  obtains g where "vendor_options L p = Some g" and "omap_wf g"
proof (cases "pk_GetOption L p OptionVendorSpecific")
  case None
  with that show ?thesis by (simp add: vendor_options_def)
next
  case (Some cur)
  with that om_Deserialize_wf [OF assms omap_wf_empty, of cur False] show ?thesis
    by (force simp: vendor_options_def)
qed

lemma SetupPXE_pxe:
  assumes "dhcp4_ok L" and "IsPXE L req"
  obtains g where "vendor_options L rep = Some g" and "omap_wf g"
    and "SetupPXE L sc rep req = Ok (True, pk_SetOption L (snd (copyGUID L rep req)) OptionVendorSpecific
        (om_Serialize L (Some (g(6 \<mapsto> [CHR 0x08], 69 \<mapsto> binaryTpFromContext sc)))))"
proof -
  obtain g where g: "vendor_options L rep = Some g" "omap_wf g"
    using vendor_options_wf [OF assms(1)] .
  have "OptionVendorSpecific \<noteq> OptionUUIDGUID" by (simp add: option_codes)
  note same = copyGUID_fields(1) [OF assms(1) this, of rep req]
  have "(case pk_GetOption L (snd (copyGUID L rep req)) OptionVendorSpecific of None \<Rightarrow> Some Map.empty
      | Some cur \<Rightarrow> fst (om_Deserialize L (Some Map.empty) cur False)) = Some g"
    using g(1) unfolding same vendor_options_def .
  with assms(2) g that show ?thesis by (simp add: SetupPXE_def Let_def)
qed

text \<open>
  C13: for a PXE request, \<open>SetupPXE\<close> succeeds and the reply's option 43 decodes to the sub-options it
  had before, with discovery control (6) and the 26-byte trace parent (69) set: a sub-option that
  an earlier step added is not lost.  A client GUID is echoed only when it has 17 bytes and type 0.
  Every other option, the addresses and the file stay as they are; a request that is not PXE leaves
  the reply untouched.
\<close>

theorem SetupPXE_keeps_vendor_options:
  assumes "dhcp4_ok L" and "spanctx_ok sc"
  shows "if \<not> IsPXE L req then SetupPXE L sc rep req = Ok (False, rep)
    else \<exists>rep' g. SetupPXE L sc rep req = Ok (True, rep') \<and> vendor_options L rep = Some g \<and>
      vendor_options L rep' = Some (g(6 \<mapsto> [CHR 0x08], 69 \<mapsto> binaryTpFromContext sc)) \<and>
      length (binaryTpFromContext sc) = 26 \<and>
      pk_GetOption L rep' OptionUUIDGUID =
        (case pk_GetOption L req OptionUUIDGUID of
           Some guid \<Rightarrow> if length guid = 17 \<and> hd guid = CHR 0x00 then Some guid else pk_GetOption L rep OptionUUIDGUID
         | None \<Rightarrow> pk_GetOption L rep OptionUUIDGUID) \<and>
      (\<forall>k. k \<noteq> OptionUUIDGUID \<longrightarrow> k \<noteq> OptionVendorSpecific \<longrightarrow> pk_GetOption L rep' k = pk_GetOption L rep k) \<and>
      pk_GetYIAddr L rep' = pk_GetYIAddr L rep \<and> pk_GetSIAddr L rep' = pk_GetSIAddr L rep \<and>
      pk_File L rep' = pk_File L rep"
proof (cases "IsPXE L req")
  case True
  obtain g where g: "vendor_options L rep = Some g" "omap_wf g"
    and s: "SetupPXE L sc rep req = Ok (True, pk_SetOption L (snd (copyGUID L rep req)) OptionVendorSpecific
        (om_Serialize L (Some (g(6 \<mapsto> [CHR 0x08], 69 \<mapsto> binaryTpFromContext sc)))))" (is "_ = Ok (True, ?rep')")
    by (rule SetupPXE_pxe [OF assms(1) True])
  have wf: "omap_wf (g(6 \<mapsto> [CHR 0x08], 69 \<mapsto> binaryTpFromContext sc))"
    using g(2) length_binaryTp [OF assms(2)] by (simp add: omap_wf_update)
  have "vendor_options L ?rep' = Some (g(6 \<mapsto> [CHR 0x08], 69 \<mapsto> binaryTpFromContext sc))"
    using om_round_trip [OF assms(1) wf, of False] by (simp add: vendor_options_def pk_simps [OF assms(1)])
  moreover have "OptionUUIDGUID \<noteq> OptionVendorSpecific" by (simp add: option_codes)
  ultimately show ?thesis
    using True s g(1) length_binaryTp [OF assms(2)] copyGUID_get [OF assms(1), of rep req]
    by (simp add: pk_simps [OF assms(1)] copyGUID_fields [OF assms(1)])
qed (simp add: SetupPXE_def)

lemma path_Join_simple:
  assumes "h \<noteq> []" and "f \<noteq> []" and "CHR ''/'' \<notin> set h" and "CHR ''/'' \<notin> set f"
    and "h \<notin> {''.'', ''..''}" and "f \<notin> {''.'', ''..''}"
  shows "path_Join [h, f] = h @ ''/'' @ f"
proof -
  have "hd (h @ CHR ''/'' # f) \<noteq> CHR ''/''" using assms(1,3) by (cases h) auto
  moreover have "Split (h @ CHR ''/'' # f) (CHR ''/'') = [h, f]"
    using assms(3,4) by (simp add: Split_append_sep Split_no_occurrence)
  ultimately show ?thesis
    using assms by (simp add: path_Join_def path_Clean_def Let_def)
qed

text \<open>
  C14: \<open>SetFilename\<close> never sends a truncated name: it stops the process exactly when the name, with
  the \<open>http://\<close> host prefix for HTTP clients, is longer than the 128-byte field, and otherwise the
  field starts with the whole name and keeps the bytes after it, the next server is set, and HTTP
  clients get the class identifier \<open>HTTPClient\<close>.
\<close>

theorem SetFilename_exact:
  assumes "dhcp4_ok L" and "length (To4 nextServer) = 4"
    and "name = (if http then ''http://'' @ path_Join [fqdn, filename] else filename)"
  shows "if length name > 128
    then SetFilename L rep filename nextServer http fqdn = Fault (FatalLog ''filename too long, would be truncated'')
    else \<exists>rep'. SetFilename L rep filename nextServer http fqdn = Ok rep' \<and>
      pk_File L rep' = name @ drop (length name) (pk_File L rep) \<and>
      pk_GetSIAddr L rep' = To4 nextServer \<and> pk_GetYIAddr L rep' = pk_GetYIAddr L rep \<and>
      pk_GetOption L rep' = (if http then (pk_GetOption L rep)(OptionClassID \<mapsto> ''HTTPClient'') else pk_GetOption L rep)"
  using assms(2)
  by (auto simp: SetFilename_def Let_def assms(3) pk_simps [OF assms(1)] fun_eq_iff)

text \<open>
  C15: a reply exists exactly for DISCOVER (an OFFER) and REQUEST (an ACK), has an empty file field,
  and carries the relay agent information of the request unchanged, as RFC 3046 requires.
\<close>

theorem NewReply_exact:
  assumes "dhcp4_ok L"
  shows "case NewReply L req of
      None \<Rightarrow> pk_GetMessageType L req \<noteq> MessageTypeDiscover \<and> pk_GetMessageType L req \<noteq> MessageTypeRequest
    | Some r \<Rightarrow>
        (pk_GetMessageType L req = MessageTypeDiscover \<and> pk_GetMessageType L (Packet r) = MessageTypeOffer \<or>
         pk_GetMessageType L req = MessageTypeRequest \<and> pk_GetMessageType L (Packet r) = MessageTypeAck) \<and>
        pk_File L (Packet r) = replicate 128 (CHR 0x00) \<and>
        (\<forall>v. pk_GetOption L req OptionRelayAgentInformation = Some v \<longrightarrow>
             pk_GetOption L (Packet r) OptionRelayAgentInformation = Some v)"
  by (auto simp: NewReply_def NewAck_def NewOffer_def includeOption82_def Let_def
      pk_simps [OF assms] reply_simps [OF assms] OptionRelayAgentInformation_def split: option.splits)

section \<open>Samples\<close>

definition sample_sc :: spanctx where
  "sample_sc = \<lparr>TraceID = replicate 16 (CHR 0xAB), SpanID = replicate 8 (CHR 0xCD), TraceFlags = CHR 0x01\<rparr>"

lemma sample_IsPXE: "IsPXE ref_dhcp4 sample_req"
  by (simp add: IsPXE_def ref_dhcp4_def sample_req_def option_codes HasPrefix_def)

lemma sample_sc_ok: "spanctx_ok sample_sc"
  by (simp add: spanctx_ok_def sample_sc_def)

theorem SetupPXE_keeps_vendor_options_witness:
  "\<exists>rep'. SetupPXE ref_dhcp4 sample_sc sample_rep sample_req = Ok (True, rep') \<and>
     vendor_options ref_dhcp4 rep' = Some [6 \<mapsto> [CHR 0x08], 69 \<mapsto> binaryTpFromContext sample_sc] \<and>
     pk_File ref_dhcp4 rep' = pk_File ref_dhcp4 sample_rep"
proof -
  have "vendor_options ref_dhcp4 sample_rep = Some Map.empty"
    by (simp add: vendor_options_def ref_dhcp4_def sample_rep_def ref_reply_def option_codes)
  with SetupPXE_keeps_vendor_options [OF ref_dhcp4_ok sample_sc_ok, of sample_req sample_rep]
  show ?thesis by (auto simp: sample_IsPXE)
qed

theorem SetFilename_exact_witness:
  "\<exists>rep'. SetFilename ref_dhcp4 sample_rep ''snp.efi'' [CHR 0xC0, CHR 0xA8, CHR 0x01, CHR 0x01] False [] = Ok rep' \<and>
     pk_File ref_dhcp4 rep' = ''snp.efi'' @ replicate 121 (CHR 0x00)"
proof -
  have "length (To4 [CHR 0xC0, CHR 0xA8, CHR 0x01, CHR 0x01]) = 4" by (simp add: To4_def)
  from SetFilename_exact [OF ref_dhcp4_ok this refl, of False "[]" "''snp.efi''" sample_rep]
  show ?thesis by (auto simp: ref_dhcp4_def sample_rep_def ref_reply_def)
qed

theorem NewReply_exact_witness:
  "\<exists>r. NewReply ref_dhcp4 sample_req = Some r \<and> pk_GetMessageType ref_dhcp4 (Packet r) = MessageTypeOffer"
proof -
  have "pk_GetMessageType ref_dhcp4 sample_req = MessageTypeDiscover"
    by (simp add: ref_dhcp4_def ref_type_def sample_req_def MessageTypeDiscover_def)
  with NewReply_exact [OF ref_dhcp4_ok, of sample_req] show ?thesis
    by (auto simp: MessageTypeDiscover_def MessageTypeRequest_def split: option.splits)
qed

end
