(* ===== verification/Go_Json.thy ===== *)
theory Go_Json
  imports Go_Net
begin

text \<open>
  The encoder of package \<open>encoding/json\<close>, as far as the sources use it: strings with the HTML-safe
  escapes, numbers, booleans, lists and objects with their keys in order.
\<close>

section \<open>Strings\<close>

definition in_range :: "char \<Rightarrow> nat \<Rightarrow> nat \<Rightarrow> bool" where
  "in_range c lo hi \<longleftrightarrow> lo \<le> of_char c \<and> of_char c \<le> hi"

text \<open>The length of the valid UTF-8 sequence that starts a string with a byte of at least 0x80, or 0.\<close>

definition rune_len :: "bytes \<Rightarrow> nat" where
  "rune_len b =
     (case b of
        c0 # c1 # r \<Rightarrow>
          if in_range c0 194 223 \<and> in_range c1 128 191 then 2
          else
            (case r of
               c2 # r' \<Rightarrow>
                 if in_range c2 128 191 \<and>
                    (of_char c0 = (224 :: nat) \<and> in_range c1 160 191 \<or>
                     (in_range c0 225 236 \<or> in_range c0 238 239) \<and> in_range c1 128 191 \<or>
                     of_char c0 = (237 :: nat) \<and> in_range c1 128 159) then 3
                 else
                   (case r' of
                      c3 # _ \<Rightarrow>
                        if in_range c2 128 191 \<and> in_range c3 128 191 \<and>
                           (of_char c0 = (240 :: nat) \<and> in_range c1 144 191 \<or>
                            in_range c0 241 243 \<and> in_range c1 128 191 \<or>
                            of_char c0 = (244 :: nat) \<and> in_range c1 128 143) then 4
                        else 0
                    | [] \<Rightarrow> 0)
             | [] \<Rightarrow> 0)
      | _ \<Rightarrow> 0)"

definition json_ascii :: "char \<Rightarrow> string" where
  "json_ascii c =
     (if c = CHR 0x5C \<or> c = CHR 0x22 then [CHR 0x5C, c]
      else if c = CHR 0x0A then [CHR 0x5C, CHR ''n'']
      else if c = CHR 0x0D then [CHR 0x5C, CHR ''r'']
      else if c = CHR 0x09 then [CHR 0x5C, CHR ''t'']
      else if of_char c < (32 :: nat) \<or> c = CHR ''<'' \<or> c = CHR ''>'' \<or> c = CHR ''&'' then
        CHR 0x5C # ''u00'' @ hex_byte2 c
      else [c])"

text \<open>The fuel is the length of the string: every step consumes at least one byte.\<close>

fun json_chars :: "nat \<Rightarrow> bytes \<Rightarrow> string" where
  "json_chars 0 s = []"
| "json_chars (Suc n) [] = []"
| "json_chars (Suc n) (c # s) =
     (if of_char c < (128 :: nat) then json_ascii c @ json_chars n s
      else
        (let k = rune_len (c # s)
         in if k = 0 then CHR 0x5C # ''ufffd'' @ json_chars n s
            else if take k (c # s) = [CHR 0xE2, CHR 0x80, CHR 0xA8] \<or> take k (c # s) = [CHR 0xE2, CHR 0x80, CHR 0xA9]
            then CHR 0x5C # ''u202'' @ [hex_digit (of_char (s ! 1) mod 16)] @ json_chars n (drop (k - 1) s)
            else take k (c # s) @ json_chars n (drop (k - 1) s)))"

definition json_string :: "string \<Rightarrow> string" where
  "json_string s = [CHR 0x22] @ json_chars (length s) s @ [CHR 0x22]"

section \<open>Values\<close>

text \<open>
  The values that \<open>encoding/json\<close> gives an \<open>interface{}\<close>.  A number is a \<open>float64\<close>: an integer, or another one by
  the text that prints it.
\<close>

datatype jval =
    JNull
  | JBool bool
  | JNum int
  | JFloat string
  | JStr string
  | JList "jval list"
  | JObj "(string \<times> jval) list"

fun json_Marshal :: "jval \<Rightarrow> string" where
  "json_Marshal JNull = ''null''"
| "json_Marshal (JBool b) = (if b then ''true'' else ''false'')"
| "json_Marshal (JNum n) = Itoa n"
| "json_Marshal (JFloat t) = t"
| "json_Marshal (JStr s) = json_string s"
| "json_Marshal (JList vs) = ''['' @ Join (map json_Marshal vs) '','' @ '']''"
| "json_Marshal (JObj kvs) =
     ''{'' @ Join (map (\<lambda>(k, v). json_string k @ '':'' @ json_Marshal v) kvs) '','' @ ''}''"

lemmas json_defs [go_defs] = in_range_def rune_len_def json_ascii_def json_string_def

section \<open>Encoded strings are closed\<close>

text \<open>
  A scanner of JSON string bodies: it stops at the first quote that is not escaped.  An encoded
  string is closed by its own last quote, whatever it contains.
\<close>

fun scan_body :: "string \<Rightarrow> string option" where
  "scan_body [] = None"
| "scan_body (c # s) =
     (if c = CHR 0x22 then Some s
      else if c = CHR 0x5C then (case s of [] \<Rightarrow> None | _ # s' \<Rightarrow> scan_body s')
      else scan_body s)"

definition plain :: "char \<Rightarrow> bool" where
  "plain c \<longleftrightarrow> c \<noteq> CHR 0x22 \<and> c \<noteq> CHR 0x5C"

lemma scan_body_plain: "list_all plain p \<Longrightarrow> scan_body (p @ s) = scan_body s"
  by (induction p) (auto simp: plain_def)

lemma hex_digits_plain: "list_all (\<lambda>n. plain (hex_digit n)) [0..<16]"
  by code_simp

lemma plain_hex_digit: "n < 16 \<Longrightarrow> plain (hex_digit n)"
  using hex_digits_plain by (simp add: list_all_iff)

lemma plain_hex_byte2: "list_all plain (hex_byte2 c)"
  by (simp add: hex_byte2_def plain_hex_digit less_mult_imp_div_less of_char_lt)

lemma scan_json_ascii: "scan_body (json_ascii c @ s) = scan_body s"
proof -
  have u: "list_all plain (''00'' @ hex_byte2 c)" by (simp add: plain_hex_byte2) (simp add: plain_def)
  show ?thesis
    using scan_body_plain [OF u, of s] by (auto simp: json_ascii_def)
qed

lemma rune_plain:
  assumes "rune_len (c # s) = k" and "k \<noteq> 0" and "128 \<le> (of_char c :: nat)"
  shows "list_all plain (take k (c # s))"
proof -
  have hi: "128 \<le> (of_char x :: nat) \<Longrightarrow> plain x" for x
    by (auto simp: plain_def)
  from assms show ?thesis
    by (auto simp: rune_len_def in_range_def hi split: list.splits if_splits)
qed

lemma scan_json_chars: "length s \<le> n \<Longrightarrow> scan_body (json_chars n s @ CHR 0x22 # t) = Some t"
proof (induction n s rule: json_chars.induct)
  case (3 n c s)
  show ?case
  proof (cases "of_char c < (128 :: nat)")
    case True
    with 3 show ?thesis by (simp add: scan_json_ascii)
  next
    case False
    define k where "k = rune_len (c # s)"
    have d: "list_all plain ''fffd''" "list_all plain (''202'' @ [hex_digit (of_char (s ! 1) mod 16)])"
      by (simp_all add: plain_hex_digit) (simp_all add: plain_def)
    show ?thesis
    proof (cases "k = 0")
      case True
      with False 3 scan_body_plain [OF d(1)] show ?thesis by (simp add: k_def)
    next
      case nz: False
      have "list_all plain (take k (c # s))" by (rule rune_plain) (use False nz in \<open>simp_all add: k_def\<close>)
      with False nz 3 scan_body_plain [OF d(2)] scan_body_plain show ?thesis
        unfolding json_chars.simps k_def [symmetric] Let_def by (auto simp del: take_Suc_Cons)
    qed
  qed
qed simp_all

lemma json_string_closed: "json_string s = CHR 0x22 # b \<Longrightarrow> scan_body (b @ t) = Some t"
  using scan_json_chars [of s "length s" t] by (auto simp: json_string_def)

end
