(* ===== verification/Go_Json_Decode.thy ===== *)
theory Go_Json_Decode
  imports Go_Json
begin

text \<open>
  The decoder of package \<open>encoding/json\<close>, as far as the sources use it: the grammar of JSON texts with the
  escapes and the limit on nesting, and the way a value is stored into a Go variable.  The text of a
  number is kept; a Go \<open>int\<close> takes it when it is an integer of 64 bits.  A failed decoding is \<^const>\<open>None\<close>:
  the callers drop the variable then.
\<close>

section \<open>The grammar\<close>

datatype json =
    JsNull
  | JsBool bool
  | JsNum string
  | JsStr string
  | JsArr "json list"
  | JsObj "(string \<times> json) list"

definition is_ws :: "char \<Rightarrow> bool" where
  "is_ws c \<longleftrightarrow> c = CHR '' '' \<or> c = CHR 0x09 \<or> c = CHR 0x0D \<or> c = CHR 0x0A"

definition skip_ws :: "bytes \<Rightarrow> bytes" where
  "skip_ws s = dropWhile is_ws s"

subsection \<open>Strings\<close>

definition utf8_encode :: "int \<Rightarrow> bytes" where
  "utf8_encode r =
     (if r < 128 then [char_of r]
      else if r < 2048 then [char_of (192 + r div 64), char_of (128 + r mod 64)]
      else if r < 65536 then [char_of (224 + r div 4096), char_of (128 + r div 64 mod 64), char_of (128 + r mod 64)]
      else [char_of (240 + r div 262144), char_of (128 + r div 4096 mod 64), char_of (128 + r div 64 mod 64),
            char_of (128 + r mod 64)])"

definition replacement :: bytes where
  "replacement = [CHR 0xEF, CHR 0xBF, CHR 0xBD]"

fun hex4 :: "bytes \<Rightarrow> int option" where
  "hex4 (a # b # c # d # _) =
     (case (hex_val a, hex_val b, hex_val c, hex_val d) of
        (Some x, Some y, Some z, Some w) \<Rightarrow> Some (((int x * 16 + int y) * 16 + int z) * 16 + int w)
      | _ \<Rightarrow> None)"
| "hex4 _ = None"

definition unescape :: "char \<Rightarrow> char option" where
  "unescape c =
     (if c = CHR 0x22 \<or> c = CHR 0x5C \<or> c = CHR ''/'' then Some c
      else if c = CHR ''b'' then Some (CHR 0x08)
      else if c = CHR ''f'' then Some (CHR 0x0C)
      else if c = CHR ''n'' then Some (CHR 0x0A)
      else if c = CHR ''r'' then Some (CHR 0x0D)
      else if c = CHR ''t'' then Some (CHR 0x09)
      else None)"

text \<open>
  After \<open>\u\<close>: the rune and the text behind it.  A surrogate that is not the first half of a pair is the
  replacement character.
\<close>

definition unicode_escape :: "bytes \<Rightarrow> (bytes \<times> bytes) option" where
  "unicode_escape s =
     (case hex4 s of
        None \<Rightarrow> None
      | Some r \<Rightarrow>
          let s2 = drop 4 s
          in if 55296 \<le> r \<and> r < 57344 then
               (if take 2 s2 = [CHR 0x5C, CHR ''u''] then
                  (case hex4 (drop 2 s2) of
                     Some r2 \<Rightarrow>
                       if r < 56320 \<and> 56320 \<le> r2 \<and> r2 < 57344
                       then Some (utf8_encode (65536 + (r - 55296) * 1024 + (r2 - 56320)), drop 6 s2)
                       else Some (replacement, s2)
                   | None \<Rightarrow> Some (replacement, s2))
                else Some (replacement, s2))
             else Some (utf8_encode r, s2))"

text \<open>
  The string behind an opening quote, and the text after the closing one.  The fuel is the length of the
  text: every step consumes at least one byte.
\<close>

fun str_body :: "nat \<Rightarrow> bytes \<Rightarrow> (bytes \<times> bytes) option" where
  "str_body 0 s = None"
| "str_body (Suc n) [] = None"
| "str_body (Suc n) (c # s) =
     (if c = CHR 0x22 then Some ([], s)
      else if c = CHR 0x5C then
        (case s of
           [] \<Rightarrow> None
         | e # s' \<Rightarrow>
             if e = CHR ''u'' then
               (case unicode_escape s' of
                  None \<Rightarrow> None
                | Some (b, s2) \<Rightarrow> map_option (\<lambda>(v, r). (b @ v, r)) (str_body n s2))
             else
               (case unescape e of
                  None \<Rightarrow> None
                | Some x \<Rightarrow> map_option (\<lambda>(v, r). (x # v, r)) (str_body n s')))
      else if of_char c < (32 :: nat) then None
      else if of_char c < (128 :: nat) then map_option (\<lambda>(v, r). (c # v, r)) (str_body n s)
      else
        (let k = rune_len (c # s)
         in if k = 0 then map_option (\<lambda>(v, r). (replacement @ v, r)) (str_body n s)
            else map_option (\<lambda>(v, r). (take k (c # s) @ v, r)) (str_body n (drop (k - 1) s))))"

subsection \<open>Numbers\<close>

definition digits1 :: "bytes \<Rightarrow> (bytes \<times> bytes) option" where
  "digits1 s =
     (let d = takeWhile is_digit s in if d = [] then None else Some (d, dropWhile is_digit s))"

definition scan_int :: "bytes \<Rightarrow> (bytes \<times> bytes) option" where
  "scan_int s =
     (case s of
        [] \<Rightarrow> None
      | c # r \<Rightarrow> if c = CHR ''0'' then Some ([c], r) else digits1 s)"

definition scan_frac :: "bytes \<Rightarrow> (bytes \<times> bytes) option" where
  "scan_frac s =
     (case s of
        [] \<Rightarrow> Some ([], s)
      | c # r \<Rightarrow>
          if c = CHR ''.'' then map_option (\<lambda>(d, r'). (c # d, r')) (digits1 r) else Some ([], s))"

definition scan_exp :: "bytes \<Rightarrow> (bytes \<times> bytes) option" where
  "scan_exp s =
     (case s of
        [] \<Rightarrow> Some ([], s)
      | c # r \<Rightarrow>
          if c = CHR ''e'' \<or> c = CHR ''E'' then
            (case r of
               [] \<Rightarrow> None
             | g # r' \<Rightarrow>
                 if g = CHR ''+'' \<or> g = CHR ''-'' then map_option (\<lambda>(d, t). (c # g # d, t)) (digits1 r')
                 else map_option (\<lambda>(d, t). (c # d, t)) (digits1 r))
          else Some ([], s))"

definition scan_number :: "bytes \<Rightarrow> (bytes \<times> bytes) option" where
  "scan_number s =
     (let (sign, s0) = (case s of c # r \<Rightarrow> if c = CHR ''-'' then ([c], r) else ([], s) | [] \<Rightarrow> ([], s))
      in case scan_int s0 of
           None \<Rightarrow> None
         | Some (i, s1) \<Rightarrow>
             (case scan_frac s1 of
                None \<Rightarrow> None
              | Some (f, s2) \<Rightarrow>
                  (case scan_exp s2 of
                     None \<Rightarrow> None
                   | Some (e, s3) \<Rightarrow> Some (sign @ i @ f @ e, s3))))"

subsection \<open>Values\<close>

definition scan_word :: "string \<Rightarrow> json \<Rightarrow> bytes \<Rightarrow> (json \<times> bytes) option" where
  "scan_word w v s = (if take (length w) s = w then Some (v, drop (length w) s) else None)"

text \<open>
  \<open>n\<close> is the fuel and \<open>d\<close> how much deeper a value may nest.  A step into a value, an element or a member takes
  one unit of fuel, and no more than two are taken for one byte.
\<close>

fun p_value :: "nat \<Rightarrow> int \<Rightarrow> bytes \<Rightarrow> (json \<times> bytes) option"
  and p_elems :: "nat \<Rightarrow> int \<Rightarrow> bytes \<Rightarrow> (json list \<times> bytes) option"
  and p_members :: "nat \<Rightarrow> int \<Rightarrow> bytes \<Rightarrow> ((string \<times> json) list \<times> bytes) option" where
  "p_value 0 d s = None"
| "p_value (Suc n) d s =
     (case skip_ws s of
        [] \<Rightarrow> None
      | c # r \<Rightarrow>
          if c = CHR ''{'' then
            (if d \<le> 0 then None
             else
               (case skip_ws r of
                  [] \<Rightarrow> None
                | c' # r' \<Rightarrow>
                    if c' = CHR ''}'' then Some (JsObj [], r')
                    else map_option (\<lambda>(kvs, t). (JsObj kvs, t)) (p_members n (d - 1) r)))
          else if c = CHR ''['' then
            (if d \<le> 0 then None
             else
               (case skip_ws r of
                  [] \<Rightarrow> None
                | c' # r' \<Rightarrow>
                    if c' = CHR '']'' then Some (JsArr [], r')
                    else map_option (\<lambda>(vs, t). (JsArr vs, t)) (p_elems n (d - 1) r)))
          else if c = CHR 0x22 then map_option (\<lambda>(v, t). (JsStr v, t)) (str_body (length r) r)
          else if c = CHR ''t'' then scan_word ''true'' (JsBool True) (c # r)
          else if c = CHR ''f'' then scan_word ''false'' (JsBool False) (c # r)
          else if c = CHR ''n'' then scan_word ''null'' JsNull (c # r)
          else map_option (\<lambda>(v, t). (JsNum v, t)) (scan_number (c # r)))"
| "p_elems 0 d s = None"
| "p_elems (Suc n) d s =
     (case p_value n d s of
        None \<Rightarrow> None
      | Some (v, r) \<Rightarrow>
          (case skip_ws r of
             [] \<Rightarrow> None
           | c # r' \<Rightarrow>
               if c = CHR '','' then map_option (\<lambda>(vs, t). (v # vs, t)) (p_elems n d r')
               else if c = CHR '']'' then Some ([v], r')
               else None))"
| "p_members 0 d s = None"
| "p_members (Suc n) d s =
     (case skip_ws s of
        [] \<Rightarrow> None
      | q # r \<Rightarrow>
          if q \<noteq> CHR 0x22 then None
          else
            (case str_body (length r) r of
               None \<Rightarrow> None
             | Some (k, r1) \<Rightarrow>
                 (case skip_ws r1 of
                    [] \<Rightarrow> None
                  | c # r2 \<Rightarrow>
                      if c \<noteq> CHR '':'' then None
                      else
                        (case p_value n d r2 of
                           None \<Rightarrow> None
                         | Some (v, r3) \<Rightarrow>
                             (case skip_ws r3 of
                                [] \<Rightarrow> None
                              | c' # r4 \<Rightarrow>
                                  if c' = CHR '','' then map_option (\<lambda>(kvs, t). ((k, v) # kvs, t)) (p_members n d r4)
                                  else if c' = CHR ''}'' then Some ([(k, v)], r4)
                                  else None)))))"

definition maxNestingDepth :: int where
  "maxNestingDepth = 10000"

text \<open>\<open>Unmarshal\<close> wants one value and nothing behind it; a stream decoder takes the first value.\<close>

definition json_first :: "bytes \<Rightarrow> (json \<times> bytes) option" where
  "json_first s = p_value (2 * length s + 2) maxNestingDepth s"

definition json_parse :: "bytes \<Rightarrow> json option" where
  "json_parse s =
     (case json_first s of
        None \<Rightarrow> None
      | Some (v, r) \<Rightarrow> if skip_ws r = [] then Some v else None)"

section \<open>What the encoder writes is read back\<close>

text \<open>The text that a decoder makes of bytes: every invalid byte is the replacement character.\<close>

fun utf8_coerce :: "nat \<Rightarrow> bytes \<Rightarrow> bytes" where
  "utf8_coerce 0 s = []"
| "utf8_coerce (Suc n) [] = []"
| "utf8_coerce (Suc n) (c # s) =
     (if of_char c < (128 :: nat) then c # utf8_coerce n s
      else
        (let k = rune_len (c # s)
         in if k = 0 then replacement @ utf8_coerce n s
            else take k (c # s) @ utf8_coerce n (drop (k - 1) s)))"

definition coerce :: "bytes \<Rightarrow> bytes" where
  "coerce s = utf8_coerce (length s) s"

lemma hex_val_table: "list_all (\<lambda>n. hex_val (hex_digit n) = Some n) [0..<16]"
  by code_simp

lemma hex_val_digit [simp]: "n < 16 \<Longrightarrow> hex_val (hex_digit n) = Some n"
  using hex_val_table by (simp add: list_all_iff)

lemma hex4_byte: "hex4 (''00'' @ hex_byte2 c @ s) = Some (of_char c)"
proof -
  have "hex_val (CHR ''0'') = Some 0" by code_simp
  moreover have "(of_char c :: nat) div 16 < 16" by (simp add: less_mult_imp_div_less of_char_lt)
  moreover have "int (of_char c div 16) * 16 + int (of_char c mod 16) = of_char c"
    by (metis div_mult_mod_eq of_nat_add of_nat_mult of_nat_numeral of_nat_of_char)
  ultimately show ?thesis by (simp add: hex_byte2_def)
qed

lemma unicode_escape_byte:
  assumes "of_char c < (128 :: nat)"
  shows "unicode_escape (''00'' @ hex_byte2 c @ s) = Some ([c], s)"
proof -
  have "drop 4 (''00'' @ hex_byte2 c @ s) = s" by (simp add: hex_byte2_def)
  moreover have "(of_char c :: int) < 128" using assms by (metis of_nat_less_iff of_nat_numeral of_nat_of_char)
  ultimately show ?thesis
    using hex4_byte [of c s] by (simp add: unicode_escape_def utf8_encode_def)
qed

lemma unicode_escape_replacement: "unicode_escape (''fffd'' @ s) = Some (replacement, s)"
proof -
  have "hex_val (CHR ''f'') = Some 15" "hex_val (CHR ''d'') = Some 13" by code_simp+
  then have "hex4 (''fffd'' @ s) = Some 65533" by simp
  moreover have "utf8_encode 65533 = replacement" by code_simp
  ultimately show ?thesis by (simp add: unicode_escape_def)
qed

lemma unicode_escape_separator:
  assumes "x = CHR 0xA8 \<or> x = CHR 0xA9"
  shows "unicode_escape (''202'' @ [hex_digit (of_char x mod 16)] @ s) = Some ([CHR 0xE2, CHR 0x80, x], s)"
proof -
  have h: "hex_val (CHR ''2'') = Some 2" "hex_val (CHR ''0'') = Some 0" by code_simp+
  have "hex4 (''202'' @ [hex_digit (of_char x mod 16)] @ s) = Some (8224 + int (of_char x mod 16))" by (simp add: h)
  moreover have "utf8_encode 8232 = [CHR 0xE2, CHR 0x80, CHR 0xA8]" "utf8_encode 8233 = [CHR 0xE2, CHR 0x80, CHR 0xA9]"
    by code_simp+
  ultimately show ?thesis using assms by (auto simp: unicode_escape_def)
qed

lemma str_body_ascii:
  assumes "of_char c < (128 :: nat)"
  shows "str_body (Suc n) (json_ascii c @ s) = map_option (\<lambda>(v, r). (c # v, r)) (str_body n s)"
proof -
  have lo: "c = CHR 0x22 \<Longrightarrow> \<not> of_char c < (32 :: nat)" "c = CHR 0x5C \<Longrightarrow> \<not> of_char c < (32 :: nat)" by simp_all
  have u: "unicode_escape (CHR ''0'' # CHR ''0'' # hex_byte2 c @ s) = Some ([c], s)"
    using unicode_escape_byte [OF assms, of s] by simp
  show ?thesis
    using assms u by (auto simp: json_ascii_def unescape_def)
qed

lemma prefix_len_take:
  fixes P :: "char \<Rightarrow> char \<Rightarrow> bool" and Q :: "char \<Rightarrow> char \<Rightarrow> char \<Rightarrow> bool" and R :: "char \<Rightarrow> char \<Rightarrow> char \<Rightarrow> char \<Rightarrow> bool"
  defines "len \<equiv> \<lambda>b. (case b of
     c0 # c1 # r \<Rightarrow> if P c0 c1 then (2 :: nat) else
       (case r of c2 # r' \<Rightarrow> if Q c0 c1 c2 then 3 else
          (case r' of c3 # _ \<Rightarrow> if R c0 c1 c2 c3 then 4 else 0 | [] \<Rightarrow> 0) | [] \<Rightarrow> 0) | _ \<Rightarrow> 0)"
  assumes "len b = k" and "k \<noteq> 0"
  shows "len (take k b @ t) = k \<and> k \<le> length b \<and> 2 \<le> k"
  using assms(2,3) unfolding len_def by (auto split: list.splits if_splits)

lemma rune_len_take:
  assumes "rune_len b = k" and "k \<noteq> 0"
  shows "rune_len (take k b @ t) = k \<and> k \<le> length b \<and> 2 \<le> k"
  using assms unfolding rune_len_def by (rule prefix_len_take)

lemma str_body_rune:
  assumes "\<not> of_char c < (128 :: nat)" and "rune_len (c # s) = k" and "k \<noteq> 0"
  shows "str_body (Suc n) (take k (c # s) @ t) = map_option (\<lambda>(v, r). (take k (c # s) @ v, r)) (str_body n t)"
proof -
  have k: "rune_len (take k (c # s) @ t) = k" "k \<le> length (c # s)" using rune_len_take [OF assms(2,3)] by blast+
  obtain k' where k': "k = Suc k'" using assms(3) by (cases k) auto
  have r: "take k (c # s) @ t = c # (take k' s @ t)" by (simp add: k')
  have "length (take k' s) = k'" using k(2) by (simp add: k')
  with assms(1) k(1) show ?thesis
    unfolding r by (auto simp: k' Let_def)
qed

lemma str_body_replacement:
  "str_body (Suc n) ((CHR 0x5C # ''ufffd'') @ s) = map_option (\<lambda>(v, r). (replacement @ v, r)) (str_body n s)"
  using unicode_escape_replacement [of s] by simp

lemma str_body_separator:
  assumes "x = CHR 0xA8 \<or> x = CHR 0xA9"
  shows "str_body (Suc n) ((CHR 0x5C # ''u202'' @ [hex_digit (of_char x mod 16)]) @ s) =
    map_option (\<lambda>(v, r). ([CHR 0xE2, CHR 0x80, x] @ v, r)) (str_body n s)"
proof -
  have "unicode_escape (CHR ''2'' # CHR ''0'' # CHR ''2'' # hex_digit (of_char x mod 16) # s) =
      Some ([CHR 0xE2, CHR 0x80, x], s)"
    using unicode_escape_separator [OF assms, of s] by simp
  then show ?thesis by simp
qed

text \<open>Each step of the encoder writes a piece that one step of the decoder reads.\<close>

lemma json_chars_piece:
  obtains w p s' where
    "json_chars (Suc n) (c # s) = w @ json_chars n s'" and "utf8_coerce (Suc n) (c # s) = p @ utf8_coerce n s'"
    and "w \<noteq> []" and "length s' \<le> length s"
    and "\<And>m t. str_body (Suc m) (w @ t) = map_option (\<lambda>(v, r). (p @ v, r)) (str_body m t)"
proof -
  define k where "k = rune_len (c # s)"
  consider "of_char c < (128 :: nat)" | "\<not> of_char c < (128 :: nat)" "k = 0" | "\<not> of_char c < (128 :: nat)" "k \<noteq> 0"
    by blast
  then show thesis
  proof cases
    case 1
    then show ?thesis
      using that [of "json_ascii c" s "[c]"] str_body_ascii [OF 1] by (simp add: json_ascii_def)
  next
    case 2
    then show ?thesis
      using that [of "CHR 0x5C # ''ufffd''" s replacement] str_body_replacement
      by (simp add: k_def)
  next
    case 3
    note k = rune_len_take [OF k_def [symmetric] 3(2)]
    note runes = json_chars.simps(3) [of n c s] utf8_coerce.simps(3) [of n c s]
    note step = str_body_rune [OF 3(1) k_def [symmetric] 3(2)]
    show ?thesis
    proof (cases "take k (c # s) = [CHR 0xE2, CHR 0x80, CHR 0xA8] \<or> take k (c # s) = [CHR 0xE2, CHR 0x80, CHR 0xA9]")
      case True
      then obtain x where x: "take k (c # s) = [CHR 0xE2, CHR 0x80, x]" "x = CHR 0xA8 \<or> x = CHR 0xA9" by blast
      have "s ! 1 = take k (c # s) ! 2"
        using arg_cong [OF x(1), of length] by simp
      then have "s ! 1 = x" by (simp add: x(1))
      with True x 3 show ?thesis
        using that [of "CHR 0x5C # ''u202'' @ [hex_digit (of_char x mod 16)]" "drop (k - 1) s" "[CHR 0xE2, CHR 0x80, x]"]
          str_body_separator [OF x(2)]
        unfolding runes k_def [symmetric] Let_def by simp
    next
      case False
      with 3 k step show ?thesis
        using that [of "take k (c # s)" "drop (k - 1) s" "take k (c # s)"]
        unfolding runes k_def [symmetric] Let_def by simp
    qed
  qed
qed

lemma json_chars_body:
  "length s \<le> n \<Longrightarrow> length (json_chars n s) + length t < m \<Longrightarrow>
    str_body m (json_chars n s @ CHR 0x22 # t) = Some (utf8_coerce n s, t)"
proof (induction n arbitrary: s m)
  case 0
  then show ?case by (cases m) auto
next
  case (Suc n)
  obtain m' where m: "m = Suc m'" using Suc.prems(2) by (cases m) auto
  show ?case
  proof (cases s)
    case Nil
    then show ?thesis by (simp add: m)
  next
    case (Cons c r)
    obtain w p s' where w: "json_chars (Suc n) (c # r) = w @ json_chars n s'"
        "utf8_coerce (Suc n) (c # r) = p @ utf8_coerce n s'" "w \<noteq> []" "length s' \<le> length r"
        "\<And>m t. str_body (Suc m) (w @ t) = map_option (\<lambda>(v, r). (p @ v, r)) (str_body m t)"
      by (rule json_chars_piece [of n c r]) blast
    have "length (json_chars n s') < length (json_chars (Suc n) s)" using w(1,3) Cons by (cases w) simp_all
    with Suc.prems w(4) Cons m have "str_body m' (json_chars n s' @ CHR 0x22 # t) = Some (utf8_coerce n s', t)"
      by (intro Suc.IH) (simp_all del: json_chars.simps)
    with w(5) [of m'] show ?thesis unfolding Cons m w(1,2) by simp
  qed
qed

lemma json_string_body: "str_body (length (tl (json_string s) @ t)) (tl (json_string s) @ t) = Some (coerce s, t)"
  using json_chars_body [of s "length s" t] by (simp add: json_string_def coerce_def)

text \<open>An integer is read up to a byte that cannot continue a number.\<close>

definition num_end :: "bytes \<Rightarrow> bool" where
  "num_end t \<longleftrightarrow> (case t of [] \<Rightarrow> True | c # _ \<Rightarrow> \<not> is_digit c \<and> c \<noteq> CHR ''.'' \<and> c \<noteq> CHR ''e'' \<and> c \<noteq> CHR ''E'')"

lemma scan_digits:
  assumes "list_all is_digit d" and "d \<noteq> []" and "hd d = CHR ''0'' \<longrightarrow> d = [CHR ''0'']" and "num_end t"
  shows "scan_int (d @ t) = Some (d, t)"
proof -
  have "takeWhile is_digit t = []" "dropWhile is_digit t = t" using assms(4) by (cases t; simp add: num_end_def)+
  with assms show ?thesis
    by (cases d) (auto simp: scan_int_def digits1_def list_all_iff takeWhile_append dropWhile_append)
qed

lemma num_end_scan:
  assumes "num_end t"
  shows "scan_frac t = Some ([], t)" and "scan_exp t = Some ([], t)"
  using assms by (cases t; simp add: num_end_def scan_frac_def scan_exp_def)+

lemma scan_dec_digits: "num_end t \<Longrightarrow> scan_int (dec_digits n @ t) = Some (dec_digits n, t)"
  by (rule scan_digits) (auto simp: dec_digits_digits dec_digits_hd)

lemma scan_number_Itoa:
  assumes "num_end t"
  shows "scan_number (Itoa n @ t) = Some (Itoa n, t)"
proof -
  obtain c r where c: "dec_digits (nat n) = c # r" by (cases "dec_digits (nat n)") auto
  have "is_digit c" using dec_digits_digits [of "nat n"] by (simp add: c)
  then have "c \<noteq> CHR ''-''" by (auto simp: is_digit_def)
  with scan_dec_digits [OF assms, of "nat n"] scan_dec_digits [OF assms, of "nat (- n)"] num_end_scan [OF assms]
  show ?thesis by (simp add: scan_number_def Itoa_def c)
qed

text \<open>What the decoder makes of an encoded value, and the values it takes: the nesting is bounded.\<close>

fun json_of :: "jval \<Rightarrow> json" where
  "json_of JNull = JsNull"
| "json_of (JBool b) = JsBool b"
| "json_of (JNum n) = JsNum (Itoa n)"
| "json_of (JFloat t) = JsNum t"
| "json_of (JStr s) = JsStr (coerce s)"
| "json_of (JList vs) = JsArr (map json_of vs)"
| "json_of (JObj kvs) = JsObj (map (\<lambda>(k, v). (coerce k, json_of v)) kvs)"

fun json_fits :: "int \<Rightarrow> jval \<Rightarrow> bool" where
  "json_fits d (JFloat t) \<longleftrightarrow> False"
| "json_fits d (JList vs) \<longleftrightarrow> 0 < d \<and> (\<forall>v \<in> set vs. json_fits (d - 1) v)"
| "json_fits d (JObj kvs) \<longleftrightarrow> 0 < d \<and> (\<forall>(k, v) \<in> set kvs. json_fits (d - 1) v)"
| "json_fits d v \<longleftrightarrow> True"

text \<open>An encoded value starts with a byte that is neither a space nor the end of a list or an object.\<close>

lemma json_Marshal_hd:
  assumes "json_fits d v"
  obtains c r where "json_Marshal v = c # r" and "\<not> is_ws c" and "c \<noteq> CHR '']''" and "c \<noteq> CHR ''}''"
proof (cases v)
  case (JNum n)
  obtain c r where c: "Itoa n = c # r" by (cases "Itoa n") (auto simp: Itoa_def split: if_splits)
  have "c = CHR ''-'' \<or> is_digit c"
    using c dec_digits_digits [of "nat n"] by (auto simp: Itoa_def split: if_splits)
  with c JNum show ?thesis by (intro that [of c r]) (auto simp: is_ws_def is_digit_def)
next
  case (JBool b)
  then show ?thesis using that by (cases b) (simp_all add: is_ws_def)
qed (use assms that in \<open>simp_all add: is_ws_def json_string_def\<close>)

lemma skip_ws_id [simp]: "\<not> is_ws c \<Longrightarrow> skip_ws (c # s) = c # s"
  by (simp add: skip_ws_def)

definition reads :: "int \<Rightarrow> jval \<Rightarrow> bool" where
  "reads d v \<longleftrightarrow>
     (\<forall>n t. 2 * length (json_Marshal v) \<le> n \<longrightarrow> num_end t \<longrightarrow> p_value n d (json_Marshal v @ t) = Some (json_of v, t))"

lemma p_elems_reads:
  assumes "vs \<noteq> []" and "\<And>v. v \<in> set vs \<Longrightarrow> reads d v" and "2 * length (Join (map json_Marshal vs) '','') < n"
  shows "p_elems n d (Join (map json_Marshal vs) '','' @ CHR '']'' # t) = Some (map json_of vs, t)"
  using assms
proof (induction vs arbitrary: n)
  case (Cons v vs)
  obtain n' where n: "n = Suc n'" using Cons.prems(3) by (cases n) auto
  have v: "reads d v" using Cons.prems(2) by simp
  show ?case
  proof (cases vs)
    case Nil
    have "p_value n' d (json_Marshal v @ CHR '']'' # t) = Some (json_of v, CHR '']'' # t)"
      using v Cons.prems(3) by (simp add: reads_def Nil n num_end_def is_digit_def)
    then show ?thesis by (simp add: Nil n is_ws_def)
  next
    case (Cons w ws)
    let ?s = "Join (map json_Marshal vs) '','' @ CHR '']'' # t"
    have l: "2 * (length (json_Marshal v) + 1 + length (Join (map json_Marshal vs) '','')) < n"
      using Cons.prems(3) by (simp add: Cons)
    have "p_value n' d (json_Marshal v @ CHR '','' # ?s) = Some (json_of v, CHR '','' # ?s)"
      using v l by (simp add: reads_def n num_end_def is_digit_def)
    moreover have "p_elems n' d ?s = Some (map json_of vs, t)"
      using Cons.prems(2) l by (intro Cons.IH) (simp_all add: Cons n)
    ultimately show ?thesis by (simp add: Cons n is_ws_def)
  qed
qed simp

definition member :: "string \<times> jval \<Rightarrow> string" where
  "member kv = (case kv of (k, v) \<Rightarrow> json_string k @ '':'' @ json_Marshal v)"

lemma p_member:
  assumes "reads d v" and "2 * length (member (k, v)) < n" and "num_end t"
  shows "p_members (Suc n) d (member (k, v) @ t) =
    (case skip_ws t of
       [] \<Rightarrow> None
     | c # r \<Rightarrow>
         if c = CHR '','' then map_option (\<lambda>(kvs, t). ((coerce k, json_of v) # kvs, t)) (p_members n d r)
         else if c = CHR ''}'' then Some ([(coerce k, json_of v)], r)
         else None)"
proof -
  obtain b where b: "json_string k = CHR 0x22 # b" by (simp add: json_string_def)
  have "str_body (length (b @ '':'' @ json_Marshal v @ t)) (b @ '':'' @ json_Marshal v @ t) =
      Some (coerce k, '':'' @ json_Marshal v @ t)"
    using json_string_body [of k "'':'' @ json_Marshal v @ t"] by (simp add: b)
  moreover have "p_value n d (json_Marshal v @ t) = Some (json_of v, t)"
    using assms by (simp add: reads_def member_def)
  ultimately show ?thesis by (simp add: member_def b is_ws_def)
qed

lemma p_members_reads:
  assumes "kvs \<noteq> []" and "\<And>k v. (k, v) \<in> set kvs \<Longrightarrow> reads d v" and "2 * length (Join (map member kvs) '','') + 1 < n"
  shows "p_members n d (Join (map member kvs) '','' @ CHR ''}'' # t) =
    Some (map (\<lambda>(k, v). (coerce k, json_of v)) kvs, t)"
  using assms
proof (induction kvs arbitrary: n)
  case (Cons kv kvs)
  obtain k v where kv: "kv = (k, v)" by (cases kv)
  obtain n' where n: "n = Suc n'" using Cons.prems(3) by (cases n) auto
  have v: "reads d v" using Cons.prems(2) [of k v] by (simp add: kv)
  have e: "num_end (CHR ''}'' # x)" "num_end (CHR '','' # x)" for x by (simp_all add: num_end_def is_digit_def)
  show ?case
  proof (cases kvs)
    case Nil
    with p_member [OF v, of k n' "CHR ''}'' # t"] Cons.prems(3) e show ?thesis by (simp add: kv n is_ws_def)
  next
    case (Cons x xs)
    have "reads d v'" if "(k', v') \<in> set kvs" for k' v' using Cons.prems(2) that by (meson list.set_intros(2))
    then have "p_members n' d (Join (map member kvs) '','' @ CHR ''}'' # t) =
        Some (map (\<lambda>(k, v). (coerce k, json_of v)) kvs, t)"
      using Cons.prems(3) by (intro Cons.IH) (simp_all add: Cons kv n)
    moreover have "2 * length (member (k, v)) < n'" using Cons.prems(3) by (simp add: Cons kv n)
    ultimately show ?thesis
      using p_member [OF v, of k n' "CHR '','' # Join (map member kvs) '','' @ CHR ''}'' # t"] e
      by (simp add: Cons kv n is_ws_def)
  qed
qed simp

lemma json_Marshal_member: "json_Marshal (JObj kvs) = ''{'' @ Join (map member kvs) '','' @ ''}''"
  by (simp add: member_def [abs_def])

lemma p_value_reads: "json_fits d v \<Longrightarrow> reads d v"
proof (induction v arbitrary: d)
  case JNull
  show ?case unfolding reads_def
  proof (intro allI impI)
    fix n t assume "2 * length (json_Marshal JNull) \<le> n"
    then obtain n' where "n = Suc n'" by (cases n) auto
    then show "p_value n d (json_Marshal JNull @ t) = Some (json_of JNull, t)" by (simp add: is_ws_def scan_word_def)
  qed
next
  case (JBool b)
  show ?case unfolding reads_def
  proof (intro allI impI)
    fix n t assume "2 * length (json_Marshal (JBool b)) \<le> n"
    then obtain n' where "n = Suc n'" by (cases n) (auto split: if_splits)
    then show "p_value n d (json_Marshal (JBool b) @ t) = Some (json_of (JBool b), t)"
      by (simp add: is_ws_def scan_word_def)
  qed
next
  case (JNum i)
  obtain c r where c: "Itoa i = c # r" "\<not> is_ws c"
    using json_Marshal_hd [OF JNum] by (metis json_Marshal.simps(3))
  have "c = CHR ''-'' \<or> is_digit c"
    using c dec_digits_digits [of "nat i"] by (auto simp: Itoa_def split: if_splits)
  then have g: "c \<noteq> CHR ''{''" "c \<noteq> CHR ''[''" "c \<noteq> CHR 0x22" "c \<noteq> CHR ''t''" "c \<noteq> CHR ''f''" "c \<noteq> CHR ''n''"
    by (auto simp: is_digit_def)
  show ?case unfolding reads_def
  proof (intro allI impI)
    fix n t assume n: "2 * length (json_Marshal (JNum i)) \<le> n" and t: "num_end t"
    obtain n' where "n = Suc n'" using n c by (cases n) auto
    with scan_number_Itoa [OF t, of i] c g show "p_value n d (json_Marshal (JNum i) @ t) = Some (json_of (JNum i), t)"
      by simp
  qed
next
  case (JStr s)
  obtain b where b: "json_string s = CHR 0x22 # b" by (simp add: json_string_def)
  show ?case unfolding reads_def
  proof (intro allI impI)
    fix n t assume "2 * length (json_Marshal (JStr s)) \<le> n"
    then obtain n' where "n = Suc n'" using b by (cases n) auto
    with json_string_body [of s t] show "p_value n d (json_Marshal (JStr s) @ t) = Some (json_of (JStr s), t)"
      by (simp add: b is_ws_def)
  qed
next
  case (JList vs)
  have d: "0 < d" and vs: "\<And>v. v \<in> set vs \<Longrightarrow> reads (d - 1) v" using JList by auto
  show ?case unfolding reads_def
  proof (intro allI impI)
    fix n t assume n: "2 * length (json_Marshal (JList vs)) \<le> n"
    then obtain n' where n': "n = Suc n'" by (cases n) auto
    show "p_value n d (json_Marshal (JList vs) @ t) = Some (json_of (JList vs), t)"
    proof (cases vs)
      case Nil
      with d show ?thesis by (simp add: n' is_ws_def)
    next
      case (Cons v ws)
      have "json_fits (d - 1) v" using JList.prems by (simp add: Cons)
      then obtain c r where c: "json_Marshal v = c # r" "\<not> is_ws c" "c \<noteq> CHR '']''" by (rule json_Marshal_hd)
      obtain r' where r': "Join (map json_Marshal vs) '','' = c # r'" using c by (cases ws) (auto simp: Cons)
      have "p_elems n' (d - 1) (Join (map json_Marshal vs) '','' @ CHR '']'' # t) = Some (map json_of vs, t)"
        using vs n by (intro p_elems_reads) (auto simp: Cons n')
      with d c r' show ?thesis by (simp add: n' is_ws_def)
    qed
  qed
next
  case (JObj kvs)
  have d: "0 < d" and vs: "\<And>k v. (k, v) \<in> set kvs \<Longrightarrow> reads (d - 1) v" using JObj by fastforce+
  show ?case unfolding reads_def
  proof (intro allI impI)
    fix n t assume n: "2 * length (json_Marshal (JObj kvs)) \<le> n"
    then obtain n' where n': "n = Suc n'" by (cases n) auto
    show "p_value n d (json_Marshal (JObj kvs) @ t) = Some (json_of (JObj kvs), t)"
    proof (cases kvs)
      case Nil
      with d show ?thesis by (simp add: n' is_ws_def)
    next
      case (Cons kv ws)
      obtain r' where r': "Join (map member kvs) '','' = CHR 0x22 # r'"
        by (cases ws; cases kv) (auto simp: Cons member_def json_string_def)
      have "p_members n' (d - 1) (Join (map member kvs) '','' @ CHR ''}'' # t) =
          Some (map (\<lambda>(k, v). (coerce k, json_of v)) kvs, t)"
        using vs n unfolding json_Marshal_member by (intro p_members_reads) (auto simp: Cons n')
      with d r' show ?thesis unfolding json_Marshal_member by (simp add: n' is_ws_def)
    qed
  qed
qed simp

lemma json_parse_Marshal_ws:
  assumes "json_fits maxNestingDepth v" and "list_all is_ws ws"
  shows "json_parse (json_Marshal v @ ws) = Some (json_of v)"
proof -
  have "num_end ws" using assms(2) by (cases ws) (auto simp: num_end_def is_ws_def is_digit_def)
  then have "p_value (2 * length (json_Marshal v @ ws) + 2) maxNestingDepth (json_Marshal v @ ws) = Some (json_of v, ws)"
    using p_value_reads [OF assms(1), unfolded reads_def, rule_format, of "2 * length (json_Marshal v @ ws) + 2" ws]
    by (simp del: p_value.simps)
  moreover have "skip_ws ws = []" using assms(2) by (simp add: skip_ws_def dropWhile_eq_Nil_conv list_all_iff)
  ultimately show ?thesis by (simp del: p_value.simps add: json_parse_def json_first_def)
qed

lemma json_parse_Marshal:
  "json_fits maxNestingDepth v \<Longrightarrow> json_parse (json_Marshal v) = Some (json_of v)"
  using json_parse_Marshal_ws [of v "[]"] by simp

lemma coerce_ascii: "list_all (\<lambda>c. of_char c < (128 :: nat)) s \<Longrightarrow> coerce s = s"
proof -
  have "list_all (\<lambda>c. of_char c < (128 :: nat)) s \<Longrightarrow> length s \<le> n \<Longrightarrow> utf8_coerce n s = s" for n
  proof (induction n arbitrary: s)
    case (Suc n)
    then show ?case by (cases s) auto
  qed simp
  then show "list_all (\<lambda>c. of_char c < (128 :: nat)) s \<Longrightarrow> coerce s = s" by (simp add: coerce_def)
qed

lemma json_chars_ascii:
  "list_all (\<lambda>c. of_char c < (128 :: nat) \<and> json_ascii c = [c]) s \<Longrightarrow> length s \<le> n \<Longrightarrow> json_chars n s = s"
proof (induction n arbitrary: s)
  case (Suc n)
  then show ?case by (cases s) auto
qed simp

section \<open>The fuel is enough\<close>

lemma skip_ws_length: "length (skip_ws s) \<le> length s"
  by (simp add: skip_ws_def length_dropWhile_le)

lemma skip_ws_Cons: "skip_ws s = c # r \<Longrightarrow> length r < length s"
  using skip_ws_length [of s] by simp

lemma unicode_escape_rest: "unicode_escape s = Some (b, r) \<Longrightarrow> length r \<le> length s"
  by (auto simp: unicode_escape_def Let_def split: option.splits if_splits)

lemma str_body_rest: "str_body n s = Some (v, r) \<Longrightarrow> length r < length s"
proof (induction n s arbitrary: v r rule: str_body.induct)
  case (3 n c s)
  show ?case
  proof (cases "c = CHR 0x22")
    case True
    with 3(6) show ?thesis by simp
  next
    case q: False
    show ?thesis
    proof (cases "c = CHR 0x5C")
      case True
      with q 3(1,2,6) show ?thesis
        by (fastforce split: list.splits if_splits option.splits prod.splits dest: unicode_escape_rest)
    next
      case False
      with q 3(3-6) show ?thesis
        by (fastforce simp: Let_def split: if_splits)
    qed
  qed
qed simp_all

lemma str_body_fuel: "length s \<le> n \<Longrightarrow> str_body (Suc n) s = str_body n s"
proof (induction n arbitrary: s)
  case (Suc n)
  show ?case
  proof (cases s)
    case (Cons c r)
    have e: "unicode_escape x = Some (b, y) \<Longrightarrow> length x \<le> n \<Longrightarrow> str_body (Suc n) y = str_body n y" for x b y
      using Suc.IH unicode_escape_rest [of x b y] by simp
    have d: "str_body (Suc n) (drop k r) = str_body n (drop k r)" for k using Suc by (simp add: Cons)
    have t: "r = x # y \<Longrightarrow> str_body (Suc n) y = str_body n y" for x y using Suc by (simp add: Cons)
    have "length r \<le> n" using Suc.prems by (simp add: Cons)
    then show ?thesis
      unfolding Cons str_body.simps(3) [of "Suc n"] str_body.simps(3) [of n] Let_def d
      using d [of 0] by (auto simp: t e simp del: str_body.simps split: list.split option.split)
  qed simp
qed simp

lemma digits1_rest: "digits1 s = Some (d, r) \<Longrightarrow> length r < length s"
  by (cases s) (auto simp: digits1_def Let_def length_dropWhile_le le_imp_less_Suc split: if_splits)

lemma scan_number_rest:
  assumes "scan_number s = Some (v, r)"
  shows "length r < length s"
proof -
  obtain sign s0 where s0: "(case s of c # r \<Rightarrow> if c = CHR ''-'' then ([c], r) else ([], s) | [] \<Rightarrow> ([], s)) = (sign, s0)"
    by fastforce
  then have l: "length s0 \<le> length s" by (auto split: list.splits if_splits)
  from assms s0 obtain i s1 f s2 e where
    i: "scan_int s0 = Some (i, s1)" and f: "scan_frac s1 = Some (f, s2)" and e: "scan_exp s2 = Some (e, r)"
    by (auto simp: scan_number_def split: option.splits)
  have "length s1 < length s0"
    using i by (auto simp: scan_int_def dest: digits1_rest split: list.splits if_splits)
  moreover have "length s2 \<le> length s1"
    using f by (auto simp: scan_frac_def dest: digits1_rest split: list.splits if_splits)
  moreover have "length r \<le> length s2"
    using e by (auto simp: scan_exp_def dest: digits1_rest split: list.splits if_splits)
  ultimately show ?thesis using l by simp
qed

lemma scan_word_rest: "scan_word w v s = Some (v', r) \<Longrightarrow> w \<noteq> [] \<Longrightarrow> length r < length s"
  by (cases s; cases w) (auto simp: scan_word_def less_Suc_eq_le split: if_splits)

text \<open>What one byte starts, apart from lists and objects, does not depend on the fuel.\<close>

definition scalar :: "char \<Rightarrow> bytes \<Rightarrow> (json \<times> bytes) option" where
  "scalar c r =
     (if c = CHR 0x22 then map_option (\<lambda>(v, t). (JsStr v, t)) (str_body (length r) r)
      else if c = CHR ''t'' then scan_word ''true'' (JsBool True) (c # r)
      else if c = CHR ''f'' then scan_word ''false'' (JsBool False) (c # r)
      else if c = CHR ''n'' then scan_word ''null'' JsNull (c # r)
      else map_option (\<lambda>(v, t). (JsNum v, t)) (scan_number (c # r)))"

lemma scalar_rest: "scalar c r = Some (v, t) \<Longrightarrow> length t \<le> length r"
  using scan_word_rest [of "''true''" "JsBool True" "c # r" v t] scan_word_rest [of "''false''" "JsBool False" "c # r" v t]
    scan_word_rest [of "''null''" JsNull "c # r" v t]
  by (auto simp: scalar_def dest: str_body_rest scan_number_rest split: if_splits)

lemma p_value_scalar:
  "p_value (Suc n) d s =
     (case skip_ws s of
        [] \<Rightarrow> None
      | c # r \<Rightarrow>
          if c = CHR ''{'' then
            (if d \<le> 0 then None
             else
               (case skip_ws r of
                  [] \<Rightarrow> None
                | c' # r' \<Rightarrow>
                    if c' = CHR ''}'' then Some (JsObj [], r')
                    else map_option (\<lambda>(kvs, t). (JsObj kvs, t)) (p_members n (d - 1) r)))
          else if c = CHR ''['' then
            (if d \<le> 0 then None
             else
               (case skip_ws r of
                  [] \<Rightarrow> None
                | c' # r' \<Rightarrow>
                    if c' = CHR '']'' then Some (JsArr [], r')
                    else map_option (\<lambda>(vs, t). (JsArr vs, t)) (p_elems n (d - 1) r)))
          else scalar c r)"
  unfolding p_value.simps scalar_def ..

lemma p_rest:
  "(\<forall>d s v r. p_value n d s = Some (v, r) \<longrightarrow> length r < length s) \<and>
   (\<forall>d s vs r. p_elems n d s = Some (vs, r) \<longrightarrow> length r < length s) \<and>
   (\<forall>d s kvs r. p_members n d s = Some (kvs, r) \<longrightarrow> length r < length s)"
proof (induction n)
  case (Suc n)
  have V: "length r < length s" if "p_value n d s = Some (v, r)" for d s v r using Suc that by blast
  have E: "length r < length s" if "p_elems n d s = Some (v, r)" for d s v r using Suc that by blast
  have M: "length r < length s" if "p_members n d s = Some (v, r)" for d s v r using Suc that by blast
  have "length r < length s" if "p_value (Suc n) d s = Some (v, r)" for d s v r
    using that unfolding p_value_scalar
    by (auto split: list.splits if_splits dest!: skip_ws_Cons scalar_rest E M)
  moreover have "length r < length s" if "p_elems (Suc n) d s = Some (v, r)" for d s v r
    using that by (auto split: option.splits list.splits if_splits dest!: skip_ws_Cons V E)
  moreover have "length r < length s" if "p_members (Suc n) d s = Some (v, r)" for d s v r
    using that by (auto split: option.splits list.splits if_splits dest!: skip_ws_Cons str_body_rest V M)
  ultimately show ?case by blast
qed simp

lemma p_fuel:
  "(\<forall>d s. 2 * length s + 1 \<le> n \<longrightarrow> p_value (Suc n) d s = p_value n d s) \<and>
   (\<forall>d s. 2 * length s + 2 \<le> n \<longrightarrow> p_elems (Suc n) d s = p_elems n d s) \<and>
   (\<forall>d s. 2 * length s + 2 \<le> n \<longrightarrow> p_members (Suc n) d s = p_members n d s)"
proof (induction n)
  case (Suc n)
  note V = Suc [THEN conjunct1, rule_format] and E = Suc [THEN conjunct2, THEN conjunct1, rule_format]
    and M = Suc [THEN conjunct2, THEN conjunct2, rule_format]
  have "p_value (Suc (Suc n)) d s = p_value (Suc n) d s" if "2 * length s + 1 \<le> Suc n" for d s
  proof (cases "skip_ws s")
    case (Cons c r)
    then have "2 * length r + 2 \<le> n" using skip_ws_Cons [OF Cons] that by simp
    then show ?thesis unfolding p_value_scalar [of "Suc n"] p_value_scalar [of n] Cons list.case by (simp only: E M)
  qed (simp add: p_value_scalar)
  moreover have "p_elems (Suc (Suc n)) d s = p_elems (Suc n) d s" if l: "2 * length s + 2 \<le> Suc n" for d s
  proof -
    have v: "p_value (Suc n) d s = p_value n d s" using l by (intro V) simp
    have "p_elems (Suc n) d r' = p_elems n d r'" if "p_value n d s = Some (v, r)" "skip_ws r = c # r'" for v r c r'
      using p_rest [of n] that skip_ws_Cons [OF that(2)] l by (intro E) fastforce
    then show ?thesis unfolding p_elems.simps(2) [of "Suc n" d s] p_elems.simps(2) [of n d s] v
      by (auto split: option.split list.split simp del: p_elems.simps p_value.simps)
  qed
  moreover have "p_members (Suc (Suc n)) d s = p_members (Suc n) d s" if l: "2 * length s + 2 \<le> Suc n" for d s
  proof -
    have v: "p_value (Suc n) d r2 = p_value n d r2"
      if "skip_ws s = q # r" "str_body (length r) r = Some (k, r1)" "skip_ws r1 = c # r2" for q r k r1 c r2
      using skip_ws_Cons [OF that(1)] str_body_rest [OF that(2)] skip_ws_Cons [OF that(3)] l by (intro V) simp
    have m: "p_members (Suc n) d r4 = p_members n d r4"
      if "skip_ws s = q # r" "str_body (length r) r = Some (k, r1)" "skip_ws r1 = c # r2"
        "p_value n d r2 = Some (x, r3)" "skip_ws r3 = c' # r4" for q r k r1 c r2 x r3 c' r4
    proof -
      have "length r3 < length r2" using p_rest [of n] that(4) by blast
      with skip_ws_Cons [OF that(1)] str_body_rest [OF that(2)] skip_ws_Cons [OF that(3)] skip_ws_Cons [OF that(5)] l
      show ?thesis by (intro M) simp
    qed
    show ?thesis unfolding p_members.simps(2) [of "Suc n" d s] p_members.simps(2) [of n d s]
      by (auto simp: v m simp del: p_members.simps p_value.simps split: option.split list.split)
  qed
  ultimately show ?case by blast
qed simp

text \<open>More fuel than the parser takes does not change what it returns: no text fails for lack of it.\<close>

lemma json_first_fuel: "p_value (2 * length s + 2 + n) maxNestingDepth s = json_first s"
proof (induction n)
  case (Suc n)
  have "p_value (Suc (2 * length s + 2 + n)) maxNestingDepth s = p_value (2 * length s + 2 + n) maxNestingDepth s"
    using p_fuel [of "2 * length s + 2 + n", THEN conjunct1, rule_format, of s maxNestingDepth] by simp
  with Suc show ?case by (simp del: p_value.simps)
qed (simp add: json_first_def del: p_value.simps)

end
