(* ===== verification/Go_Json_Store.thy ===== *)
theory Go_Json_Store
  imports Go_Json_Decode
begin

text \<open>
  How package \<open>encoding/json\<close> stores a value into a Go variable: one function per kind of variable, which takes
  the old value, since null and the keys that are not there leave a variable as it is.  \<^const>\<open>None\<close> is an error,
  after which no caller reads the variable.  A slice that is stored twice reuses its elements; an element
  behind the old length starts from the zero value.
\<close>

type_synonym 'a store = "json \<Rightarrow> 'a \<Rightarrow> 'a option"

section \<open>Scalars\<close>

definition st_string :: "string store" where
  "st_string j s = (case j of JsNull \<Rightarrow> Some s | JsStr t \<Rightarrow> Some t | _ \<Rightarrow> None)"

definition st_bool :: "bool store" where
  "st_bool j b = (case j of JsNull \<Rightarrow> Some b | JsBool c \<Rightarrow> Some c | _ \<Rightarrow> None)"

text \<open>\<open>strconv.ParseInt\<close> for 64 bits and \<open>strconv.ParseUint\<close> on the literal of a number.\<close>

definition digits_int :: "string \<Rightarrow> int option" where
  "digits_int s =
     (if s = [] \<or> \<not> list_all is_digit s then None
      else Some (foldl (\<lambda>n c. n * 10 + (of_char c - 48)) 0 s))"

definition ParseInt64 :: "string \<Rightarrow> int option" where
  "ParseInt64 t =
     (case (if HasPrefix t ''-'' then map_option uminus (digits_int (drop 1 t)) else digits_int t) of
        None \<Rightarrow> None
      | Some n \<Rightarrow> if - 9223372036854775808 \<le> n \<and> n < 9223372036854775808 then Some n else None)"

definition st_int :: "int store" where
  "st_int j n = (case j of JsNull \<Rightarrow> Some n | JsNum t \<Rightarrow> ParseInt64 t | _ \<Rightarrow> None)"

definition st_byte :: "char store" where
  "st_byte j c =
     (case j of
        JsNull \<Rightarrow> Some c
      | JsNum t \<Rightarrow> (case digits_int t of None \<Rightarrow> None | Some n \<Rightarrow> if n < 256 then Some (char_of n) else None)
      | _ \<Rightarrow> None)"

section \<open>Pointers, slices and structs\<close>

text \<open>A pointer is set to nil by null; for any other value a nil pointer gets a new variable \<open>z\<close>.\<close>

definition st_ptr :: "'a \<Rightarrow> 'a store \<Rightarrow> 'a option store" where
  "st_ptr z st j p =
     (case j of JsNull \<Rightarrow> Some None | _ \<Rightarrow> map_option Some (st j (case p of None \<Rightarrow> z | Some x \<Rightarrow> x)))"

fun st_elems :: "'a \<Rightarrow> 'a store \<Rightarrow> json list \<Rightarrow> 'a list \<Rightarrow> 'a list option" where
  "st_elems z st [] xs = Some []"
| "st_elems z st (j # js) xs =
     (case st j (case xs of [] \<Rightarrow> z | x # _ \<Rightarrow> x) of
        None \<Rightarrow> None
      | Some y \<Rightarrow> map_option (\<lambda>ys. y # ys) (st_elems z st js (tl xs)))"

definition st_slice :: "'a \<Rightarrow> 'a store \<Rightarrow> 'a list store" where
  "st_slice z st j xs = (case j of JsNull \<Rightarrow> Some [] | JsArr js \<Rightarrow> st_elems z st js xs | _ \<Rightarrow> None)"

text \<open>
  A key names the field with exactly that name, or else the first one that has it up to the case of letters;
  the Kelvin sign and the long s count as letters of ASCII.
\<close>

fun fold_key :: "string \<Rightarrow> string" where
  "fold_key [] = []"
| "fold_key (c # s) =
     (if CHR ''A'' \<le> c \<and> c \<le> CHR ''Z'' then char_of ((of_char c :: nat) + 32) # fold_key s
      else if c = CHR 0xC5 \<and> take 1 s = [CHR 0xBF] then CHR ''s'' # fold_key (drop 1 s)
      else if c = CHR 0xE2 \<and> take 2 s = [CHR 0x84, CHR 0xAA] then CHR ''k'' # fold_key (drop 2 s)
      else c # fold_key s)"

definition field_of :: "(string \<times> 'f) list \<Rightarrow> string \<Rightarrow> 'f option" where
  "field_of fs key =
     (case map_of fs key of
        Some f \<Rightarrow> Some f
      | None \<Rightarrow> map_option snd (List.find (\<lambda>(n, f). fold_key n = fold_key key) fs))"

fun st_members :: "(string \<times> 'r store) list \<Rightarrow> (string \<times> json) list \<Rightarrow> 'r \<Rightarrow> 'r option" where
  "st_members fs [] r = Some r"
| "st_members fs ((k, j) # kjs) r =
     (case field_of fs k of
        None \<Rightarrow> st_members fs kjs r
      | Some f \<Rightarrow> (case f j r of None \<Rightarrow> None | Some r' \<Rightarrow> st_members fs kjs r'))"

definition st_struct :: "(string \<times> 'r store) list \<Rightarrow> 'r store" where
  "st_struct fs j r = (case j of JsNull \<Rightarrow> Some r | JsObj kjs \<Rightarrow> st_members fs kjs r | _ \<Rightarrow> None)"

text \<open>A field with the name of its tag, by its selector and its update.\<close>

definition fld :: "string \<Rightarrow> ('r \<Rightarrow> 'a) \<Rightarrow> (('a \<Rightarrow> 'a) \<Rightarrow> 'r \<Rightarrow> 'r) \<Rightarrow> 'a store \<Rightarrow> string \<times> 'r store" where
  "fld n get upd st = (n, \<lambda>j r. map_option (\<lambda>v. upd (\<lambda>_. v) r) (st j (get r)))"

section \<open>Byte slices\<close>

text \<open>The standard base64 encoding: line breaks are skipped, the last group may be padded.\<close>

definition b64_val :: "char \<Rightarrow> int option" where
  "b64_val c =
     (let n = (of_char c :: int)
      in if CHR ''A'' \<le> c \<and> c \<le> CHR ''Z'' then Some (n - 65)
         else if CHR ''a'' \<le> c \<and> c \<le> CHR ''z'' then Some (n - 71)
         else if is_digit c then Some (n + 4)
         else if c = CHR ''+'' then Some 62
         else if c = CHR ''/'' then Some 63
         else None)"

fun b64_quads :: "string \<Rightarrow> bytes option" where
  "b64_quads [] = Some []"
| "b64_quads (a # b # c # d # r) =
     (case (b64_val a, b64_val b) of
        (Some x, Some y) \<Rightarrow>
          if c = CHR ''='' then (if d = CHR ''='' \<and> r = [] then Some [char_of (x * 4 + y div 16)] else None)
          else
            (case b64_val c of
               None \<Rightarrow> None
             | Some z \<Rightarrow>
                 if d = CHR ''='' then
                   (if r = [] then Some [char_of (x * 4 + y div 16), char_of (y mod 16 * 16 + z div 4)] else None)
                 else
                   (case (b64_val d, b64_quads r) of
                      (Some w, Some bs) \<Rightarrow>
                        Some (char_of (x * 4 + y div 16) # char_of (y mod 16 * 16 + z div 4) # char_of (z mod 4 * 64 + w) # bs)
                    | _ \<Rightarrow> None))
      | _ \<Rightarrow> None)"
| "b64_quads _ = None"

definition b64_decode :: "string \<Rightarrow> bytes option" where
  "b64_decode s = b64_quads (filter (\<lambda>c. c \<noteq> CHR 0x0D \<and> c \<noteq> CHR 0x0A) s)"

definition st_bytes :: "bytes store" where
  "st_bytes j b =
     (case j of
        JsNull \<Rightarrow> Some []
      | JsStr s \<Rightarrow> b64_decode s
      | JsArr js \<Rightarrow> st_elems (CHR 0x00) st_byte js b
      | _ \<Rightarrow> None)"

section \<open>Addresses\<close>

text \<open>\<open>UnmarshalText\<close> of \<open>net.IP\<close>; the type is a slice, which null sets to nil.\<close>

definition st_ip :: "ip store" where
  "st_ip j a =
     (case j of
        JsNull \<Rightarrow> Some []
      | JsStr s \<Rightarrow> if s = [] then Some [] else if ParseIP s = [] then None else Some (ParseIP s)
      | _ \<Rightarrow> None)"

section \<open>Values of any kind\<close>

text \<open>
  What package \<open>strconv\<close> makes of the literal of a \<open>float64\<close> that is not an integer of 53 bits, and the texts of the
  errors for a decoding into a kind of variable.
\<close>

record json_pkg =
  jp_float :: "string \<Rightarrow> jval option"
  jp_error :: "string \<Rightarrow> bytes \<Rightarrow> string"

definition sample_json :: json_pkg where
  "sample_json = \<lparr>jp_float = (\<lambda>_. None), jp_error = (\<lambda>_ _. ''invalid'')\<rparr>"

definition any_number :: "json_pkg \<Rightarrow> string \<Rightarrow> jval option" where
  "any_number J t =
     (if t = ''-0'' then jp_float J t
      else case ParseInt64 t of
             Some n \<Rightarrow> if \<bar>n\<bar> \<le> 9007199254740992 then Some (JNum n) else jp_float J t
           | None \<Rightarrow> jp_float J t)"

text \<open>A map has one entry for a key, the last one, and prints its keys in order.\<close>

fun obj_insert :: "string \<Rightarrow> 'v \<Rightarrow> (string \<times> 'v) list \<Rightarrow> (string \<times> 'v) list" where
  "obj_insert k v [] = [(k, v)]"
| "obj_insert k v ((k', v') # m) =
     (if k = k' then (k, v) # m
      else if k < k' then (k, v) # (k', v') # m
      else (k', v') # obj_insert k v m)"

fun any_value :: "json_pkg \<Rightarrow> json \<Rightarrow> jval option" where
  "any_value J JsNull = Some JNull"
| "any_value J (JsBool b) = Some (JBool b)"
| "any_value J (JsNum t) = any_number J t"
| "any_value J (JsStr s) = Some (JStr s)"
| "any_value J (JsArr js) = map_option JList (those (map (any_value J) js))"
| "any_value J (JsObj kjs) =
     map_option (\<lambda>kvs. JObj (fold (\<lambda>(k, v) m. obj_insert k v m) kvs []))
       (those (map (\<lambda>(k, j). map_option (Pair k) (any_value J j)) kjs))"

definition st_any :: "json_pkg \<Rightarrow> jval option store" where
  "st_any J j x = (case j of JsNull \<Rightarrow> Some None | _ \<Rightarrow> map_option Some (any_value J j))"

section \<open>Decoding a text\<close>

text \<open>\<open>json.Unmarshal\<close>; a \<open>json.Decoder\<close> stops behind the first value.\<close>

definition Unmarshal :: "'a store \<Rightarrow> bytes \<Rightarrow> 'a \<Rightarrow> 'a option" where
  "Unmarshal st b x = (case json_parse b of None \<Rightarrow> None | Some j \<Rightarrow> st j x)"

definition Decode :: "'a store \<Rightarrow> bytes \<Rightarrow> 'a \<Rightarrow> 'a option" where
  "Decode st b x = (case json_first b of None \<Rightarrow> None | Some (j, _) \<Rightarrow> st j x)"

definition or_error :: "json_pkg \<Rightarrow> string \<Rightarrow> bytes \<Rightarrow> 'a option \<Rightarrow> string + 'a" where
  "or_error J target b v = (case v of None \<Rightarrow> Inl (jp_error J target b) | Some x \<Rightarrow> Inr x)"

lemmas json_store_defs [go_defs] =
  st_string_def st_bool_def digits_int_def ParseInt64_def st_int_def st_byte_def st_ptr_def st_slice_def field_of_def
  st_struct_def fld_def b64_val_def b64_decode_def st_bytes_def st_ip_def any_number_def st_any_def Unmarshal_def
  Decode_def or_error_def

end
