(* ===== verification/Client_Model.thy ===== *)
theory Client_Model
  imports Conf Go_Json_Store
begin

text \<open>
  The data of package \<open>src/client\<close>: instances, operating systems, addresses, ports and network
  interfaces, with their methods.  A nil pointer is \<^const>\<open>None\<close>; a \<open>MACAddr\<close> is its six bytes and a nil
  \<open>net.HardwareAddr\<close> is \<open>[]\<close>.
\<close>

section \<open>MAC addresses\<close>

type_synonym macaddr = bytes

definition MinMAC :: macaddr where
  "MinMAC = replicate 6 (CHR 0x00)"

definition MaxMAC :: macaddr where
  "MaxMAC = replicate 6 (CHR 0xFF)"

lemma MinMAC_list: "MinMAC = [CHR 0x00, CHR 0x00, CHR 0x00, CHR 0x00, CHR 0x00, CHR 0x00]"
  by (simp add: MinMAC_def numeral_eq_Suc)

lemma MaxMAC_list: "MaxMAC = [CHR 0xFF, CHR 0xFF, CHR 0xFF, CHR 0xFF, CHR 0xFF, CHR 0xFF]"
  by (simp add: MaxMAC_def numeral_eq_Suc)

definition MACAddr_String :: "macaddr \<Rightarrow> string" where
  "MACAddr_String m = mac_String m"

definition MarshalJSON :: "macaddr \<Rightarrow> string" where
  "MarshalJSON m = [CHR 0x22] @ MACAddr_String m @ [CHR 0x22]"

text \<open>The new value of the address, and \<^const>\<open>None\<close> for an error.\<close>

definition UnmarshalText :: "bytes \<Rightarrow> macaddr option" where
  "UnmarshalText txt =
     (if length txt \<noteq> length ''00:00:00:00:00:00'' then None
      else case ParseMAC txt of
             None \<Rightarrow> None
           | Some mac \<Rightarrow> Some (take 6 mac @ drop (length mac) MinMAC))"

definition IsMin :: "macaddr \<Rightarrow> bool" where
  "IsMin m \<longleftrightarrow> m = MinMAC"

definition IsMax :: "macaddr \<Rightarrow> bool" where
  "IsMax m \<longleftrightarrow> m = MaxMAC"

section \<open>Instances\<close>

record installerData =
  id_Chain :: string
  id_Script :: string

record opsys =
  os_Slug :: string
  os_Distro :: string
  os_Version :: string
  os_ImageTag :: string
  os_OsSlug :: string
  os_Installer :: string
  os_InstallerData :: "installerData option"

definition zero_os :: opsys where
  "zero_os = \<lparr>os_Slug = [], os_Distro = [], os_Version = [], os_ImageTag = [], os_OsSlug = [],
     os_Installer = [], os_InstallerData = None\<rparr>"

record client_ip =
  ip_Address :: ip
  ip_Netmask :: ip
  ip_Gateway :: ip
  ip_Family :: int
  ip_Public :: bool
  ip_Management :: bool

definition zero_ip :: client_ip where
  "zero_ip = \<lparr>ip_Address = [], ip_Netmask = [], ip_Gateway = [], ip_Family = 0, ip_Public = False,
     ip_Management = False\<rparr>"

record instance_data =
  i_ID :: string
  i_State :: string
  i_Hostname :: string
  i_AllowPXE :: bool
  i_Rescue :: bool
  i_OS :: "opsys option"
  i_OSV :: "opsys option"
  i_AlwaysPXE :: bool
  i_IPXEScriptURL :: string
  i_IPs :: "client_ip list"
  i_UserData :: string
  i_servicesVersion :: string
  i_CryptedRootPassword :: string
  i_PasswordHash :: string
  i_CustomData :: "jval option"
  i_Tags :: "string list"
  i_SSHKeys :: "string list"
  i_NetworkReady :: bool
  i_BootDriveHint :: string

definition zero_instance :: instance_data where
  "zero_instance = \<lparr>i_ID = [], i_State = [], i_Hostname = [], i_AllowPXE = False, i_Rescue = False,
     i_OS = None, i_OSV = None, i_AlwaysPXE = False, i_IPXEScriptURL = [], i_IPs = [], i_UserData = [],
     i_servicesVersion = [], i_CryptedRootPassword = [], i_PasswordHash = [], i_CustomData = None,
     i_Tags = [], i_SSHKeys = [], i_NetworkReady = False, i_BootDriveHint = []\<rparr>"

definition FindIP :: "instance_data \<Rightarrow> (client_ip \<Rightarrow> bool) \<Rightarrow> client_ip option" where
  "FindIP i pred = find pred (i_IPs i)"

definition ManagementPublicIPv4IP :: "client_ip \<Rightarrow> bool" where
  "ManagementPublicIPv4IP ip = (ip_Public ip \<and> ip_Management ip \<and> ip_Family ip = 4)"

definition ManagementPrivateIPv4IP :: "client_ip \<Rightarrow> bool" where
  "ManagementPrivateIPv4IP ip = (\<not> ip_Public ip \<and> ip_Management ip \<and> ip_Family ip = 4)"

section \<open>The OSIE version in the user data\<close>

text \<open>The class \<open>\s\<close> of package \<open>regexp\<close>.\<close>

definition re_space :: "char \<Rightarrow> bool" where
  "re_space c \<longleftrightarrow> c = CHR 0x09 \<or> c = CHR 0x0A \<or> c = CHR 0x0C \<or> c = CHR 0x0D \<or> c = CHR '' ''"

text \<open>
  The group of \<open>^\s*#\s*services\s*=\s*({.*})\s*$\<close>: after the literal part, what is left without
  trailing white space must start with an opening and end with a closing brace.
\<close>

definition skip_spaces :: "string \<Rightarrow> string" where
  "skip_spaces s = dropWhile re_space s"

definition match_services :: "string \<Rightarrow> string option" where
  "match_services line =
     (let s1 = skip_spaces line
      in if \<not> HasPrefix s1 ''#'' then None
         else
           (let s2 = skip_spaces (drop 1 s1)
            in if \<not> HasPrefix s2 ''services'' then None
               else
                 (let s3 = skip_spaces (drop 8 s2)
                  in if \<not> HasPrefix s3 ''='' then None
                     else
                       (let g = rev (skip_spaces (rev (skip_spaces (drop 1 s3))))
                        in if HasPrefix g ''{'' \<and> HasSuffix g ''}'' \<and> length g \<ge> 2 then Some g else None))))"

text \<open>
  \<open>bufio.ScanLines\<close>: lines end at a newline, a trailing carriage return is dropped, and there is no
  empty last line.  The scanner stops at a line that does not fit its buffer of 64 KiB.
\<close>

definition drop_cr :: "string \<Rightarrow> string" where
  "drop_cr l = (if HasSuffix l [CHR 0x0D] then butlast l else l)"

definition scan_lines :: "string \<Rightarrow> string list" where
  "scan_lines s =
     (let ls = Split s (CHR 0x0A); ls' = (if last ls = [] then butlast ls else ls)
      in map drop_cr (takeWhile (\<lambda>l. length l \<le> 65535) ls'))"

fun first_services :: "string list \<Rightarrow> string option" where
  "first_services [] = None"
| "first_services (l # ls) = (case match_services l of None \<Rightarrow> first_services ls | Some g \<Rightarrow> Some g)"

text \<open>A \<open>ServicesVersion\<close> is its one field.\<close>

definition st_ServicesVersion :: "string store" where
  "st_ServicesVersion = st_struct [(''osie'', st_string)]"

definition ServicesVersion :: "instance_data \<Rightarrow> string" where
  "ServicesVersion i =
     (if i_servicesVersion i \<noteq> [] then i_servicesVersion i
      else if i_UserData i = [] then []
      else case first_services (scan_lines (i_UserData i)) of
             None \<Rightarrow> []
           | Some m \<Rightarrow> (case Unmarshal st_ServicesVersion m [] of None \<Rightarrow> [] | Some osie \<Rightarrow> osie))"

section \<open>Ports and interfaces\<close>

record port =
  p_ID :: string
  p_Type :: string
  p_Name :: string
  p_MAC :: "macaddr option"
  p_Bond :: string

definition port_MAC :: "port \<Rightarrow> hwaddr" where
  "port_MAC p = (case p_MAC p of None \<Rightarrow> [] | Some m \<Rightarrow> if m \<noteq> MinMAC then m else [])"

record dhcp_data =
  d_MAC :: "macaddr option"
  d_IP :: client_ip
  d_Hostname :: string
  d_LeaseTime :: int
  d_NameServers :: "string list"
  d_TimeServers :: "string list"
  d_Arch :: string
  d_UEFI :: bool
  d_IfaceName :: string
  d_VLANID :: string

record netboot =
  nb_AllowPXE :: bool
  nb_AllowWorkflow :: bool
  nb_IPXE_URL :: string
  nb_IPXE_Contents :: string
  nb_BaseURL :: string
  nb_Kernel :: string
  nb_Initrd :: string

record networkInterface =
  if_DHCP :: dhcp_data
  if_Netboot :: netboot

definition zero_interface :: networkInterface where
  "zero_interface = \<lparr>
     if_DHCP = \<lparr>d_MAC = None, d_IP = zero_ip, d_Hostname = [], d_LeaseTime = 0, d_NameServers = [],
       d_TimeServers = [], d_Arch = [], d_UEFI = False, d_IfaceName = [], d_VLANID = []\<rparr>,
     if_Netboot = \<lparr>nb_AllowPXE = False, nb_AllowWorkflow = False, nb_IPXE_URL = [],
       nb_IPXE_Contents = [], nb_BaseURL = [], nb_Kernel = [], nb_Initrd = []\<rparr>\<rparr>"

text \<open>The methods call \<open>String\<close> through the MAC pointer of each interface, which may be nil.\<close>

fun InterfaceByMac :: "networkInterface list \<Rightarrow> hwaddr \<Rightarrow> networkInterface go" where
  "InterfaceByMac [] mac = Ok zero_interface"
| "InterfaceByMac (i # is) mac =
     bind_go (deref (d_MAC (if_DHCP i))) (\<lambda>m.
     if MACAddr_String m = mac_String mac then Ok i else InterfaceByMac is mac)"

fun InterfaceByIP :: "networkInterface list \<Rightarrow> ip \<Rightarrow> networkInterface" where
  "InterfaceByIP [] ip = zero_interface"
| "InterfaceByIP (i # is) ip =
     (if ip_String (ip_Address (d_IP (if_DHCP i))) = ip_String ip then i else InterfaceByIP is ip)"

record metadata =
  m_State :: string
  m_BondingMode :: int
  m_ManufacturerID :: string
  m_ManufacturerSlug :: string
  m_Instance :: "instance_data option"
  m_PreinstalledOS :: opsys
  m_PrivateSubnets :: "string list"
  m_PlanSlug :: string
  m_PlanVersionSlug :: string
  m_FacilityCode :: string
  m_ProvisionerEngine :: string

lemmas client_defs [go_defs] =
  MinMAC_def MaxMAC_def MACAddr_String_def MarshalJSON_def UnmarshalText_def IsMin_def IsMax_def
  zero_os_def zero_ip_def zero_instance_def FindIP_def ManagementPublicIPv4IP_def
  ManagementPrivateIPv4IP_def re_space_def skip_spaces_def match_services_def drop_cr_def
  scan_lines_def st_ServicesVersion_def ServicesVersion_def port_MAC_def zero_interface_def

section \<open>Behaviour\<close>

lemma mac_String_eq_iff [simp]: "mac_String a = mac_String b \<longleftrightarrow> a = b"
proof
  assume s: "mac_String a = mac_String b"
  have nil: "mac_String m = [] \<longleftrightarrow> m = []" for m
    using length_mac_String [of m] by (cases m) (auto simp: mac_String_def)
  show "a = b"
  proof (cases "a = [] \<or> b = []")
    case True
    then show ?thesis using s nil by metis
  next
    case False
    then have l: "length a > 0" "length b > 0" by auto
    have "3 * length a - 1 = 3 * length b - 1"
      using s False length_mac_String [of a] length_mac_String [of b] by simp
    then have n: "length a = length b" using l by arith
    have "Some a = mac_colons (length a) (mac_String a) (CHR '':'')"
      by (rule mac_colons_print [symmetric])
    also have "\<dots> = mac_colons (length b) (mac_String b) (CHR '':'')" by (simp only: s n)
    also have "\<dots> = Some b" by (rule mac_colons_print)
    finally show ?thesis by simp
  qed
qed simp

text \<open>
  What is between the quotes of \<open>MarshalJSON\<close> is accepted by \<open>UnmarshalText\<close>, which returns the same six bytes.
\<close>

lemma MACAddr_round_trip:
  assumes "length m = 6"
  shows "UnmarshalText (butlast (tl (MarshalJSON m))) = Some m"
proof -
  have "length (mac_String m) = 17"
    using length_mac_String [of m] assms by (cases m) auto
  moreover have "ParseMAC (mac_String m) = Some m"
    using assms by (simp add: ParseMAC_print)
  ultimately show ?thesis
    using assms by (simp add: UnmarshalText_def MarshalJSON_def MACAddr_String_def MinMAC_def butlast_append)
qed

lemma MACAddr_round_trip_sample:
  "UnmarshalText (butlast (tl (MarshalJSON [CHR 0x02, CHR 0x42, CHR 0xAC, CHR 0x11, CHR 0x00, CHR 0x02]))) =
    Some [CHR 0x02, CHR 0x42, CHR 0xAC, CHR 0x11, CHR 0x00, CHR 0x02]"
  by (rule MACAddr_round_trip) simp

lemma InterfaceByMac_found:
  assumes "\<forall>i \<in> set is. d_MAC (if_DHCP i) \<noteq> None"
  shows "InterfaceByMac is mac =
    Ok (case find (\<lambda>i. d_MAC (if_DHCP i) = Some mac) is of None \<Rightarrow> zero_interface | Some i \<Rightarrow> i)"
  using assms
  by (induction "is") (auto simp: MACAddr_String_def)

end
