(* ===== verification/Client_Json.thy ===== *)
theory Client_Json
  imports Client_Model
begin

text \<open>
  The JSON form of the types of package \<open>src/client\<close>: for each struct the fields with their tags, as
  \<open>encoding/json\<close> stores into them.  A struct inside a struct whose fields the model keeps in the outer record is
  stored there.
\<close>

section \<open>Instances\<close>

definition st_MACAddr :: "macaddr store" where
  "st_MACAddr j m = (case j of JsNull \<Rightarrow> Some m | JsStr s \<Rightarrow> UnmarshalText s | _ \<Rightarrow> None)"

definition zero_InstallerData :: installerData where
  "zero_InstallerData = \<lparr>id_Chain = [], id_Script = []\<rparr>"

definition st_InstallerData :: "installerData store" where
  "st_InstallerData = st_struct [
     fld ''chain'' id_Chain id_Chain_update st_string,
     fld ''script'' id_Script id_Script_update st_string]"

definition st_OperatingSystem :: "opsys store" where
  "st_OperatingSystem = st_struct [
     fld ''slug'' os_Slug os_Slug_update st_string,
     fld ''distro'' os_Distro os_Distro_update st_string,
     fld ''version'' os_Version os_Version_update st_string,
     fld ''image_tag'' os_ImageTag os_ImageTag_update st_string,
     fld ''os_slug'' os_OsSlug os_OsSlug_update st_string,
     fld ''installer'' os_Installer os_Installer_update st_string,
     fld ''installer_data'' os_InstallerData os_InstallerData_update (st_ptr zero_InstallerData st_InstallerData)]"

definition st_IP :: "client_ip store" where
  "st_IP = st_struct [
     fld ''address'' ip_Address ip_Address_update st_ip,
     fld ''netmask'' ip_Netmask ip_Netmask_update st_ip,
     fld ''gateway'' ip_Gateway ip_Gateway_update st_ip,
     fld ''address_family'' ip_Family ip_Family_update st_int,
     fld ''public'' ip_Public ip_Public_update st_bool,
     fld ''management'' ip_Management ip_Management_update st_bool]"

text \<open>The services version of an instance is not exported and has no JSON form.\<close>

definition st_Instance :: "json_pkg \<Rightarrow> instance_data store" where
  "st_Instance J = st_struct [
     fld ''id'' i_ID i_ID_update st_string,
     fld ''state'' i_State i_State_update st_string,
     fld ''hostname'' i_Hostname i_Hostname_update st_string,
     fld ''allow_pxe'' i_AllowPXE i_AllowPXE_update st_bool,
     fld ''rescue'' i_Rescue i_Rescue_update st_bool,
     fld ''operating_system'' i_OS i_OS_update (st_ptr zero_os st_OperatingSystem),
     fld ''operating_system_version'' i_OSV i_OSV_update (st_ptr zero_os st_OperatingSystem),
     fld ''always_pxe'' i_AlwaysPXE i_AlwaysPXE_update st_bool,
     fld ''ipxe_script_url'' i_IPXEScriptURL i_IPXEScriptURL_update st_string,
     fld ''ip_addresses'' i_IPs i_IPs_update (st_slice zero_ip st_IP),
     fld ''userdata'' i_UserData i_UserData_update st_string,
     fld ''crypted_root_password'' i_CryptedRootPassword i_CryptedRootPassword_update st_string,
     fld ''password_hash'' i_PasswordHash i_PasswordHash_update st_string,
     fld ''customdata'' i_CustomData i_CustomData_update (st_any J),
     fld ''tags'' i_Tags i_Tags_update (st_slice [] st_string),
     fld ''ssh_keys'' i_SSHKeys i_SSHKeys_update (st_slice [] st_string),
     fld ''network_ready'' i_NetworkReady i_NetworkReady_update st_bool,
     fld ''boot_drive_hint'' i_BootDriveHint i_BootDriveHint_update st_string]"

section \<open>Ports and interfaces\<close>

definition zero_port :: port where
  "zero_port = \<lparr>p_ID = [], p_Type = [], p_Name = [], p_MAC = None, p_Bond = []\<rparr>"

definition st_Port :: "port store" where
  "st_Port = st_struct [
     fld ''id'' p_ID p_ID_update st_string,
     fld ''type'' p_Type p_Type_update st_string,
     fld ''name'' p_Name p_Name_update st_string,
     (''data'', st_struct [
        fld ''mac'' p_MAC p_MAC_update (st_ptr MinMAC st_MACAddr),
        fld ''bond'' p_Bond p_Bond_update st_string])]"

definition st_DHCP :: "dhcp_data store" where
  "st_DHCP = st_struct [
     fld ''mac'' d_MAC d_MAC_update (st_ptr MinMAC st_MACAddr),
     fld ''ip'' d_IP d_IP_update st_IP,
     fld ''hostname'' d_Hostname d_Hostname_update st_string,
     fld ''lease_time'' d_LeaseTime d_LeaseTime_update st_int,
     fld ''name_servers'' d_NameServers d_NameServers_update (st_slice [] st_string),
     fld ''time_servers'' d_TimeServers d_TimeServers_update (st_slice [] st_string),
     fld ''arch'' d_Arch d_Arch_update st_string,
     fld ''uefi'' d_UEFI d_UEFI_update st_bool,
     fld ''iface_name'' d_IfaceName d_IfaceName_update st_string,
     fld ''vlan_id'' d_VLANID d_VLANID_update st_string]"

definition st_OSIE :: "netboot store" where
  "st_OSIE = st_struct [
     fld ''base_url'' nb_BaseURL nb_BaseURL_update st_string,
     fld ''kernel'' nb_Kernel nb_Kernel_update st_string,
     fld ''initrd'' nb_Initrd nb_Initrd_update st_string]"

definition st_Netboot :: "netboot store" where
  "st_Netboot = st_struct [
     fld ''allow_pxe'' nb_AllowPXE nb_AllowPXE_update st_bool,
     fld ''allow_workflow'' nb_AllowWorkflow nb_AllowWorkflow_update st_bool,
     (''ipxe'', st_struct [
        fld ''url'' nb_IPXE_URL nb_IPXE_URL_update st_string,
        fld ''contents'' nb_IPXE_Contents nb_IPXE_Contents_update st_string]),
     (''osie'', st_OSIE)]"

definition st_NetworkInterface :: "networkInterface store" where
  "st_NetworkInterface = st_struct [
     fld ''dhcp'' if_DHCP if_DHCP_update st_DHCP,
     fld ''netboot'' if_Netboot if_Netboot_update st_Netboot]"

definition st_Network :: "networkInterface list store" where
  "st_Network = st_struct [(''interfaces'', st_slice zero_interface st_NetworkInterface)]"

section \<open>Metadata\<close>

definition zero_metadata :: metadata where
  "zero_metadata = \<lparr>m_State = [], m_BondingMode = 0, m_ManufacturerID = [], m_ManufacturerSlug = [], m_Instance = None,
     m_PreinstalledOS = zero_os, m_PrivateSubnets = [], m_PlanSlug = [], m_PlanVersionSlug = [], m_FacilityCode = [],
     m_ProvisionerEngine = []\<rparr>"

definition st_Manufacturer :: "metadata store" where
  "st_Manufacturer = st_struct [
     fld ''id'' m_ManufacturerID m_ManufacturerID_update st_string,
     fld ''slug'' m_ManufacturerSlug m_ManufacturerSlug_update st_string]"

definition st_Facility :: "metadata store" where
  "st_Facility = st_struct [
     fld ''plan_slug'' m_PlanSlug m_PlanSlug_update st_string,
     fld ''plan_version_slug'' m_PlanVersionSlug m_PlanVersionSlug_update st_string,
     fld ''facility_code'' m_FacilityCode m_FacilityCode_update st_string]"

definition st_Metadata :: "json_pkg \<Rightarrow> metadata store" where
  "st_Metadata J = st_struct [
     fld ''state'' m_State m_State_update st_string,
     fld ''bonding_mode'' m_BondingMode m_BondingMode_update st_int,
     (''manufacturer'', st_Manufacturer),
     fld ''instance'' m_Instance m_Instance_update (st_ptr zero_instance (st_Instance J)),
     (''custom'', st_struct [
        fld ''preinstalled_operating_system_version'' m_PreinstalledOS m_PreinstalledOS_update st_OperatingSystem,
        fld ''private_subnets'' m_PrivateSubnets m_PrivateSubnets_update (st_slice [] st_string)]),
     (''facility'', st_Facility),
     fld ''provisioner_engine'' m_ProvisionerEngine m_ProvisionerEngine_update st_string]"

section \<open>Embedded pointers\<close>

text \<open>
  The fields of an embedded pointer are fields of the struct around it: the first key that names one of them
  allocates the pointer, and without such a key it stays nil.
\<close>

definition promoted :: "'a \<Rightarrow> (string \<times> 'a store) list \<Rightarrow> (string \<times> 'a option store) list" where
  "promoted z fs = map (\<lambda>(n, st). (n, \<lambda>j p. map_option Some (st j (case p of None \<Rightarrow> z | Some x \<Rightarrow> x)))) fs"

lemmas client_json_defs [go_defs] =
  st_MACAddr_def zero_InstallerData_def st_InstallerData_def st_OperatingSystem_def st_IP_def st_Instance_def zero_port_def
  st_Port_def st_DHCP_def st_OSIE_def st_Netboot_def st_NetworkInterface_def st_Network_def zero_metadata_def
  st_Manufacturer_def st_Facility_def st_Metadata_def promoted_def

lemma field_of_promoted:
  "field_of (promoted z fs) k =
     map_option (\<lambda>st j p. map_option Some (st j (case p of None \<Rightarrow> z | Some x \<Rightarrow> x))) (field_of fs k)"
proof -
  have "map_of (promoted z fs) k =
      map_option (\<lambda>st j p. map_option Some (st j (case p of None \<Rightarrow> z | Some x \<Rightarrow> x))) (map_of fs k)"
    by (induction fs) (auto simp: promoted_def)
  moreover have "List.find (\<lambda>(n, f). fold_key n = fold_key k) (promoted z fs) =
      map_option (\<lambda>(n, st). (n, \<lambda>j p. map_option Some (st j (case p of None \<Rightarrow> z | Some x \<Rightarrow> x))))
        (List.find (\<lambda>(n, f). fold_key n = fold_key k) fs)"
    by (induction fs) (auto simp: promoted_def)
  ultimately show ?thesis by (simp add: field_of_def option.map_comp comp_def case_prod_unfold split: option.split)
qed

lemma promoted_Some: "st_members (promoted z fs) kjs (Some x) = Some p \<Longrightarrow> p \<noteq> None"
proof (induction kjs arbitrary: x)
  case (Cons kj kjs)
  then show ?case
    by (cases kj) (auto simp: field_of_promoted split: option.splits)
qed auto

lemma promoted_None:
  "st_members (promoted z fs) kjs None = Some None \<longleftrightarrow> list_all (\<lambda>(k, _). field_of fs k = None) kjs"
proof (induction kjs)
  case (Cons kj kjs)
  then show ?case
    by (cases kj) (auto simp: field_of_promoted split: option.splits dest: promoted_Some)
qed simp

section \<open>MAC addresses as JSON\<close>

lemma hex_ascii: "list_all (\<lambda>n. of_char (hex_digit n) < (128 :: nat) \<and> json_ascii (hex_digit n) = [hex_digit n]) [0..<16]"
  by code_simp

lemma mac_String_plain: "list_all (\<lambda>c. of_char c < (128 :: nat) \<and> json_ascii c = [c]) (mac_String m)"
proof (induction m rule: induct_list012)
  case 1
  then show ?case by (simp add: mac_String_def)
next
  case (2 x)
  have "of_char x div 16 < (16 :: nat)" by (simp add: less_mult_imp_div_less of_char_lt)
  with hex_ascii show ?case by (simp add: mac_String_def hex_byte2_def list_all_iff)
next
  case (3 x y zs)
  have "of_char x div 16 < (16 :: nat)" by (simp add: less_mult_imp_div_less of_char_lt)
  moreover have "json_ascii (CHR '':'') = '':''" by code_simp
  ultimately show ?case using 3 hex_ascii by (simp add: mac_String_def hex_byte2_def list_all_iff)
qed

lemma MarshalJSON_string: "MarshalJSON m = json_Marshal (JStr (mac_String m))"
  using json_chars_ascii [OF mac_String_plain, of m "length (mac_String m)"]
  by (simp add: MarshalJSON_def MACAddr_String_def json_string_def)

text \<open>
  C29: a MAC address printed as JSON by \<open>MarshalJSON\<close> is a JSON text, and decoding it into a variable of type
  \<open>*MACAddr\<close> stores the same six bytes whatever the variable held.
\<close>

theorem MACAddr_json_round_trip:
  assumes "length m = 6"
  shows "Unmarshal (st_ptr MinMAC st_MACAddr) (MarshalJSON m) p = Some (Some m)"
proof -
  have "coerce (mac_String m) = mac_String m"
    using mac_String_plain [of m] by (intro coerce_ascii) (simp add: list_all_iff)
  then have "json_parse (MarshalJSON m) = Some (JsStr (mac_String m))"
    using json_parse_Marshal [of "JStr (mac_String m)"] by (simp add: MarshalJSON_string)
  moreover have "UnmarshalText (mac_String m) = Some m"
    using MACAddr_round_trip [OF assms] by (simp add: MarshalJSON_def MACAddr_String_def butlast_append)
  ultimately show ?thesis by (simp add: Unmarshal_def st_ptr_def st_MACAddr_def)
qed

theorem MACAddr_json_round_trip_witness:
  "Unmarshal (st_ptr MinMAC st_MACAddr) (MarshalJSON [CHR 0x02, CHR 0x42, CHR 0xAC, CHR 0x11, CHR 0x00, CHR 0x02]) None =
    Some (Some [CHR 0x02, CHR 0x42, CHR 0xAC, CHR 0x11, CHR 0x00, CHR 0x02])"
  by (rule MACAddr_json_round_trip) simp

end
