(* ===== verification/Cacher_Discovery.thy ===== *)
theory Cacher_Discovery
  imports Client_Json
begin

text \<open>
  The cacher backend, \<open>src/client/cacher\<close>: the discovery of a device from its cached record, which
  address it gets and in which mode.  The embedded hardware pointer is not nil here: a record that names no
  field of the hardware leaves it nil, and the first method called on the discovery faults then, which is
  the fault of the finder below.
\<close>

section \<open>The hardware record\<close>

record hardwareCacher =
  hc_ID :: string
  hc_Name :: string
  hc_State :: string
  hc_BondingMode :: int
  hc_NetworkPorts :: "port list"
  hc_ManufacturerSlug :: string
  hc_PlanSlug :: string
  hc_PlanVersionSlug :: string
  hc_Arch :: string
  hc_FacilityCode :: string
  hc_IPMI :: client_ip
  hc_IPs :: "client_ip list"
  hc_PreinstallOS :: opsys
  hc_PrivateSubnets :: "string list"
  hc_UEFI :: bool
  hc_AllowPXE :: bool
  hc_AllowWorkflow :: bool
  hc_ServicesVersion :: string
  hc_Instance :: "instance_data option"
  hc_ProvisionerEngine :: string
  hc_Traceparent :: string

record discoveryCacher =
  dc_HardwareCacher :: hardwareCacher
  dc_mac :: hwaddr

definition dc_Instance :: "discoveryCacher \<Rightarrow> instance_data option" where
  "dc_Instance d = hc_Instance (dc_HardwareCacher d)"

definition dc_ports :: "discoveryCacher \<Rightarrow> port list" where
  "dc_ports d = hc_NetworkPorts (dc_HardwareCacher d)"

definition dc_DNSServers :: "conf \<Rightarrow> discoveryCacher \<Rightarrow> hwaddr \<Rightarrow> ip list" where
  "dc_DNSServers c d mac = DNSServers c"

definition dc_LeaseTime :: "conf \<Rightarrow> discoveryCacher \<Rightarrow> hwaddr \<Rightarrow> int" where
  "dc_LeaseTime c d mac = DHCPLeaseTime c"

section \<open>Which MAC is which\<close>

text \<open>The loop of \<open>PrimaryDataMAC\<close>; \<open>eth0\<close> ends it.\<close>

fun primary_loop :: "port list \<Rightarrow> macaddr \<Rightarrow> macaddr" where
  "primary_loop [] mac = mac"
| "primary_loop (p # ports) mac =
     (if p_Type p \<noteq> ''data'' then primary_loop ports mac
      else case p_MAC p of
             None \<Rightarrow> primary_loop ports mac
           | Some m \<Rightarrow>
               if p_Name p = ''eth0'' then m
               else if mac_String (port_MAC p) < MACAddr_String mac then primary_loop ports m
               else primary_loop ports mac)"

definition PrimaryDataMAC :: "discoveryCacher \<Rightarrow> macaddr" where
  "PrimaryDataMAC d =
     (let mac = primary_loop (dc_ports d) MaxMAC in if IsMax mac then MinMAC else mac)"

fun management_loop :: "port list \<Rightarrow> macaddr go" where
  "management_loop [] = Ok MinMAC"
| "management_loop (p # ports) = (if p_Type p = ''ipmi'' then deref (p_MAC p) else management_loop ports)"

definition ManagementMAC :: "discoveryCacher \<Rightarrow> macaddr go" where
  "ManagementMAC d = management_loop (dc_ports d)"

definition dc_MAC :: "discoveryCacher \<Rightarrow> hwaddr" where
  "dc_MAC d = (if dc_mac d = [] then PrimaryDataMAC d else dc_mac d)"

fun mac_type_loop :: "port list \<Rightarrow> string \<Rightarrow> string" where
  "mac_type_loop [] mac = ''NOTFOUND''"
| "mac_type_loop (p # ports) mac = (if mac_String (port_MAC p) = mac then p_Type p else mac_type_loop ports mac)"

definition MacType :: "discoveryCacher \<Rightarrow> string \<Rightarrow> string" where
  "MacType d mac = mac_type_loop (dc_ports d) mac"

fun mac_is_type_loop :: "port list \<Rightarrow> string \<Rightarrow> string \<Rightarrow> bool" where
  "mac_is_type_loop [] mac portType = False"
| "mac_is_type_loop (p # ports) mac portType =
     (if mac_String (port_MAC p) \<noteq> mac then mac_is_type_loop ports mac portType
      else p_Type p = portType)"

definition MacIsType :: "discoveryCacher \<Rightarrow> string \<Rightarrow> string \<Rightarrow> bool" where
  "MacIsType d mac portType = mac_is_type_loop (dc_ports d) mac portType"

section \<open>Which address a MAC gets\<close>

definition hwIP :: "discoveryCacher \<Rightarrow> client_ip option" where
  "hwIP d = find (\<lambda>ip. ip_Family ip = 4 \<and> \<not> ip_Public ip) (hc_IPs (dc_HardwareCacher d))"

definition InstanceIP :: "discoveryCacher \<Rightarrow> string \<Rightarrow> client_ip option" where
  "InstanceIP d mac =
     (case dc_Instance d of
        None \<Rightarrow> None
      | Some i \<Rightarrow>
          if i_ID i = [] \<or> \<not> MacIsType d mac ''data'' \<or> mac_String (PrimaryDataMAC d) \<noteq> mac then None
          else case FindIP i ManagementPublicIPv4IP of
                 Some ip \<Rightarrow> Some ip
               | None \<Rightarrow>
                   (case FindIP i ManagementPrivateIPv4IP of
                      Some ip \<Rightarrow> Some ip
                    | None \<Rightarrow>
                        if i_State i = ''provisioning'' \<or> i_State i = ''deprovisioning'' then hwIP d else None))"

definition HardwareIP :: "discoveryCacher \<Rightarrow> string \<Rightarrow> client_ip option" where
  "HardwareIP d mac =
     (if \<not> MacIsType d mac ''data'' then None
      else if mac_String (PrimaryDataMAC d) \<noteq> mac then None
      else hwIP d)"

definition ManagementIP :: "discoveryCacher \<Rightarrow> string \<Rightarrow> client_ip option" where
  "ManagementIP d mac =
     (if MacIsType d mac ''ipmi'' \<and> hc_Name (dc_HardwareCacher d) \<noteq> []
      then Some (hc_IPMI (dc_HardwareCacher d)) else None)"

definition DiscoveredIP :: "discoveryCacher \<Rightarrow> string \<Rightarrow> client_ip option" where
  "DiscoveredIP d mac =
     (if MacIsType d mac ''ipmi'' \<and> hc_Name (dc_HardwareCacher d) = []
      then Some (hc_IPMI (dc_HardwareCacher d)) else None)"

definition dc_Mode :: "discoveryCacher \<Rightarrow> string" where
  "dc_Mode d =
     (let mac = mac_String (dc_mac d)
      in if InstanceIP d mac \<noteq> None then ''instance''
         else if ManagementIP d mac \<noteq> None then ''management''
         else if HardwareIP d mac \<noteq> None then ''hardware''
         else if DiscoveredIP d mac \<noteq> None then ''discovered''
         else [])"

definition dc_GetIP :: "discoveryCacher \<Rightarrow> hwaddr \<Rightarrow> client_ip" where
  "dc_GetIP d mac =
     (case InstanceIP d (mac_String mac) of
        Some ip \<Rightarrow> ip
      | None \<Rightarrow>
          (case ManagementIP d (mac_String mac) of
             Some ip \<Rightarrow> ip
           | None \<Rightarrow>
               (case HardwareIP d (mac_String mac) of
                  Some ip \<Rightarrow> ip
                | None \<Rightarrow>
                    (case DiscoveredIP d (mac_String mac) of Some ip \<Rightarrow> ip | None \<Rightarrow> zero_ip))))"

definition dc_GetMAC :: "discoveryCacher \<Rightarrow> ip \<Rightarrow> hwaddr" where
  "dc_GetMAC d ip = PrimaryDataMAC d"

definition dc_SetMAC :: "hwaddr \<Rightarrow> discoveryCacher \<Rightarrow> discoveryCacher" where
  "dc_SetMAC mac d = d\<lparr>dc_mac := mac\<rparr>"

text \<open>An error is \<open>Inl\<close> its message.\<close>

definition dc_Hostname :: "discoveryCacher \<Rightarrow> (string + string) go" where
  "dc_Hostname d =
     (let mode = dc_Mode d
      in if mode = ''discovered'' \<or> mode = ''management'' then Ok (Inr (hc_Name (dc_HardwareCacher d)))
         else if mode = ''instance'' then
           map_ok (\<lambda>i. Inr (if hc_State (dc_HardwareCacher d) = ''deprovisioning''
                            then hc_Name (dc_HardwareCacher d) else i_Hostname i)) (deref (dc_Instance d))
         else if mode = ''hardware'' then Ok (Inr (hc_Name (dc_HardwareCacher d)))
         else Ok (Inl (''unknown mode: '' @ mode)))"

section \<open>Hardware\<close>

definition hc_Management :: "hardwareCacher \<Rightarrow> ip \<times> ip \<times> ip" where
  "hc_Management h = (ip_Address (hc_IPMI h), ip_Netmask (hc_IPMI h), ip_Gateway (hc_IPMI h))"

text \<open>\<open>make([]client.Port, 0, len(h.NetworkPorts)-1)\<close> has capacity -1 without ports.\<close>

definition hc_Interfaces :: "hardwareCacher \<Rightarrow> port list go" where
  "hc_Interfaces h =
     (if int (length (hc_NetworkPorts h)) - 1 < 0 then Fault MakeSliceCap
      else Ok (filter (\<lambda>p. p_Type p \<noteq> ''ipmi'') (hc_NetworkPorts h)))"

text \<open>
  \<open>OperatingSystem\<close> allocates a missing instance or operating system; the value it returns is the
  same the next time.
\<close>

definition hc_OperatingSystem :: "hardwareCacher \<Rightarrow> opsys" where
  "hc_OperatingSystem h =
     (case hc_Instance h of None \<Rightarrow> zero_os | Some i \<Rightarrow> (case i_OSV i of None \<Rightarrow> zero_os | Some os \<Rightarrow> os))"

definition hc_HardwareAllowPXE :: "hardwareCacher \<Rightarrow> hwaddr \<Rightarrow> bool" where
  "hc_HardwareAllowPXE h mac = hc_AllowPXE h"

definition hc_HardwareAllowWorkflow :: "hardwareCacher \<Rightarrow> hwaddr \<Rightarrow> bool" where
  "hc_HardwareAllowWorkflow h mac = hc_AllowWorkflow h"

definition hc_HardwareArch :: "hardwareCacher \<Rightarrow> hwaddr \<Rightarrow> string" where
  "hc_HardwareArch h mac = hc_Arch h"

definition hc_HardwareBondingMode :: "hardwareCacher \<Rightarrow> int" where
  "hc_HardwareBondingMode h = hc_BondingMode h"

definition hc_HardwareFacilityCode :: "hardwareCacher \<Rightarrow> string" where
  "hc_HardwareFacilityCode h = hc_FacilityCode h"

definition hc_HardwareID :: "hardwareCacher \<Rightarrow> string" where
  "hc_HardwareID h = hc_ID h"

definition hc_HardwareIPs :: "hardwareCacher \<Rightarrow> client_ip list" where
  "hc_HardwareIPs h = hc_IPs h"

definition hc_HardwareIPMI :: "hardwareCacher \<Rightarrow> client_ip" where
  "hc_HardwareIPMI h = hc_IPMI h"

definition hc_HardwareManufacturer :: "hardwareCacher \<Rightarrow> string" where
  "hc_HardwareManufacturer h = hc_ManufacturerSlug h"

definition hc_HardwareProvisioner :: "hardwareCacher \<Rightarrow> string" where
  "hc_HardwareProvisioner h = hc_ProvisionerEngine h"

definition hc_HardwarePlanSlug :: "hardwareCacher \<Rightarrow> string" where
  "hc_HardwarePlanSlug h = hc_PlanSlug h"

definition hc_HardwarePlanVersionSlug :: "hardwareCacher \<Rightarrow> string" where
  "hc_HardwarePlanVersionSlug h = hc_PlanVersionSlug h"

definition hc_HardwareOSIEVersion :: "hardwareCacher \<Rightarrow> string" where
  "hc_HardwareOSIEVersion h = hc_ServicesVersion h"

definition hc_HardwareState :: "hardwareCacher \<Rightarrow> string" where
  "hc_HardwareState h = hc_State h"

definition hc_HardwareUEFI :: "hardwareCacher \<Rightarrow> hwaddr \<Rightarrow> bool" where
  "hc_HardwareUEFI h mac = hc_UEFI h"

definition hc_OSIEBaseURL :: "hardwareCacher \<Rightarrow> hwaddr \<Rightarrow> string" where
  "hc_OSIEBaseURL h mac = []"

definition hc_KernelPath :: "hardwareCacher \<Rightarrow> hwaddr \<Rightarrow> string" where
  "hc_KernelPath h mac = []"

definition hc_InitrdPath :: "hardwareCacher \<Rightarrow> hwaddr \<Rightarrow> string" where
  "hc_InitrdPath h mac = []"

definition hc_GetTraceparent :: "hardwareCacher \<Rightarrow> string" where
  "hc_GetTraceparent h = hc_Traceparent h"

definition hc_GetVLANID :: "hardwareCacher \<Rightarrow> hwaddr \<Rightarrow> string" where
  "hc_GetVLANID h mac = []"

lemmas hc_methods [simp] =
  hc_HardwareAllowPXE_def hc_HardwareAllowWorkflow_def hc_HardwareArch_def
  hc_HardwareBondingMode_def hc_HardwareFacilityCode_def hc_HardwareID_def hc_HardwareIPs_def
  hc_HardwareIPMI_def hc_HardwareManufacturer_def hc_HardwareProvisioner_def
  hc_HardwarePlanSlug_def hc_HardwarePlanVersionSlug_def hc_HardwareOSIEVersion_def
  hc_HardwareState_def hc_HardwareUEFI_def hc_OSIEBaseURL_def hc_KernelPath_def hc_InitrdPath_def
  hc_GetTraceparent_def hc_GetVLANID_def

lemmas cacher_defs [go_defs] =
  dc_Instance_def dc_ports_def dc_DNSServers_def dc_LeaseTime_def PrimaryDataMAC_def
  ManagementMAC_def dc_MAC_def MacType_def MacIsType_def hwIP_def InstanceIP_def HardwareIP_def
  ManagementIP_def DiscoveredIP_def dc_Mode_def dc_GetIP_def dc_GetMAC_def dc_SetMAC_def
  dc_Hostname_def hc_Management_def hc_Interfaces_def hc_OperatingSystem_def

section \<open>The finder\<close>

text \<open>
  The cacher client (\<open>cc_ByIP\<close>, \<open>cc_ByMAC\<close>: the JSON of the response) and the reporter's \<open>Post\<close> with the
  embedded pointer it leaves are arguments.  An error is \<open>Inl\<close> its message.
\<close>

definition zero_hardwareCacher :: hardwareCacher where
  "zero_hardwareCacher = \<lparr>hc_ID = [], hc_Name = [], hc_State = [], hc_BondingMode = 0, hc_NetworkPorts = [],
     hc_ManufacturerSlug = [], hc_PlanSlug = [], hc_PlanVersionSlug = [], hc_Arch = [], hc_FacilityCode = [],
     hc_IPMI = zero_ip, hc_IPs = [], hc_PreinstallOS = zero_os, hc_PrivateSubnets = [], hc_UEFI = False,
     hc_AllowPXE = False, hc_AllowWorkflow = False, hc_ServicesVersion = [], hc_Instance = None,
     hc_ProvisionerEngine = [], hc_Traceparent = []\<rparr>"

text \<open>The identifier of the manufacturer is decoded and never read.\<close>

definition HardwareCacher_fields :: "json_pkg \<Rightarrow> (string \<times> hardwareCacher store) list" where
  "HardwareCacher_fields J = [
     fld ''id'' hc_ID hc_ID_update st_string,
     fld ''name'' hc_Name hc_Name_update st_string,
     fld ''state'' hc_State hc_State_update st_string,
     fld ''bonding_mode'' hc_BondingMode hc_BondingMode_update st_int,
     fld ''network_ports'' hc_NetworkPorts hc_NetworkPorts_update (st_slice zero_port st_Port),
     (''manufacturer'', st_struct [
        (''id'', \<lambda>j h. map_option (\<lambda>_. h) (st_string j [])),
        fld ''slug'' hc_ManufacturerSlug hc_ManufacturerSlug_update st_string]),
     fld ''plan_slug'' hc_PlanSlug hc_PlanSlug_update st_string,
     fld ''plan_version_slug'' hc_PlanVersionSlug hc_PlanVersionSlug_update st_string,
     fld ''arch'' hc_Arch hc_Arch_update st_string,
     fld ''facility_code'' hc_FacilityCode hc_FacilityCode_update st_string,
     fld ''management'' hc_IPMI hc_IPMI_update st_IP,
     fld ''ip_addresses'' hc_IPs hc_IPs_update (st_slice zero_ip st_IP),
     fld ''preinstalled_operating_system_version'' hc_PreinstallOS hc_PreinstallOS_update st_OperatingSystem,
     fld ''private_subnets'' hc_PrivateSubnets hc_PrivateSubnets_update (st_slice [] st_string),
     fld ''efi_boot'' hc_UEFI hc_UEFI_update st_bool,
     fld ''allow_pxe'' hc_AllowPXE hc_AllowPXE_update st_bool,
     fld ''allow_workflow'' hc_AllowWorkflow hc_AllowWorkflow_update st_bool,
     fld ''services'' hc_ServicesVersion hc_ServicesVersion_update st_ServicesVersion,
     fld ''instance'' hc_Instance hc_Instance_update (st_ptr zero_instance (st_Instance J)),
     fld ''provisioner_engine'' hc_ProvisionerEngine hc_ProvisionerEngine_update st_string,
     fld ''traceparent'' hc_Traceparent hc_Traceparent_update st_string]"

definition st_DiscoveryCacher :: "json_pkg \<Rightarrow> hardwareCacher option store" where
  "st_DiscoveryCacher J = st_struct (promoted zero_hardwareCacher (HardwareCacher_fields J))"

definition cacher_discovery :: "hardwareCacher option \<Rightarrow> discoveryCacher go" where
  "cacher_discovery p = map_ok (\<lambda>h. \<lparr>dc_HardwareCacher = h, dc_mac = []\<rparr>) (deref p)"

definition cacher_Unmarshal :: "json_pkg \<Rightarrow> string \<Rightarrow> string + hardwareCacher option" where
  "cacher_Unmarshal J b = or_error J ''DiscoveryCacher'' b (Unmarshal (st_DiscoveryCacher J) b None)"

record em_request =
  em_MAC :: string
  em_GIADDR :: string
  em_CIRCUITID :: string

definition ErrNotFound :: string where
  "ErrNotFound = ''hardware not found''"

definition wrap_err :: "string \<Rightarrow> string \<Rightarrow> string" where
  "wrap_err msg err = msg @ '': '' @ err"

definition cacher_ByIP ::
  "(string \<Rightarrow> string + string) \<Rightarrow> json_pkg \<Rightarrow> ip \<Rightarrow> (string + discoveryCacher) go" where
  "cacher_ByIP cc_ByIP J ip =
     (case cc_ByIP (ip_String ip) of
        Inl err \<Rightarrow> Ok (Inl (wrap_err ''get hardware by ip from cacher'' err))
      | Inr json \<Rightarrow>
          if json = [] then Ok (Inl ErrNotFound)
          else case cacher_Unmarshal J json of
                 Inl err \<Rightarrow> Ok (Inl (wrap_err ''unmarshal json for discovery'' err))
               | Inr d \<Rightarrow> map_ok Inr (cacher_discovery d))"

definition getDiscoveryFromEM ::
  "(em_request \<Rightarrow> string + hardwareCacher option) \<Rightarrow> hwaddr \<Rightarrow> ip \<Rightarrow> string \<Rightarrow> string + hardwareCacher option" where
  "getDiscoveryFromEM post mac giaddr circuitID =
     (if giaddr = [] then Inl ''missing GIADDR address''
      else post \<lparr>em_MAC = mac_String mac, em_GIADDR = ip_String giaddr, em_CIRCUITID = circuitID\<rparr>)"

definition cacher_ByMAC ::
  "(string \<Rightarrow> string + string) \<Rightarrow> json_pkg \<Rightarrow> (em_request \<Rightarrow> string + hardwareCacher option) \<Rightarrow> hwaddr \<Rightarrow> ip \<Rightarrow> string \<Rightarrow>
   (string + discoveryCacher) go" where
  "cacher_ByMAC cc_ByMAC J post mac giaddr circuitID =
     (case cc_ByMAC (mac_String mac) of
        Inl err \<Rightarrow> Ok (Inl (wrap_err ''get hardware by mac from cacher'' err))
      | Inr json \<Rightarrow>
          if json = [] then
            (case getDiscoveryFromEM post mac giaddr circuitID of
               Inl err \<Rightarrow> Ok (Inl (wrap_err ''get hardware by mac from EMAPI'' err))
             | Inr d \<Rightarrow> map_ok Inr (cacher_discovery d))
          else case cacher_Unmarshal J json of
                 Inl err \<Rightarrow> Ok (Inl (wrap_err ''unmarshal json for discovery'' err))
               | Inr d \<Rightarrow> map_ok Inr (cacher_discovery d))"

section \<open>Records that name no hardware\<close>

text \<open>A JSON value that is stored without an error and sets no field of the hardware.\<close>

definition names_nothing :: "json_pkg \<Rightarrow> json \<Rightarrow> bool" where
  "names_nothing J j =
     (case j of
        JsNull \<Rightarrow> True
      | JsObj kjs \<Rightarrow> list_all (\<lambda>(k, _). field_of (HardwareCacher_fields J) k = None) kjs
      | _ \<Rightarrow> False)"

lemma st_DiscoveryCacher_None: "st_DiscoveryCacher J j None = Some None \<longleftrightarrow> names_nothing J j"
  by (cases j) (simp_all add: st_DiscoveryCacher_def st_struct_def names_nothing_def promoted_None)

lemma cacher_Unmarshal_None:
  "cacher_Unmarshal J b = Inr None \<longleftrightarrow> (\<exists>j. json_parse b = Some j \<and> names_nothing J j)"
proof (cases "json_parse b")
  case (Some j)
  with st_DiscoveryCacher_None [of J j] show ?thesis
    by (cases "st_DiscoveryCacher J j None") (auto simp: cacher_Unmarshal_def or_error_def Unmarshal_def)
qed (simp add: cacher_Unmarshal_def or_error_def Unmarshal_def)

lemma cacher_discovery_Fault: "cacher_discovery d = Fault e \<longleftrightarrow> d = None \<and> e = NilDeref"
  by (cases d) (auto simp: cacher_discovery_def)

lemma cacher_decode_Fault:
  "(case cacher_Unmarshal J b of
      Inl err \<Rightarrow> Ok (Inl (wrap_err ''unmarshal json for discovery'' err))
    | Inr d \<Rightarrow> map_ok Inr (cacher_discovery d)) = Fault e \<longleftrightarrow>
   e = NilDeref \<and> (\<exists>j. json_parse b = Some j \<and> names_nothing J j)"
  using cacher_Unmarshal_None [of J b] by (cases "cacher_Unmarshal J b") (auto simp: cacher_discovery_Fault)

lemma cacher_empty_record_panics: "cacher_ByIP (\<lambda>_. Inr ''{}'') J ip = Fault NilDeref"
proof -
  have "json_parse ''{}'' = Some (JsObj [])" by code_simp
  then show ?thesis by (simp add: cacher_ByIP_def cacher_decode_Fault names_nothing_def)
qed


section \<open>The primary MAC\<close>

lemma lexord_pointwise: "list_all2 (\<le>) xs ys \<Longrightarrow> xs \<le> ys" for xs ys :: "char list"
  by (induction xs ys rule: list_all2_induct) (auto simp: order_le_less)

lemma hex_digits_ge_0: "list_all (\<lambda>n. CHR ''0'' \<le> hex_digit n) [0..<16]"
  by code_simp

lemma hex_digit_ge_0: "n < 16 \<Longrightarrow> CHR ''0'' \<le> hex_digit n"
  using hex_digits_ge_0 by (simp add: list_all_iff)

lemma hex_byte2_ge: "list_all2 (\<le>) (hex_byte2 (CHR 0x00)) (hex_byte2 c)"
proof -
  have "hex_digit 0 = CHR ''0''" by (simp add: hex_digit_def)
  then show ?thesis
    using hex_digit_ge_0 [of "of_char c div 16"] hex_digit_ge_0 [of "of_char c mod 16"]
    by (simp add: hex_byte2_def less_mult_imp_div_less)
qed

lemma mac_String_zeros_le:
  "list_all2 (\<le>) (mac_String (replicate (length m) (CHR 0x00))) (mac_String m)"
proof (induction m rule: induct_list012)
  case (3 x y zs)
  then show ?case
    using hex_byte2_ge [of x] by (simp add: mac_String_def list_all2_appendI)
qed (simp_all add: mac_String_def hex_byte2_ge)

lemma MinMAC_least: "length m = 6 \<Longrightarrow> mac_String MinMAC \<le> mac_String m"
  using mac_String_zeros_le [of m] by (simp add: MinMAC_def lexord_pointwise)

definition data_macs :: "port list \<Rightarrow> (string \<times> macaddr) list" where
  "data_macs ports = [(p_Name p, the (p_MAC p)). p \<leftarrow> ports, p_Type p = ''data'' \<and> p_MAC p \<noteq> None]"

lemma primary_loop_eth0:
  assumes "map_of (data_macs ports) ''eth0'' = Some m"
  shows "primary_loop ports mac = m"
  using assms by (induction ports arbitrary: mac) (auto simp: data_macs_def split: if_splits)

lemma primary_loop_least:
  assumes "map_of (data_macs ports) ''eth0'' = None"
    and "\<forall>(n, m) \<in> set (data_macs ports). length m = 6" and "length mac = 6"
  shows "mac_String (primary_loop ports mac) \<le> mac_String mac \<and>
    (\<forall>(n, m) \<in> set (data_macs ports). mac_String (primary_loop ports mac) \<le> mac_String m) \<and>
    (primary_loop ports mac = mac \<or> primary_loop ports mac \<in> snd ` set (data_macs ports))"
  using assms
proof (induction ports arbitrary: mac)
  case (Cons p ports)
  show ?case
  proof (cases "p_Type p = ''data'' \<and> p_MAC p \<noteq> None")
    case True
    then obtain m where m: "p_Type p = ''data''" "p_MAC p = Some m" by auto
    have d: "data_macs (p # ports) = (p_Name p, m) # data_macs ports" using m by (simp add: data_macs_def)
    have n: "p_Name p \<noteq> ''eth0''" and lm: "length m = 6" using Cons.prems d by (auto split: if_splits)
    have ih: "length k = 6 \<Longrightarrow> ?thesis" if "primary_loop (p # ports) mac = primary_loop ports k"
      "mac_String k \<le> mac_String mac" "mac_String k \<le> mac_String m" "k = mac \<or> k = m" for k
      using Cons.IH [of k] Cons.prems d n that by auto
    show ?thesis
    proof (cases "mac_String (port_MAC p) < mac_String mac")
      case True
      have "mac_String m \<le> mac_String mac"
        using True MinMAC_least Cons.prems(3) m by (auto simp: port_MAC_def split: if_splits)
      with True show ?thesis using ih [of m] m n lm by (simp add: MACAddr_String_def)
    next
      case False
      have "mac_String mac \<le> mac_String m"
        using False m Cons.prems(3) by (auto simp: port_MAC_def mac_String_def not_less split: if_splits)
      with False show ?thesis using ih [of mac] m n Cons.prems(3) by (simp add: MACAddr_String_def)
    qed
  next
    case False
    then have "data_macs (p # ports) = data_macs ports" and "primary_loop (p # ports) mac = primary_loop ports mac"
      by (auto simp: data_macs_def)
    with Cons show ?thesis by simp
  qed
qed (simp add: data_macs_def)

text \<open>
  The primary MAC is the one of the first data port named \<open>eth0\<close>; without one it is a least
  data MAC in the order of the printed addresses, or the zero MAC when no data port has a MAC
  below ff:ff:ff:ff:ff:ff.
\<close>

lemma PrimaryDataMAC_choice:
  assumes "\<forall>(n, m) \<in> set (data_macs (dc_ports d)). length m = 6"
  shows "case map_of (data_macs (dc_ports d)) ''eth0'' of
      Some m \<Rightarrow> PrimaryDataMAC d = (if m = MaxMAC then MinMAC else m)
    | None \<Rightarrow>
        (\<forall>(n, m) \<in> set (data_macs (dc_ports d)). mac_String (PrimaryDataMAC d) \<le> mac_String m) \<and>
        (PrimaryDataMAC d = MinMAC \<or> PrimaryDataMAC d \<in> snd ` set (data_macs (dc_ports d)))"
proof (cases "map_of (data_macs (dc_ports d)) ''eth0''")
  case None
  have "length MaxMAC = 6" by (simp add: MaxMAC_def)
  note l = primary_loop_least [OF None assms this]
  have "\<forall>(n, m) \<in> set (data_macs (dc_ports d)). mac_String MinMAC \<le> mac_String m"
    using assms MinMAC_least by auto
  with None l show ?thesis by (auto simp: PrimaryDataMAC_def IsMax_def Let_def)
next
  case (Some m)
  then show ?thesis by (simp add: PrimaryDataMAC_def IsMax_def primary_loop_eth0)
qed

section \<open>Modes and addresses\<close>

lemma mac_is_type_iff: "mac_is_type_loop ports mac t \<Longrightarrow> mac_type_loop ports mac = t"
  by (induction ports) (auto split: if_splits)

lemma MacIsType_exclusive: "MacIsType d mac ''ipmi'' \<Longrightarrow> \<not> MacIsType d mac ''data''"
  using mac_is_type_iff [of "dc_ports d" mac "''ipmi''"] mac_is_type_iff [of "dc_ports d" mac "''data''"]
  by (auto simp: MacIsType_def)

text \<open>
  C26: the mode of a discovery and the address that its own MAC gets always come from the same
  source: the instance's, the management controller's, or the hardware's address, and a device in
  no mode gets the zero address.
\<close>

theorem mode_and_address_agree:
  "(dc_Mode d = ''instance'' \<and> InstanceIP d (mac_String (dc_mac d)) = Some (dc_GetIP d (dc_mac d))) \<or>
   (dc_Mode d = ''management'' \<and> hc_Name (dc_HardwareCacher d) \<noteq> [] \<and>
      MacIsType d (mac_String (dc_mac d)) ''ipmi'' \<and> dc_GetIP d (dc_mac d) = hc_IPMI (dc_HardwareCacher d)) \<or>
   (dc_Mode d = ''hardware'' \<and> hwIP d = Some (dc_GetIP d (dc_mac d)) \<and>
      mac_String (PrimaryDataMAC d) = mac_String (dc_mac d)) \<or>
   (dc_Mode d = ''discovered'' \<and> hc_Name (dc_HardwareCacher d) = [] \<and>
      MacIsType d (mac_String (dc_mac d)) ''ipmi'' \<and> dc_GetIP d (dc_mac d) = hc_IPMI (dc_HardwareCacher d)) \<or>
   (dc_Mode d = [] \<and> dc_GetIP d (dc_mac d) = zero_ip)"
proof (cases "InstanceIP d (mac_String (dc_mac d))")
  case (Some ip)
  then show ?thesis by (simp add: dc_Mode_def dc_GetIP_def)
next
  case inst: None
  show ?thesis
  proof (cases "MacIsType d (mac_String (dc_mac d)) ''ipmi''")
    case True
    then have "HardwareIP d (mac_String (dc_mac d)) = None"
      using MacIsType_exclusive by (simp add: HardwareIP_def)
    with True inst show ?thesis
      by (cases "hc_Name (dc_HardwareCacher d) = []")
        (simp_all add: dc_Mode_def dc_GetIP_def ManagementIP_def DiscoveredIP_def)
  next
    case False
    with inst show ?thesis
      by (cases "HardwareIP d (mac_String (dc_mac d))")
        (auto simp: dc_Mode_def dc_GetIP_def ManagementIP_def DiscoveredIP_def HardwareIP_def split: if_splits)
  qed
qed

lemma mac_is_type_notfound:
  "(\<And>p. p \<in> set ports \<Longrightarrow> mac_String (port_MAC p) \<noteq> mac) \<Longrightarrow> \<not> mac_is_type_loop ports mac t"
  by (induction ports) auto

text \<open>
  A MAC that belongs to none of the device's ports gets no address and no host name: the mode
  is empty, the address is the zero address and \<open>Hostname\<close> returns an error.
\<close>

lemma unknown_mac_gets_nothing:
  assumes "\<forall>p \<in> set (dc_ports d). port_MAC p \<noteq> dc_mac d"
  shows "dc_Mode d = [] \<and> dc_GetIP d (dc_mac d) = zero_ip \<and> dc_Hostname d = Ok (Inl ''unknown mode: '')"
proof -
  have "\<not> MacIsType d (mac_String (dc_mac d)) t" for t
    using assms mac_is_type_notfound [of "dc_ports d" "mac_String (dc_mac d)" t] by (auto simp: MacIsType_def)
  then have "InstanceIP d (mac_String (dc_mac d)) = None" "ManagementIP d (mac_String (dc_mac d)) = None"
    "HardwareIP d (mac_String (dc_mac d)) = None" "DiscoveredIP d (mac_String (dc_mac d)) = None"
    by (simp_all add: InstanceIP_def ManagementIP_def HardwareIP_def DiscoveredIP_def split: option.split)
  then show ?thesis by (simp add: dc_Mode_def dc_GetIP_def dc_Hostname_def)
qed

text \<open>
  While an instance has a public management IPv4 address, the primary data MAC gets the first
  such address, failing that the first private one, and failing both the hardware's first private
  IPv4 address: that last step does not depend on the state of the instance.
\<close>

lemma InstanceIP_priority:
  assumes "dc_Instance d = Some i" and "i_ID i \<noteq> []" and "MacIsType d (mac_String (PrimaryDataMAC d)) ''data''"
  shows "dc_GetIP d (PrimaryDataMAC d) =
    (case find ManagementPublicIPv4IP (i_IPs i) of
       Some ip \<Rightarrow> ip
     | None \<Rightarrow> (case find ManagementPrivateIPv4IP (i_IPs i) of
                 Some ip \<Rightarrow> ip
               | None \<Rightarrow> (case hwIP d of Some ip \<Rightarrow> ip | None \<Rightarrow> zero_ip)))"
  using assms MacIsType_exclusive [of d "mac_String (PrimaryDataMAC d)"]
  by (auto simp: dc_GetIP_def InstanceIP_def HardwareIP_def ManagementIP_def DiscoveredIP_def FindIP_def
      split: option.split)

section \<open>Samples\<close>

definition sample_mac :: macaddr where
  "sample_mac = [CHR 0x02, CHR 0x00, CHR 0x00, CHR 0x00, CHR 0x00, CHR 0x01]"

definition sample_ip :: client_ip where
  "sample_ip = \<lparr>ip_Address = [CHR 0xC0, CHR 0xA8, CHR 0x01, CHR 0x05],
     ip_Netmask = [CHR 0xFF, CHR 0xFF, CHR 0xFF, CHR 0xF8], ip_Gateway = [CHR 0xC0, CHR 0xA8, CHR 0x01, CHR 0x01],
     ip_Family = 4, ip_Public = False, ip_Management = True\<rparr>"

definition sample_port :: port where
  "sample_port = \<lparr>p_ID = [], p_Type = ''data'', p_Name = ''eth1'', p_MAC = Some sample_mac, p_Bond = []\<rparr>"

definition sample_instance :: instance_data where
  "sample_instance = zero_instance\<lparr>i_ID := ''i-1'', i_State := ''active'', i_Hostname := ''node'',
     i_AllowPXE := True, i_IPs := [sample_ip]\<rparr>"

definition sample_hc :: hardwareCacher where
  "sample_hc = \<lparr>hc_ID = ''hw-1'', hc_Name = ''rack1'', hc_State = ''in_use'', hc_BondingMode = 4,
     hc_NetworkPorts = [sample_port], hc_ManufacturerSlug = [], hc_PlanSlug = ''c3.small.x86'',
     hc_PlanVersionSlug = [], hc_Arch = ''x86_64'', hc_FacilityCode = ''ewr1'', hc_IPMI = zero_ip,
     hc_IPs = [sample_ip], hc_PreinstallOS = zero_os, hc_PrivateSubnets = [], hc_UEFI = True,
     hc_AllowPXE = True, hc_AllowWorkflow = False, hc_ServicesVersion = [],
     hc_Instance = Some sample_instance, hc_ProvisionerEngine = [], hc_Traceparent = []\<rparr>"

definition sample_dc :: discoveryCacher where
  "sample_dc = \<lparr>dc_HardwareCacher = sample_hc, dc_mac = sample_mac\<rparr>"

lemma sample_ports: "dc_ports sample_dc = [sample_port]"
  by (simp add: dc_ports_def sample_dc_def sample_hc_def)

lemma sample_port_MAC: "port_MAC sample_port = sample_mac"
  by (simp add: port_MAC_def sample_port_def sample_mac_def MinMAC_list)

lemma sample_primary: "PrimaryDataMAC sample_dc = sample_mac"
proof -
  have "mac_String sample_mac < mac_String MaxMAC"
    by (simp add: sample_mac_def MaxMAC_list mac_String_def hex_byte2_def hex_digit_def)
  then have "primary_loop [sample_port] MaxMAC = sample_mac"
    using sample_port_MAC by (simp add: sample_port_def MACAddr_String_def)
  moreover have "sample_mac \<noteq> MaxMAC" by (simp add: sample_mac_def MaxMAC_list)
  ultimately show ?thesis by (simp add: PrimaryDataMAC_def sample_ports IsMax_def)
qed

lemma sample_data: "MacIsType sample_dc (mac_String sample_mac) ''data''"
  using sample_port_MAC by (simp add: MacIsType_def sample_ports) (simp add: sample_port_def)

lemma PrimaryDataMAC_choice_sample:
  "PrimaryDataMAC sample_dc = MinMAC \<or> PrimaryDataMAC sample_dc \<in> {sample_mac}"
proof -
  have d: "data_macs (dc_ports sample_dc) = [(''eth1'', sample_mac)]"
    by (simp add: sample_ports data_macs_def sample_port_def)
  then have "\<forall>(n, m) \<in> set (data_macs (dc_ports sample_dc)). length m = 6"
    by (simp add: sample_mac_def)
  from PrimaryDataMAC_choice [OF this] show ?thesis by (simp add: d)
qed

lemma unknown_mac_gets_nothing_sample:
  "dc_Mode (dc_SetMAC MaxMAC sample_dc) = [] \<and> dc_GetIP (dc_SetMAC MaxMAC sample_dc) MaxMAC = zero_ip"
proof -
  have "\<forall>p \<in> set (dc_ports (dc_SetMAC MaxMAC sample_dc)). port_MAC p \<noteq> dc_mac (dc_SetMAC MaxMAC sample_dc)"
    using sample_port_MAC
    by (simp add: dc_SetMAC_def dc_ports_def sample_dc_def sample_hc_def sample_mac_def MaxMAC_list)
  from unknown_mac_gets_nothing [OF this] show ?thesis by (simp add: dc_SetMAC_def)
qed

lemma InstanceIP_priority_witness: "dc_GetIP sample_dc (PrimaryDataMAC sample_dc) = sample_ip"
proof -
  have "dc_Instance sample_dc = Some sample_instance" and "i_ID sample_instance \<noteq> []"
    by (simp_all add: dc_Instance_def sample_dc_def sample_hc_def sample_instance_def)
  from InstanceIP_priority [OF this] sample_data show ?thesis
    by (simp add: sample_primary sample_instance_def ManagementPublicIPv4IP_def ManagementPrivateIPv4IP_def
        sample_ip_def)
qed

end
