(* ===== verification/Tinkerbell_Discovery.thy ===== *)
theory Tinkerbell_Discovery
  imports Client_Json
begin

text \<open>
  The tink-server backend, \<open>src/client/tinkerbell\<close>.  Every per-interface value is looked up by MAC; the
  lookup faults at an interface without a MAC.  As for the cacher, the embedded hardware pointer is
  never nil.
\<close>

record hardwareTinkerbell =
  ht_ID :: string
  ht_Interfaces :: "networkInterface list"
  ht_Metadata :: metadata

record discoveryTinkerbell =
  dt_Hardware :: hardwareTinkerbell
  dt_mac :: hwaddr

section \<open>Discovery\<close>

definition dt_interface :: "discoveryTinkerbell \<Rightarrow> hwaddr \<Rightarrow> networkInterface go" where
  "dt_interface d mac = InterfaceByMac (ht_Interfaces (dt_Hardware d)) mac"

definition dt_LeaseTime :: "conf \<Rightarrow> discoveryTinkerbell \<Rightarrow> hwaddr \<Rightarrow> int go" where
  "dt_LeaseTime c d mac =
     bind_go (dt_interface d mac) (\<lambda>i.
     let leaseTime = d_LeaseTime (if_DHCP i)
     in if leaseTime = 0 then Ok (DHCPLeaseTime c) else Ok (parse_seconds leaseTime))"

definition dt_DNSServers :: "conf \<Rightarrow> discoveryTinkerbell \<Rightarrow> hwaddr \<Rightarrow> ip list go" where
  "dt_DNSServers c d mac =
     bind_go (dt_interface d mac) (\<lambda>i.
     let dnsServers = d_NameServers (if_DHCP i)
     in if dnsServers = [] then Ok (DNSServers c) else Ok (ParseIPv4s (Join dnsServers '','')))"

definition dt_Instance :: "discoveryTinkerbell \<Rightarrow> instance_data option" where
  "dt_Instance d = m_Instance (ht_Metadata (dt_Hardware d))"

definition dt_MAC :: "discoveryTinkerbell \<Rightarrow> hwaddr" where
  "dt_MAC d = dt_mac d"

definition dt_Mode :: "discoveryTinkerbell \<Rightarrow> string" where
  "dt_Mode d = ''hardware''"

definition dt_GetIP :: "discoveryTinkerbell \<Rightarrow> hwaddr \<Rightarrow> client_ip go" where
  "dt_GetIP d mac = map_ok (\<lambda>i. d_IP (if_DHCP i)) (dt_interface d mac)"

definition dt_GetMAC :: "discoveryTinkerbell \<Rightarrow> ip \<Rightarrow> hwaddr go" where
  "dt_GetMAC d ip = deref (d_MAC (if_DHCP (InterfaceByIP (ht_Interfaces (dt_Hardware d)) ip)))"

definition dt_PrimaryDataMAC :: "discoveryTinkerbell \<Rightarrow> macaddr" where
  "dt_PrimaryDataMAC d = MaxMAC"

definition dt_Hostname :: "discoveryTinkerbell \<Rightarrow> string" where
  "dt_Hostname d = (case dt_Instance d of None \<Rightarrow> [] | Some i \<Rightarrow> i_Hostname i)"

definition dt_SetMAC :: "hwaddr \<Rightarrow> discoveryTinkerbell \<Rightarrow> discoveryTinkerbell" where
  "dt_SetMAC mac d = d\<lparr>dt_mac := mac\<rparr>"

section \<open>Hardware\<close>

definition ht_AllowPXE :: "hardwareTinkerbell \<Rightarrow> hwaddr \<Rightarrow> bool go" where
  "ht_AllowPXE h mac = map_ok (\<lambda>i. nb_AllowPXE (if_Netboot i)) (InterfaceByMac (ht_Interfaces h) mac)"

definition ht_AllowWorkflow :: "hardwareTinkerbell \<Rightarrow> hwaddr \<Rightarrow> bool go" where
  "ht_AllowWorkflow h mac = map_ok (\<lambda>i. nb_AllowWorkflow (if_Netboot i)) (InterfaceByMac (ht_Interfaces h) mac)"

definition ht_Arch :: "hardwareTinkerbell \<Rightarrow> hwaddr \<Rightarrow> string go" where
  "ht_Arch h mac = map_ok (\<lambda>i. d_Arch (if_DHCP i)) (InterfaceByMac (ht_Interfaces h) mac)"

definition ht_UEFI :: "hardwareTinkerbell \<Rightarrow> hwaddr \<Rightarrow> bool go" where
  "ht_UEFI h mac = map_ok (\<lambda>i. d_UEFI (if_DHCP i)) (InterfaceByMac (ht_Interfaces h) mac)"

definition ht_OSIEBaseURL :: "hardwareTinkerbell \<Rightarrow> hwaddr \<Rightarrow> string go" where
  "ht_OSIEBaseURL h mac = map_ok (\<lambda>i. nb_BaseURL (if_Netboot i)) (InterfaceByMac (ht_Interfaces h) mac)"

definition ht_KernelPath :: "hardwareTinkerbell \<Rightarrow> hwaddr \<Rightarrow> string go" where
  "ht_KernelPath h mac = map_ok (\<lambda>i. nb_Kernel (if_Netboot i)) (InterfaceByMac (ht_Interfaces h) mac)"

definition ht_InitrdPath :: "hardwareTinkerbell \<Rightarrow> hwaddr \<Rightarrow> string go" where
  "ht_InitrdPath h mac = map_ok (\<lambda>i. nb_Initrd (if_Netboot i)) (InterfaceByMac (ht_Interfaces h) mac)"

definition ht_HardwareBondingMode :: "hardwareTinkerbell \<Rightarrow> int" where
  "ht_HardwareBondingMode h = m_BondingMode (ht_Metadata h)"

definition ht_HardwareFacilityCode :: "hardwareTinkerbell \<Rightarrow> string" where
  "ht_HardwareFacilityCode h = m_FacilityCode (ht_Metadata h)"

definition ht_HardwareID :: "hardwareTinkerbell \<Rightarrow> string" where
  "ht_HardwareID h = ht_ID h"

definition ht_HardwareIPs :: "hardwareTinkerbell \<Rightarrow> client_ip list" where
  "ht_HardwareIPs h = []"

definition ht_HardwareProvisioner :: "hardwareTinkerbell \<Rightarrow> string" where
  "ht_HardwareProvisioner h = m_ProvisionerEngine (ht_Metadata h)"

definition ht_HardwareManufacturer :: "hardwareTinkerbell \<Rightarrow> string" where
  "ht_HardwareManufacturer h = m_ManufacturerSlug (ht_Metadata h)"

definition ht_HardwarePlanSlug :: "hardwareTinkerbell \<Rightarrow> string" where
  "ht_HardwarePlanSlug h = m_PlanSlug (ht_Metadata h)"

definition ht_HardwarePlanVersionSlug :: "hardwareTinkerbell \<Rightarrow> string" where
  "ht_HardwarePlanVersionSlug h = m_PlanVersionSlug (ht_Metadata h)"

definition ht_HardwareState :: "hardwareTinkerbell \<Rightarrow> string" where
  "ht_HardwareState h = m_State (ht_Metadata h)"

definition ht_HardwareOSIEVersion :: "hardwareTinkerbell \<Rightarrow> string" where
  "ht_HardwareOSIEVersion h = []"

definition ht_PortInterfaces :: "hardwareTinkerbell \<Rightarrow> port list" where
  "ht_PortInterfaces h = []"

definition ht_GetTraceparent :: "hardwareTinkerbell \<Rightarrow> string" where
  "ht_GetTraceparent h = []"

definition ht_GetVLANID :: "hardwareTinkerbell \<Rightarrow> hwaddr \<Rightarrow> string" where
  "ht_GetVLANID h mac = []"

lemmas ht_methods [simp] =
  ht_HardwareBondingMode_def ht_HardwareFacilityCode_def ht_HardwareID_def ht_HardwareIPs_def
  ht_HardwareProvisioner_def ht_HardwareManufacturer_def ht_HardwarePlanSlug_def
  ht_HardwarePlanVersionSlug_def ht_HardwareState_def ht_HardwareOSIEVersion_def
  ht_PortInterfaces_def ht_GetTraceparent_def ht_GetVLANID_def

text \<open>A missing instance or operating system is allocated; the value returned is the same.\<close>

definition ht_OperatingSystem :: "hardwareTinkerbell \<Rightarrow> opsys" where
  "ht_OperatingSystem h =
     (case m_Instance (ht_Metadata h) of
        None \<Rightarrow> zero_os
      | Some i \<Rightarrow> (case i_OS i of None \<Rightarrow> zero_os | Some os \<Rightarrow> os))"

section \<open>The finders\<close>

text \<open>
  The hardware client (\<open>get\<close>), the JSON encoding of its response (\<open>marshal\<close>) and the workflow client are
  arguments.  An error is \<open>Inl\<close> its message.  A text that names no field of the hardware leaves the embedded
  pointer nil, on which the first method faults.
\<close>

definition zero_hardwareTinkerbell :: hardwareTinkerbell where
  "zero_hardwareTinkerbell = \<lparr>ht_ID = [], ht_Interfaces = [], ht_Metadata = zero_metadata\<rparr>"

definition HardwareTinkerbell_fields :: "json_pkg \<Rightarrow> (string \<times> hardwareTinkerbell store) list" where
  "HardwareTinkerbell_fields J = [
     fld ''id'' ht_ID ht_ID_update st_string,
     fld ''network'' ht_Interfaces ht_Interfaces_update st_Network,
     fld ''metadata'' ht_Metadata ht_Metadata_update (st_Metadata J)]"

definition st_DiscoveryTinkerbell :: "json_pkg \<Rightarrow> hardwareTinkerbell option store" where
  "st_DiscoveryTinkerbell J = st_struct (promoted zero_hardwareTinkerbell (HardwareTinkerbell_fields J))"

definition tink_finder ::
  "string \<Rightarrow> (string \<Rightarrow> string + 'r) \<Rightarrow> ('r \<Rightarrow> string + string) \<Rightarrow> json_pkg \<Rightarrow> string \<Rightarrow>
   (string + discoveryTinkerbell) go" where
  "tink_finder what get marshal J key =
     (case get key of
        Inl err \<Rightarrow> Ok (Inl (''get hardware by '' @ what @ '' from tink: '' @ err))
      | Inr resp \<Rightarrow>
          (case marshal resp of
             Inl err \<Rightarrow> Ok (Inl (''marshal json for discovery: '' @ err))
           | Inr b \<Rightarrow>
               if b = [] \<or> b = ''{}'' then Ok (Inl ''hardware not found'')
               else case or_error J ''DiscoveryTinkerbellV1'' b (Unmarshal (st_DiscoveryTinkerbell J) b None) of
                      Inl err \<Rightarrow> Ok (Inl (''unmarshal json for discovery: '' @ err))
                    | Inr d \<Rightarrow> map_ok (\<lambda>h. Inr \<lparr>dt_Hardware = h, dt_mac = []\<rparr>) (deref d)))"

definition tink_ByIP ::
  "(string \<Rightarrow> string + 'r) \<Rightarrow> ('r \<Rightarrow> string + string) \<Rightarrow> json_pkg \<Rightarrow> ip \<Rightarrow> (string + discoveryTinkerbell) go" where
  "tink_ByIP get marshal J ip = tink_finder ''ip'' get marshal J (ip_String ip)"

definition tink_ByMAC ::
  "(string \<Rightarrow> string + 'r) \<Rightarrow> ('r \<Rightarrow> string + string) \<Rightarrow> json_pkg \<Rightarrow> hwaddr \<Rightarrow> (string + discoveryTinkerbell) go" where
  "tink_ByMAC get marshal J mac = tink_finder ''mac'' get marshal J (mac_String mac)"

datatype wf_state = STATE_PENDING | STATE_RUNNING | STATE_FAILED | STATE_TIMEOUT | STATE_SUCCESS

definition HasActiveWorkflow ::
  "(string \<Rightarrow> string + wf_state list) \<Rightarrow> string \<Rightarrow> string + bool" where
  "HasActiveWorkflow get hwID =
     (if hwID = [] then Inl ''missing hardware id''
      else case get hwID of
             Inl err \<Rightarrow> Inl (''error while fetching the workflow: '' @ err)
           | Inr wcl \<Rightarrow> Inr (list_ex (\<lambda>wf. wf = STATE_PENDING \<or> wf = STATE_RUNNING) wcl))"

lemmas tink_defs [go_defs] =
  dt_interface_def dt_LeaseTime_def dt_DNSServers_def dt_Instance_def dt_MAC_def dt_Mode_def
  dt_GetIP_def dt_GetMAC_def dt_PrimaryDataMAC_def dt_Hostname_def dt_SetMAC_def ht_AllowPXE_def
  ht_AllowWorkflow_def ht_Arch_def ht_UEFI_def ht_OSIEBaseURL_def ht_KernelPath_def
  ht_InitrdPath_def ht_OperatingSystem_def tink_finder_def tink_ByIP_def tink_ByMAC_def
  HasActiveWorkflow_def

section \<open>Addresses and MACs\<close>

text \<open>
  C28: the two lookups of a record are inverse to each other where they should be: when every
  interface has a MAC, no two share one, and the addresses are distinct IPv4 addresses, the MAC
  found for an interface's address leads back to exactly that address.
\<close>

theorem tink_GetMAC_GetIP:
  assumes "\<forall>i \<in> set is. d_MAC (if_DHCP i) \<noteq> None" and "distinct (map (\<lambda>i. d_MAC (if_DHCP i)) is)"
    and "distinct (map (\<lambda>i. ip_String (ip_Address (d_IP (if_DHCP i)))) is)"
    and "is = ht_Interfaces (dt_Hardware d)" and "i \<in> set is"
  shows "bind_go (dt_GetMAC d (ip_Address (d_IP (if_DHCP i)))) (dt_GetIP d) = Ok (d_IP (if_DHCP i))"
proof -
  let ?a = "\<lambda>i. ip_String (ip_Address (d_IP (if_DHCP i)))"
  have by_ip: "InterfaceByIP js (ip_Address (d_IP (if_DHCP i))) = i"
    if "distinct (map ?a js)" "i \<in> set js" for js
    using that by (induction js) (auto simp: image_iff)
  obtain m where m: "d_MAC (if_DHCP i) = Some m" using assms(1,5) by auto
  have "find (\<lambda>k. d_MAC (if_DHCP k) = Some m) js = Some i"
    if "distinct (map (\<lambda>i. d_MAC (if_DHCP i)) js)" "i \<in> set js" for js
    using that m by (induction js) (auto simp: image_iff)
  then have "InterfaceByMac is m = Ok i"
    using assms(1,2,5) by (simp add: InterfaceByMac_found)
  then show ?thesis
    using by_ip [OF assms(3,5)] m assms(4)
    by (simp add: dt_GetMAC_def dt_GetIP_def dt_interface_def)
qed

section \<open>Samples\<close>

definition sample_iface :: networkInterface where
  "sample_iface = zero_interface\<lparr>
     if_DHCP := (if_DHCP zero_interface)\<lparr>
       d_MAC := Some [CHR 0x02, CHR 0x00, CHR 0x00, CHR 0x00, CHR 0x00, CHR 0x01],
       d_IP := zero_ip\<lparr>ip_Address := [CHR 0xC0, CHR 0xA8, CHR 0x01, CHR 0x05], ip_Family := 4\<rparr>,
       d_Arch := ''x86_64'', d_UEFI := True\<rparr>,
     if_Netboot := (if_Netboot zero_interface)\<lparr>nb_AllowPXE := True\<rparr>\<rparr>"

definition sample_metadata :: metadata where
  "sample_metadata = \<lparr>m_State = [], m_BondingMode = 0, m_ManufacturerID = [], m_ManufacturerSlug = [],
     m_Instance = Some (zero_instance\<lparr>i_Hostname := ''node''\<rparr>), m_PreinstalledOS = zero_os,
     m_PrivateSubnets = [], m_PlanSlug = [], m_PlanVersionSlug = [], m_FacilityCode = ''onprem'',
     m_ProvisionerEngine = []\<rparr>"

definition sample_dt :: discoveryTinkerbell where
  "sample_dt = \<lparr>dt_Hardware = \<lparr>ht_ID = ''hw-1'', ht_Interfaces = [sample_iface], ht_Metadata = sample_metadata\<rparr>,
     dt_mac = []\<rparr>"

theorem tink_GetMAC_GetIP_witness:
  "bind_go (dt_GetMAC sample_dt [CHR 0xC0, CHR 0xA8, CHR 0x01, CHR 0x05]) (dt_GetIP sample_dt) =
    Ok (d_IP (if_DHCP sample_iface))"
proof -
  have a: "ip_Address (d_IP (if_DHCP sample_iface)) = [CHR 0xC0, CHR 0xA8, CHR 0x01, CHR 0x05]"
    and m: "d_MAC (if_DHCP sample_iface) \<noteq> None" by (simp_all add: sample_iface_def)
  have i: "[sample_iface] = ht_Interfaces (dt_Hardware sample_dt)" by (simp add: sample_dt_def)
  have "\<forall>i \<in> set [sample_iface]. d_MAC (if_DHCP i) \<noteq> None" using m by (simp del: not_None_eq)
  from tink_GetMAC_GetIP [OF this _ _ i, of sample_iface] show ?thesis unfolding a by simp
qed

end
