(* ===== verification/Kubernetes_Discovery.thy ===== *)
theory Kubernetes_Discovery
  imports Client_Model
begin

text \<open>
  The Kubernetes backend, \<open>src/client/kubernetes\<close>.  The fields of the custom resource
  \<open>v1alpha1.Hardware\<close> which the sources read are the records below; a pointer is an option.
\<close>

section \<open>The custom resource\<close>

record k8s_os =
  ko_Slug :: string
  ko_Distro :: string
  ko_Version :: string
  ko_ImageTag :: string
  ko_OsSlug :: string

record k8s_ip =
  ki_Address :: string
  ki_Netmask :: string
  ki_Gateway :: string
  ki_Family :: int
  ki_Public :: bool
  ki_Management :: bool

record k8s_instance =
  kn_ID :: string
  kn_State :: string
  kn_Hostname :: string
  kn_AllowPxe :: bool
  kn_Rescue :: bool
  kn_OperatingSystem :: "k8s_os option"
  kn_AlwaysPxe :: bool
  kn_IpxeScriptURL :: string
  kn_Ips :: "k8s_ip option list"
  kn_Userdata :: string
  kn_CryptedRootPassword :: string
  kn_Tags :: "string list"
  kn_SSHKeys :: "string list"
  kn_NetworkReady :: bool

record k8s_facility =
  kf_PlanSlug :: string
  kf_PlanVersionSlug :: string
  kf_FacilityCode :: string

record k8s_metadata =
  km_State :: string
  km_BondingMode :: int
  km_ManufacturerID :: "string option"
  km_Instance :: "k8s_instance option"
  km_Facility :: "k8s_facility option"

record k8s_dhcp_ip =
  kdi_Address :: string
  kdi_Netmask :: string
  kdi_Gateway :: string
  kdi_Family :: int

record k8s_dhcp =
  kd_MAC :: string
  kd_Hostname :: string
  kd_LeaseTime :: int
  kd_NameServers :: "string list"
  kd_Arch :: string
  kd_UEFI :: bool
  kd_VLANID :: string
  kd_IP :: "k8s_dhcp_ip option"

record k8s_osie =
  kos_BaseURL :: string
  kos_Kernel :: string
  kos_Initrd :: string

record k8s_netboot =
  kb_AllowPXE :: "bool option"
  kb_AllowWorkflow :: "bool option"
  kb_OSIE :: "k8s_osie option"

record k8s_interface =
  kif_DHCP :: "k8s_dhcp option"
  kif_Netboot :: "k8s_netboot option"

record k8s_hardware =
  kh_Metadata :: "k8s_metadata option"
  kh_Interfaces :: "k8s_interface list"

section \<open>Conversions\<close>

definition os_of_k8s :: "k8s_os \<Rightarrow> opsys" where
  "os_of_k8s os = zero_os\<lparr>os_Slug := ko_Slug os, os_Distro := ko_Distro os, os_Version := ko_Version os,
     os_ImageTag := ko_ImageTag os, os_OsSlug := ko_OsSlug os\<rparr>"

definition tinkOsToDiscovererOS :: "k8s_os option \<Rightarrow> opsys option" where
  "tinkOsToDiscovererOS os = map_option os_of_k8s os"

definition tinkIPToDiscovererIP :: "k8s_ip option \<Rightarrow> client_ip option" where
  "tinkIPToDiscovererIP ip =
     map_option (\<lambda>x. \<lparr>ip_Address = ParseIP (ki_Address x), ip_Netmask = ParseIP (ki_Netmask x),
       ip_Gateway = ParseIP (ki_Gateway x), ip_Family = ki_Family x, ip_Public = ki_Public x,
       ip_Management = ki_Management x\<rparr>) ip"

fun convert_ips :: "k8s_ip option list \<Rightarrow> client_ip list go" where
  "convert_ips [] = Ok []"
| "convert_ips (ip # ips) =
     bind_go (deref (tinkIPToDiscovererIP ip)) (\<lambda>x. map_ok ((#) x) (convert_ips ips))"

definition kh_instance :: "k8s_hardware \<Rightarrow> k8s_instance option" where
  "kh_instance d = (case kh_Metadata d of None \<Rightarrow> None | Some m \<Rightarrow> km_Instance m)"

definition k8s_Instance :: "k8s_hardware \<Rightarrow> instance_data option go" where
  "k8s_Instance d =
     (case kh_instance d of
        None \<Rightarrow> Ok None
      | Some n \<Rightarrow>
          map_ok (\<lambda>ips. Some (zero_instance\<lparr>i_ID := kn_ID n, i_State := kn_State n,
            i_Hostname := kn_Hostname n, i_AllowPXE := kn_AllowPxe n, i_Rescue := kn_Rescue n,
            i_OS := tinkOsToDiscovererOS (kn_OperatingSystem n), i_AlwaysPXE := kn_AlwaysPxe n,
            i_IPXEScriptURL := kn_IpxeScriptURL n, i_IPs := ips, i_UserData := kn_Userdata n,
            i_CryptedRootPassword := kn_CryptedRootPassword n, i_Tags := kn_Tags n,
            i_SSHKeys := kn_SSHKeys n, i_NetworkReady := kn_NetworkReady n\<rparr>)) (convert_ips (kn_Ips n)))"

section \<open>Discovery\<close>

definition k8s_MAC :: "k8s_hardware \<Rightarrow> hwaddr" where
  "k8s_MAC d =
     (case kh_Interfaces d of
        [] \<Rightarrow> []
      | i # _ \<Rightarrow>
          (case kif_DHCP i of
             None \<Rightarrow> []
           | Some dh \<Rightarrow> (case ParseMAC (kd_MAC dh) of None \<Rightarrow> [] | Some mac \<Rightarrow> mac)))"

definition k8s_Mode :: "k8s_hardware \<Rightarrow> string" where
  "k8s_Mode d = ''hardware''"

text \<open>The interfaces with a DHCP section that has a MAC and an address.\<close>

fun dhcp_leases :: "k8s_interface list \<Rightarrow> (string \<times> k8s_dhcp_ip) list" where
  "dhcp_leases [] = []"
| "dhcp_leases (i # is) =
     (case kif_DHCP i of
        None \<Rightarrow> dhcp_leases is
      | Some dh \<Rightarrow>
          (case kd_IP dh of
             None \<Rightarrow> dhcp_leases is
           | Some ip \<Rightarrow> if kd_MAC dh \<noteq> [] then (kd_MAC dh, ip) # dhcp_leases is else dhcp_leases is))"

definition k8s_GetIP :: "k8s_hardware \<Rightarrow> hwaddr \<Rightarrow> client_ip" where
  "k8s_GetIP d addr =
     (case find (\<lambda>(mac, ip). mac_String addr = mac) (dhcp_leases (kh_Interfaces d)) of
        None \<Rightarrow> zero_ip
      | Some (mac, ip) \<Rightarrow>
          \<lparr>ip_Address = ParseIP (kdi_Address ip), ip_Netmask = ParseIP (kdi_Netmask ip),
           ip_Gateway = ParseIP (kdi_Gateway ip), ip_Family = kdi_Family ip,
           ip_Public = (\<not> IsPrivate (ParseIP (kdi_Address ip))), ip_Management = False\<rparr>)"

definition k8s_GetMAC :: "k8s_hardware \<Rightarrow> ip \<Rightarrow> hwaddr" where
  "k8s_GetMAC d ip =
     (case find (\<lambda>(mac, dip). ip_String ip = kdi_Address dip) (dhcp_leases (kh_Interfaces d)) of
        None \<Rightarrow> []
      | Some (mac, dip) \<Rightarrow> (case ParseMAC mac of None \<Rightarrow> [] | Some m \<Rightarrow> m))"

fun dns_loop :: "k8s_interface list \<Rightarrow> ip list" where
  "dns_loop [] = []"
| "dns_loop (i # is) =
     (case kif_DHCP i of
        None \<Rightarrow> dns_loop is
      | Some dh \<Rightarrow> if kd_MAC dh \<noteq> [] then map ParseIP (kd_NameServers dh) @ dns_loop is else dns_loop is)"

definition k8s_DNSServers :: "k8s_hardware \<Rightarrow> hwaddr \<Rightarrow> ip list" where
  "k8s_DNSServers d mac = dns_loop (kh_Interfaces d)"

definition k8s_LeaseTime :: "k8s_hardware \<Rightarrow> hwaddr \<Rightarrow> int" where
  "k8s_LeaseTime d mac =
     (case kh_Interfaces d of
        [] \<Rightarrow> 86400 * Second
      | i # _ \<Rightarrow>
          (case kif_DHCP i of None \<Rightarrow> 86400 * Second | Some dh \<Rightarrow> wrap64 (kd_LeaseTime dh * Second)))"

fun hostname_loop :: "k8s_interface list \<Rightarrow> string" where
  "hostname_loop [] = []"
| "hostname_loop (i # is) =
     (case kif_DHCP i of
        None \<Rightarrow> hostname_loop is
      | Some dh \<Rightarrow> if kd_Hostname dh \<noteq> [] then kd_Hostname dh else hostname_loop is)"

definition k8s_Hostname :: "k8s_hardware \<Rightarrow> string" where
  "k8s_Hostname d = hostname_loop (kh_Interfaces d)"

definition k8s_SetMAC :: "hwaddr \<Rightarrow> k8s_hardware \<Rightarrow> k8s_hardware" where
  "k8s_SetMAC mac d = d"

section \<open>Hardware\<close>

text \<open>The flags of the first netboot interface with the MAC, read through a pointer to bool.\<close>

fun netboot_flag :: "(k8s_netboot \<Rightarrow> bool option) \<Rightarrow> k8s_interface list \<Rightarrow> hwaddr \<Rightarrow> bool go" where
  "netboot_flag f [] mac = Ok False"
| "netboot_flag f (i # is) mac =
     (case (kif_Netboot i, kif_DHCP i) of
        (Some nb, Some dh) \<Rightarrow> if mac_String mac = kd_MAC dh then deref (f nb) else netboot_flag f is mac
      | _ \<Rightarrow> netboot_flag f is mac)"

definition k8s_AllowPXE :: "k8s_hardware \<Rightarrow> hwaddr \<Rightarrow> bool go" where
  "k8s_AllowPXE d mac = netboot_flag kb_AllowPXE (kh_Interfaces d) mac"

definition k8s_AllowWorkflow :: "k8s_hardware \<Rightarrow> hwaddr \<Rightarrow> bool go" where
  "k8s_AllowWorkflow d mac = netboot_flag kb_AllowWorkflow (kh_Interfaces d) mac"

fun first_dhcp :: "k8s_interface list \<Rightarrow> k8s_dhcp option" where
  "first_dhcp [] = None"
| "first_dhcp (i # is) = (case kif_DHCP i of None \<Rightarrow> first_dhcp is | Some dh \<Rightarrow> Some dh)"

definition k8s_Arch :: "k8s_hardware \<Rightarrow> hwaddr \<Rightarrow> string" where
  "k8s_Arch d mac = (case first_dhcp (kh_Interfaces d) of None \<Rightarrow> [] | Some dh \<Rightarrow> kd_Arch dh)"

definition k8s_UEFI :: "k8s_hardware \<Rightarrow> hwaddr \<Rightarrow> bool" where
  "k8s_UEFI d mac = (case first_dhcp (kh_Interfaces d) of None \<Rightarrow> False | Some dh \<Rightarrow> kd_UEFI dh)"

fun first_osie :: "k8s_interface list \<Rightarrow> k8s_osie option" where
  "first_osie [] = None"
| "first_osie (i # is) =
     (case kif_Netboot i of
        None \<Rightarrow> first_osie is
      | Some nb \<Rightarrow> (case kb_OSIE nb of None \<Rightarrow> first_osie is | Some osie \<Rightarrow> Some osie))"

definition k8s_OSIEBaseURL :: "k8s_hardware \<Rightarrow> hwaddr \<Rightarrow> string" where
  "k8s_OSIEBaseURL d mac = (case first_osie (kh_Interfaces d) of None \<Rightarrow> [] | Some osie \<Rightarrow> kos_BaseURL osie)"

definition k8s_KernelPath :: "k8s_hardware \<Rightarrow> hwaddr \<Rightarrow> string" where
  "k8s_KernelPath d mac = (case first_osie (kh_Interfaces d) of None \<Rightarrow> [] | Some osie \<Rightarrow> kos_Kernel osie)"

definition k8s_InitrdPath :: "k8s_hardware \<Rightarrow> hwaddr \<Rightarrow> string" where
  "k8s_InitrdPath d mac = (case first_osie (kh_Interfaces d) of None \<Rightarrow> [] | Some osie \<Rightarrow> kos_Initrd osie)"

definition k8s_BondingMode :: "k8s_hardware \<Rightarrow> int" where
  "k8s_BondingMode d = (case kh_Metadata d of None \<Rightarrow> 0 | Some m \<Rightarrow> km_BondingMode m)"

definition kh_facility :: "k8s_hardware \<Rightarrow> k8s_facility option" where
  "kh_facility d = (case kh_Metadata d of None \<Rightarrow> None | Some m \<Rightarrow> km_Facility m)"

definition k8s_FacilityCode :: "k8s_hardware \<Rightarrow> string" where
  "k8s_FacilityCode d = (case kh_facility d of None \<Rightarrow> [] | Some f \<Rightarrow> kf_FacilityCode f)"

definition k8s_PlanSlug :: "k8s_hardware \<Rightarrow> string" where
  "k8s_PlanSlug d = (case kh_facility d of None \<Rightarrow> [] | Some f \<Rightarrow> kf_PlanSlug f)"

definition k8s_PlanVersionSlug :: "k8s_hardware \<Rightarrow> string" where
  "k8s_PlanVersionSlug d = (case kh_facility d of None \<Rightarrow> [] | Some f \<Rightarrow> kf_PlanVersionSlug f)"

definition k8s_HardwareID :: "k8s_hardware \<Rightarrow> string" where
  "k8s_HardwareID d = (case kh_instance d of None \<Rightarrow> [] | Some n \<Rightarrow> kn_ID n)"

definition k8s_HardwareIPs :: "k8s_hardware \<Rightarrow> client_ip list go" where
  "k8s_HardwareIPs d = (case kh_instance d of None \<Rightarrow> Ok [] | Some n \<Rightarrow> convert_ips (kn_Ips n))"

definition k8s_Manufacturer :: "k8s_hardware \<Rightarrow> string" where
  "k8s_Manufacturer d =
     (case kh_Metadata d of
        None \<Rightarrow> []
      | Some m \<Rightarrow> (case km_ManufacturerID m of None \<Rightarrow> [] | Some mid \<Rightarrow> mid))"

definition k8s_State :: "k8s_hardware \<Rightarrow> string" where
  "k8s_State d = (case kh_Metadata d of None \<Rightarrow> [] | Some m \<Rightarrow> km_State m)"

definition k8s_OperatingSystem :: "k8s_hardware \<Rightarrow> opsys option" where
  "k8s_OperatingSystem d =
     (case kh_instance d of None \<Rightarrow> None | Some n \<Rightarrow> map_option os_of_k8s (kn_OperatingSystem n))"

fun vlan_loop :: "k8s_interface list \<Rightarrow> hwaddr \<Rightarrow> string" where
  "vlan_loop [] mac = []"
| "vlan_loop (i # is) mac =
     (case kif_DHCP i of
        None \<Rightarrow> vlan_loop is mac
      | Some dh \<Rightarrow> if kd_MAC dh = mac_String mac then kd_VLANID dh else vlan_loop is mac)"

definition k8s_GetVLANID :: "k8s_hardware \<Rightarrow> hwaddr \<Rightarrow> string" where
  "k8s_GetVLANID d mac = vlan_loop (kh_Interfaces d) mac"

section \<open>The finder\<close>

text \<open>The indexed list of the Kubernetes client is an argument.\<close>

definition k8s_one :: "string \<Rightarrow> (string \<Rightarrow> string + k8s_hardware list) \<Rightarrow> string \<Rightarrow> string + k8s_hardware" where
  "k8s_one what lst key =
     (case lst key of
        Inl err \<Rightarrow> Inl (''failed listing hardware: '' @ err)
      | Inr [] \<Rightarrow> Inl ''no hardware found''
      | Inr [hw] \<Rightarrow> Inr hw
      | Inr hws \<Rightarrow> Inl (''got '' @ dec_digits (length hws) @ '' hardware for '' @ what @ '' '' @ key @ '', expected only 1''))"

definition k8s_ByIP :: "(string \<Rightarrow> string + k8s_hardware list) \<Rightarrow> ip \<Rightarrow> string + k8s_hardware" where
  "k8s_ByIP lst ip = k8s_one ''ip'' lst (ip_String ip)"

definition k8s_ByMAC :: "(string \<Rightarrow> string + k8s_hardware list) \<Rightarrow> hwaddr \<Rightarrow> string + k8s_hardware" where
  "k8s_ByMAC lst mac = k8s_one ''mac'' lst (mac_String mac)"

definition k8s_HardwareProvisioner :: "k8s_hardware \<Rightarrow> string" where
  "k8s_HardwareProvisioner d = []"

definition k8s_HardwareOSIEVersion :: "k8s_hardware \<Rightarrow> string" where
  "k8s_HardwareOSIEVersion d = []"

definition k8s_Interfaces :: "k8s_hardware \<Rightarrow> port list" where
  "k8s_Interfaces d = []"

definition k8s_GetTraceparent :: "k8s_hardware \<Rightarrow> string" where
  "k8s_GetTraceparent d = []"

lemmas k8s_methods [simp] =
  k8s_HardwareProvisioner_def k8s_HardwareOSIEVersion_def k8s_Interfaces_def
  k8s_GetTraceparent_def

lemmas k8s_defs [go_defs] =
  os_of_k8s_def tinkOsToDiscovererOS_def tinkIPToDiscovererIP_def kh_instance_def k8s_Instance_def
  k8s_MAC_def k8s_Mode_def k8s_GetIP_def k8s_GetMAC_def k8s_DNSServers_def k8s_LeaseTime_def
  k8s_Hostname_def k8s_SetMAC_def k8s_AllowPXE_def k8s_AllowWorkflow_def k8s_Arch_def k8s_UEFI_def
  k8s_OSIEBaseURL_def k8s_KernelPath_def k8s_InitrdPath_def k8s_BondingMode_def kh_facility_def
  k8s_FacilityCode_def k8s_PlanSlug_def k8s_PlanVersionSlug_def k8s_HardwareID_def
  k8s_HardwareIPs_def k8s_Manufacturer_def k8s_State_def k8s_OperatingSystem_def k8s_GetVLANID_def
  k8s_one_def k8s_ByIP_def k8s_ByMAC_def

end
