(* ===== verification/Standalone_Discovery.thy ===== *)
theory Standalone_Discovery
  imports Client_Json
begin

text \<open>
  The standalone backend, \<open>src/client/standalone\<close>: records from a JSON file, of which only the first
  interface counts.
\<close>

record hardwareStandalone =
  hs_ID :: string
  hs_Interfaces :: "networkInterface list"
  hs_Metadata :: metadata
  hs_Traceparent :: string

definition emptyInterface :: networkInterface where
  "emptyInterface = zero_interface\<lparr>if_DHCP := (if_DHCP zero_interface)\<lparr>d_MAC := Some MinMAC\<rparr>\<rparr>"

definition getPrimaryInterface :: "hardwareStandalone \<Rightarrow> networkInterface" where
  "getPrimaryInterface hs = (case hs_Interfaces hs of i # _ \<Rightarrow> i | [] \<Rightarrow> emptyInterface)"

section \<open>Discovery\<close>

definition ds_Instance :: "hardwareStandalone \<Rightarrow> instance_data option" where
  "ds_Instance ds = m_Instance (hs_Metadata ds)"

definition ds_MAC :: "hardwareStandalone \<Rightarrow> hwaddr go" where
  "ds_MAC ds = deref (d_MAC (if_DHCP (getPrimaryInterface ds)))"

definition ds_Mode :: "hardwareStandalone \<Rightarrow> string" where
  "ds_Mode ds = ''hardware''"

definition ds_GetIP :: "hardwareStandalone \<Rightarrow> hwaddr \<Rightarrow> client_ip" where
  "ds_GetIP ds mac = d_IP (if_DHCP (getPrimaryInterface ds))"

fun get_mac_loop :: "networkInterface list \<Rightarrow> ip \<Rightarrow> hwaddr go" where
  "get_mac_loop [] ip = deref (d_MAC (if_DHCP emptyInterface))"
| "get_mac_loop (iface # ifaces) ip =
     (if ip_Equal (ip_Address (d_IP (if_DHCP iface))) ip then deref (d_MAC (if_DHCP iface))
      else get_mac_loop ifaces ip)"

definition ds_GetMAC :: "hardwareStandalone \<Rightarrow> ip \<Rightarrow> hwaddr go" where
  "ds_GetMAC ds ip = get_mac_loop (hs_Interfaces ds) ip"

definition ds_DNSServers :: "hardwareStandalone \<Rightarrow> hwaddr \<Rightarrow> ip list" where
  "ds_DNSServers ds mac = map ParseIP (d_NameServers (if_DHCP (getPrimaryInterface ds)))"

definition ds_LeaseTime :: "hardwareStandalone \<Rightarrow> hwaddr \<Rightarrow> int" where
  "ds_LeaseTime ds mac = wrap64 (d_LeaseTime (if_DHCP (getPrimaryInterface ds)) * Second)"

definition ds_Hostname :: "hardwareStandalone \<Rightarrow> string" where
  "ds_Hostname ds = d_Hostname (if_DHCP (getPrimaryInterface ds))"

definition ds_SetMAC :: "hwaddr \<Rightarrow> hardwareStandalone \<Rightarrow> hardwareStandalone" where
  "ds_SetMAC mac ds = ds"

section \<open>Hardware\<close>

definition hs_HardwareIPs :: "hardwareStandalone \<Rightarrow> client_ip list" where
  "hs_HardwareIPs hs = map (\<lambda>v. d_IP (if_DHCP v)) (hs_Interfaces hs)"

definition hs_HardwareAllowPXE :: "hardwareStandalone \<Rightarrow> hwaddr \<Rightarrow> bool" where
  "hs_HardwareAllowPXE hs mac = nb_AllowPXE (if_Netboot (getPrimaryInterface hs))"

definition hs_HardwareAllowWorkflow :: "hardwareStandalone \<Rightarrow> hwaddr \<Rightarrow> bool" where
  "hs_HardwareAllowWorkflow hs mac = nb_AllowWorkflow (if_Netboot (getPrimaryInterface hs))"

definition hs_HardwareArch :: "hardwareStandalone \<Rightarrow> hwaddr \<Rightarrow> string" where
  "hs_HardwareArch hs mac = d_Arch (if_DHCP (getPrimaryInterface hs))"

definition hs_HardwareBondingMode :: "hardwareStandalone \<Rightarrow> int" where
  "hs_HardwareBondingMode hs = m_BondingMode (hs_Metadata hs)"

definition hs_HardwareFacilityCode :: "hardwareStandalone \<Rightarrow> string" where
  "hs_HardwareFacilityCode hs = m_FacilityCode (hs_Metadata hs)"

definition hs_HardwareID :: "hardwareStandalone \<Rightarrow> string" where
  "hs_HardwareID hs = hs_ID hs"

definition hs_PortInterfaces :: "hardwareStandalone \<Rightarrow> port list" where
  "hs_PortInterfaces hs = []"

definition hs_HardwareManufacturer :: "hardwareStandalone \<Rightarrow> string" where
  "hs_HardwareManufacturer hs = m_ManufacturerSlug (hs_Metadata hs)"

definition hs_HardwareProvisioner :: "hardwareStandalone \<Rightarrow> string" where
  "hs_HardwareProvisioner hs = m_ProvisionerEngine (hs_Metadata hs)"

definition hs_HardwarePlanSlug :: "hardwareStandalone \<Rightarrow> string" where
  "hs_HardwarePlanSlug hs = m_PlanSlug (hs_Metadata hs)"

definition hs_HardwarePlanVersionSlug :: "hardwareStandalone \<Rightarrow> string" where
  "hs_HardwarePlanVersionSlug hs = m_PlanVersionSlug (hs_Metadata hs)"

definition hs_HardwareState :: "hardwareStandalone \<Rightarrow> string" where
  "hs_HardwareState hs = m_State (hs_Metadata hs)"

definition hs_HardwareOSIEVersion :: "hardwareStandalone \<Rightarrow> string" where
  "hs_HardwareOSIEVersion hs = []"

definition hs_HardwareUEFI :: "hardwareStandalone \<Rightarrow> hwaddr \<Rightarrow> bool" where
  "hs_HardwareUEFI hs mac = d_UEFI (if_DHCP (getPrimaryInterface hs))"

definition hs_OSIEBaseURL :: "hardwareStandalone \<Rightarrow> hwaddr \<Rightarrow> string" where
  "hs_OSIEBaseURL hs mac = nb_BaseURL (if_Netboot (getPrimaryInterface hs))"

definition hs_KernelPath :: "hardwareStandalone \<Rightarrow> hwaddr \<Rightarrow> string" where
  "hs_KernelPath hs mac = nb_Kernel (if_Netboot (getPrimaryInterface hs))"

definition hs_InitrdPath :: "hardwareStandalone \<Rightarrow> hwaddr \<Rightarrow> string" where
  "hs_InitrdPath hs mac = nb_Initrd (if_Netboot (getPrimaryInterface hs))"

definition hs_GetTraceparent :: "hardwareStandalone \<Rightarrow> string" where
  "hs_GetTraceparent hs = hs_Traceparent hs"

definition hs_GetVLANID :: "hardwareStandalone \<Rightarrow> hwaddr \<Rightarrow> string" where
  "hs_GetVLANID hs mac = []"

lemmas hs_methods [simp] =
  hs_HardwareAllowPXE_def hs_HardwareAllowWorkflow_def hs_HardwareArch_def
  hs_HardwareBondingMode_def hs_HardwareFacilityCode_def hs_HardwareID_def hs_PortInterfaces_def
  hs_HardwareManufacturer_def hs_HardwareProvisioner_def hs_HardwarePlanSlug_def
  hs_HardwarePlanVersionSlug_def hs_HardwareState_def hs_HardwareOSIEVersion_def
  hs_HardwareUEFI_def hs_OSIEBaseURL_def hs_KernelPath_def hs_InitrdPath_def hs_GetTraceparent_def
  hs_GetVLANID_def

text \<open>The instance pointer is not checked.\<close>

definition hs_OperatingSystem :: "hardwareStandalone \<Rightarrow> opsys option go" where
  "hs_OperatingSystem hs = map_ok i_OS (deref (m_Instance (hs_Metadata hs)))"

section \<open>The finder\<close>

text \<open>The file is a list of pointers: null is a nil pointer, on which every method faults.\<close>

definition zero_hardwareStandalone :: hardwareStandalone where
  "zero_hardwareStandalone = \<lparr>hs_ID = [], hs_Interfaces = [], hs_Metadata = zero_metadata, hs_Traceparent = []\<rparr>"

definition st_DiscoverStandalone :: "json_pkg \<Rightarrow> hardwareStandalone store" where
  "st_DiscoverStandalone J = st_struct [
     fld ''id'' hs_ID hs_ID_update st_string,
     fld ''network'' hs_Interfaces hs_Interfaces_update st_Network,
     fld ''metadata'' hs_Metadata hs_Metadata_update (st_Metadata J),
     fld ''traceparent'' hs_Traceparent hs_Traceparent_update st_string]"

definition st_db :: "json_pkg \<Rightarrow> hardwareStandalone option list store" where
  "st_db J = st_slice None (st_ptr zero_hardwareStandalone (st_DiscoverStandalone J))"

fun standalone_ByIP :: "hardwareStandalone option list \<Rightarrow> ip \<Rightarrow> (string + hardwareStandalone) go" where
  "standalone_ByIP [] ip = Ok (Inl (''no hardware found for ip '' @ [CHR 0x22] @ ip_String ip @ [CHR 0x22]))"
| "standalone_ByIP (p # db) ip =
     bind_go (deref p) (\<lambda>d.
     if list_ex (\<lambda>hip. ip_Equal (ip_Address hip) ip) (hs_HardwareIPs d) then Ok (Inr d)
     else standalone_ByIP db ip)"

fun standalone_ByMAC :: "hardwareStandalone option list \<Rightarrow> hwaddr \<Rightarrow> (string + hardwareStandalone) go" where
  "standalone_ByMAC [] mac =
     Ok (Inl (''no entry for MAC '' @ [CHR 0x22] @ mac_String mac @ [CHR 0x22] @ '' in standalone data''))"
| "standalone_ByMAC (p # db) mac =
     bind_go (deref p) (\<lambda>d.
     bind_go (ds_MAC d) (\<lambda>m. if mac_String m = mac_String mac then Ok (Inr d) else standalone_ByMAC db mac))"

lemmas standalone_defs [go_defs] =
  emptyInterface_def getPrimaryInterface_def ds_Instance_def ds_MAC_def ds_Mode_def ds_GetIP_def
  ds_GetMAC_def ds_DNSServers_def ds_LeaseTime_def ds_Hostname_def ds_SetMAC_def
  hs_HardwareIPs_def zero_hardwareStandalone_def st_DiscoverStandalone_def st_db_def hs_OperatingSystem_def

lemma standalone_ByMAC_found:
  "standalone_ByMAC db mac = Ok (Inr d) \<Longrightarrow> Some d \<in> set db \<and> ds_MAC d = Ok mac"
proof (induction db)
  case (Cons p db)
  then show ?case by (cases p; cases "ds_MAC (the p)") (auto split: if_splits)
qed simp

lemma standalone_ByIP_found:
  "standalone_ByIP db ip = Ok (Inr d) \<Longrightarrow>
   Some d \<in> set db \<and> (\<exists>i \<in> set (hs_Interfaces d). ip_Equal (ip_Address (d_IP (if_DHCP i))) ip)"
proof (induction db)
  case (Cons p db)
  then show ?case by (cases p) (auto simp: list_ex_iff hs_HardwareIPs_def split: if_splits)
qed simp

text \<open>
  A MAC is answered with the first record of the file whose first interface has it, and with an
  error when there is none; the lookup itself never fails as long as no record is null and every first
  interface has a MAC.
\<close>

lemma standalone_ByMAC_exact:
  assumes "\<forall>d \<in> set db. \<exists>m. ds_MAC d = Ok m"
  shows "\<exists>r. standalone_ByMAC (map Some db) mac = Ok r \<and>
    (case r of
       Inr d \<Rightarrow> \<exists>db1 db2. db = db1 @ d # db2 \<and> ds_MAC d = Ok mac \<and> (\<forall>e \<in> set db1. ds_MAC e \<noteq> Ok mac)
     | Inl _ \<Rightarrow> \<forall>e \<in> set db. ds_MAC e \<noteq> Ok mac)"
  using assms
proof (induction db)
  case (Cons d db)
  then obtain m r where m: "ds_MAC d = Ok m" and r: "standalone_ByMAC (map Some db) mac = Ok r"
    and spec: "case r of Inr d \<Rightarrow> \<exists>db1 db2. db = db1 @ d # db2 \<and> ds_MAC d = Ok mac \<and> (\<forall>e \<in> set db1. ds_MAC e \<noteq> Ok mac)
      | Inl _ \<Rightarrow> \<forall>e \<in> set db. ds_MAC e \<noteq> Ok mac"
    by auto
  show ?case
  proof (cases "m = mac")
    case True
    with m show ?thesis by (auto intro: exI [of _ "[]"])
  next
    case False
    with m r have "standalone_ByMAC (map Some (d # db)) mac = Ok r" by simp
    moreover have "\<exists>db1 db2. d # db = db1 @ e # db2 \<and> ds_MAC e = Ok mac \<and> (\<forall>x \<in> set db1. ds_MAC x \<noteq> Ok mac)"
      if "r = Inr e" for e
    proof -
      from spec that obtain db1 db2 where "db = db1 @ e # db2" "ds_MAC e = Ok mac" "\<forall>x \<in> set db1. ds_MAC x \<noteq> Ok mac"
        by auto
      with m False show ?thesis by (intro exI [of _ "d # db1"] exI [of _ db2]) auto
    qed
    ultimately show ?thesis using spec m False by (auto split: sum.splits)
  qed
qed simp

section \<open>Samples\<close>

definition sample_hs :: hardwareStandalone where
  "sample_hs = \<lparr>hs_ID = ''hw-1'', hs_Interfaces = [], hs_Metadata = \<lparr>m_State = [], m_BondingMode = 0,
     m_ManufacturerID = [], m_ManufacturerSlug = [], m_Instance = None, m_PreinstalledOS = zero_os,
     m_PrivateSubnets = [], m_PlanSlug = [], m_PlanVersionSlug = [], m_FacilityCode = [],
     m_ProvisionerEngine = []\<rparr>, hs_Traceparent = []\<rparr>"

lemma standalone_ByMAC_exact_witness: "standalone_ByMAC [Some sample_hs] MinMAC = Ok (Inr sample_hs)"
proof -
  have m: "ds_MAC sample_hs = Ok MinMAC"
    by (simp add: ds_MAC_def getPrimaryInterface_def sample_hs_def emptyInterface_def)
  then have "\<forall>d \<in> set [sample_hs]. \<exists>m. ds_MAC d = Ok m" by simp
  from standalone_ByMAC_exact [OF this, of MinMAC] m show ?thesis
    by (auto simp: Cons_eq_append_conv split: sum.splits)
qed

end
