(* ===== verification/Hardware_Iface.thy ===== *)
theory Hardware_Iface
  imports Cacher_Discovery Tinkerbell_Discovery Kubernetes_Discovery Standalone_Discovery
begin

text \<open>
  The interfaces \<open>Discoverer\<close> and \<open>Hardware\<close> of \<open>src/client/client.go\<close>: a value is one of the four
  backends, and a method call dispatches to the backend's method.  The locale \<open>discoverer_iface\<close> is
  what a job relies on; it is interpreted on each backend and on the dispatching functions.
\<close>

datatype hardware =
    HCacher hardwareCacher
  | HTink hardwareTinkerbell
  | HK8s k8s_hardware
  | HStandalone hardwareStandalone

datatype discoverer =
    DCacher discoveryCacher
  | DTink discoveryTinkerbell
  | DK8s k8s_hardware
  | DStandalone hardwareStandalone

section \<open>Discoverer\<close>

fun disc_Instance :: "discoverer \<Rightarrow> instance_data option go" where
  "disc_Instance (DCacher d) = Ok (dc_Instance d)"
| "disc_Instance (DTink d) = Ok (dt_Instance d)"
| "disc_Instance (DK8s d) = k8s_Instance d"
| "disc_Instance (DStandalone d) = Ok (ds_Instance d)"

fun disc_MAC :: "discoverer \<Rightarrow> hwaddr go" where
  "disc_MAC (DCacher d) = Ok (dc_MAC d)"
| "disc_MAC (DTink d) = Ok (dt_MAC d)"
| "disc_MAC (DK8s d) = Ok (k8s_MAC d)"
| "disc_MAC (DStandalone d) = ds_MAC d"

fun disc_Mode :: "discoverer \<Rightarrow> string" where
  "disc_Mode (DCacher d) = dc_Mode d"
| "disc_Mode (DTink d) = dt_Mode d"
| "disc_Mode (DK8s d) = k8s_Mode d"
| "disc_Mode (DStandalone d) = ds_Mode d"

fun disc_GetIP :: "discoverer \<Rightarrow> hwaddr \<Rightarrow> client_ip go" where
  "disc_GetIP (DCacher d) mac = Ok (dc_GetIP d mac)"
| "disc_GetIP (DTink d) mac = dt_GetIP d mac"
| "disc_GetIP (DK8s d) mac = Ok (k8s_GetIP d mac)"
| "disc_GetIP (DStandalone d) mac = Ok (ds_GetIP d mac)"

fun disc_GetMAC :: "discoverer \<Rightarrow> ip \<Rightarrow> hwaddr go" where
  "disc_GetMAC (DCacher d) ip = Ok (dc_GetMAC d ip)"
| "disc_GetMAC (DTink d) ip = dt_GetMAC d ip"
| "disc_GetMAC (DK8s d) ip = Ok (k8s_GetMAC d ip)"
| "disc_GetMAC (DStandalone d) ip = ds_GetMAC d ip"

fun disc_DNSServers :: "conf \<Rightarrow> discoverer \<Rightarrow> hwaddr \<Rightarrow> ip list go" where
  "disc_DNSServers c (DCacher d) mac = Ok (dc_DNSServers c d mac)"
| "disc_DNSServers c (DTink d) mac = dt_DNSServers c d mac"
| "disc_DNSServers c (DK8s d) mac = Ok (k8s_DNSServers d mac)"
| "disc_DNSServers c (DStandalone d) mac = Ok (ds_DNSServers d mac)"

fun disc_LeaseTime :: "conf \<Rightarrow> discoverer \<Rightarrow> hwaddr \<Rightarrow> int go" where
  "disc_LeaseTime c (DCacher d) mac = Ok (dc_LeaseTime c d mac)"
| "disc_LeaseTime c (DTink d) mac = dt_LeaseTime c d mac"
| "disc_LeaseTime c (DK8s d) mac = Ok (k8s_LeaseTime d mac)"
| "disc_LeaseTime c (DStandalone d) mac = Ok (ds_LeaseTime d mac)"

fun disc_Hostname :: "discoverer \<Rightarrow> (string + string) go" where
  "disc_Hostname (DCacher d) = dc_Hostname d"
| "disc_Hostname (DTink d) = Ok (Inr (dt_Hostname d))"
| "disc_Hostname (DK8s d) = Ok (Inr (k8s_Hostname d))"
| "disc_Hostname (DStandalone d) = Ok (Inr (ds_Hostname d))"

fun disc_Hardware :: "discoverer \<Rightarrow> hardware" where
  "disc_Hardware (DCacher d) = HCacher (dc_HardwareCacher d)"
| "disc_Hardware (DTink d) = HTink (dt_Hardware d)"
| "disc_Hardware (DK8s d) = HK8s d"
| "disc_Hardware (DStandalone d) = HStandalone d"

fun disc_SetMAC :: "hwaddr \<Rightarrow> discoverer \<Rightarrow> discoverer" where
  "disc_SetMAC mac (DCacher d) = DCacher (dc_SetMAC mac d)"
| "disc_SetMAC mac (DTink d) = DTink (dt_SetMAC mac d)"
| "disc_SetMAC mac (DK8s d) = DK8s (k8s_SetMAC mac d)"
| "disc_SetMAC mac (DStandalone d) = DStandalone (ds_SetMAC mac d)"

section \<open>Hardware\<close>

fun HardwareAllowPXE :: "hardware \<Rightarrow> hwaddr \<Rightarrow> bool go" where
  "HardwareAllowPXE (HCacher h) mac = Ok (hc_HardwareAllowPXE h mac)"
| "HardwareAllowPXE (HTink h) mac = ht_AllowPXE h mac"
| "HardwareAllowPXE (HK8s h) mac = k8s_AllowPXE h mac"
| "HardwareAllowPXE (HStandalone h) mac = Ok (hs_HardwareAllowPXE h mac)"

fun HardwareAllowWorkflow :: "hardware \<Rightarrow> hwaddr \<Rightarrow> bool go" where
  "HardwareAllowWorkflow (HCacher h) mac = Ok (hc_HardwareAllowWorkflow h mac)"
| "HardwareAllowWorkflow (HTink h) mac = ht_AllowWorkflow h mac"
| "HardwareAllowWorkflow (HK8s h) mac = k8s_AllowWorkflow h mac"
| "HardwareAllowWorkflow (HStandalone h) mac = Ok (hs_HardwareAllowWorkflow h mac)"

fun HardwareArch :: "hardware \<Rightarrow> hwaddr \<Rightarrow> string go" where
  "HardwareArch (HCacher h) mac = Ok (hc_HardwareArch h mac)"
| "HardwareArch (HTink h) mac = ht_Arch h mac"
| "HardwareArch (HK8s h) mac = Ok (k8s_Arch h mac)"
| "HardwareArch (HStandalone h) mac = Ok (hs_HardwareArch h mac)"

fun HardwareBondingMode :: "hardware \<Rightarrow> int" where
  "HardwareBondingMode (HCacher h) = hc_HardwareBondingMode h"
| "HardwareBondingMode (HTink h) = ht_HardwareBondingMode h"
| "HardwareBondingMode (HK8s h) = k8s_BondingMode h"
| "HardwareBondingMode (HStandalone h) = hs_HardwareBondingMode h"

fun HardwareFacilityCode :: "hardware \<Rightarrow> string" where
  "HardwareFacilityCode (HCacher h) = hc_HardwareFacilityCode h"
| "HardwareFacilityCode (HTink h) = ht_HardwareFacilityCode h"
| "HardwareFacilityCode (HK8s h) = k8s_FacilityCode h"
| "HardwareFacilityCode (HStandalone h) = hs_HardwareFacilityCode h"

fun HardwareID :: "hardware \<Rightarrow> string" where
  "HardwareID (HCacher h) = hc_HardwareID h"
| "HardwareID (HTink h) = ht_HardwareID h"
| "HardwareID (HK8s h) = k8s_HardwareID h"
| "HardwareID (HStandalone h) = hs_HardwareID h"

fun HardwareIPs :: "hardware \<Rightarrow> client_ip list go" where
  "HardwareIPs (HCacher h) = Ok (hc_HardwareIPs h)"
| "HardwareIPs (HTink h) = Ok (ht_HardwareIPs h)"
| "HardwareIPs (HK8s h) = k8s_HardwareIPs h"
| "HardwareIPs (HStandalone h) = Ok (hs_HardwareIPs h)"

fun Interfaces :: "hardware \<Rightarrow> port list go" where
  "Interfaces (HCacher h) = hc_Interfaces h"
| "Interfaces (HTink h) = Ok (ht_PortInterfaces h)"
| "Interfaces (HK8s h) = Ok (k8s_Interfaces h)"
| "Interfaces (HStandalone h) = Ok (hs_PortInterfaces h)"

fun HardwareManufacturer :: "hardware \<Rightarrow> string" where
  "HardwareManufacturer (HCacher h) = hc_HardwareManufacturer h"
| "HardwareManufacturer (HTink h) = ht_HardwareManufacturer h"
| "HardwareManufacturer (HK8s h) = k8s_Manufacturer h"
| "HardwareManufacturer (HStandalone h) = hs_HardwareManufacturer h"

fun HardwareProvisioner :: "hardware \<Rightarrow> string" where
  "HardwareProvisioner (HCacher h) = hc_HardwareProvisioner h"
| "HardwareProvisioner (HTink h) = ht_HardwareProvisioner h"
| "HardwareProvisioner (HK8s h) = k8s_HardwareProvisioner h"
| "HardwareProvisioner (HStandalone h) = hs_HardwareProvisioner h"

fun HardwarePlanSlug :: "hardware \<Rightarrow> string" where
  "HardwarePlanSlug (HCacher h) = hc_HardwarePlanSlug h"
| "HardwarePlanSlug (HTink h) = ht_HardwarePlanSlug h"
| "HardwarePlanSlug (HK8s h) = k8s_PlanSlug h"
| "HardwarePlanSlug (HStandalone h) = hs_HardwarePlanSlug h"

fun HardwarePlanVersionSlug :: "hardware \<Rightarrow> string" where
  "HardwarePlanVersionSlug (HCacher h) = hc_HardwarePlanVersionSlug h"
| "HardwarePlanVersionSlug (HTink h) = ht_HardwarePlanVersionSlug h"
| "HardwarePlanVersionSlug (HK8s h) = k8s_PlanVersionSlug h"
| "HardwarePlanVersionSlug (HStandalone h) = hs_HardwarePlanVersionSlug h"

fun HardwareState :: "hardware \<Rightarrow> string" where
  "HardwareState (HCacher h) = hc_HardwareState h"
| "HardwareState (HTink h) = ht_HardwareState h"
| "HardwareState (HK8s h) = k8s_State h"
| "HardwareState (HStandalone h) = hs_HardwareState h"

fun HardwareOSIEVersion :: "hardware \<Rightarrow> string" where
  "HardwareOSIEVersion (HCacher h) = hc_HardwareOSIEVersion h"
| "HardwareOSIEVersion (HTink h) = ht_HardwareOSIEVersion h"
| "HardwareOSIEVersion (HK8s h) = k8s_HardwareOSIEVersion h"
| "HardwareOSIEVersion (HStandalone h) = hs_HardwareOSIEVersion h"

fun HardwareUEFI :: "hardware \<Rightarrow> hwaddr \<Rightarrow> bool go" where
  "HardwareUEFI (HCacher h) mac = Ok (hc_HardwareUEFI h mac)"
| "HardwareUEFI (HTink h) mac = ht_UEFI h mac"
| "HardwareUEFI (HK8s h) mac = Ok (k8s_UEFI h mac)"
| "HardwareUEFI (HStandalone h) mac = Ok (hs_HardwareUEFI h mac)"

fun GetVLANID :: "hardware \<Rightarrow> hwaddr \<Rightarrow> string" where
  "GetVLANID (HCacher h) mac = hc_GetVLANID h mac"
| "GetVLANID (HTink h) mac = ht_GetVLANID h mac"
| "GetVLANID (HK8s h) mac = k8s_GetVLANID h mac"
| "GetVLANID (HStandalone h) mac = hs_GetVLANID h mac"

fun hw_OSIEBaseURL :: "hardware \<Rightarrow> hwaddr \<Rightarrow> string go" where
  "hw_OSIEBaseURL (HCacher h) mac = Ok (hc_OSIEBaseURL h mac)"
| "hw_OSIEBaseURL (HTink h) mac = ht_OSIEBaseURL h mac"
| "hw_OSIEBaseURL (HK8s h) mac = Ok (k8s_OSIEBaseURL h mac)"
| "hw_OSIEBaseURL (HStandalone h) mac = Ok (hs_OSIEBaseURL h mac)"

fun hw_KernelPath :: "hardware \<Rightarrow> hwaddr \<Rightarrow> string go" where
  "hw_KernelPath (HCacher h) mac = Ok (hc_KernelPath h mac)"
| "hw_KernelPath (HTink h) mac = ht_KernelPath h mac"
| "hw_KernelPath (HK8s h) mac = Ok (k8s_KernelPath h mac)"
| "hw_KernelPath (HStandalone h) mac = Ok (hs_KernelPath h mac)"

fun hw_InitrdPath :: "hardware \<Rightarrow> hwaddr \<Rightarrow> string go" where
  "hw_InitrdPath (HCacher h) mac = Ok (hc_InitrdPath h mac)"
| "hw_InitrdPath (HTink h) mac = ht_InitrdPath h mac"
| "hw_InitrdPath (HK8s h) mac = Ok (k8s_InitrdPath h mac)"
| "hw_InitrdPath (HStandalone h) mac = Ok (hs_InitrdPath h mac)"

fun hw_OperatingSystem :: "hardware \<Rightarrow> opsys option go" where
  "hw_OperatingSystem (HCacher h) = Ok (Some (hc_OperatingSystem h))"
| "hw_OperatingSystem (HTink h) = Ok (Some (ht_OperatingSystem h))"
| "hw_OperatingSystem (HK8s h) = Ok (k8s_OperatingSystem h)"
| "hw_OperatingSystem (HStandalone h) = hs_OperatingSystem h"

fun GetTraceparent :: "hardware \<Rightarrow> string" where
  "GetTraceparent (HCacher h) = hc_GetTraceparent h"
| "GetTraceparent (HTink h) = ht_GetTraceparent h"
| "GetTraceparent (HK8s h) = k8s_GetTraceparent h"
| "GetTraceparent (HStandalone h) = hs_GetTraceparent h"

section \<open>What a job relies on\<close>

text \<open>
  A job tells the discovery its MAC and then reads it.  The contract: telling it the MAC changes
  neither the hardware, the instance nor what any MAC gets, and telling it twice is telling it once.
\<close>

locale discoverer_iface =
  fixes set_mac :: "hwaddr \<Rightarrow> 'd \<Rightarrow> 'd"
    and hw :: "'d \<Rightarrow> 'h"
    and inst :: "'d \<Rightarrow> instance_data option go"
    and get_ip :: "'d \<Rightarrow> hwaddr \<Rightarrow> client_ip go"
    and lease :: "conf \<Rightarrow> 'd \<Rightarrow> hwaddr \<Rightarrow> int go"
    and dns :: "conf \<Rightarrow> 'd \<Rightarrow> hwaddr \<Rightarrow> ip list go"
  assumes set_hw: "hw (set_mac m d) = hw d"
    and set_inst: "inst (set_mac m d) = inst d"
    and set_ip: "get_ip (set_mac m d) = get_ip d"
    and set_lease: "lease c (set_mac m d) = lease c d"
    and set_dns: "dns c (set_mac m d) = dns c d"
    and set_set: "set_mac m (set_mac n d) = set_mac m d"
begin

lemmas set_simps = set_hw set_inst set_ip set_lease set_dns

lemma set_many:
  "fold set_mac ms d = (if ms = [] then d else set_mac (last ms) d)"
  by (induction ms arbitrary: d) (auto simp: set_set)

lemma reads_stable:
  "hw (fold set_mac ms d) = hw d \<and> inst (fold set_mac ms d) = inst d \<and>
   get_ip (fold set_mac ms d) = get_ip d \<and> lease c (fold set_mac ms d) = lease c d \<and>
   dns c (fold set_mac ms d) = dns c d"
  by (simp add: set_many set_simps)

end

lemma dc_SetMAC_frame:
  "dc_ports (dc_SetMAC m d) = dc_ports d" "dc_Instance (dc_SetMAC m d) = dc_Instance d"
  "dc_HardwareCacher (dc_SetMAC m d) = dc_HardwareCacher d"
  by (simp_all add: dc_ports_def dc_Instance_def dc_SetMAC_def)

lemma dc_GetIP_SetMAC: "dc_GetIP (dc_SetMAC m d) mac = dc_GetIP d mac"
proof -
  have "PrimaryDataMAC (dc_SetMAC m d) = PrimaryDataMAC d" "MacIsType (dc_SetMAC m d) = MacIsType d"
    "hwIP (dc_SetMAC m d) = hwIP d"
    by (simp_all add: PrimaryDataMAC_def MacIsType_def hwIP_def dc_SetMAC_frame fun_eq_iff)
  then show ?thesis
    unfolding dc_GetIP_def InstanceIP_def HardwareIP_def ManagementIP_def DiscoveredIP_def
    by (simp only: dc_SetMAC_frame)
qed

lemma dc_SetMAC_SetMAC: "dc_SetMAC m (dc_SetMAC n d) = dc_SetMAC m d"
  by (simp add: dc_SetMAC_def)

interpretation cacher: discoverer_iface dc_SetMAC dc_HardwareCacher "\<lambda>d. Ok (dc_Instance d)"
  "\<lambda>d mac. Ok (dc_GetIP d mac)" "\<lambda>c d mac. Ok (dc_LeaseTime c d mac)" "\<lambda>c d mac. Ok (dc_DNSServers c d mac)"
  by unfold_locales
    (simp_all add: dc_SetMAC_frame dc_GetIP_SetMAC dc_LeaseTime_def dc_DNSServers_def dc_SetMAC_SetMAC)

lemma dt_SetMAC_Hardware: "dt_Hardware (dt_SetMAC m d) = dt_Hardware d"
  by (simp add: dt_SetMAC_def)

interpretation tink: discoverer_iface dt_SetMAC dt_Hardware "\<lambda>d. Ok (dt_Instance d)" dt_GetIP
  dt_LeaseTime dt_DNSServers
  by unfold_locales
    (auto simp: dt_SetMAC_Hardware dt_Instance_def dt_GetIP_def dt_interface_def dt_LeaseTime_def
      dt_DNSServers_def fun_eq_iff dt_SetMAC_def)

interpretation k8s: discoverer_iface k8s_SetMAC id k8s_Instance "\<lambda>d mac. Ok (k8s_GetIP d mac)"
  "\<lambda>c d mac. Ok (k8s_LeaseTime d mac)" "\<lambda>c d mac. Ok (k8s_DNSServers d mac)"
  by unfold_locales (simp_all add: k8s_SetMAC_def)

interpretation standalone: discoverer_iface ds_SetMAC id "\<lambda>d. Ok (ds_Instance d)"
  "\<lambda>d mac. Ok (ds_GetIP d mac)" "\<lambda>c d mac. Ok (ds_LeaseTime d mac)" "\<lambda>c d mac. Ok (ds_DNSServers d mac)"
  by unfold_locales (simp_all add: ds_SetMAC_def)

interpretation disc: discoverer_iface disc_SetMAC disc_Hardware disc_Instance disc_GetIP
  disc_LeaseTime disc_DNSServers
proof
  fix m n d c
  show "disc_Hardware (disc_SetMAC m d) = disc_Hardware d"
    by (cases d) (simp_all add: dc_SetMAC_frame dt_SetMAC_Hardware k8s_SetMAC_def ds_SetMAC_def)
  show "disc_Instance (disc_SetMAC m d) = disc_Instance d"
    using cacher.set_inst tink.set_inst k8s.set_inst standalone.set_inst by (cases d) simp_all
  show "disc_GetIP (disc_SetMAC m d) = disc_GetIP d"
    using cacher.set_ip tink.set_ip k8s.set_ip standalone.set_ip by (cases d) (simp_all add: fun_eq_iff)
  show "disc_LeaseTime c (disc_SetMAC m d) = disc_LeaseTime c d"
    using cacher.set_lease tink.set_lease k8s.set_lease standalone.set_lease
    by (cases d) (simp_all add: fun_eq_iff)
  show "disc_DNSServers c (disc_SetMAC m d) = disc_DNSServers c d"
    using cacher.set_dns tink.set_dns k8s.set_dns standalone.set_dns
    by (cases d) (simp_all add: fun_eq_iff)
  show "disc_SetMAC m (disc_SetMAC n d) = disc_SetMAC m d"
    using cacher.set_set tink.set_set k8s.set_set standalone.set_set by (cases d) simp_all
qed

end
