(* ===== verification/Job_Core.thy ===== *)
theory Job_Core
  imports Hardware_Iface Dhcp_Config
begin

text \<open>
  Jobs, \<open>src/job/job.go\<close> and \<open>src/job/helpers.go\<close>: how a request becomes a job with its hardware,
  instance and DHCP settings, and the accessors the rest of the program uses.  The start time and
  the logger are left out; the interface value \<open>hardware\<close> and the pointer \<open>instance\<close> may be nil.
\<close>

section \<open>Jobs and finders\<close>

record job =
  j_provisionerEngineName :: string
  j_mac :: hwaddr
  j_ip :: ip
  j_dhcp :: config
  j_hardware :: "hardware option"
  j_instance :: "instance_data option"
  j_NextServer :: ip
  j_IpxeBaseURL :: string
  j_BootsBaseURL :: string

definition new_job :: "string \<Rightarrow> job" where
  "new_job engine = \<lparr>j_provisionerEngineName = engine, j_mac = [], j_ip = [], j_dhcp = new_config,
     j_hardware = None, j_instance = None, j_NextServer = [], j_IpxeBaseURL = [], j_BootsBaseURL = []\<rparr>"

text \<open>A hardware finder; an error is \<open>Inl\<close> its message.\<close>

record finder =
  ByIP :: "ip \<Rightarrow> (string + discoverer) go"
  ByMAC :: "hwaddr \<Rightarrow> ip \<Rightarrow> string \<Rightarrow> (string + discoverer) go"

definition cacher_finder ::
  "(string \<Rightarrow> string + string) \<Rightarrow> (string \<Rightarrow> string + string) \<Rightarrow> json_pkg \<Rightarrow>
   (em_request \<Rightarrow> string + hardwareCacher option) \<Rightarrow> finder" where
  "cacher_finder cc_ByIP cc_ByMAC J post = \<lparr>
     ByIP = (\<lambda>ip. map_ok (map_sum id DCacher) (cacher_ByIP cc_ByIP J ip)),
     ByMAC = (\<lambda>mac gi cid. map_ok (map_sum id DCacher) (cacher_ByMAC cc_ByMAC J post mac gi cid))\<rparr>"

definition tink_hw_finder ::
  "(string \<Rightarrow> string + 'r) \<Rightarrow> (string \<Rightarrow> string + 'r) \<Rightarrow> ('r \<Rightarrow> string + string) \<Rightarrow> json_pkg \<Rightarrow> finder" where
  "tink_hw_finder get_ip get_mac marshal J = \<lparr>
     ByIP = (\<lambda>ip. map_ok (map_sum id DTink) (tink_ByIP get_ip marshal J ip)),
     ByMAC = (\<lambda>mac gi cid. map_ok (map_sum id DTink) (tink_ByMAC get_mac marshal J mac))\<rparr>"

definition k8s_finder ::
  "(string \<Rightarrow> string + k8s_hardware list) \<Rightarrow> (string \<Rightarrow> string + k8s_hardware list) \<Rightarrow> finder" where
  "k8s_finder list_ip list_mac = \<lparr>
     ByIP = (\<lambda>ip. Ok (map_sum id DK8s (k8s_ByIP list_ip ip))),
     ByMAC = (\<lambda>mac gi cid. Ok (map_sum id DK8s (k8s_ByMAC list_mac mac)))\<rparr>"

definition standalone_finder :: "hardwareStandalone option list \<Rightarrow> finder" where
  "standalone_finder db = \<lparr>
     ByIP = (\<lambda>ip. map_ok (map_sum id DStandalone) (standalone_ByIP db ip)),
     ByMAC = (\<lambda>mac gi cid. map_ok (map_sum id DStandalone) (standalone_ByMAC db mac))\<rparr>"

section \<open>Setting a job up\<close>

definition job_setup :: "'p dhcp4 \<Rightarrow> conf \<Rightarrow> discoverer \<Rightarrow> job \<Rightarrow> (string + job) go" where
  "job_setup L c d j =
     (let dh = disc_Hardware d;
          d1 = disc_SetMAC (j_mac j) d;
          j1 = j\<lparr>j_hardware := Some (disc_Hardware d1)\<rparr>
      in bind_go (disc_Instance d1) (\<lambda>inst.
         let j2 = j1\<lparr>j_instance := Some (case inst of None \<Rightarrow> zero_instance | Some i \<Rightarrow> i)\<rparr>
         in bind_go (disc_GetIP d1 (j_mac j)) (\<lambda>ip.
            if ip_Address ip = [] then Ok (Inl ''could not find IP address'')
            else
              bind_go (Setup L (ip_Address ip) (ip_Netmask ip) (ip_Gateway ip) (j_dhcp j2)) (\<lambda>c1.
              bind_go (disc_LeaseTime c d1 (j_mac j)) (\<lambda>lt.
              bind_go (SetLeaseTime L lt c1) (\<lambda>c2.
              bind_go (SetDHCPServer L (PublicIPv4 c) c2) (\<lambda>c3.
              bind_go (disc_DNSServers c d1 (j_mac j)) (\<lambda>dns.
              bind_go (SetDNSServers L dns c3) (\<lambda>c4.
              bind_go (disc_Hostname d1) (\<lambda>hn.
              case hn of
                Inl err \<Rightarrow> Ok (Inl err)
              | Inr hostname \<Rightarrow>
                  bind_go (if hostname \<noteq> [] then SetHostname L hostname c4 else Ok c4) (\<lambda>c5.
                  bind_go (SetOpt43SubOpt L 116 (GetVLANID dh (j_mac j)) c5) (\<lambda>c6.
                  Ok (Inr (j2\<lparr>j_dhcp := c6\<rparr>))))))))))))))"

section \<open>Creating jobs\<close>

text \<open>The error of a split is the message of \<open>errors.Wrap\<close> without the cause.\<close>

definition CreateFromDHCP ::
  "'p dhcp4 \<Rightarrow> conf \<Rightarrow> finder \<Rightarrow> string \<Rightarrow> hwaddr \<Rightarrow> ip \<Rightarrow> string \<Rightarrow> (string + job) go" where
  "CreateFromDHCP L c f engine mac giaddr circuitID =
     (let j = (new_job engine)\<lparr>j_mac := mac\<rparr>
      in bind_go (ByMAC f mac giaddr circuitID) (\<lambda>r.
         case r of
           Inl err \<Rightarrow> Ok (Inl (''discover from dhcp message: '' @ err))
         | Inr d \<Rightarrow> job_setup L c d j))"

definition CreateFromIP :: "'p dhcp4 \<Rightarrow> conf \<Rightarrow> finder \<Rightarrow> string \<Rightarrow> ip \<Rightarrow> (string + job) go" where
  "CreateFromIP L c f engine ip =
     (let j = (new_job engine)\<lparr>j_ip := ip\<rparr>
      in bind_go (ByIP f ip) (\<lambda>r.
         case r of
           Inl err \<Rightarrow> Ok (Inl (''discovering from ip address: '' @ err))
         | Inr d \<Rightarrow>
             bind_go (disc_GetMAC d ip) (\<lambda>mac.
             if mac_String mac = MACAddr_String MinMAC then Fault (FatalLog ''somehow got a zero mac'')
             else job_setup L c d (j\<lparr>j_mac := mac\<rparr>))))"

definition CreateFromRemoteAddr :: "'p dhcp4 \<Rightarrow> conf \<Rightarrow> finder \<Rightarrow> string \<Rightarrow> string \<Rightarrow> (string + job) go" where
  "CreateFromRemoteAddr L c f engine ip =
     (case SplitHostPort ip of
        None \<Rightarrow> Ok (Inl ''splitting host:ip'')
      | Some host \<Rightarrow> CreateFromIP L c f engine (ParseIP host))"

section \<open>Accessors\<close>

definition rescueOS :: opsys where
  "rescueOS = zero_os\<lparr>os_Slug := ''alpine_3'', os_Distro := ''alpine'', os_Version := ''3''\<rparr>"

text \<open>The nil checks: \<open>def\<close> without hardware or instance.\<close>

definition with_hw :: "job \<Rightarrow> 'a \<Rightarrow> (hardware \<Rightarrow> 'a go) \<Rightarrow> 'a go" where
  "with_hw j dflt f = (case j_hardware j of None \<Rightarrow> Ok dflt | Some h \<Rightarrow> f h)"

definition with_inst :: "job \<Rightarrow> 'a \<Rightarrow> (instance_data \<Rightarrow> 'a) \<Rightarrow> 'a" where
  "with_inst j dflt f = (case j_instance j of None \<Rightarrow> dflt | Some i \<Rightarrow> f i)"

definition job_Arch :: "job \<Rightarrow> string go" where
  "job_Arch j = with_hw j [] (\<lambda>h. HardwareArch h (j_mac j))"

definition job_IsARM :: "job \<Rightarrow> bool go" where
  "job_IsARM j = map_ok (\<lambda>a. a = ''aarch64'') (job_Arch j)"

definition job_IsUEFI :: "job \<Rightarrow> bool go" where
  "job_IsUEFI j = with_hw j False (\<lambda>h. HardwareUEFI h (j_mac j))"

definition BootDriveHint :: "job \<Rightarrow> string" where
  "BootDriveHint j = with_inst j [] i_BootDriveHint"

definition InstanceID :: "job \<Rightarrow> string" where
  "InstanceID j = with_inst j [] i_ID"

definition Rescue :: "job \<Rightarrow> bool" where
  "Rescue j = with_inst j False i_Rescue"

definition UserData :: "job \<Rightarrow> string" where
  "UserData j = with_inst j [] i_UserData"

definition IPXEScriptURL :: "job \<Rightarrow> string" where
  "IPXEScriptURL j = with_inst j [] i_IPXEScriptURL"

definition InstanceIPs :: "job \<Rightarrow> client_ip list" where
  "InstanceIPs j = with_inst j [] i_IPs"

definition PasswordHash :: "job \<Rightarrow> string" where
  "PasswordHash j =
     with_inst j [] (\<lambda>i. if i_CryptedRootPassword i \<noteq> [] then i_CryptedRootPassword i else i_PasswordHash i)"

definition CustomData :: "job \<Rightarrow> jval option" where
  "CustomData j = with_inst j None i_CustomData"

definition job_OperatingSystem :: "job \<Rightarrow> opsys option go" where
  "job_OperatingSystem j =
     (case j_instance j of
        None \<Rightarrow> Ok None
      | Some i \<Rightarrow>
          if i_Rescue i then Ok (Some rescueOS) else bind_go (deref (j_hardware j)) hw_OperatingSystem)"

definition job_ID :: "job \<Rightarrow> string" where
  "job_ID j = mac_String (j_mac j)"

definition job_Interfaces :: "job \<Rightarrow> port list go" where
  "job_Interfaces j = with_hw j [] Interfaces"

text \<open>The index is a non-negative constant at every call.\<close>

definition InterfaceName :: "job \<Rightarrow> nat \<Rightarrow> string go" where
  "InterfaceName j i = map_ok (\<lambda>ifaces. if length ifaces > i then p_Name (ifaces ! i) else []) (job_Interfaces j)"

definition InterfaceMAC :: "job \<Rightarrow> nat \<Rightarrow> hwaddr go" where
  "InterfaceMAC j i = map_ok (\<lambda>ifaces. if length ifaces > i then port_MAC (ifaces ! i) else []) (job_Interfaces j)"

definition job_HardwareID :: "job \<Rightarrow> string" where
  "job_HardwareID j = (case j_hardware j of None \<Rightarrow> [] | Some h \<Rightarrow> HardwareID h)"

definition job_FacilityCode :: "job \<Rightarrow> string" where
  "job_FacilityCode j = (case j_hardware j of None \<Rightarrow> [] | Some h \<Rightarrow> HardwareFacilityCode h)"

definition PlanSlug :: "job \<Rightarrow> string" where
  "PlanSlug j = (case j_hardware j of None \<Rightarrow> [] | Some h \<Rightarrow> HardwarePlanSlug h)"

definition PlanVersionSlug :: "job \<Rightarrow> string" where
  "PlanVersionSlug j = (case j_hardware j of None \<Rightarrow> [] | Some h \<Rightarrow> HardwarePlanVersionSlug h)"

definition Manufacturer :: "job \<Rightarrow> string" where
  "Manufacturer j = (case j_hardware j of None \<Rightarrow> [] | Some h \<Rightarrow> HardwareManufacturer h)"

definition PrimaryNIC :: "job \<Rightarrow> hwaddr" where
  "PrimaryNIC j = j_mac j"

definition job_HardwareState :: "job \<Rightarrow> string" where
  "job_HardwareState j =
     (case j_hardware j of None \<Rightarrow> [] | Some h \<Rightarrow> if HardwareID h \<noteq> [] then HardwareState h else [])"

definition OSIEVersion :: "job \<Rightarrow> string" where
  "OSIEVersion j =
     (let ov = with_inst j [] ServicesVersion
      in if ov \<noteq> [] then ov
         else case j_hardware j of None \<Rightarrow> [] | Some h \<Rightarrow> HardwareOSIEVersion h)"

definition CanWorkflow :: "job \<Rightarrow> bool go" where
  "CanWorkflow j = bind_go (deref (j_hardware j)) (\<lambda>h. HardwareAllowWorkflow h (j_mac j))"

definition OSIEBaseURL :: "job \<Rightarrow> string go" where
  "OSIEBaseURL j = with_hw j [] (\<lambda>h. hw_OSIEBaseURL h (j_mac j))"

definition KernelPath :: "job \<Rightarrow> string go" where
  "KernelPath j = with_hw j [] (\<lambda>h. hw_KernelPath h (j_mac j))"

definition InitrdPath :: "job \<Rightarrow> string go" where
  "InitrdPath j = with_hw j [] (\<lambda>h. hw_InitrdPath h (j_mac j))"

definition BondingMode :: "job \<Rightarrow> int go" where
  "BondingMode j = map_ok HardwareBondingMode (deref (j_hardware j))"

definition VLANID :: "job \<Rightarrow> string go" where
  "VLANID j = map_ok (\<lambda>h. GetVLANID h (j_mac j)) (deref (j_hardware j))"

text \<open>Package \<open>job\<close>'s gate on booting.\<close>

definition AllowPXE :: "job \<Rightarrow> bool go" where
  "AllowPXE j =
     bind_go (deref (j_hardware j)) (\<lambda>h.
     bind_go (HardwareAllowPXE h (j_mac j)) (\<lambda>allow.
     if allow then Ok True
     else if InstanceID j = [] then Ok False
     else map_ok i_AllowPXE (deref (j_instance j))))"

definition ProvisionerEngineName :: "job \<Rightarrow> string" where
  "ProvisionerEngineName j = j_provisionerEngineName j"

lemmas job_defs [go_defs] =
  new_job_def job_setup_def CreateFromDHCP_def CreateFromIP_def CreateFromRemoteAddr_def rescueOS_def
  with_hw_def with_inst_def job_Arch_def job_IsARM_def job_IsUEFI_def BootDriveHint_def
  InstanceID_def Rescue_def UserData_def IPXEScriptURL_def InstanceIPs_def PasswordHash_def
  CustomData_def job_OperatingSystem_def job_ID_def job_Interfaces_def InterfaceName_def
  InterfaceMAC_def job_HardwareID_def job_FacilityCode_def PlanSlug_def PlanVersionSlug_def
  Manufacturer_def PrimaryNIC_def job_HardwareState_def OSIEVersion_def CanWorkflow_def
  OSIEBaseURL_def KernelPath_def InitrdPath_def BondingMode_def VLANID_def AllowPXE_def
  ProvisionerEngineName_def

section \<open>The DHCP settings of a job\<close>

text \<open>The options that \<open>setup\<close> gives a job, as one map.\<close>

definition job_options ::
  "'p dhcp4 \<Rightarrow> conf \<Rightarrow> client_ip \<Rightarrow> bytes \<Rightarrow> ip list \<Rightarrow> string \<Rightarrow> string \<Rightarrow> (nat \<rightharpoonup> bytes)" where
  "job_options L c ip lease dns hostname vlan k =
     (if k = OptionSubnetMask \<and> ip_Netmask ip \<noteq> [] then Some (To4 (ip_Netmask ip))
      else if k = OptionRouter \<and> ip_Gateway ip \<noteq> [] then Some (To4 (ip_Gateway ip))
      else if k = OptionAddressTime then Some lease
      else if k = OptionDHCPServerID \<and> To4 (PublicIPv4 c) \<noteq> [] then Some (To4 (PublicIPv4 c))
      else if k = OptionDomainServer \<and> dns_bytes dns \<noteq> [] then Some (dns_bytes dns)
      else if k = OptionHostname \<and> hostname \<noteq> [] then Some hostname
      else if k = OptionVendorSpecific \<and> vlan \<noteq> [] then Some (om_Serialize L (Some [116 \<mapsto> vlan]))
      else None)"

lemma job_options_finite: "finite (dom (job_options L c ip lease dns hostname vlan))"
proof -
  have "dom (job_options L c ip lease dns hostname vlan) \<subseteq>
      {OptionSubnetMask, OptionRouter, OptionAddressTime, OptionDHCPServerID, OptionDomainServer,
       OptionHostname, OptionVendorSpecific}"
    by (auto simp: job_options_def dom_def split: if_splits)
  then show ?thesis by (rule finite_subset) simp
qed

text \<open>The setters on an explicit configuration, with a conditional update of the map.\<close>

definition put :: "bool \<Rightarrow> nat \<Rightarrow> bytes \<Rightarrow> (nat \<rightharpoonup> bytes) \<Rightarrow> (nat \<rightharpoonup> bytes)" where
  "put b k v m = (if b then m(k \<mapsto> v) else m)"

lemma put_apply: "put b k v m j = (if b \<and> j = k then Some v else m j)"
  by (simp add: put_def)

lemma setters_put:
  assumes L: "dhcp4_ok L"
  shows "To4 a \<noteq> [] \<Longrightarrow> Setup L a nm gw c0 = Ok \<lparr>addr = To4 a, opts = Some
      (put (gw \<noteq> []) OptionRouter (To4 gw) (put (nm \<noteq> []) OptionSubnetMask (To4 nm) Map.empty))\<rparr>"
    and "SetDHCPServer L s \<lparr>addr = x, opts = Some m\<rparr> =
      Ok \<lparr>addr = x, opts = Some (put (To4 s \<noteq> []) OptionDHCPServerID (To4 s) m)\<rparr>"
    and "SetDNSServers L dns \<lparr>addr = x, opts = Some m\<rparr> =
      Ok \<lparr>addr = x, opts = Some (put (dns_bytes dns \<noteq> []) OptionDomainServer (dns_bytes dns) m)\<rparr>"
    and "SetHostname L hn \<lparr>addr = x, opts = Some m\<rparr> =
      Ok \<lparr>addr = x, opts = Some (put (hn \<noteq> []) OptionHostname hn m)\<rparr>"
    and "m OptionVendorSpecific = None \<Longrightarrow> SetOpt43SubOpt L k vlan \<lparr>addr = x, opts = Some m\<rparr> =
      Ok \<lparr>addr = x, opts = Some (put (vlan \<noteq> []) OptionVendorSpecific (om_Serialize L (Some [k \<mapsto> vlan])) m)\<rparr>"
  by (auto simp: Setup_def SetDHCPServer_def SetDNSServers_def SetHostname_def SetOpt43SubOpt_def put_def
      om_simps [OF L] Let_def simp del: fun_upd_apply)

lemma SetLeaseTime_put:
  assumes "dhcp4_ok L"
  obtains lease where "length lease = 4"
    and "SetLeaseTime L lt \<lparr>addr = x, opts = Some m\<rparr> =
      Ok \<lparr>addr = x, opts = Some (put True OptionAddressTime lease m)\<rparr>"
  using SetLeaseTime_get [OF assms, of "\<lparr>addr = x, opts = Some m\<rparr>" m lt] by (auto simp: put_def)

lemma config_chain:
  assumes L: "dhcp4_ok L" and v4: "To4 (ip_Address ip) \<noteq> []"
  shows "\<exists>lease. length lease = 4 \<and>
    bind_go (Setup L (ip_Address ip) (ip_Netmask ip) (ip_Gateway ip) c0) (\<lambda>c1.
    bind_go (SetLeaseTime L lt c1) (\<lambda>c2.
    bind_go (SetDHCPServer L (PublicIPv4 c) c2) (\<lambda>c3.
    bind_go (SetDNSServers L dns c3) (\<lambda>c4.
    bind_go (if hn \<noteq> [] then SetHostname L hn c4 else Ok c4) (SetOpt43SubOpt L 116 vlan))))) =
    Ok \<lparr>addr = To4 (ip_Address ip), opts = Some (job_options L c ip lease dns hn vlan)\<rparr>"
proof -
  let ?m1 = "put (ip_Gateway ip \<noteq> []) OptionRouter (To4 (ip_Gateway ip))
    (put (ip_Netmask ip \<noteq> []) OptionSubnetMask (To4 (ip_Netmask ip)) Map.empty)"
  let ?x = "To4 (ip_Address ip)"
  obtain lease where l: "length lease = 4"
    and c2: "SetLeaseTime L lt \<lparr>addr = ?x, opts = Some ?m1\<rparr> =
      Ok \<lparr>addr = ?x, opts = Some (put True OptionAddressTime lease ?m1)\<rparr>"
    by (rule SetLeaseTime_put [OF L])
  let ?m4 = "put (dns_bytes dns \<noteq> []) OptionDomainServer (dns_bytes dns)
    (put (To4 (PublicIPv4 c) \<noteq> []) OptionDHCPServerID (To4 (PublicIPv4 c)) (put True OptionAddressTime lease ?m1))"
  let ?m5 = "put (hn \<noteq> []) OptionHostname hn ?m4"
  have c5: "(if hn \<noteq> [] then SetHostname L hn \<lparr>addr = ?x, opts = Some ?m4\<rparr> else Ok \<lparr>addr = ?x, opts = Some ?m4\<rparr>) =
      Ok \<lparr>addr = ?x, opts = Some ?m5\<rparr>"
    by (simp add: setters_put(4) [OF L]) (simp add: put_def)
  have c6: "SetOpt43SubOpt L 116 vlan \<lparr>addr = ?x, opts = Some ?m5\<rparr> = Ok \<lparr>addr = ?x, opts = Some
      (put (vlan \<noteq> []) OptionVendorSpecific (om_Serialize L (Some [116 \<mapsto> vlan])) ?m5)\<rparr>"
    by (rule setters_put(5) [OF L]) (simp add: put_apply option_codes)
  have "put (vlan \<noteq> []) OptionVendorSpecific (om_Serialize L (Some [116 \<mapsto> vlan])) ?m5 =
      job_options L c ip lease dns hn vlan"
    by (rule ext) (simp add: put_apply job_options_def option_codes)
  with l show ?thesis
    by (intro exI [of _ lease] conjI)
      (simp_all only: setters_put(1) [OF L v4] setters_put(2,3) [OF L] c2 c5 c6 bind_go.simps)
qed

lemma job_setup_value:
  assumes "dhcp4_ok L" and "disc_Instance d = Ok inst" and "disc_GetIP d (j_mac j) = Ok ip"
    and "To4 (ip_Address ip) \<noteq> []" and "disc_LeaseTime c d (j_mac j) = Ok lt"
    and "disc_DNSServers c d (j_mac j) = Ok dns"
    and "disc_Hostname (disc_SetMAC (j_mac j) d) = Ok (Inr hn)"
  shows "\<exists>lease. length lease = 4 \<and>
    job_setup L c d j = Ok (Inr (j\<lparr>j_hardware := Some (disc_Hardware d),
      j_instance := Some (case inst of None \<Rightarrow> zero_instance | Some i \<Rightarrow> i),
      j_dhcp := \<lparr>addr = To4 (ip_Address ip),
        opts = Some (job_options L c ip lease dns hn (GetVLANID (disc_Hardware d) (j_mac j)))\<rparr>\<rparr>))"
proof -
  obtain lease where l: "length lease = 4"
    and ch: "bind_go (Setup L (ip_Address ip) (ip_Netmask ip) (ip_Gateway ip) (j_dhcp j)) (\<lambda>c1.
      bind_go (SetLeaseTime L lt c1) (\<lambda>c2. bind_go (SetDHCPServer L (PublicIPv4 c) c2) (\<lambda>c3.
      bind_go (SetDNSServers L dns c3) (\<lambda>c4. bind_go (if hn \<noteq> [] then SetHostname L hn c4 else Ok c4)
      (SetOpt43SubOpt L 116 (GetVLANID (disc_Hardware d) (j_mac j))))))) =
      Ok \<lparr>addr = To4 (ip_Address ip), opts = Some (job_options L c ip lease dns hn (GetVLANID (disc_Hardware d) (j_mac j)))\<rparr>"
    using config_chain [OF assms(1,4), of "j_dhcp j" lt c dns hn "GetVLANID (disc_Hardware d) (j_mac j)"]
    by (elim exE conjE)
  have "ip_Address ip \<noteq> []" using assms(4) by (auto simp: To4_def)
  moreover from ch obtain c1 c2 c3 c4 c5 where
    "Setup L (ip_Address ip) (ip_Netmask ip) (ip_Gateway ip) (j_dhcp j) = Ok c1"
    "SetLeaseTime L lt c1 = Ok c2" "SetDHCPServer L (PublicIPv4 c) c2 = Ok c3"
    "SetDNSServers L dns c3 = Ok c4" "(if hn \<noteq> [] then SetHostname L hn c4 else Ok c4) = Ok c5"
    "SetOpt43SubOpt L 116 (GetVLANID (disc_Hardware d) (j_mac j)) c5 =
      Ok \<lparr>addr = To4 (ip_Address ip), opts = Some (job_options L c ip lease dns hn (GetVLANID (disc_Hardware d) (j_mac j)))\<rparr>"
    by blast
  ultimately show ?thesis
    using l assms(2,3,5,6,7) by (intro exI [of _ lease]) (simp add: job_setup_def disc.set_simps)
qed


text \<open>
  C25: a record whose address for the MAC is not an IPv4 address makes the job panic instead of
  returning an error: \<open>Setup\<close> has left the option map nil and \<open>SetLeaseTime\<close> writes to it.
\<close>

theorem job_setup_non_ipv4_panics:
  assumes "dhcp4_ok L" and "disc_Instance d = Ok inst" and "disc_GetIP d (j_mac j) = Ok ip"
    and "ip_Address ip \<noteq> []" and "To4 (ip_Address ip) = []" and "disc_LeaseTime c d (j_mac j) = Ok lt"
  shows "job_setup L c d j = Fault NilMapWrite"
  using assms by (simp add: job_setup_def disc.set_simps Setup_other SetLeaseTime_nil)

section \<open>Jobs are ready\<close>

text \<open>What every created job satisfies: it has hardware, an instance and a usable configuration.\<close>

definition job_ready :: "job \<Rightarrow> bool" where
  "job_ready j \<longleftrightarrow> j_hardware j \<noteq> None \<and> j_instance j \<noteq> None \<and> config_wf (j_dhcp j) \<and> addr (j_dhcp j) \<noteq> []"

lemma job_setup_Ok_value:
  assumes L: "dhcp4_ok L" and "job_setup L c d j = Ok (Inr j')"
  obtains inst ip lt dns hn lease where "disc_Instance d = Ok inst" and "disc_GetIP d (j_mac j) = Ok ip"
    and "To4 (ip_Address ip) \<noteq> []" and "disc_LeaseTime c d (j_mac j) = Ok lt"
    and "disc_DNSServers c d (j_mac j) = Ok dns" and "disc_Hostname (disc_SetMAC (j_mac j) d) = Ok (Inr hn)"
    and "length lease = 4"
    and "j' = j\<lparr>j_hardware := Some (disc_Hardware d),
      j_instance := Some (case inst of None \<Rightarrow> zero_instance | Some i \<Rightarrow> i),
      j_dhcp := \<lparr>addr = To4 (ip_Address ip),
        opts = Some (job_options L c ip lease dns hn (GetVLANID (disc_Hardware d) (j_mac j)))\<rparr>\<rparr>"
proof -
  from assms(2) obtain inst ip where i: "disc_Instance d = Ok inst" and g: "disc_GetIP d (j_mac j) = Ok ip"
    and a: "ip_Address ip \<noteq> []"
    by (auto simp: job_setup_def disc.set_simps Let_def split: if_splits)
  from assms(2) i g a obtain lt where t: "disc_LeaseTime c d (j_mac j) = Ok lt"
    by (auto simp: job_setup_def disc.set_simps Let_def)
  have v4: "To4 (ip_Address ip) \<noteq> []"
  proof
    assume "To4 (ip_Address ip) = []"
    with i g a t have "job_setup L c d j = Fault NilMapWrite"
      by (simp add: job_setup_def disc.set_simps Setup_other SetLeaseTime_nil [OF L])
    with assms(2) show False by simp
  qed
  from assms(2) i g a t obtain dns where dn: "disc_DNSServers c d (j_mac j) = Ok dns"
    by (auto simp: job_setup_def disc.set_simps Let_def)
  from assms(2) i g a t dn obtain hn where h: "disc_Hostname (disc_SetMAC (j_mac j) d) = Ok (Inr hn)"
    by (auto simp: job_setup_def disc.set_simps Let_def split: sum.splits)
  obtain lease where "length lease = 4" and "job_setup L c d j = Ok (Inr (j\<lparr>j_hardware := Some (disc_Hardware d),
      j_instance := Some (case inst of None \<Rightarrow> zero_instance | Some i \<Rightarrow> i),
      j_dhcp := \<lparr>addr = To4 (ip_Address ip),
        opts = Some (job_options L c ip lease dns hn (GetVLANID (disc_Hardware d) (j_mac j)))\<rparr>\<rparr>))"
    using job_setup_value [OF L i g v4 t dn h] by blast
  with that [OF i g v4 t dn h] assms(2) show ?thesis by simp
qed

lemma job_setup_ready:
  assumes L: "dhcp4_ok L" and "job_setup L c d j = Ok (Inr j')"
  shows "job_ready j' \<and> j_mac j' = j_mac j"
proof (rule job_setup_Ok_value [OF assms], goal_cases)
  case (1 inst ip lt dns hn lease)
  then show ?case
    using To4_length [of "ip_Address ip"] by (auto simp: job_ready_def config_wf_def job_options_finite)
qed

lemma job_setup_ip:
  assumes "job_setup L c d j = Ok (Inr j')"
  shows "job_setup L c d (j\<lparr>j_ip := ip\<rparr>) = Ok (Inr (j'\<lparr>j_ip := ip\<rparr>))"
  using assms by (auto simp: job_setup_def Let_def split: if_splits sum.splits)

text \<open>
  C6: every job that is created from a DHCP message or from a remote address is ready to be served:
  it has hardware and an instance, and its configuration has an IPv4 address and a non-nil option
  map, so no later setter or \<open>ApplyTo\<close> can fault; a job from an HTTP request never has the zero MAC.
\<close>

theorem created_jobs_ready:
  assumes "dhcp4_ok L"
  shows "(CreateFromDHCP L c f engine mac gi cid = Ok (Inr j) \<longrightarrow> job_ready j \<and> j_mac j = mac) \<and>
    (CreateFromRemoteAddr L c f engine a = Ok (Inr j) \<longrightarrow> job_ready j \<and> j_mac j \<noteq> MinMAC)"
proof (intro conjI impI)
  assume "CreateFromDHCP L c f engine mac gi cid = Ok (Inr j)"
  then show "job_ready j" and "j_mac j = mac"
    using job_setup_ready [OF assms] by (force simp: CreateFromDHCP_def split: sum.splits)+
next
  assume "CreateFromRemoteAddr L c f engine a = Ok (Inr j)"
  then show "job_ready j" and "j_mac j \<noteq> MinMAC"
    using job_setup_ready [OF assms]
    by (force simp: CreateFromRemoteAddr_def CreateFromIP_def MACAddr_String_def Let_def
        split: sum.splits option.splits if_splits)+
qed

section \<open>Samples\<close>

definition sample_finder :: finder where
  "sample_finder = \<lparr>ByIP = (\<lambda>ip. Ok (Inr (DCacher sample_dc))), ByMAC = (\<lambda>mac gi cid. Ok (Inr (DCacher sample_dc)))\<rparr>"

definition sample_job :: job where
  "sample_job = (new_job ''engine'')\<lparr>j_mac := sample_mac\<rparr>"

lemma sample_GetIP: "dc_GetIP sample_dc sample_mac = sample_ip"
  using sample_data sample_primary
  by (simp add: dc_GetIP_def InstanceIP_def FindIP_def dc_Instance_def sample_dc_def sample_hc_def
      sample_instance_def ManagementPublicIPv4IP_def ManagementPrivateIPv4IP_def sample_ip_def)

lemma sample_Hostname: "disc_Hostname (disc_SetMAC sample_mac (DCacher sample_dc)) = Ok (Inr ''node'')"
proof -
  have d: "dc_SetMAC sample_mac sample_dc = sample_dc" by (simp add: dc_SetMAC_def sample_dc_def)
  have "InstanceIP sample_dc (mac_String sample_mac) = Some sample_ip"
    using sample_data sample_primary
    by (simp add: InstanceIP_def FindIP_def dc_Instance_def sample_dc_def sample_hc_def
        sample_instance_def ManagementPublicIPv4IP_def ManagementPrivateIPv4IP_def sample_ip_def)
  then have "dc_Mode sample_dc = ''instance''"
    by (simp add: dc_Mode_def) (simp add: sample_dc_def)
  then show ?thesis
    by (simp add: d dc_Hostname_def dc_Instance_def) (simp add: sample_dc_def sample_hc_def sample_instance_def)
qed

lemma sample_setup_facts:
  "disc_Instance (DCacher sample_dc) = Ok (Some sample_instance)"
  "disc_GetIP (DCacher sample_dc) (j_mac sample_job) = Ok sample_ip"
  "To4 (ip_Address sample_ip) = [CHR 0xC0, CHR 0xA8, CHR 0x01, CHR 0x05]"
  "disc_LeaseTime sample_conf (DCacher sample_dc) (j_mac sample_job) = Ok (DHCPLeaseTime sample_conf)"
  "disc_DNSServers sample_conf (DCacher sample_dc) (j_mac sample_job) = Ok (DNSServers sample_conf)"
  "disc_Hostname (disc_SetMAC (j_mac sample_job) (DCacher sample_dc)) = Ok (Inr ''node'')"
  using sample_GetIP sample_Hostname
  by (simp_all add: sample_job_def dc_Instance_def sample_dc_def sample_hc_def dc_LeaseTime_def
      dc_DNSServers_def To4_def sample_ip_def del: disc_Hostname.simps disc_SetMAC.simps)


definition sample_v6_ds :: hardwareStandalone where
  "sample_v6_ds = sample_hs\<lparr>hs_Interfaces := [zero_interface\<lparr>if_DHCP := (if_DHCP zero_interface)\<lparr>d_IP :=
     zero_ip\<lparr>ip_Address := CHR 0x20 # replicate 15 (CHR 0x01), ip_Family := 6\<rparr>\<rparr>\<rparr>]\<rparr>"

theorem job_setup_non_ipv4_panics_witness:
  "job_setup ref_dhcp4 sample_conf (DStandalone sample_v6_ds) sample_job = Fault NilMapWrite"
proof (rule job_setup_non_ipv4_panics [OF ref_dhcp4_ok])
  show "disc_Instance (DStandalone sample_v6_ds) = Ok None"
    by (simp add: ds_Instance_def sample_v6_ds_def sample_hs_def)
  show "disc_GetIP (DStandalone sample_v6_ds) (j_mac sample_job) =
      Ok (zero_ip\<lparr>ip_Address := CHR 0x20 # replicate 15 (CHR 0x01), ip_Family := 6\<rparr>)"
    by (simp add: ds_GetIP_def getPrimaryInterface_def sample_v6_ds_def)
  show "disc_LeaseTime sample_conf (DStandalone sample_v6_ds) (j_mac sample_job) = Ok (ds_LeaseTime sample_v6_ds (j_mac sample_job))"
    by simp
qed (simp_all add: To4_def v4InV6Prefix_def numeral_eq_Suc)

theorem created_jobs_ready_witness:
  "\<exists>j. CreateFromDHCP ref_dhcp4 sample_conf sample_finder ''engine'' sample_mac [] [] = Ok (Inr j) \<and> job_ready j"
proof -
  have "To4 (ip_Address sample_ip) \<noteq> []" by (simp add: sample_setup_facts)
  from job_setup_value [OF ref_dhcp4_ok sample_setup_facts(1,2) this sample_setup_facts(4,5,6)]
  obtain j where "job_setup ref_dhcp4 sample_conf (DCacher sample_dc) sample_job = Ok (Inr j)" by blast
  then have "CreateFromDHCP ref_dhcp4 sample_conf sample_finder ''engine'' sample_mac [] [] = Ok (Inr j)"
    by (simp add: CreateFromDHCP_def sample_finder_def sample_job_def)
  with created_jobs_ready [OF ref_dhcp4_ok] show ?thesis by blast
qed

end
