(* ===== verification/Job_Events.thy ===== *)
theory Job_Events
  imports Job_Core
begin

text \<open>
  Reporting, \<open>src/job/events.go\<close>, \<open>src/job/logging.go\<close> and the reporter interface of
  \<open>src/client/reporter.go\<close>.  A reporter answers each call, knowing the calls before it: its answer is
  an error or the identifier it returns.  The calls made so far are the state \<open>tr\<close>.  A body is the Go
  value that is encoded as JSON, or raw bytes.  Decoding JSON and RSA decryption are arguments.
\<close>

section \<open>Reporters\<close>

datatype body =
    RawBody bytes
  | EventBody string string bool
  | FailBody string bool
  | ProblemBody string
  | UserEventBody string string string
  | ComponentsBody jval

datatype rcall =
    PostHardwareComponent string body
  | PostHardwareEvent string body
  | PostHardwarePhoneHome string
  | PostHardwareFail string body
  | PostHardwareProblem string body
  | PostInstancePhoneHome string
  | PostInstanceEvent string body
  | PostInstanceFail string body
  | PostInstancePassword string string
  | UpdateInstance string body

fun call_id :: "rcall \<Rightarrow> string" where
  "call_id (PostHardwareComponent i _) = i"
| "call_id (PostHardwareEvent i _) = i"
| "call_id (PostHardwarePhoneHome i) = i"
| "call_id (PostHardwareFail i _) = i"
| "call_id (PostHardwareProblem i _) = i"
| "call_id (PostInstancePhoneHome i) = i"
| "call_id (PostInstanceEvent i _) = i"
| "call_id (PostInstanceFail i _) = i"
| "call_id (PostInstancePassword i _) = i"
| "call_id (UpdateInstance i _) = i"

type_synonym reporter = "rcall list \<Rightarrow> rcall \<Rightarrow> string + string"

text \<open>The error of an answer, nil as \<^const>\<open>None\<close>.\<close>

definition answer_err :: "string + string \<Rightarrow> string option" where
  "answer_err a = (case a of Inl err \<Rightarrow> Some err | Inr _ \<Rightarrow> None)"

definition noOpReporter :: reporter where
  "noOpReporter tr c = Inr []"

section \<open>Events\<close>

record event =
  e_id :: string
  e_kind :: string
  e_pass :: string
  e_json :: body

definition event_post ::
  "reporter \<Rightarrow> string \<Rightarrow> string \<Rightarrow> event \<Rightarrow> rcall list \<Rightarrow> string option \<times> event \<times> rcall list" where
  "event_post r endpoint ident e tr =
     (if ident = [] then (Some ''missing id'', e, tr)
      else if e_pass e \<noteq> [] then
        (let c = PostInstancePassword ident (e_pass e) in (answer_err (r tr c), e, tr @ [c]))
      else if endpoint = ''hardware'' then
        (if e_kind e = ''phone-home'' then
           (let c = PostHardwarePhoneHome ident in (answer_err (r tr c), e, tr @ [c]))
         else
           (let c = PostHardwareEvent ident (e_json e)
            in case r tr c of
                 Inl err \<Rightarrow> (Some err, e\<lparr>e_id := []\<rparr>, tr @ [c])
               | Inr i \<Rightarrow> (None, e\<lparr>e_id := i\<rparr>, tr @ [c])))
      else if endpoint = ''instance'' then
        (if e_kind e = ''phone-home'' then
           (let c = PostInstancePhoneHome ident in (answer_err (r tr c), e, tr @ [c]))
         else
           (let c = PostInstanceEvent ident (e_json e)
            in case r tr c of
                 Inl err \<Rightarrow> (Some err, e\<lparr>e_id := []\<rparr>, tr @ [c])
               | Inr i \<Rightarrow> (None, e\<lparr>e_id := i\<rparr>, tr @ [c])))
      else (Some (''unknown endpoint: '' @ endpoint), e, tr))"

record failure =
  f_Reason :: string
  f_Private :: bool

definition failure_post ::
  "reporter \<Rightarrow> string \<Rightarrow> string \<Rightarrow> failure \<Rightarrow> rcall list \<Rightarrow> string option \<times> failure \<times> rcall list" where
  "failure_post r ty ident f tr =
     (if ident = [] then (Some ''missing id'', f, tr)
      else
        (let f1 = f\<lparr>f_Private := True\<rparr>; b = FailBody (f_Reason f1) (f_Private f1)
         in if ty = ''hardware'' then
              (let c = PostHardwareFail ident b in (answer_err (r tr c), f1, tr @ [c]))
            else if ty = ''instance'' then
              (let c = PostInstanceFail ident b in (answer_err (r tr c), f1, tr @ [c]))
            else (Some (''unknown type: '' @ ty), f1, tr)))"

text \<open>The interface \<open>poster\<close>.\<close>

datatype poster = PEvent event | PFailure failure

fun postInstance :: "reporter \<Rightarrow> string \<Rightarrow> poster \<Rightarrow> rcall list \<Rightarrow> string option \<times> poster \<times> rcall list" where
  "postInstance r ident (PEvent e) tr = (case event_post r ''instance'' ident e tr of (err, e', tr') \<Rightarrow> (err, PEvent e', tr'))"
| "postInstance r ident (PFailure f) tr = (case failure_post r ''instance'' ident f tr of (err, f', tr') \<Rightarrow> (err, PFailure f', tr'))"

fun postHardware :: "reporter \<Rightarrow> string \<Rightarrow> poster \<Rightarrow> rcall list \<Rightarrow> string option \<times> poster \<times> rcall list" where
  "postHardware r ident (PEvent e) tr = (case event_post r ''hardware'' ident e tr of (err, e', tr') \<Rightarrow> (err, PEvent e', tr'))"
| "postHardware r ident (PFailure f) tr = (case failure_post r ''hardware'' ident f tr of (err, f', tr') \<Rightarrow> (err, PFailure f', tr'))"

fun kind :: "poster \<Rightarrow> string" where
  "kind (PEvent e) = e_kind e"
| "kind (PFailure f) = ''failure''"

fun poster_id :: "poster \<Rightarrow> string" where
  "poster_id (PEvent e) = e_id e"
| "poster_id (PFailure f) = ''no-id''"

section \<open>Decoding a phone-home body\<close>

record event_fields =
  ef_Type :: string
  ef_Password :: bytes
  ef_Instance :: string

text \<open>
  What the decoding of a body depends on: the package of the JSON decoder and the RSA key, which is
  \<^const>\<open>None\<close> before it is generated.
\<close>

record codec =
  k_json :: json_pkg
  rsa_key :: "(bytes \<Rightarrow> string + string) option"

definition st_event :: "event_fields store" where
  "st_event = st_struct [
     fld ''type'' ef_Type ef_Type_update st_string,
     fld ''password'' ef_Password ef_Password_update st_bytes,
     fld ''instance_id'' ef_Instance ef_Instance_update st_string]"

definition dec_event :: "codec \<Rightarrow> bytes \<Rightarrow> string + event_fields" where
  "dec_event k b =
     or_error (k_json k) ''event'' b (Unmarshal st_event b \<lparr>ef_Type = [], ef_Password = [], ef_Instance = []\<rparr>)"

definition st_failure :: "failure store" where
  "st_failure = st_struct [
     fld ''reason'' f_Reason f_Reason_update st_string,
     fld ''private'' f_Private f_Private_update st_bool]"

definition dec_failure :: "codec \<Rightarrow> bytes \<Rightarrow> string + failure" where
  "dec_failure k b = or_error (k_json k) ''failure'' b (Unmarshal st_failure b \<lparr>f_Reason = [], f_Private = False\<rparr>)"

definition decryptPassword :: "codec \<Rightarrow> bytes \<Rightarrow> (string + string) go" where
  "decryptPassword k b =
     (case rsa_key k of
        None \<Rightarrow> Fault (FatalLog ''missing RSA private key'')
      | Some decrypt \<Rightarrow>
          (case decrypt b of
             Inl err \<Rightarrow> Ok (Inl (''decrypt submitted password: '' @ err))
           | Inr pass \<Rightarrow> Ok (Inr pass)))"

definition phone_home_event :: "string \<Rightarrow> event" where
  "phone_home_event pass = \<lparr>e_id = [], e_kind = ''phone-home'', e_pass = pass, e_json = RawBody []\<rparr>"

definition posterFromJSON :: "codec \<Rightarrow> bytes \<Rightarrow> (string + poster) go" where
  "posterFromJSON k b =
     (if b = [] then Ok (Inr (PEvent (phone_home_event [])))
      else case dec_event k b of
             Inl err \<Rightarrow> Ok (Inl (''unmarshalling event body: '' @ err))
           | Inr res \<Rightarrow>
               if ef_Type res = [] \<and> ef_Instance res \<noteq> [] then Ok (Inr (PEvent (phone_home_event [])))
               else if ef_Type res = [] \<and> ef_Password res \<noteq> [] then
                 map_ok (map_sum id (\<lambda>pass. PEvent (phone_home_event pass))) (decryptPassword k (ef_Password res))
               else if ef_Type res = ''failure'' then
                 (case dec_failure k b of
                    Inl err \<Rightarrow> Ok (Inl (''unmarshalling failure body: '' @ err))
                  | Inr f \<Rightarrow> Ok (Inr (PFailure f)))
               else Ok (Inr (PEvent \<lparr>e_id = [], e_kind = ef_Type res, e_pass = [], e_json = RawBody b\<rparr>)))"

section \<open>Reporting from a job\<close>

definition newEvent :: "string \<Rightarrow> string \<Rightarrow> bool \<Rightarrow> event" where
  "newEvent k b private = \<lparr>e_id = [], e_kind = k, e_pass = [], e_json = EventBody k b private\<rparr>"

text \<open>The identifier of the instance is not empty where it is used, so the instance is not nil.\<close>

definition postEvent :: "reporter \<Rightarrow> string \<Rightarrow> string \<Rightarrow> bool \<Rightarrow> job \<Rightarrow> rcall list \<Rightarrow> bool \<times> rcall list" where
  "postEvent r k b private j tr =
     (if InstanceID j = [] then (False, tr)
      else (True, snd (snd (postInstance r (InstanceID j) (PEvent (newEvent k b private)) tr))))"

definition job_Error :: "reporter \<Rightarrow> string \<Rightarrow> job \<Rightarrow> rcall list \<Rightarrow> rcall list" where
  "job_Error r err j tr = snd (postEvent r ''boots.warning'' (''Tinkerbell Warning: '' @ err) True j tr)"

definition job_Fatal :: "string \<Rightarrow> 'a go" where
  "job_Fatal err = Fault (PanicCall err)"

definition CustomPXEDone :: "reporter \<Rightarrow> job \<Rightarrow> rcall list \<Rightarrow> rcall list" where
  "CustomPXEDone r j tr =
     (if InstanceID j = [] then tr
      else snd (snd (postInstance r (InstanceID j) (PEvent (phone_home_event [])) tr)))"

definition allow_pxe_false :: bytes where
  "allow_pxe_false = ''{'' @ [CHR 0x22] @ ''allow_pxe'' @ [CHR 0x22] @ '':false}''"

definition DisablePXE :: "reporter \<Rightarrow> job \<Rightarrow> rcall list \<Rightarrow> rcall list" where
  "DisablePXE r j tr =
     (case j_instance j of
        None \<Rightarrow> job_Error r ''instance is nil'' j tr
      | Some i \<Rightarrow>
          (let c = UpdateInstance (i_ID i) (RawBody allow_pxe_false)
           in case r tr c of
                Inl err \<Rightarrow> job_Error r (''disabling PXE: '' @ err) j (tr @ [c])
              | Inr _ \<Rightarrow> tr @ [c]))"

definition job_PostHardwareProblem :: "reporter \<Rightarrow> string \<Rightarrow> job \<Rightarrow> rcall list \<Rightarrow> bool \<times> rcall list" where
  "job_PostHardwareProblem r slug j tr =
     (case j_hardware j of
        None \<Rightarrow> (False, tr)
      | Some h \<Rightarrow>
          (let c = PostHardwareProblem (HardwareID h) (ProblemBody slug)
           in (answer_err (r tr c) = None, tr @ [c])))"

definition MarkDeviceActive :: "reporter \<Rightarrow> job \<Rightarrow> rcall list \<Rightarrow> rcall list" where
  "MarkDeviceActive r j tr =
     (if InstanceID j = [] then tr
      else
        (let c = PostInstancePhoneHome (InstanceID j)
         in case r tr c of Inl err \<Rightarrow> job_Error r err j (tr @ [c]) | Inr _ \<Rightarrow> tr @ [c]))"

text \<open>
  The part of \<open>phoneHome\<close> after the choice of the post, with the deferred \<open>CustomPXEDone\<close> run last on
  both of its returns.
\<close>

definition deliver ::
  "reporter \<Rightarrow> job \<Rightarrow> (rcall list \<Rightarrow> string option \<times> poster \<times> rcall list) \<Rightarrow> bool \<Rightarrow> bool \<Rightarrow> rcall list \<Rightarrow>
   bool \<times> rcall list" where
  "deliver r j post disablePXE deferred tr =
     (let (err, p, tr1) = post tr;
          done = (\<lambda>t. if deferred then CustomPXEDone r j t else t)
      in if err \<noteq> None then (False, done tr1)
         else (True, done (if disablePXE then DisablePXE r j tr1 else tr1)))"

definition phoneHome :: "codec \<Rightarrow> reporter \<Rightarrow> bytes \<Rightarrow> job \<Rightarrow> rcall list \<Rightarrow> (bool \<times> rcall list) go" where
  "phoneHome k r b j tr =
     bind_go (posterFromJSON k b) (\<lambda>res.
     case res of
       Inl err \<Rightarrow> Ok (False, job_Error r (''parsing event: '' @ err) j tr)
     | Inr p \<Rightarrow>
         if InstanceID j \<noteq> [] then
           (if kind p = ''provisioning.104.01'' then
              bind_go (deref (j_hardware j)) (\<lambda>h.
              bind_go (hw_OperatingSystem h) (\<lambda>osp.
              bind_go (deref osp) (\<lambda>os.
              Ok (deliver r j (postInstance r (InstanceID j) p) True (os_OsSlug os = ''custom_ipxe'') tr))))
            else Ok (deliver r j (postInstance r (InstanceID j) p) False False tr))
         else if job_HardwareState j \<noteq> ''preinstalling'' then Ok (False, tr)
         else
           bind_go (deref (j_hardware j)) (\<lambda>h.
           Ok (deliver r j (postHardware r (HardwareID h) p) False False tr)))"

lemmas event_defs [go_defs] =
  answer_err_def noOpReporter_def event_post_def failure_post_def st_event_def dec_event_def st_failure_def
  dec_failure_def decryptPassword_def
  phone_home_event_def posterFromJSON_def newEvent_def postEvent_def job_Error_def
  CustomPXEDone_def allow_pxe_false_def DisablePXE_def job_PostHardwareProblem_def
  MarkDeviceActive_def deliver_def phoneHome_def

section \<open>The contract of a poster\<close>

lemma answer_err_None_iff: "answer_err a = None \<longleftrightarrow> (\<exists>i. a = Inr i)"
  by (cases a) (simp_all add: answer_err_def)

text \<open>
  Posting without an identifier fails and calls nobody; posting with one makes exactly one call,
  addressed to it, and fails exactly when that call does.
\<close>

locale poster_iface =
  fixes post :: "reporter \<Rightarrow> string \<Rightarrow> 'e \<Rightarrow> rcall list \<Rightarrow> string option \<times> 'e \<times> rcall list"
  assumes no_id: "fst (post r [] e tr) \<noteq> None \<and> snd (snd (post r [] e tr)) = tr"
    and one_call: "ident \<noteq> [] \<Longrightarrow>
      \<exists>c. snd (snd (post r ident e tr)) = tr @ [c] \<and> call_id c = ident \<and> fst (post r ident e tr) = answer_err (r tr c)"
begin

lemma calls_at_most_one: "\<exists>cs. snd (snd (post r ident e tr)) = tr @ cs \<and> length cs \<le> 1"
  using no_id [of r e tr] one_call [of ident r e tr] by (cases "ident = []") auto

lemma addressed: "snd (snd (post r ident e tr)) = tr @ cs \<Longrightarrow> c \<in> set cs \<Longrightarrow> call_id c = ident"
  using no_id [of r e tr] one_call [of ident r e tr] by (cases "ident = []") auto

lemma fails_iff:
  "ident \<noteq> [] \<Longrightarrow> \<exists>c. snd (snd (post r ident e tr)) = tr @ [c] \<and> (fst (post r ident e tr) = None \<longleftrightarrow> (\<exists>i. r tr c = Inr i))"
  using one_call [of ident r e tr] by (metis answer_err_None_iff)

end

lemma event_post_one_call:
  assumes "ident \<noteq> []" and "endpoint = ''instance'' \<or> endpoint = ''hardware''"
  shows "\<exists>c. snd (snd (event_post r endpoint ident e tr)) = tr @ [c] \<and> call_id c = ident \<and>
    fst (event_post r endpoint ident e tr) = answer_err (r tr c)"
  using assms by (auto simp: event_post_def Let_def answer_err_def split: sum.splits)

lemma failure_post_one_call:
  assumes "ident \<noteq> []" and "ty = ''instance'' \<or> ty = ''hardware''"
  shows "\<exists>c. snd (snd (failure_post r ty ident f tr)) = tr @ [c] \<and> call_id c = ident \<and>
    fst (failure_post r ty ident f tr) = answer_err (r tr c)"
  using assms by (auto simp: failure_post_def Let_def)

interpretation instance_event: poster_iface "\<lambda>r. event_post r ''instance''"
  by unfold_locales (simp add: event_post_def, simp add: event_post_one_call)

interpretation hardware_event: poster_iface "\<lambda>r. event_post r ''hardware''"
  by unfold_locales (simp add: event_post_def, simp add: event_post_one_call)

interpretation instance_failure: poster_iface "\<lambda>r. failure_post r ''instance''"
  by unfold_locales (simp add: failure_post_def, simp add: failure_post_one_call)

interpretation hardware_failure: poster_iface "\<lambda>r. failure_post r ''hardware''"
  by unfold_locales (simp add: failure_post_def, simp add: failure_post_one_call)

interpretation instance_post: poster_iface postInstance
proof
  fix r e tr
  show "fst (postInstance r [] e tr) \<noteq> None \<and> snd (snd (postInstance r [] e tr)) = tr"
    using instance_event.no_id instance_failure.no_id by (cases e) (simp_all add: case_prod_unfold)
next
  fix ident :: string and r e tr assume i: "ident \<noteq> []"
  show "\<exists>c. snd (snd (postInstance r ident e tr)) = tr @ [c] \<and> call_id c = ident \<and>
      fst (postInstance r ident e tr) = answer_err (r tr c)"
    using instance_event.one_call [OF i] instance_failure.one_call [OF i]
    by (cases e) (simp_all add: case_prod_unfold)
qed

interpretation hardware_post: poster_iface postHardware
proof
  fix r e tr
  show "fst (postHardware r [] e tr) \<noteq> None \<and> snd (snd (postHardware r [] e tr)) = tr"
    using hardware_event.no_id hardware_failure.no_id by (cases e) (simp_all add: case_prod_unfold)
next
  fix ident :: string and r e tr assume i: "ident \<noteq> []"
  show "\<exists>c. snd (snd (postHardware r ident e tr)) = tr @ [c] \<and> call_id c = ident \<and>
      fst (postHardware r ident e tr) = answer_err (r tr c)"
    using hardware_event.one_call [OF i] hardware_failure.one_call [OF i]
    by (cases e) (simp_all add: case_prod_unfold)
qed

section \<open>What is reported\<close>

lemma postInstance_new_event:
  assumes "ident \<noteq> []" and "k \<noteq> ''phone-home''"
  shows "snd (snd (postInstance r ident (PEvent (newEvent k b p)) tr)) = tr @ [PostInstanceEvent ident (EventBody k b p)]"
  using assms by (simp add: event_post_def newEvent_def Let_def split: sum.splits)

lemma job_Error_calls:
  "job_Error r err j tr = tr @ (if InstanceID j = [] then []
     else [PostInstanceEvent (InstanceID j) (EventBody ''boots.warning'' (''Tinkerbell Warning: '' @ err) True)])"
  by (simp add: job_Error_def postEvent_def postInstance_new_event del: postInstance.simps)

lemma CustomPXEDone_calls:
  "CustomPXEDone r j tr = tr @ (if InstanceID j = [] then [] else [PostInstancePhoneHome (InstanceID j)])"
  by (simp add: CustomPXEDone_def event_post_def phone_home_event_def Let_def)

text \<open>
  C23: logging an error through a job reports it once, as a private warning of the instance, and
  never again when that report itself fails; a job without an instance reports nothing.
\<close>

theorem job_Error_reports_once:
  "job_Error r err j tr = tr @ (if InstanceID j = [] then []
     else [PostInstanceEvent (InstanceID j) (EventBody ''boots.warning'' (''Tinkerbell Warning: '' @ err) True)])"
  by (rule job_Error_calls)

definition is_update :: "rcall \<Rightarrow> bool" where
  "is_update c \<longleftrightarrow> (case c of UpdateInstance _ _ \<Rightarrow> True | _ \<Rightarrow> False)"

lemma event_post_no_update:
  "filter is_update (snd (snd (event_post r endpoint ident e tr))) = filter is_update tr"
  by (auto simp: event_post_def Let_def is_update_def split: sum.splits)

lemma failure_post_no_update:
  "filter is_update (snd (snd (failure_post r ty ident f tr))) = filter is_update tr"
  by (auto simp: failure_post_def Let_def is_update_def)

lemma post_no_update:
  "filter is_update (snd (snd (postInstance r ident p tr))) = filter is_update tr"
  "filter is_update (snd (snd (postHardware r ident p tr))) = filter is_update tr"
  by (cases p; simp add: case_prod_unfold event_post_no_update failure_post_no_update)+

lemma error_no_update: "filter is_update (job_Error r err j tr) = filter is_update tr"
  by (simp add: job_Error_calls is_update_def)

lemma done_no_update: "filter is_update (CustomPXEDone r j tr) = filter is_update tr"
  by (simp add: CustomPXEDone_calls is_update_def)

lemma DisablePXE_update:
  assumes "InstanceID j \<noteq> []"
  shows "filter is_update (DisablePXE r j tr) =
    filter is_update tr @ [UpdateInstance (InstanceID j) (RawBody allow_pxe_false)]"
  using assms
  by (auto simp: DisablePXE_def InstanceID_def with_inst_def Let_def error_no_update is_update_def
      split: option.splits sum.splits)

lemma deliver_update:
  assumes "\<And>tr. filter is_update (snd (snd (post tr))) = filter is_update tr"
    and "disable \<Longrightarrow> InstanceID j \<noteq> []"
  shows "filter is_update (snd (deliver r j post disable deferred tr)) = filter is_update tr @
    (if disable \<and> fst (post tr) = None then [UpdateInstance (InstanceID j) (RawBody allow_pxe_false)] else [])"
proof -
  obtain err p tr1 where p: "post tr = (err, p, tr1)" by (cases "post tr") auto
  with assms(1) [of tr] have "filter is_update tr1 = filter is_update tr" by simp
  then show ?thesis
    using p assms(2) by (auto simp: deliver_def done_no_update DisablePXE_update)
qed

text \<open>
  Phoning home turns PXE off for an instance exactly when the event is \<open>provisioning.104.01\<close> and
  the reporter accepted it; in that case there is exactly one such update, for that instance, and in
  every other case there is none.
\<close>

lemma phoneHome_disables_pxe_iff:
  assumes "phoneHome k r b j tr = Ok (ok, tr')"
  shows "filter is_update tr' = filter is_update tr @
    (case posterFromJSON k b of
       Ok (Inr p) \<Rightarrow>
         if InstanceID j \<noteq> [] \<and> kind p = ''provisioning.104.01'' \<and> fst (postInstance r (InstanceID j) p tr) = None
         then [UpdateInstance (InstanceID j) (RawBody allow_pxe_false)] else []
     | _ \<Rightarrow> [])"
proof (cases "posterFromJSON k b")
  case (Ok res)
  show ?thesis
  proof (cases res)
    case (Inl err)
    with Ok assms show ?thesis by (auto simp: phoneHome_def error_no_update)
  next
    case (Inr p)
    have tr': "deliver r j (postInstance r (InstanceID j) p) (kind p = ''provisioning.104.01'') d tr = (ok, tr') \<Longrightarrow>
        InstanceID j \<noteq> [] \<Longrightarrow> ?thesis" for d
      using Ok Inr deliver_update [of "postInstance r (InstanceID j) p" "kind p = ''provisioning.104.01''" j r d tr]
      by (auto simp: post_no_update dest: arg_cong [where f = snd])
    have hw: "deliver r j (postHardware r i p) False False tr = (ok, tr') \<Longrightarrow> InstanceID j = [] \<Longrightarrow> ?thesis" for i
      using Ok Inr deliver_update [of "postHardware r i p" False j r False tr]
      by (auto simp: post_no_update dest: arg_cong [where f = snd])
    from assms Ok Inr tr' hw show ?thesis
      by (auto simp: phoneHome_def split: if_splits)
  qed
next
  case (Fault e)
  with assms show ?thesis by (simp add: phoneHome_def)
qed


definition sample_codec :: codec where
  "sample_codec = \<lparr>k_json = sample_json, rsa_key = None\<rparr>"

definition sample_event :: bytes where
  "sample_event = ''{'' @ [CHR 0x22] @ ''type'' @ [CHR 0x22] @ '': '' @ [CHR 0x22] @ ''provisioning.104.01'' @ [CHR 0x22] @ ''}''"

definition sample_installed :: job where
  "sample_installed = sample_job\<lparr>j_hardware := Some (HCacher sample_hc), j_instance := Some sample_instance\<rparr>"

lemma sample_installed_id: "InstanceID sample_installed = ''i-1''"
  by (simp add: sample_installed_def InstanceID_def with_inst_def sample_instance_def)

lemma sample_poster:
  "posterFromJSON sample_codec sample_event =
     Ok (Inr (PEvent \<lparr>e_id = [], e_kind = ''provisioning.104.01'', e_pass = [], e_json = RawBody sample_event\<rparr>))"
proof -
  have "dec_event sample_codec sample_event = Inr \<lparr>ef_Type = ''provisioning.104.01'', ef_Password = [], ef_Instance = []\<rparr>"
    by code_simp
  moreover have "sample_event \<noteq> []" by (simp add: sample_event_def)
  ultimately show ?thesis by (simp add: posterFromJSON_def)
qed

lemma sample_phoneHome: "\<exists>ok tr'. phoneHome sample_codec r sample_event sample_installed [] = Ok (ok, tr')"
proof -
  have "\<exists>x. phoneHome sample_codec r sample_event sample_installed [] = Ok x"
    by (simp add: phoneHome_def sample_poster sample_installed_id)
      (simp add: sample_installed_def sample_hc_def hc_OperatingSystem_def)
  then show ?thesis by (auto simp: split_paired_Ex)
qed

end
