(* ===== verification/Job_Dhcp.thy ===== *)
theory Job_Dhcp
  imports Job_Events Dhcp_Pxe
begin

text \<open>
  Answering DHCP for a job, \<open>src/job/dhcp.go\<close>.  \<open>write\<close> is the reply writer of the server, \<open>r\<close> the
  reporter that \<open>Job.Error\<close> posts to and \<open>tr\<close> the calls made to it.  Trace events and log lines have
  no effect on the state; the expressions that compute their arguments are kept where they can panic.
\<close>

section \<open>Operations\<close>

definition IsSpecialOS :: "instance_data option \<Rightarrow> bool go" where
  "IsSpecialOS inst =
     (case inst of
        None \<Rightarrow> Ok False
      | Some i \<Rightarrow>
          bind_go (deref (i_OSV i)) (\<lambda>osv.
          bind_go (deref (i_OS i)) (\<lambda>os.
          let slug = (if os_Slug osv \<noteq> [] then os_Slug osv else []);
              slug = (if os_Slug os \<noteq> [] then os_Slug os else slug)
          in Ok (slug = ''custom_ipxe'' \<or> slug = ''custom'' \<or> HasPrefix slug ''vmware''))))"

definition areWeProvisioner :: "job \<Rightarrow> bool go" where
  "areWeProvisioner j =
     bind_go (deref (j_hardware j)) (\<lambda>h.
     if HardwareProvisioner h = [] then Ok True
     else Ok (HardwareProvisioner h = ProvisionerEngineName j))"

text \<open>The early returns for hardware that is in use: whether the function goes on.\<close>

definition in_use_gate :: "reporter \<Rightarrow> job \<Rightarrow> rcall list \<Rightarrow> (bool \<times> rcall list) go" where
  "in_use_gate r j tr =
     (if job_HardwareState j \<noteq> ''in_use'' then Ok (True, tr)
      else if InstanceID j = [] then
        Ok (False, job_Error r ''setPXEFilename called on a job with no instance'' j tr)
      else
        bind_go (deref (j_instance j)) (\<lambda>i.
        if i_State i \<noteq> ''active'' then Ok (False, tr)
        else
          bind_go (AllowPXE j) (\<lambda>allow.
          if allow then Ok (True, tr)
          else
            bind_go (deref (j_hardware j)) (\<lambda>h.
            bind_go (hw_OperatingSystem h) (\<lambda>osp.
            bind_go (deref osp) (\<lambda>os.
            Ok (os_OsSlug os = ''custom_ipxe'', tr)))))))"

text \<open>The choice of the file name: the name, whether it is served by HTTP, and the HTTP prefix.\<close>

definition pxe_file :: "job \<Rightarrow> bool \<Rightarrow> bool \<Rightarrow> bool \<Rightarrow> bool \<Rightarrow> (string \<times> bool \<times> string) go" where
  "pxe_file j isTinkerbellIPXE isARM isUEFI isHTTPClient =
     (if \<not> isTinkerbellIPXE then
        Ok (if isARM then ''snp.efi'' else if isUEFI then ''ipxe.efi'' else ''undionly.kpxe'',
            isHTTPClient, j_IpxeBaseURL j)
      else
        bind_go (AllowPXE j) (\<lambda>allow.
        if \<not> allow then
          bind_go (job_OperatingSystem j) (\<lambda>osp.
          bind_go (deref (j_instance j)) (\<lambda>i.
          bind_go (deref osp) (\<lambda>os.
          Ok (''nonexistent'', isHTTPClient, j_BootsBaseURL j))))
        else Ok (''auto.ipxe'', True, j_BootsBaseURL j)))"

definition setPXEFilename ::
  "'p dhcp4 \<Rightarrow> reporter \<Rightarrow> job \<Rightarrow> 'p \<Rightarrow> bool \<Rightarrow> bool \<Rightarrow> bool \<Rightarrow> bool \<Rightarrow> rcall list \<Rightarrow> ('p \<times> rcall list) go" where
  "setPXEFilename L r j rep isTinkerbellIPXE isARM isUEFI isHTTPClient tr =
     bind_go (in_use_gate r j tr) (\<lambda>(go_on, tr1).
     if \<not> go_on then Ok (rep, tr1)
     else
       bind_go (pxe_file j isTinkerbellIPXE isARM isUEFI isHTTPClient) (\<lambda>(filename, http, httpPrefix).
       if filename = [] then Ok (rep, job_Error r ''no filename is set'' j tr1)
       else map_ok (\<lambda>rep1. (rep1, tr1)) (SetFilename L rep filename (j_NextServer j) http httpPrefix)))"

definition configureDHCP ::
  "'p dhcp4 \<Rightarrow> map_order \<Rightarrow> conf \<Rightarrow> spanctx \<Rightarrow> reporter \<Rightarrow> job \<Rightarrow> 'p \<Rightarrow> 'p \<Rightarrow> rcall list \<Rightarrow>
   (bool \<times> 'p \<times> rcall list) go" where
  "configureDHCP L ord c sc r j rep req tr =
     (let (ok, rep1) = ApplyTo L ord (j_dhcp j) rep
      in if \<not> ok then Ok (False, rep1, tr)
         else
           bind_go (SetupPXE L sc rep1 req) (\<lambda>(isPXE, rep2).
           if \<not> isPXE then Ok (True, rep2, tr)
           else
             bind_go (job_Arch j) (\<lambda>_.
             bind_go (job_IsUEFI j) (\<lambda>_.
             let isTinkerbellIPXE = IsTinkerbellIPXE L req;
                 rep3 = (if isTinkerbellIPXE then ipxe_Setup L c rep2 else rep2)
             in map_ok (\<lambda>(rep4, tr1). (True, rep4, tr1))
                  (setPXEFilename L r j rep3 isTinkerbellIPXE (IsARM L req) (IsUEFI L req) (IsHTTPClient L req) tr)))))"

text \<open>The result: the two Go results, the packets written and the reporter calls.\<close>

record 'p served =
  sv_ok :: bool
  sv_err :: "string option"
  sv_sent :: "'p list"
  sv_calls :: "rcall list"

text \<open>The pointer of \<open>reply.Packet()\<close> is the packet that \<open>Send\<close> writes, after it was configured.\<close>

fun set_packet :: "'p reply \<Rightarrow> 'p \<Rightarrow> 'p reply" where
  "set_packet (Ack _) p = Ack p"
| "set_packet (Offer _) p = Offer p"

definition ServeDHCP ::
  "'p dhcp4 \<Rightarrow> map_order \<Rightarrow> conf \<Rightarrow> spanctx \<Rightarrow> reporter \<Rightarrow> ('p \<Rightarrow> string option) \<Rightarrow> job \<Rightarrow> 'p \<Rightarrow> rcall list \<Rightarrow>
   'p served go" where
  "ServeDHCP L ord c sc r write j req tr =
     bind_go (areWeProvisioner j) (\<lambda>we.
     if \<not> we then Ok \<lparr>sv_ok = False, sv_err = None, sv_sent = [], sv_calls = tr\<rparr>
     else
       case NewReply L req of
         None \<Rightarrow> Ok \<lparr>sv_ok = False, sv_err = None, sv_sent = [], sv_calls = tr\<rparr>
       | Some rep \<Rightarrow>
           bind_go (configureDHCP L ord c sc r j (Packet rep) req tr) (\<lambda>(ok, p, tr1).
           if \<not> ok then
             Ok \<lparr>sv_ok = False, sv_err = Some ''unable to configure DHCP for yiaddr and DHCP options'',
               sv_sent = [], sv_calls = tr1\<rparr>
           else
             case Send write (set_packet rep p) of
               Some err \<Rightarrow> Ok \<lparr>sv_ok = False, sv_err = Some err, sv_sent = [p], sv_calls = tr1\<rparr>
             | None \<Rightarrow> Ok \<lparr>sv_ok = True, sv_err = None, sv_sent = [p], sv_calls = tr1\<rparr>))"

lemmas job_dhcp_defs [go_defs] =
  IsSpecialOS_def areWeProvisioner_def in_use_gate_def pxe_file_def setPXEFilename_def
  configureDHCP_def ServeDHCP_def

section \<open>What each step leaves of the reply\<close>

text \<open>The options that the steps after \<open>ApplyTo\<close> may write.\<close>

definition boot_options :: "nat set" where
  "boot_options = {OptionVendorSpecific, OptionUUIDGUID, OptionClassID, EncapsulatedOptions, OptionLogServer}"

lemma SetupPXE_Ok:
  assumes L: "dhcp4_ok L" and sc: "spanctx_ok sc" and s: "SetupPXE L sc rep req = Ok (b, rep')"
  shows "b = IsPXE L req \<and> (\<forall>k. k \<notin> boot_options \<longrightarrow> pk_GetOption L rep' k = pk_GetOption L rep k) \<and>
    pk_GetYIAddr L rep' = pk_GetYIAddr L rep \<and> pk_File L rep' = pk_File L rep \<and>
    (\<forall>g. IsPXE L req \<longrightarrow> vendor_options L rep = Some g \<longrightarrow>
       vendor_options L rep' = Some (g(6 \<mapsto> [CHR 0x08], 69 \<mapsto> binaryTpFromContext sc)))"
proof (cases "IsPXE L req")
  case True
  obtain g where g: "vendor_options L rep = Some g" "omap_wf g"
    and e: "SetupPXE L sc rep req = Ok (True, pk_SetOption L (snd (copyGUID L rep req)) OptionVendorSpecific
        (om_Serialize L (Some (g(6 \<mapsto> [CHR 0x08], 69 \<mapsto> binaryTpFromContext sc)))))"
    by (rule SetupPXE_pxe [OF L True])
  have "omap_wf (g(6 \<mapsto> [CHR 0x08], 69 \<mapsto> binaryTpFromContext sc))"
    using g(2) length_binaryTp [OF sc] by (simp add: omap_wf_update)
  from om_round_trip [OF L this, of False] show ?thesis
    using s e g(1) True
    by (auto simp: boot_options_def vendor_options_def pk_simps [OF L] copyGUID_fields [OF L])
qed (use s in \<open>auto simp: SetupPXE_def\<close>)

lemma SetFilename_Ok:
  assumes L: "dhcp4_ok L" and s: "SetFilename L rep filename nextServer http fqdn = Ok rep'"
  shows "(\<forall>k. k \<noteq> OptionClassID \<longrightarrow> pk_GetOption L rep' k = pk_GetOption L rep k) \<and>
    pk_GetYIAddr L rep' = pk_GetYIAddr L rep \<and>
    (let name = (if http then ''http://'' @ path_Join [fqdn, filename] else filename)
     in pk_File L rep' = name @ drop (length name) (pk_File L rep))"
  using s by (auto simp: SetFilename_def Let_def pk_simps [OF L] split: if_splits)

lemma setPXEFilename_Ok:
  assumes L: "dhcp4_ok L" and s: "setPXEFilename L r j rep t a u h tr = Ok (rep', tr')"
  shows "(\<forall>k. k \<noteq> OptionClassID \<longrightarrow> pk_GetOption L rep' k = pk_GetOption L rep k) \<and>
    pk_GetYIAddr L rep' = pk_GetYIAddr L rep"
  using s SetFilename_Ok [OF L]
  by (auto simp: setPXEFilename_def map_ok_Ok_iff split: if_splits)

lemma vendor_options_cong:
  "pk_GetOption L p OptionVendorSpecific = pk_GetOption L q OptionVendorSpecific \<Longrightarrow> vendor_options L p = vendor_options L q"
  by (simp add: vendor_options_def)

lemma configureDHCP_steps:
  assumes L: "dhcp4_ok L" and sc: "spanctx_ok sc" and j: "job_ready j"
    and s: "configureDHCP L ord c sc r j rep req tr = Ok (ok, p, tr')"
  obtains rep2 where "ok" and "SetupPXE L sc (snd (ApplyTo L ord (j_dhcp j) rep)) req = Ok (IsPXE L req, rep2)"
    and "if IsPXE L req
      then setPXEFilename L r j (if IsTinkerbellIPXE L req then ipxe_Setup L c rep2 else rep2)
        (IsTinkerbellIPXE L req) (IsARM L req) (IsUEFI L req) (IsHTTPClient L req) tr = Ok (p, tr')
      else p = rep2 \<and> tr' = tr"
proof -
  define rep1 where "rep1 = snd (ApplyTo L ord (j_dhcp j) rep)"
  have ap: "ApplyTo L ord (j_dhcp j) rep = (True, rep1)"
    using j by (simp add: rep1_def ApplyTo_def Let_def job_ready_def)
  with s obtain b rep2 where su: "SetupPXE L sc rep1 req = Ok (b, rep2)"
    by (auto simp: configureDHCP_def)
  have b: "b = IsPXE L req" using SetupPXE_Ok [OF L sc su] by blast
  show ?thesis
  proof (rule that)
    show "SetupPXE L sc (snd (ApplyTo L ord (j_dhcp j) rep)) req = Ok (IsPXE L req, rep2)"
      using su by (simp add: b rep1_def)
    show "ok" using s su by (auto simp: configureDHCP_def ap Let_def map_ok_Ok_iff split: if_splits)
    show "if IsPXE L req
      then setPXEFilename L r j (if IsTinkerbellIPXE L req then ipxe_Setup L c rep2 else rep2)
        (IsTinkerbellIPXE L req) (IsARM L req) (IsUEFI L req) (IsHTTPClient L req) tr = Ok (p, tr')
      else p = rep2 \<and> tr' = tr"
      using s su [unfolded b] by (cases "IsPXE L req") (auto simp: configureDHCP_def ap Let_def map_ok_Ok_iff)
  qed
qed

lemma ApplyTo_YIAddr:
  assumes "dhcp4_ok L" and "config_wf c" and "addr c \<noteq> []"
  shows "pk_GetYIAddr L (snd (ApplyTo L ord c rep)) = addr c"
  using assms(2,3)
  by (auto simp: ApplyTo_def apply_opts_fields [OF assms(1)] pk_simps [OF assms(1)] elim: config_wf_cases)

lemma ApplyTo_File: "dhcp4_ok L \<Longrightarrow> pk_File L (snd (ApplyTo L ord c rep)) = pk_File L rep"
  by (auto simp: ApplyTo_def Let_def apply_opts_fields pk_simps split: option.splits)

lemma ipxe_Setup_keeps:
  assumes "dhcp4_ok L"
  shows "(\<forall>k. k \<notin> boot_options \<longrightarrow> pk_GetOption L (ipxe_Setup L c p) k = pk_GetOption L p k) \<and>
    vendor_options L (ipxe_Setup L c p) = vendor_options L p"
  by (auto simp: ipxe_Setup_fields [OF assms] boot_options_def option_codes EncapsulatedOptions_def
      intro: vendor_options_cong)

lemma configureDHCP_Ok:
  assumes L: "dhcp4_ok L" and ord: "order_ok ord" and sc: "spanctx_ok sc" and j: "job_ready j"
    and s: "configureDHCP L ord c sc r j rep req tr = Ok (ok, p, tr')"
  shows "ok \<and> pk_GetYIAddr L p = addr (j_dhcp j) \<and>
    (\<forall>k. k \<notin> boot_options \<longrightarrow> pk_GetOption L p k = (pk_GetOption L rep ++ config_options (j_dhcp j)) k) \<and>
    (\<forall>g. IsPXE L req \<longrightarrow> vendor_options L (snd (ApplyTo L ord (j_dhcp j) rep)) = Some g \<longrightarrow>
       vendor_options L p = Some (g(6 \<mapsto> [CHR 0x08], 69 \<mapsto> binaryTpFromContext sc)))"
proof -
  from j have wf: "config_wf (j_dhcp j)" and a: "addr (j_dhcp j) \<noteq> []" by (auto simp: job_ready_def)
  obtain rep2 where ok: "ok" and su: "SetupPXE L sc (snd (ApplyTo L ord (j_dhcp j) rep)) req = Ok (IsPXE L req, rep2)"
    and f: "if IsPXE L req
      then setPXEFilename L r j (if IsTinkerbellIPXE L req then ipxe_Setup L c rep2 else rep2)
        (IsTinkerbellIPXE L req) (IsARM L req) (IsUEFI L req) (IsHTTPClient L req) tr = Ok (p, tr')
      else p = rep2 \<and> tr' = tr"
    by (rule configureDHCP_steps [OF L sc j s])
  have "(\<forall>k. k \<notin> boot_options \<longrightarrow> pk_GetOption L p k = pk_GetOption L rep2 k) \<and>
      pk_GetYIAddr L p = pk_GetYIAddr L rep2 \<and> vendor_options L p = vendor_options L rep2"
  proof (cases "IsPXE L req")
    case True
    with f have "setPXEFilename L r j (if IsTinkerbellIPXE L req then ipxe_Setup L c rep2 else rep2)
        (IsTinkerbellIPXE L req) (IsARM L req) (IsUEFI L req) (IsHTTPClient L req) tr = Ok (p, tr')" by simp
    note keep = setPXEFilename_Ok [OF L this]
    have "OptionVendorSpecific \<noteq> OptionClassID" by (simp add: option_codes)
    with keep have "vendor_options L p = vendor_options L (if IsTinkerbellIPXE L req then ipxe_Setup L c rep2 else rep2)"
      by (intro vendor_options_cong) blast
    with keep show ?thesis
      using ipxe_Setup_keeps [OF L, of c rep2] ipxe_Setup_fields(2) [OF L, of c rep2]
      by (auto simp: boot_options_def)
  qed (use f in simp)
  then show ?thesis
    using ok SetupPXE_Ok [OF L sc su] ApplyTo_get [OF L ord wf a, of rep] ApplyTo_YIAddr [OF L wf a, of ord rep]
    by auto
qed

section \<open>Who gets a reply, and what it says\<close>

lemma ServeDHCP_sent:
  assumes "ServeDHCP L ord c sc r write j req tr = Ok res" and "p \<in> set (sv_sent res)"
  shows "\<exists>rep. areWeProvisioner j = Ok True \<and> NewReply L req = Some rep \<and>
    configureDHCP L ord c sc r j (Packet rep) req tr = Ok (True, p, sv_calls res)"
  using assms by (auto simp: ServeDHCP_def split: if_splits option.splits)

lemma NewReply_option82:
  assumes "dhcp4_ok L" and "NewReply L req = Some rep" and "pk_GetOption L req OptionRelayAgentInformation = Some v"
  shows "pk_GetOption L (Packet rep) OptionRelayAgentInformation = Some v"
  using assms by (auto simp: NewReply_def NewOffer_def NewAck_def includeOption82_def Let_def pk_simps split: if_splits)

lemma NewReply_file:
  assumes "dhcp4_ok L" and "NewReply L req = Some rep"
  shows "pk_File L (Packet rep) = replicate 128 (CHR 0x00)"
  using assms
  by (auto simp: NewReply_def NewOffer_def NewAck_def includeOption82_def Let_def pk_simps reply_simps
      split: if_splits option.splits)

lemma boot_options_82: "OptionRelayAgentInformation \<notin> boot_options"
  by (simp add: boot_options_def option_codes EncapsulatedOptions_def)

text \<open>
  C4: a ready job answers a request with at most one packet, and it answers exactly when this
  engine is the provisioner of the hardware and the message is a DISCOVER or a REQUEST.  It reports
  success exactly when that packet was written without an error.  The packet offers the address of
  the job, has every option of the job's configuration outside the boot options, and echoes the
  relay agent information of the request.
\<close>

theorem ServeDHCP_answers:
  assumes "dhcp4_ok L" and "order_ok ord" and "spanctx_ok sc" and "job_ready j"
    and "ServeDHCP L ord c sc r write j req tr = Ok res"
  shows "(sv_sent res \<noteq> [] \<longleftrightarrow> areWeProvisioner j = Ok True \<and>
      pk_GetMessageType L req \<in> {MessageTypeDiscover, MessageTypeRequest}) \<and>
    length (sv_sent res) \<le> 1 \<and>
    (sv_ok res \<longleftrightarrow> sv_sent res \<noteq> [] \<and> write (hd (sv_sent res)) = None) \<and>
    (\<forall>p \<in> set (sv_sent res).
       pk_GetYIAddr L p = addr (j_dhcp j) \<and>
       (\<forall>k v. k \<notin> boot_options \<longrightarrow> config_options (j_dhcp j) k = Some v \<longrightarrow> pk_GetOption L p k = Some v) \<and>
       (\<forall>v. config_options (j_dhcp j) OptionRelayAgentInformation = None \<longrightarrow>
          pk_GetOption L req OptionRelayAgentInformation = Some v \<longrightarrow>
          pk_GetOption L p OptionRelayAgentInformation = Some v))"
proof -
  note conf = configureDHCP_Ok [OF assms(1-4)]
  have send: "Send write (set_packet rep p) = None \<longleftrightarrow> write p = None" for rep p
    by (cases rep) auto
  have "(sv_sent res \<noteq> [] \<longleftrightarrow> areWeProvisioner j = Ok True \<and> NewReply L req \<noteq> None) \<and>
      length (sv_sent res) \<le> 1 \<and> (sv_ok res \<longleftrightarrow> sv_sent res \<noteq> [] \<and> write (hd (sv_sent res)) = None)"
    using assms(5) conf send
    by (auto simp: ServeDHCP_def split: if_splits option.splits) (metis option.distinct(1))+
  moreover have "NewReply L req \<noteq> None \<longleftrightarrow> pk_GetMessageType L req \<in> {MessageTypeDiscover, MessageTypeRequest}"
    by (auto simp: NewReply_def Let_def)
  moreover have "pk_GetYIAddr L p = addr (j_dhcp j) \<and>
       (\<forall>k v. k \<notin> boot_options \<longrightarrow> config_options (j_dhcp j) k = Some v \<longrightarrow> pk_GetOption L p k = Some v) \<and>
       (\<forall>v. config_options (j_dhcp j) OptionRelayAgentInformation = None \<longrightarrow>
          pk_GetOption L req OptionRelayAgentInformation = Some v \<longrightarrow>
          pk_GetOption L p OptionRelayAgentInformation = Some v)" if "p \<in> set (sv_sent res)" for p
  proof -
    obtain rep where r: "NewReply L req = Some rep"
      and c: "configureDHCP L ord c sc r j (Packet rep) req tr = Ok (True, p, sv_calls res)"
      using ServeDHCP_sent [OF assms(5) \<open>p \<in> set (sv_sent res)\<close>] by blast
    from conf [OF c] NewReply_option82 [OF assms(1) r] boot_options_82 show ?thesis
      by (auto simp: map_add_def)
  qed
  ultimately show ?thesis by blast
qed


section \<open>The boot file\<close>

text \<open>Hardware in use boots only for an active instance that may boot by PXE, or a custom iPXE one.\<close>

definition may_boot :: "job \<Rightarrow> bool \<Rightarrow> opsys \<Rightarrow> bool" where
  "may_boot j allow os \<longleftrightarrow> (job_HardwareState j = ''in_use'' \<longrightarrow>
     InstanceID j \<noteq> [] \<and> with_inst j [] i_State = ''active'' \<and> (allow \<or> os_OsSlug os = ''custom_ipxe''))"

definition boot_url :: "bool \<Rightarrow> string \<Rightarrow> string \<Rightarrow> string" where
  "boot_url http host name = (if http then ''http://'' @ path_Join [host, name] else name)"

text \<open>
  The boot file as a table: the firmware gets the iPXE binary for its architecture, Tinkerbell's own
  iPXE the script, or a name that does not exist when PXE is not allowed.
\<close>

definition boot_name :: "'p dhcp4 \<Rightarrow> job \<Rightarrow> 'p \<Rightarrow> bool \<Rightarrow> opsys \<Rightarrow> string" where
  "boot_name L j req allow os =
     (if \<not> may_boot j allow os then []
      else if IsTinkerbellIPXE L req then
        (if allow then boot_url True (j_BootsBaseURL j) ''auto.ipxe''
         else boot_url (IsHTTPClient L req) (j_BootsBaseURL j) ''nonexistent'')
      else boot_url (IsHTTPClient L req) (j_IpxeBaseURL j)
        (if IsARM L req then ''snp.efi'' else if IsUEFI L req then ''ipxe.efi'' else ''undionly.kpxe''))"

lemma in_use_gate_value:
  assumes "job_ready j" and "j_hardware j = Some h" and "AllowPXE j = Ok allow" and "hw_OperatingSystem h = Ok (Some os)"
  shows "in_use_gate r j tr = Ok (may_boot j allow os, tr)"
proof -
  from assms(1) obtain i where "j_instance j = Some i" by (auto simp: job_ready_def)
  with assms(2-4) show ?thesis
    by (auto simp: in_use_gate_def may_boot_def job_Error_calls with_inst_def)
qed

lemma pxe_file_value:
  assumes "job_ready j" and "j_hardware j = Some h" and "AllowPXE j = Ok allow" and "hw_OperatingSystem h = Ok (Some os)"
  shows "pxe_file j t a u http =
    Ok (if \<not> t then (if a then ''snp.efi'' else if u then ''ipxe.efi'' else ''undionly.kpxe'', http, j_IpxeBaseURL j)
        else if allow then (''auto.ipxe'', True, j_BootsBaseURL j) else (''nonexistent'', http, j_BootsBaseURL j))"
proof -
  from assms(1) obtain i where "j_instance j = Some i" by (auto simp: job_ready_def)
  with assms(2-4) show ?thesis by (auto simp: pxe_file_def job_OperatingSystem_def)
qed

lemma SetFilename_total:
  assumes L: "dhcp4_ok L" and "length (boot_url http host name) \<le> 128" and "pk_File L rep = replicate 128 (CHR 0x00)"
  shows "\<exists>rep'. SetFilename L rep name nxt http host = Ok rep' \<and>
    pk_File L rep' = boot_url http host name @ replicate (128 - length (boot_url http host name)) (CHR 0x00)"
  using assms(2,3) by (auto simp: SetFilename_def boot_url_def Let_def pk_simps [OF L])

lemma setPXEFilename_total:
  assumes L: "dhcp4_ok L" and j: "job_ready j" "j_hardware j = Some h" "AllowPXE j = Ok allow"
      "hw_OperatingSystem h = Ok (Some os)"
    and len: "length (boot_name L j req allow os) \<le> 128" and fl: "pk_File L rep = replicate 128 (CHR 0x00)"
  shows "\<exists>rep'. setPXEFilename L r j rep (IsTinkerbellIPXE L req) (IsARM L req) (IsUEFI L req) (IsHTTPClient L req) tr = Ok (rep', tr) \<and>
    pk_File L rep' = boot_name L j req allow os @ replicate (128 - length (boot_name L j req allow os)) (CHR 0x00)"
proof (cases "may_boot j allow os")
  case False
  with fl show ?thesis
    by (simp add: setPXEFilename_def in_use_gate_value [OF j] boot_name_def)
next
  case True
  obtain name http host where f: "pxe_file j (IsTinkerbellIPXE L req) (IsARM L req) (IsUEFI L req) (IsHTTPClient L req) = Ok (name, http, host)"
    and n: "boot_name L j req allow os = boot_url http host name" "name \<noteq> []"
    using True by (cases "IsTinkerbellIPXE L req"; cases allow) (auto simp: pxe_file_value [OF j] boot_name_def)
  obtain rep' where "SetFilename L rep name (j_NextServer j) http host = Ok rep'"
    and "pk_File L rep' = boot_url http host name @ replicate (128 - length (boot_url http host name)) (CHR 0x00)"
    using SetFilename_total [OF L _ fl] len n(1) by metis
  with True f n show ?thesis by (simp add: setPXEFilename_def in_use_gate_value [OF j])
qed

lemma configureDHCP_total:
  assumes L: "dhcp4_ok L" and sc: "spanctx_ok sc" and j: "job_ready j" "j_hardware j = Some h" "AllowPXE j = Ok allow"
      "hw_OperatingSystem h = Ok (Some os)"
    and hw: "job_Arch j = Ok arch" "job_IsUEFI j = Ok uefi" and pxe: "IsPXE L req"
    and len: "length (boot_name L j req allow os) \<le> 128" and fl: "pk_File L rep = replicate 128 (CHR 0x00)"
  shows "\<exists>p. configureDHCP L ord c sc r j rep req tr = Ok (True, p, tr) \<and>
    pk_File L p = boot_name L j req allow os @ replicate (128 - length (boot_name L j req allow os)) (CHR 0x00)"
proof -
  obtain rep2 where su: "SetupPXE L sc (snd (ApplyTo L ord (j_dhcp j) rep)) req = Ok (True, rep2)"
    using SetupPXE_pxe [OF L pxe] by blast
  define rep3 where "rep3 = (if IsTinkerbellIPXE L req then ipxe_Setup L c rep2 else rep2)"
  have f3: "pk_File L rep3 = replicate 128 (CHR 0x00)"
    using SetupPXE_Ok [OF L sc su] fl by (simp add: rep3_def ipxe_Setup_fields [OF L] ApplyTo_File [OF L])
  have ap: "ApplyTo L ord (j_dhcp j) rep = (True, snd (ApplyTo L ord (j_dhcp j) rep))"
    using j(1) by (simp add: ApplyTo_def Let_def job_ready_def)
  obtain p where "setPXEFilename L r j rep3 (IsTinkerbellIPXE L req) (IsARM L req) (IsUEFI L req) (IsHTTPClient L req) tr = Ok (p, tr)"
    and "pk_File L p = boot_name L j req allow os @ replicate (128 - length (boot_name L j req allow os)) (CHR 0x00)"
    using setPXEFilename_total [OF L j len f3] by blast
  then show ?thesis
    unfolding configureDHCP_def by (subst ap) (simp add: su hw rep3_def Let_def)
qed

text \<open>What the file field of a reply to Tinkerbell's iPXE says, for each answer of \<open>AllowPXE\<close>.\<close>

definition file_field :: "string \<Rightarrow> bytes" where
  "file_field name = name @ replicate (128 - length name) (CHR 0x00)"

lemma SetFilename_field:
  assumes "dhcp4_ok L" and "pk_File L rep = file_field []" and "SetFilename L rep name ns http host = Ok rep'"
  shows "pk_File L rep' = file_field (boot_url http host name)"
  using assms(2,3)
  by (auto simp: SetFilename_def Let_def file_field_def boot_url_def pk_simps [OF assms(1)] split: if_splits)

lemma setPXEFilename_ipxe:
  assumes L: "dhcp4_ok L" and fl: "pk_File L rep = file_field []"
    and s: "setPXEFilename L r j rep True a u http tr = Ok (rep', tr')"
  shows "pk_File L rep' = file_field [] \<or>
    AllowPXE j = Ok True \<and> pk_File L rep' = file_field (boot_url True (j_BootsBaseURL j) ''auto.ipxe'') \<or>
    AllowPXE j = Ok False \<and> pk_File L rep' = file_field (boot_url http (j_BootsBaseURL j) ''nonexistent'')"
  using s fl SetFilename_field [OF L fl]
  by (auto simp: setPXEFilename_def pxe_file_def map_ok_Ok_iff split: if_splits)

lemma ServeDHCP_ipxe_file:
  assumes L: "dhcp4_ok L" and sc: "spanctx_ok sc" and j: "job_ready j" and t: "IsTinkerbellIPXE L req"
    and sv: "ServeDHCP L ord c sc r write j req tr = Ok res" "p \<in> set (sv_sent res)"
  shows "pk_File L p = file_field [] \<or>
    AllowPXE j = Ok True \<and> pk_File L p = file_field (boot_url True (j_BootsBaseURL j) ''auto.ipxe'') \<or>
    AllowPXE j = Ok False \<and> pk_File L p = file_field (boot_url (IsHTTPClient L req) (j_BootsBaseURL j) ''nonexistent'')"
proof -
  obtain rep where n: "NewReply L req = Some rep"
    and cf: "configureDHCP L ord c sc r j (Packet rep) req tr = Ok (True, p, sv_calls res)"
    using ServeDHCP_sent [OF sv] by blast
  obtain rep2 where su: "SetupPXE L sc (snd (ApplyTo L ord (j_dhcp j) (Packet rep))) req = Ok (IsPXE L req, rep2)"
    and f: "if IsPXE L req
      then setPXEFilename L r j (if IsTinkerbellIPXE L req then ipxe_Setup L c rep2 else rep2)
        (IsTinkerbellIPXE L req) (IsARM L req) (IsUEFI L req) (IsHTTPClient L req) tr = Ok (p, sv_calls res)
      else p = rep2 \<and> sv_calls res = tr"
    by (rule configureDHCP_steps [OF L sc j cf])
  have "pk_File L rep2 = file_field []"
    using SetupPXE_Ok [OF L sc su] by (simp add: ApplyTo_File [OF L] NewReply_file [OF L n] file_field_def)
  with f t setPXEFilename_ipxe [OF L, of "ipxe_Setup L c rep2"] show ?thesis
    by (auto simp: ipxe_Setup_fields [OF L] split: if_splits)
qed



text \<open>
  C12: the VLAN of a job reaches a PXE client: when the configuration carries it as sub-option 116 of
  option 43, the packet that is sent decodes to that sub-option, discovery control 8 and the trace
  parent, and nothing else.
\<close>

theorem ServeDHCP_keeps_vlan:
  assumes "dhcp4_ok L" and "order_ok ord" and "spanctx_ok sc" and "job_ready j" and "IsPXE L req"
    and "config_options (j_dhcp j) OptionVendorSpecific = Some (om_Serialize L (Some [116 \<mapsto> vlan]))" and "length vlan \<le> 255"
    and "ServeDHCP L ord c sc r write j req tr = Ok res" and "p \<in> set (sv_sent res)"
  shows "vendor_options L p = Some [116 \<mapsto> vlan, 6 \<mapsto> [CHR 0x08], 69 \<mapsto> binaryTpFromContext sc]"
proof -
  obtain rep where c: "configureDHCP L ord c sc r j (Packet rep) req tr = Ok (True, p, sv_calls res)"
    using ServeDHCP_sent [OF assms(8,9)] by blast
  from assms(4) have wf: "config_wf (j_dhcp j)" and a: "addr (j_dhcp j) \<noteq> []" by (auto simp: job_ready_def)
  have "omap_wf [116 \<mapsto> vlan]" using assms(7) by (simp add: omap_wf_def)
  from om_round_trip [OF assms(1) this, of False]
  have "vendor_options L (snd (ApplyTo L ord (j_dhcp j) (Packet rep))) = Some [116 \<mapsto> vlan]"
    using assms(6) by (simp add: vendor_options_def ApplyTo_get [OF assms(1,2) wf a])
  with configureDHCP_Ok [OF assms(1-4) c] assms(5) show ?thesis by blast
qed

section \<open>Samples\<close>

definition sample_served :: job where
  "sample_served = sample_installed\<lparr>
     j_dhcp := \<lparr>addr = ip_Address sample_ip, opts = Some [OptionHostname \<mapsto> ''node'',
       OptionVendorSpecific \<mapsto> om_Serialize ref_dhcp4 (Some [116 \<mapsto> ''100''])]\<rparr>,
     j_NextServer := [CHR 0xC0, CHR 0xA8, CHR 0x01, CHR 0x01],
     j_IpxeBaseURL := ''192.168.1.1'', j_BootsBaseURL := ''192.168.1.1''\<rparr>"

lemma sample_served_ready: "job_ready sample_served"
  by (simp add: job_ready_def sample_served_def sample_installed_def config_wf_def sample_ip_def)

lemma sample_served_hw:
  "j_hardware sample_served = Some (HCacher sample_hc)"
  "areWeProvisioner sample_served = Ok True"
  "job_Arch sample_served = Ok ''x86_64''"
  "job_IsUEFI sample_served = Ok True"
  "AllowPXE sample_served = Ok True"
  "hw_OperatingSystem (HCacher sample_hc) = Ok (Some zero_os)"
  by (simp_all add: sample_served_def sample_installed_def sample_job_def new_job_def areWeProvisioner_def sample_hc_def job_Arch_def
      job_IsUEFI_def AllowPXE_def with_hw_def hc_OperatingSystem_def sample_instance_def zero_instance_def zero_os_def)

lemma sample_type: "pk_GetMessageType ref_dhcp4 sample_req = MessageTypeDiscover"
  by (simp add: ref_dhcp4_def ref_type_def sample_req_def MessageTypeDiscover_def)

lemma x64_UEFI: "\<not> Contains (ToLower ''x64 UEFI'') ''arm''" "Contains (ToLower ''x64 UEFI'') ''uefi''"
  by code_simp+

lemma sample_served_may_boot: "may_boot sample_served True zero_os"
  by (simp add: may_boot_def sample_served_def sample_installed_def InstanceID_def with_inst_def sample_instance_def)

lemma sample_boot_name: "boot_name ref_dhcp4 sample_served sample_req True zero_os = ''ipxe.efi''"
proof -
  note sample_served_may_boot
  moreover have "\<not> IsTinkerbellIPXE ref_dhcp4 sample_req" and "\<not> IsHTTPClient ref_dhcp4 sample_req"
    by (simp_all add: IsTinkerbellIPXE_def IsHTTPClient_def IsIPXE_def GetEncapsulatedOptions_eq [OF ref_dhcp4_ok]
        HasFeature_def)
      (simp_all add: ref_dhcp4_def sample_req_def option_codes EncapsulatedOptions_def HasPrefix_def)
  moreover have "ProcessorArchType ref_dhcp4 sample_req = ''x64 UEFI''"
    by (simp add: ProcessorArchType_def ref_dhcp4_def sample_req_def option_codes procArchTypes_def)
  then have "\<not> IsARM ref_dhcp4 sample_req" and "IsUEFI ref_dhcp4 sample_req"
    using x64_UEFI by (simp_all add: IsARM_def IsUEFI_def)
  ultimately show ?thesis by (simp add: boot_name_def boot_url_def)
qed

lemma sample_sent:
  "\<exists>res p. ServeDHCP ref_dhcp4 key_order sample_conf sample_sc noOpReporter (\<lambda>p. None) sample_served sample_req [] = Ok res \<and>
     sv_sent res = [p]"
proof -
  obtain rep where r: "NewReply ref_dhcp4 sample_req = Some rep"
    using sample_type by (simp add: NewReply_def)
  note fl = NewReply_file [OF ref_dhcp4_ok r]
  have len: "length (boot_name ref_dhcp4 sample_served sample_req True zero_os) \<le> 128"
    by (simp add: sample_boot_name)
  obtain p where "configureDHCP ref_dhcp4 key_order sample_conf sample_sc noOpReporter sample_served (Packet rep) sample_req [] = Ok (True, p, [])"
    using configureDHCP_total [OF ref_dhcp4_ok sample_sc_ok sample_served_ready sample_served_hw(1,5,6,3,4) sample_IsPXE len fl]
    by blast
  with r sample_served_hw(2) show ?thesis
    by (cases rep) (auto simp: ServeDHCP_def)
qed

theorem ServeDHCP_answers_witness:
  "\<exists>res p. ServeDHCP ref_dhcp4 key_order sample_conf sample_sc noOpReporter (\<lambda>p. None) sample_served sample_req [] = Ok res \<and>
     sv_sent res = [p] \<and> sv_ok res \<and> pk_GetYIAddr ref_dhcp4 p = ip_Address sample_ip \<and>
     pk_GetOption ref_dhcp4 p OptionHostname = Some ''node''"
proof -
  obtain res p where s: "ServeDHCP ref_dhcp4 key_order sample_conf sample_sc noOpReporter (\<lambda>p. None) sample_served sample_req [] = Ok res"
    and p: "sv_sent res = [p]"
    using sample_sent by blast
  have "OptionHostname \<notin> boot_options" and "config_options (j_dhcp sample_served) OptionHostname = Some ''node''"
    and "addr (j_dhcp sample_served) = ip_Address sample_ip"
    by (simp_all add: boot_options_def option_codes EncapsulatedOptions_def config_options_def sample_served_def)
  with s p ServeDHCP_answers [OF ref_dhcp4_ok order_ok_key_order sample_sc_ok sample_served_ready s] show ?thesis
    by auto
qed


theorem ServeDHCP_keeps_vlan_witness:
  "\<exists>res p. ServeDHCP ref_dhcp4 key_order sample_conf sample_sc noOpReporter (\<lambda>p. None) sample_served sample_req [] = Ok res \<and>
     sv_sent res = [p] \<and>
     vendor_options ref_dhcp4 p = Some [116 \<mapsto> ''100'', 6 \<mapsto> [CHR 0x08], 69 \<mapsto> binaryTpFromContext sample_sc]"
proof -
  obtain res p where s: "ServeDHCP ref_dhcp4 key_order sample_conf sample_sc noOpReporter (\<lambda>p. None) sample_served sample_req [] = Ok res"
    and p: "sv_sent res = [p]"
    using sample_sent by blast
  have "config_options (j_dhcp sample_served) OptionVendorSpecific = Some (om_Serialize ref_dhcp4 (Some [116 \<mapsto> ''100'']))"
    by (simp add: config_options_def sample_served_def)
  from ServeDHCP_keeps_vlan [OF ref_dhcp4_ok order_ok_key_order sample_sc_ok sample_served_ready sample_IsPXE this _ s, of p] p
  have "vendor_options ref_dhcp4 p = Some [116 \<mapsto> ''100'', 6 \<mapsto> [CHR 0x08], 69 \<mapsto> binaryTpFromContext sample_sc]"
    by simp
  with s p show ?thesis by blast
qed

end
