(* ===== verification/Boots_Dhcp.thy ===== *)
theory Boots_Dhcp
  imports Job_Dhcp
begin

text \<open>
  The DHCP handler of \<open>src/cmd/boots/dhcp.go\<close>: the filters, the circuit identifier of the relay, the
  creation of the job and its answer.  A panic in the handler runs in a goroutine of the worker pool
  and ends the process; it is a \<^const>\<open>Fault\<close> here.  The metrics of the handler are in \<open>Boots_Metrics\<close>; traces are left out.
\<close>

section \<open>Operations\<close>

record dhcpHandler =
  dh_nextServer :: ip
  dh_ipxeBaseURL :: string
  dh_bootsBaseURL :: string
  dh_finder :: finder
  dh_engine :: string

text \<open>The Go results: the circuit identifier and the error.\<close>

definition getCircuitID :: "'p dhcp4 \<Rightarrow> 'p \<Rightarrow> (string \<times> string option) go" where
  "getCircuitID L req =
     (case pk_GetOption L req OptionRelayAgentInformation of
        None \<Rightarrow> Ok ([], None)
      | Some eightytwo \<Rightarrow>
          bind_go (at eightytwo 1) (\<lambda>l.
          if of_char l < length eightytwo then
            map_ok (\<lambda>circuitID. (circuitID, None)) (slice eightytwo 2 (of_char l))
          else Ok ([], Some ''option82 option1 out of bounds (check eightytwo[1])'')))"

definition serve ::
  "'p dhcp4 \<Rightarrow> map_order \<Rightarrow> conf \<Rightarrow> spanctx \<Rightarrow> reporter \<Rightarrow> ('p \<Rightarrow> string option) \<Rightarrow> dhcpHandler \<Rightarrow> 'p \<Rightarrow>
   rcall list \<Rightarrow> ('p list \<times> rcall list) go" where
  "serve L ord c sc r write d req tr =
     (let mac = pk_GetCHAddr L req
      in bind_go (ShouldIgnoreOUI c (mac_String mac)) (\<lambda>ignoreMAC.
         if ignoreMAC then Ok ([], tr)
         else
           (let gi = pk_GetGIAddr L req
            in if ShouldIgnoreGI c (ip_String gi) then Ok ([], tr)
               else
                 bind_go (getCircuitID L req) (\<lambda>(circuitID, _).
                 bind_go (CreateFromDHCP L c (dh_finder d) (dh_engine d) mac gi circuitID) (\<lambda>res.
                 case res of
                   Inl err \<Rightarrow> Ok ([], tr)
                 | Inr j0 \<Rightarrow>
                     (let j = j0\<lparr>j_IpxeBaseURL := dh_ipxeBaseURL d, j_BootsBaseURL := dh_bootsBaseURL d,
                        j_NextServer := dh_nextServer d\<rparr>
                      in map_ok (\<lambda>sv.
                           (sv_sent sv,
                            case sv_err sv of
                              Some err \<Rightarrow> if sv_ok sv then sv_calls sv else job_Error r err j (sv_calls sv)
                            | None \<Rightarrow> sv_calls sv))
                         (ServeDHCP L ord c sc r write j req tr)))))))"

lemmas boots_dhcp_defs [go_defs] = getCircuitID_def serve_def

section \<open>The circuit identifier\<close>

text \<open>
  C24: for relay information as RFC 3046 lays it out, sub-option 1 with its length and then the
  identifier, \<open>getCircuitID\<close> returns the identifier without its last two bytes, because the length is
  used as the end of the slice; it panics for an identifier of fewer than two bytes, and for an option
  that is too short to have a length.
\<close>

theorem getCircuitID_loses_two_bytes:
  assumes "pk_GetOption L req OptionRelayAgentInformation = Some v"
  shows "(length v < 2 \<longrightarrow> getCircuitID L req = Fault IndexRange) \<and>
    (\<forall>cid rest. v = CHR 0x01 # char_of (length cid) # cid @ rest \<and> length cid < 256 \<longrightarrow>
       getCircuitID L req = (if length cid < 2 then Fault SliceRange else Ok (take (length cid - 2) cid, None)))"
  using assms by (auto simp: getCircuitID_def at_def slice_def)

lemma char_of_4: "char_of (Suc (Suc (Suc (Suc 0)))) = CHR 0x04"
  by code_simp

theorem getCircuitID_loses_two_bytes_witness:
  "getCircuitID ref_dhcp4 (sample_req\<lparr>r_opts := [82 \<mapsto> [CHR 0x01, CHR 0x04] @ ''ge-0'']\<rparr>) = Ok (''ge'', None)"
proof -
  have "pk_GetOption ref_dhcp4 (sample_req\<lparr>r_opts := [82 \<mapsto> [CHR 0x01, CHR 0x04] @ ''ge-0'']\<rparr>)
      OptionRelayAgentInformation = Some (CHR 0x01 # char_of (length ''ge-0'') # ''ge-0'' @ [])"
    by (simp add: ref_dhcp4_def option_codes char_of_4)
  from conjunct2 [OF getCircuitID_loses_two_bytes [OF this], rule_format, of "''ge-0''" "[]"]
  show ?thesis by (simp add: char_of_4)
qed

section \<open>From a request to a reply\<close>

lemma CreateFromDHCP_setup:
  assumes "CreateFromDHCP L c f engine mac gi cid = Ok (Inr j)"
  shows "\<exists>d. ByMAC f mac gi cid = Ok (Inr d) \<and> job_setup L c d ((new_job engine)\<lparr>j_mac := mac\<rparr>) = Ok (Inr j)"
  using assms by (auto simp: CreateFromDHCP_def Let_def split: sum.splits)

lemma serve_sent:
  assumes "serve L ord c sc r write h req tr = Ok (sent, tr')" and "p \<in> set sent"
  shows "ShouldIgnoreOUI c (mac_String (pk_GetCHAddr L req)) = Ok False \<and>
    \<not> ShouldIgnoreGI c (ip_String (pk_GetGIAddr L req)) \<and>
    (\<exists>cid err j sv. getCircuitID L req = Ok (cid, err) \<and>
       CreateFromDHCP L c (dh_finder h) (dh_engine h) (pk_GetCHAddr L req) (pk_GetGIAddr L req) cid = Ok (Inr j) \<and>
       ServeDHCP L ord c sc r write (j\<lparr>j_IpxeBaseURL := dh_ipxeBaseURL h, j_BootsBaseURL := dh_bootsBaseURL h,
         j_NextServer := dh_nextServer h\<rparr>) req tr = Ok sv \<and> sv_sent sv = sent)"
  using assms by (auto simp: serve_def Let_def map_ok_Ok_iff split: if_splits sum.splits)


section \<open>Samples\<close>

definition sample_handler :: dhcpHandler where
  "sample_handler = \<lparr>dh_nextServer = PublicIPv4 sample_conf, dh_ipxeBaseURL = ''192.168.1.1'',
     dh_bootsBaseURL = ''192.168.1.1'', dh_finder = sample_finder, dh_engine = ''engine''\<rparr>"

lemma sample_request:
  "pk_GetCHAddr ref_dhcp4 sample_req = sample_mac" "pk_GetGIAddr ref_dhcp4 sample_req = replicate 4 (CHR 0x00)"
  "getCircuitID ref_dhcp4 sample_req = Ok ([], None)"
  "\<not> ShouldIgnoreGI sample_conf (ip_String (pk_GetGIAddr ref_dhcp4 sample_req))"
  by (simp_all add: ref_dhcp4_def sample_req_def sample_mac_def getCircuitID_def option_codes ShouldIgnoreGI_def sample_conf_def)

lemma sample_not_ignored: "ShouldIgnoreOUI sample_conf (mac_String sample_mac) = Ok False"
proof -
  have m: "mac_String sample_mac = ''02:00:00:00:00:01''" by code_simp
  show ?thesis
    unfolding m by (simp add: ShouldIgnoreOUI_def sample_conf_def slice_def) code_simp
qed

abbreviation sample_dhcp_job :: "config \<Rightarrow> job" where
  "sample_dhcp_job dh \<equiv> (new_job ''engine'')\<lparr>j_mac := sample_mac, j_hardware := Some (HCacher sample_hc),
     j_instance := Some sample_instance, j_dhcp := dh, j_IpxeBaseURL := ''192.168.1.1'', j_BootsBaseURL := ''192.168.1.1'',
     j_NextServer := PublicIPv4 sample_conf\<rparr>"

lemma sample_serve_request:
  assumes req: "pk_GetCHAddr ref_dhcp4 req = sample_mac" "pk_GetGIAddr ref_dhcp4 req = replicate 4 (CHR 0x00)"
      "getCircuitID ref_dhcp4 req = Ok ([], None)" "IsPXE ref_dhcp4 req"
      "pk_GetMessageType ref_dhcp4 req = MessageTypeDiscover"
    and len: "\<And>dh. length (boot_name ref_dhcp4 (sample_dhcp_job dh) req True zero_os) \<le> 128"
  shows "\<exists>p tr' dh. serve ref_dhcp4 key_order sample_conf sample_sc noOpReporter (\<lambda>p. None) sample_handler req [] = Ok ([p], tr') \<and>
    pk_File ref_dhcp4 p = file_field (boot_name ref_dhcp4 (sample_dhcp_job dh) req True zero_os)"
proof -
  have "To4 (ip_Address sample_ip) \<noteq> []" by (simp add: sample_setup_facts)
  from job_setup_value [OF ref_dhcp4_ok sample_setup_facts(1,2) this sample_setup_facts(4,5,6)]
  obtain dh where js: "job_setup ref_dhcp4 sample_conf (DCacher sample_dc) sample_job = Ok (Inr
      ((new_job ''engine'')\<lparr>j_mac := sample_mac, j_hardware := Some (HCacher sample_hc), j_instance := Some sample_instance, j_dhcp := dh\<rparr>))"
    by (auto simp: sample_dc_def sample_job_def)
  have cr: "CreateFromDHCP ref_dhcp4 sample_conf sample_finder ''engine'' sample_mac (replicate 4 (CHR 0x00)) [] = Ok (Inr
      ((new_job ''engine'')\<lparr>j_mac := sample_mac, j_hardware := Some (HCacher sample_hc), j_instance := Some sample_instance, j_dhcp := dh\<rparr>))"
    using js by (simp add: CreateFromDHCP_def sample_finder_def sample_job_def)
  have ready: "job_ready (sample_dhcp_job dh)" using job_setup_ready [OF ref_dhcp4_ok js] by (simp add: job_ready_def)
  have facts: "j_hardware (sample_dhcp_job dh) = Some (HCacher sample_hc)" "areWeProvisioner (sample_dhcp_job dh) = Ok True"
      "job_Arch (sample_dhcp_job dh) = Ok ''x86_64''" "job_IsUEFI (sample_dhcp_job dh) = Ok True"
      "AllowPXE (sample_dhcp_job dh) = Ok True"
    by (simp_all add: areWeProvisioner_def job_Arch_def job_IsUEFI_def AllowPXE_def with_hw_def sample_hc_def new_job_def)
  obtain rep where r: "NewReply ref_dhcp4 req = Some rep" using req(5) by (simp add: NewReply_def)
  obtain p where cf: "configureDHCP ref_dhcp4 key_order sample_conf sample_sc noOpReporter (sample_dhcp_job dh) (Packet rep) req [] = Ok (True, p, [])"
    and fl: "pk_File ref_dhcp4 p = file_field (boot_name ref_dhcp4 (sample_dhcp_job dh) req True zero_os)"
    unfolding file_field_def
    using configureDHCP_total [OF ref_dhcp4_ok sample_sc_ok ready facts(1,5) sample_served_hw(6) facts(3,4) req(4) len
        NewReply_file [OF ref_dhcp4_ok r]] by blast
  from cf have "ServeDHCP ref_dhcp4 key_order sample_conf sample_sc noOpReporter (\<lambda>p. None) (sample_dhcp_job dh) req [] =
      Ok \<lparr>sv_ok = True, sv_err = None, sv_sent = [p], sv_calls = []\<rparr>"
    using r facts(2) by (cases rep) (auto simp: ServeDHCP_def)
  then show ?thesis
    using req(1-3) sample_request(4) sample_not_ignored cr fl
    by (intro exI [of _ p] exI [of _ "[]"] exI [of _ dh]) (simp add: sample_request(2) serve_def sample_handler_def Let_def)
qed

lemma sample_may_boot: "may_boot (sample_dhcp_job dh) True zero_os"
  by (simp add: may_boot_def job_HardwareState_def InstanceID_def with_inst_def with_hw_def sample_hc_def sample_instance_def)

lemma sample_serve: "\<exists>p tr'. serve ref_dhcp4 key_order sample_conf sample_sc noOpReporter (\<lambda>p. None) sample_handler sample_req [] = Ok ([p], tr')"
proof -
  have "boot_name ref_dhcp4 (sample_dhcp_job dh) sample_req True zero_os = boot_name ref_dhcp4 sample_served sample_req True zero_os" for dh
    using sample_may_boot sample_served_may_boot unfolding boot_name_def by (simp add: sample_served_def)
  then have "length (boot_name ref_dhcp4 (sample_dhcp_job dh) sample_req True zero_os) \<le> 128" for dh by (simp add: sample_boot_name)
  from sample_serve_request [OF sample_request(1-3) sample_IsPXE sample_type this] show ?thesis by blast
qed


end
