(* ===== verification/Ipxe_Lines.thy ===== *)
theory Ipxe_Lines
  imports Ipxe_Script
begin

text \<open>
  The contracts by which the installers use the script builder of \<open>src/ipxe/script.go\<close>.  \<open>script_safe\<close>
  is an operation that may panic and otherwise only extends the script; \<open>lines_op\<close> one that appends
  known lines; \<open>args_op\<close> one that appends known arguments to the last line.  Each is closed under
  sequencing, branching and computed arguments, so a boot script is described by one pass over its
  statements.
\<close>

section \<open>Statements with computed arguments\<close>

text \<open>A script call whose argument is computed first, and may panic.\<close>

definition with_go :: "'a go \<Rightarrow> ('a \<Rightarrow> 's \<Rightarrow> 's go) \<Rightarrow> 's \<Rightarrow> 's go" where
  "with_go m f s = bind_go m (\<lambda>x. f x s)"

text \<open>The loop over the extra variables, \<open>s.Set(kv[0], kv[1])\<close>, that every installer starts with.\<close>

fun set_vars :: "string list list \<Rightarrow> script \<Rightarrow> script go" where
  "set_vars [] s = Ok s"
| "set_vars (kv # kvs) s =
     bind_go (at kv 0) (\<lambda>k. bind_go (at kv 1) (\<lambda>v. bind_go (Set k v s) (set_vars kvs)))"

section \<open>Operations that may panic\<close>

text \<open>
  A script operation that may panic, but keeps what was written when it returns.  Every total
  script operation is one.
\<close>

locale script_safe =
  fixes f :: "script \<Rightarrow> script go"
  assumes safe: "script_ok s \<Longrightarrow> f s = Ok s' \<Longrightarrow> script_ok s' \<and> extends s s'"
begin

lemma safe_prefix:
  assumes "script_ok s" and "f s = Ok s'" and "prefix p (butlast (buf s))"
  shows "prefix p (butlast (buf s'))"
  using safe [OF assms(1,2)] assms(3) by (auto simp: extends_def intro: prefix_order.trans)

end

sublocale script_op \<subseteq> script_safe f
  by unfold_locales (rule op_keeps)

lemma script_safe_op: "script_op f \<Longrightarrow> script_safe f"
  by (rule script_op.op_keeps [THEN script_safe.intro])

lemma script_safe_with_go: "(\<And>x. script_safe (f x)) \<Longrightarrow> script_safe (with_go m f)"
  by (auto simp: script_safe_def with_go_def)

lemma script_safe_fault: "(\<And>s. f s = Fault e) \<Longrightarrow> script_safe f"
  by (simp add: script_safe_def)

lemma script_safe_Nil: "script_safe (run_steps [])"
  by unfold_locales auto

lemma script_safe_Cons: "script_safe f \<Longrightarrow> script_safe (run_steps fs) \<Longrightarrow> script_safe (run_steps (f # fs))"
proof
  fix s s' assume f: "script_safe f" and fs: "script_safe (run_steps fs)"
    and s: "script_ok s" and "run_steps (f # fs) s = Ok s'"
  then obtain s1 where "f s = Ok s1" and "run_steps fs s1 = Ok s'" by auto
  then show "script_ok s' \<and> extends s s'"
    using script_safe.safe [OF f s] script_safe.safe [OF fs] by (blast intro: extends_trans)
qed

lemma script_safe_if: "script_safe f \<Longrightarrow> script_safe g \<Longrightarrow> script_safe (if b then f else g)"
  by simp

lemmas script_safe_intros =
  script_safe_Nil script_safe_Cons script_safe_with_go script_safe_if script_op_intros(1,3-) [THEN script_safe_op]

lemma script_safe_set_vars: "script_safe (set_vars kvs)"
proof (induction kvs)
  case Nil
  show ?case by (simp add: script_safe_def)
next
  case (Cons kv kvs)
  show ?case
  proof
    fix s s' assume s: "script_ok s" and "set_vars (kv # kvs) s = Ok s'"
    then obtain k v s1 where "Set k v s = Ok s1" and "set_vars kvs s1 = Ok s'" by auto
    then show "script_ok s' \<and> extends s s'"
      using op_Set.op_keeps [OF s] script_safe.safe [OF Cons.IH] by (blast intro: extends_trans)
  qed
qed

section \<open>Operations by their lines\<close>

text \<open>The builder calls on a script that is given by its lines.\<close>

lemma op_lines:
  assumes "ls \<noteq> []"
  shows "Args args \<lparr>buf = render ls\<rparr> = Ok \<lparr>buf = render (on_last (\<lambda>l. l @ spaced args) ls)\<rparr>"
    and "Or line \<lparr>buf = render ls\<rparr> = Ok \<lparr>buf = render (on_last (\<lambda>l. l @ '' || '' @ line) ls)\<rparr>"
    and "AppendString str \<lparr>buf = render ls\<rparr> = Ok \<lparr>buf = render (ls @ [str])\<rparr>"
    and "Chain uri \<lparr>buf = render ls\<rparr> = Ok \<lparr>buf = render (ls @ [''chain --autofree '' @ uri])\<rparr>"
    and "Boot \<lparr>buf = render ls\<rparr> = Ok \<lparr>buf = render (ls @ [''boot''])\<rparr>"
    and "Kernel uri args \<lparr>buf = render ls\<rparr> = Ok \<lparr>buf = render (ls @ [''kernel '' @ uri @ spaced args])\<rparr>"
    and "Initrd uri args \<lparr>buf = render ls\<rparr> = Ok \<lparr>buf = render (ls @ [''initrd '' @ uri @ spaced args])\<rparr>"
    and "Echo message \<lparr>buf = render ls\<rparr> = Ok \<lparr>buf = render (ls @ [''echo '' @ message])\<rparr>"
    and "Set name v \<lparr>buf = render ls\<rparr> = Ok \<lparr>buf = render (ls @ [''set '' @ name @ '' '' @ v])\<rparr>"
    and "Shell \<lparr>buf = render ls\<rparr> = Ok \<lparr>buf = render (ls @ [''shell''])\<rparr>"
    and "PhoneHome ty \<lparr>buf = render ls\<rparr> = Ok \<lparr>buf = render (stmt_lines (SPhoneHome ty) ls)\<rparr>"
  using exec_stmt_refines [OF assms, of "SArgs args"] exec_stmt_refines [OF assms, of "SOr line"]
    exec_stmt_refines [OF assms, of "SAppendString str"] exec_stmt_refines [OF assms, of "SChain uri"]
    exec_stmt_refines [OF assms, of SBoot] exec_stmt_refines [OF assms, of "SKernel uri args"]
    exec_stmt_refines [OF assms, of "SInitrd uri args"] exec_stmt_refines [OF assms, of "SEcho message"]
    exec_stmt_refines [OF assms, of "SSet name v"] exec_stmt_refines [OF assms, of SShell]
    exec_stmt_refines [OF assms, of "SPhoneHome ty"]
  by (simp_all del: render_simps render_append)

lemma on_last_snoc [simp]: "on_last f (ls @ [l]) = ls @ [f l]" "on_last f [l] = [f l]"
  by (simp_all add: on_last_def)

lemma on_last_Cons: "ls \<noteq> [] \<Longrightarrow> on_last f (l # ls) = l # on_last f ls"
  by (simp add: on_last_def)

lemma render_ok: "ls \<noteq> [] \<Longrightarrow> script_ok \<lparr>buf = render ls\<rparr>"
  by (induction ls rule: rev_induct) (auto simp: script_ok_def)

text \<open>An operation that appends the lines \<open>ms\<close>.\<close>

locale lines_op =
  fixes f :: "script \<Rightarrow> script go" and ms :: "string list"
  assumes appends: "ls \<noteq> [] \<Longrightarrow> f \<lparr>buf = render ls\<rparr> = Ok \<lparr>buf = render (ls @ ms)\<rparr>"

text \<open>An operation that appends the arguments \<open>args\<close> to the last line.\<close>

locale args_op =
  fixes f :: "script \<Rightarrow> script go" and args :: "string list"
  assumes continues: "f \<lparr>buf = render (ls @ [l])\<rparr> = Ok \<lparr>buf = render (ls @ [l @ spaced args])\<rparr>"

lemma spaced_append [simp]: "spaced (as @ bs) = spaced as @ spaced bs"
  by (simp add: spaced_def)

interpretation lines_Set: lines_op "Set name v" "[''set '' @ name @ '' '' @ v]" for name v
  by unfold_locales (rule op_lines)

interpretation lines_Echo: lines_op "Echo message" "[''echo '' @ message]" for message
  by unfold_locales (rule op_lines)

interpretation lines_Shell: lines_op Shell "[''shell'']"
  by unfold_locales (rule op_lines)

interpretation lines_Boot: lines_op Boot "[''boot'']"
  by unfold_locales (rule op_lines)

interpretation lines_Chain: lines_op "Chain uri" "[''chain --autofree '' @ uri]" for uri
  by unfold_locales (rule op_lines)

interpretation lines_AppendString: lines_op "AppendString str" "[str]" for str
  by unfold_locales (rule op_lines)

interpretation lines_Kernel: lines_op "Kernel uri []" "[''kernel '' @ uri]" for uri
  by unfold_locales (simp add: op_lines spaced_def del: render_append render_simps)

interpretation lines_Initrd: lines_op "Initrd uri []" "[''initrd '' @ uri]" for uri
  by unfold_locales (simp add: op_lines spaced_def del: render_append render_simps)

definition phone_home_lines :: "string \<Rightarrow> string list" where
  "phone_home_lines ty = [[], ''params'', ''param body Device connected to DHCP system'', ''param type '' @ ty,
     ''imgfetch ${tinkerbell}/phone-home##params'', ''imgfree'', []]"

interpretation lines_PhoneHome: lines_op "PhoneHome ty" "phone_home_lines ty" for ty
  by unfold_locales (simp add: op_lines phone_home_lines_def del: render_append render_simps)

interpretation args_Args: args_op "Args args" args for args
  by unfold_locales (simp add: op_lines del: render_append render_simps)

lemma lines_op_Ok: "lines_op Ok []"
  by unfold_locales simp

lemma args_op_Ok: "args_op Ok []"
  by unfold_locales (simp add: spaced_def)

lemma lines_op_if: "lines_op f as \<Longrightarrow> lines_op g bs \<Longrightarrow> lines_op (if b then f else g) (if b then as else bs)"
  by simp

lemma args_op_if: "args_op f as \<Longrightarrow> args_op g bs \<Longrightarrow> args_op (if b then f else g) (if b then as else bs)"
  by simp

lemma lines_op_with_go: "m = Ok x \<Longrightarrow> lines_op (f x) as \<Longrightarrow> lines_op (with_go m f) as"
  by (simp add: with_go_def [abs_def])

lemma args_op_with_go: "m = Ok x \<Longrightarrow> args_op (f x) as \<Longrightarrow> args_op (with_go m f) as"
  by (simp add: with_go_def [abs_def])

lemma lines_op_Nil: "lines_op (run_steps []) []"
  by unfold_locales simp

lemma lines_op_Cons: "lines_op f as \<Longrightarrow> lines_op (run_steps fs) bs \<Longrightarrow> lines_op (run_steps (f # fs)) (as @ bs)"
  by (simp add: lines_op_def del: render_append)

lemma args_op_Nil: "args_op (run_steps []) []"
  by unfold_locales (simp add: spaced_def)

lemma args_op_Cons: "args_op f as \<Longrightarrow> args_op (run_steps fs) bs \<Longrightarrow> args_op (run_steps (f # fs)) (as @ bs)"
  by (simp add: args_op_def del: render_append)

text \<open>Arguments after a line.\<close>

lemma lines_op_line_args:
  assumes "lines_op f [l]" and "args_op g as" and "lines_op (run_steps fs) bs"
  shows "lines_op (run_steps (f # g # fs)) ((l @ spaced as) # bs)"
proof
  fix ls :: "string list" assume "ls \<noteq> []"
  with assms(1) have "f \<lparr>buf = render ls\<rparr> = Ok \<lparr>buf = render (ls @ [l])\<rparr>" by (simp add: lines_op_def)
  moreover have "g \<lparr>buf = render (ls @ [l])\<rparr> = Ok \<lparr>buf = render (ls @ [l @ spaced as])\<rparr>"
    by (rule args_op.continues [OF assms(2)])
  moreover have "run_steps fs \<lparr>buf = render (ls @ [l @ spaced as])\<rparr> = Ok \<lparr>buf = render ((ls @ [l @ spaced as]) @ bs)\<rparr>"
    by (rule lines_op.appends [OF assms(3)]) simp
  ultimately show "run_steps (f # g # fs) \<lparr>buf = render ls\<rparr> = Ok \<lparr>buf = render (ls @ (l @ spaced as) # bs)\<rparr>"
    by (simp del: render_append render_simps)
qed

text \<open>The lines of the extra variables, each a name and a value.\<close>

definition var_lines :: "string list list \<Rightarrow> string list" where
  "var_lines kvs = map (\<lambda>kv. ''set '' @ kv ! 0 @ '' '' @ kv ! 1) kvs"

lemma lines_op_set_vars:
  assumes "\<forall>kv \<in> set kvs. length kv = 2"
  shows "lines_op (set_vars kvs) (var_lines kvs)"
proof
  fix ls :: "string list" assume "ls \<noteq> []"
  then show "set_vars kvs \<lparr>buf = render ls\<rparr> = Ok \<lparr>buf = render (ls @ var_lines kvs)\<rparr>"
    using assms
  proof (induction kvs arbitrary: ls)
    case (Cons kv kvs)
    then show ?case
      using Cons.IH [of "ls @ [''set '' @ kv ! 0 @ '' '' @ kv ! 1]"]
      by (simp add: at_def op_lines var_lines_def del: render_append render_simps)
  qed (simp add: var_lines_def)
qed

lemmas lines_op_intros =
  lines_op_Nil lines_op_Cons lines_op_Ok lines_op_if
  lines_Set.lines_op_axioms lines_Echo.lines_op_axioms lines_Shell.lines_op_axioms lines_Boot.lines_op_axioms
  lines_Chain.lines_op_axioms lines_AppendString.lines_op_axioms lines_Kernel.lines_op_axioms
  lines_Initrd.lines_op_axioms lines_PhoneHome.lines_op_axioms

lemmas args_op_intros =
  args_op_Nil args_op_Cons args_op_Ok args_op_if args_Args.args_op_axioms

end
