(* ===== verification/Job_Ipxe.thy ===== *)
theory Job_Ipxe
  imports Job_Events Dhcp_Pxe Ipxe_Lines
begin

text \<open>
  Boot scripts, \<open>src/job/ipxe.go\<close> and the installer tables of \<open>src/job/job.go\<close>.  A boot script gets the
  span of the request and the job, and changes the script and the reporter; its state is the pair of
  the two.  The contract \<open>boot_safe\<close> of a boot script, that it only extends the script, is what the
  served script rests on; the installers interpret it.  A response writer records the status of the
  first \<open>WriteHeader\<close> and the body.
\<close>

section \<open>Response writers\<close>

record writer =
  w_code :: "nat option"
  w_body :: bytes

definition new_writer :: writer where
  "new_writer = \<lparr>w_code = None, w_body = []\<rparr>"

definition WriteHeader :: "nat \<Rightarrow> writer \<Rightarrow> writer" where
  "WriteHeader n w = (case w_code w of None \<Rightarrow> w\<lparr>w_code := Some n\<rparr> | Some _ \<Rightarrow> w)"

definition w_Write :: "bytes \<Rightarrow> writer \<Rightarrow> writer" where
  "w_Write b w = (let w1 = WriteHeader 200 w in w1\<lparr>w_body := w_body w1 @ b\<rparr>)"

text \<open>The status a client sees: the server answers 200 when a handler returns without a status.\<close>

definition status :: "writer \<Rightarrow> nat" where
  "status w = (case w_code w of None \<Rightarrow> 200 | Some n \<Rightarrow> n)"

section \<open>Installer tables\<close>

type_synonym boot_state = "script \<times> rcall list"
type_synonym boot_script = "spanctx \<Rightarrow> job \<Rightarrow> boot_state \<Rightarrow> boot_state go"

text \<open>A sequence of script calls as a step on the pair.\<close>

definition on_script :: "(script \<Rightarrow> script go) \<Rightarrow> boot_state \<Rightarrow> boot_state go" where
  "on_script f st = map_ok (\<lambda>s. (s, snd st)) (f (fst st))"

record installers =
  in_Default :: "boot_script option"
  in_ByInstaller :: "string \<rightharpoonup> boot_script"
  in_ByDistro :: "string \<rightharpoonup> boot_script"
  in_BySlug :: "string \<rightharpoonup> boot_script"

definition NewInstallers :: installers where
  "NewInstallers = \<lparr>in_Default = None, in_ByInstaller = Map.empty, in_ByDistro = Map.empty, in_BySlug = Map.empty\<rparr>"

text \<open>The verb \<open>%q\<close> of a name without special characters; the registered names are constants.\<close>

definition quoted :: "string \<Rightarrow> string" where
  "quoted name = [CHR 0x22] @ name @ [CHR 0x22]"

definition RegisterDefaultInstaller :: "boot_script \<Rightarrow> installers \<Rightarrow> installers go" where
  "RegisterDefaultInstaller bs i =
     (if in_Default i \<noteq> None then Fault (FatalLog ''default installer already registered'')
      else Ok (i\<lparr>in_Default := Some bs\<rparr>))"

definition RegisterDistro :: "string \<Rightarrow> boot_script \<Rightarrow> installers \<Rightarrow> installers go" where
  "RegisterDistro name builder i =
     (if in_ByDistro i name \<noteq> None then Fault (FatalLog (''distro '' @ quoted name @ '' already registered''))
      else Ok (i\<lparr>in_ByDistro := (in_ByDistro i)(name \<mapsto> builder)\<rparr>))"

definition RegisterInstaller :: "string \<Rightarrow> boot_script \<Rightarrow> installers \<Rightarrow> installers go" where
  "RegisterInstaller name builder i =
     (if in_ByInstaller i name \<noteq> None then Fault (FatalLog (''installer '' @ quoted name @ '' already registered''))
      else Ok (i\<lparr>in_ByInstaller := (in_ByInstaller i)(name \<mapsto> builder)\<rparr>))"

definition RegisterSlug :: "string \<Rightarrow> boot_script \<Rightarrow> installers \<Rightarrow> installers go" where
  "RegisterSlug name builder i =
     (if in_BySlug i name \<noteq> None then Fault (FatalLog (''slug '' @ quoted name @ '' already registered''))
      else Ok (i\<lparr>in_BySlug := (in_BySlug i)(name \<mapsto> builder)\<rparr>))"

section \<open>Serving a script\<close>

definition shell :: boot_script where
  "shell sc j st = on_script Shell st"

text \<open>\<open>j.hardware.OperatingSystem()\<close>, dereferenced\<close>

definition hw_os :: "job \<Rightarrow> opsys go" where
  "hw_os j = bind_go (deref (j_hardware j)) (\<lambda>h. bind_go (hw_OperatingSystem h) deref)"

definition auto_script :: "installers \<Rightarrow> boot_script" where
  "auto_script i sc j st =
     (case j_instance j of
        None \<Rightarrow> shell sc j st
      | Some _ \<Rightarrow>
          bind_go (hw_os j) (\<lambda>os.
          case in_ByInstaller i (os_Installer os) of
            Some f \<Rightarrow> f sc j st
          | None \<Rightarrow>
              (case in_BySlug i (os_Slug os) of
                 Some f \<Rightarrow> f sc j st
               | None \<Rightarrow>
                   (case in_ByDistro i (os_Distro os) of
                      Some f \<Rightarrow> f sc j st
                    | None \<Rightarrow>
                        (case in_Default i of
                           Some f \<Rightarrow> f sc j st
                         | None \<Rightarrow> shell sc j st)))))"

text \<open>The lines before the boot script; \<open>trace.TraceID\<close> prints in hexadecimal.\<close>

definition hex_bytes :: "bytes \<Rightarrow> string" where
  "hex_bytes b = concat (map hex_byte2 b)"

definition script_head :: "conf \<Rightarrow> spanctx \<Rightarrow> job \<Rightarrow> script \<Rightarrow> script go" where
  "script_head c sc j = run_steps [
     with_go (InterfaceName j 0) (\<lambda>n. Set ''iface'' n),
     Or ''shell'',
     Set ''tinkerbell'' (''http://'' @ PublicFQDN c),
     Set ''syslog_host'' (PublicSyslogFQDN c),
     Set ''ipxe_cloud_config'' ''packet'',
     if IsSampled sc then Echo (''Debug Trace ID: '' @ hex_bytes (TraceID sc)) else Ok]"

definition serveBootScript ::
  "conf \<Rightarrow> installers \<Rightarrow> spanctx \<Rightarrow> job \<Rightarrow> string \<Rightarrow> writer \<Rightarrow> rcall list \<Rightarrow> (writer \<times> rcall list) go" where
  "serveBootScript c i sc j name w tr =
     (case [''auto'' \<mapsto> auto_script i, ''shell'' \<mapsto> shell] name of
        None \<Rightarrow> Ok (WriteHeader 404 w, tr)
      | Some fn \<Rightarrow>
          bind_go NewScript (\<lambda>s0.
          bind_go (script_head c sc j s0) (\<lambda>s1.
          bind_go (fn sc j (s1, tr)) (\<lambda>(s2, tr2).
          Ok (w_Write (Bytes s2) w, tr2)))))"

text \<open>\<open>path.Base\<close>\<close>

definition path_Base :: "string \<Rightarrow> string" where
  "path_Base p =
     (if p = [] then ''.''
      else
        (let q = rev (dropWhile ((=) (CHR ''/'')) (rev p));
             b = rev (takeWhile ((\<noteq>) (CHR ''/'')) (rev q))
         in if b = [] then ''/'' else b))"

definition ServeFile ::
  "conf \<Rightarrow> installers \<Rightarrow> spanctx \<Rightarrow> job \<Rightarrow> string \<Rightarrow> writer \<Rightarrow> rcall list \<Rightarrow> (writer \<times> rcall list) go" where
  "ServeFile c i sc j path w tr =
     (let base = path_Base path; name = TrimSuffix base ''.ipxe''
      in if length name < length base then serveBootScript c i sc j name w tr else Ok (w, tr))"

lemmas job_ipxe_defs [go_defs] =
  new_writer_def WriteHeader_def w_Write_def status_def on_script_def NewInstallers_def
  RegisterDefaultInstaller_def RegisterDistro_def RegisterInstaller_def RegisterSlug_def shell_def
  hw_os_def auto_script_def hex_bytes_def script_head_def serveBootScript_def path_Base_def ServeFile_def

section \<open>The contract of a boot script\<close>

text \<open>A boot script extends the script, and the reporter calls made before it stay.\<close>

locale boot_safe =
  fixes f :: boot_script
  assumes boot: "script_ok (fst st) \<Longrightarrow> f sc j st = Ok st' \<Longrightarrow>
    script_ok (fst st') \<and> extends (fst st) (fst st') \<and> prefix (snd st) (snd st')"
begin

lemma boot_prefix:
  assumes "script_ok s" and "f sc j (s, tr) = Ok (s', tr')" and "prefix p (butlast (buf s))"
  shows "script_ok s' \<and> prefix p (butlast (buf s'))"
  using boot [of "(s, tr)", OF _ assms(2)] assms(1,3) by (auto simp: extends_def intro: prefix_order.trans)

end

lemma boot_safe_on_script:
  assumes "\<And>sc j. script_safe (g sc j)"
  shows "boot_safe (\<lambda>sc j. on_script (g sc j))"
proof
  fix st sc j st'
  assume "script_ok (fst st)" and "on_script (g sc j) st = Ok st'"
  then show "script_ok (fst st') \<and> extends (fst st) (fst st') \<and> prefix (snd st) (snd st')"
    using script_safe.safe [OF assms] by (auto simp: on_script_def map_ok_Ok_iff)
qed

interpretation shell_boot: boot_safe shell
  using boot_safe_on_script [of "\<lambda>sc j. Shell"] script_safe_intros by (simp add: shell_def [abs_def])

text \<open>The tables hold only boot scripts that keep the contract.\<close>

definition installers_safe :: "installers \<Rightarrow> bool" where
  "installers_safe i \<longleftrightarrow> (\<forall>f. in_Default i = Some f \<longrightarrow> boot_safe f) \<and>
     (\<forall>k f. in_ByInstaller i k = Some f \<or> in_BySlug i k = Some f \<or> in_ByDistro i k = Some f \<longrightarrow> boot_safe f)"

lemma NewInstallers_safe: "installers_safe NewInstallers"
  by (simp add: installers_safe_def NewInstallers_def)

lemma Register_safe:
  assumes "installers_safe i" and "boot_safe f"
  shows "RegisterDefaultInstaller f i = Ok i' \<Longrightarrow> installers_safe i'"
    and "RegisterDistro name f i = Ok i' \<Longrightarrow> installers_safe i'"
    and "RegisterInstaller name f i = Ok i' \<Longrightarrow> installers_safe i'"
    and "RegisterSlug name f i = Ok i' \<Longrightarrow> installers_safe i'"
  using assms
  by (auto simp: installers_safe_def RegisterDefaultInstaller_def RegisterDistro_def RegisterInstaller_def
      RegisterSlug_def split: if_splits)

lemma auto_safe:
  assumes "installers_safe i"
  shows "boot_safe (auto_script i)"
proof
  fix st sc j st'
  assume s: "script_ok (fst st)" and a: "auto_script i sc j st = Ok st'"
  have "\<exists>f. boot_safe f \<and> f sc j st = Ok st'"
  proof (cases "j_instance j")
    case None
    with a have "shell sc j st = Ok st'" by (simp add: auto_script_def)
    with shell_boot.boot_safe_axioms show ?thesis by blast
  next
    case (Some inst)
    with a obtain os where "hw_os j = Ok os" by (auto simp: auto_script_def)
    with a Some assms shell_boot.boot_safe_axioms show ?thesis
      by (auto simp: auto_script_def installers_safe_def split: option.splits)
  qed
  with s show "script_ok (fst st') \<and> extends (fst st) (fst st') \<and> prefix (snd st) (snd st')"
    using boot_safe.boot by blast
qed

section \<open>What every served script starts with\<close>

definition head_lines :: "conf \<Rightarrow> spanctx \<Rightarrow> string \<Rightarrow> string list" where
  "head_lines c sc iface =
     [''#!ipxe'', [], ''echo Tinkerbell Boots iPXE'', ''set iface '' @ iface @ '' || shell'',
      ''set tinkerbell http://'' @ PublicFQDN c, ''set syslog_host '' @ PublicSyslogFQDN c,
      ''set ipxe_cloud_config packet''] @
     (if IsSampled sc then [''echo Debug Trace ID: '' @ hex_bytes (TraceID sc)] else [])"

lemma script_head_value:
  assumes "NewScript = Ok s0" and "InterfaceName j 0 = Ok iface"
  shows "script_head c sc j s0 = Ok \<lparr>buf = render (head_lines c sc iface)\<rparr>"
proof -
  have s0: "s0 = \<lparr>buf = render new_lines\<rparr>" using assms(1) unfolding NewScript_render by simp
  show ?thesis
    unfolding s0 script_head_def with_go_def head_lines_def new_lines_def
    by (simp add: assms(2) op_lines on_last_Cons del: render_simps render_append)
qed

text \<open>A 200 response with a script that the builder started and the installer extended.\<close>

lemma serveBootScript_head:
  assumes "installers_safe i" and "serveBootScript c i sc j name new_writer tr = Ok (w, tr')" and "status w = 200"
  obtains iface rest where "InterfaceName j 0 = Ok iface" and "w_body w = butlast (render (head_lines c sc iface)) @ rest"
    and "last (w_body w) = nl" and "prefix tr tr'"
proof -
  from assms(2,3) obtain fn where fn: "[''auto'' \<mapsto> auto_script i, ''shell'' \<mapsto> shell] name = Some fn"
    by (auto simp: serveBootScript_def status_def WriteHeader_def new_writer_def split: option.splits)
  then have safe: "boot_safe fn"
    using auto_safe [OF assms(1)] shell_boot.boot_safe_axioms by (auto split: if_splits)
  from assms(2) fn obtain s0 s1 s2 where s: "NewScript = Ok s0" "script_head c sc j s0 = Ok s1" "fn sc j (s1, tr) = Ok (s2, tr')"
    and w: "w_body w = buf s2"
    by (auto simp: serveBootScript_def w_Write_def WriteHeader_def new_writer_def Bytes_def Let_def)
  from s(2) obtain iface where i: "InterfaceName j 0 = Ok iface"
    by (auto simp: script_head_def with_go_def)
  have s1: "s1 = \<lparr>buf = render (head_lines c sc iface)\<rparr>"
    using s(2) script_head_value [OF s(1) i] by simp
  have ok: "script_ok s1" unfolding s1 by (rule render_ok) (simp add: head_lines_def)
  have s2: "script_ok s2" and pre: "prefix (butlast (buf s1)) (butlast (buf s2))" and tr: "prefix tr tr'"
    using boot_safe.boot [OF safe _ s(3)] ok by (auto simp: extends_def)
  from pre obtain r where "butlast (buf s2) = butlast (buf s1) @ r" by (auto simp: prefix_def)
  then have "buf s2 = butlast (render (head_lines c sc iface)) @ (r @ [nl])"
    using s2 s1 by (metis append.assoc append_butlast_last_id script.select_convs(1) script_ok_last)
  with that [OF i] w s2 tr show ?thesis by (auto simp: script_ok_last)
qed

end
