(* ===== verification/Installer_Osie.thy ===== *)
theory Installer_Osie
  imports Job_Ipxe
begin

text \<open>
  The OSIE installer, \<open>src/installers/osie/main.go\<close>.  The package variables of \<open>conf\<close> are the argument
  \<open>c\<close>.
\<close>

section \<open>Operations\<close>

record osie_installer =
  oi_osieURL :: string
  oi_defaultParams :: string
  oi_workflowParams :: string
  oi_hollowParams :: string
  oi_osieFullURLOverride :: string
  oi_extraIPXEVars :: "string list list"

definition osie_Installer ::
  "conf \<Rightarrow> string \<Rightarrow> string \<Rightarrow> string \<Rightarrow> string \<Rightarrow> string \<Rightarrow> string \<Rightarrow> bool \<Rightarrow> string \<Rightarrow> string list list \<Rightarrow> osie_installer" where
  "osie_Installer c dataModelVersion tinkGRPCAuth extraKernelArgs registry registryUsername registryPassword
     tinkTLS osiePathOverride dynamicIPXEVars =
     (let defaultParams =
            [''ip=dhcp'', ''modules=loop,squashfs,sd-mod,usb-storage'', ''alpine_repo=${base-url}/repo-${arch}/main'',
             ''modloop=${base-url}/modloop-${arch}'', ''tinkerbell=${tinkerbell}'', ''syslog_host=${syslog_host}'',
             ''packet_action=${action}'', ''packet_state=${state}'', ''osie_vendors_url='' @ OsieVendorServicesURL c] @
            (if extraKernelArgs \<noteq> [] then [extraKernelArgs] else []);
          i = \<lparr>oi_osieURL = MirrorBaseURL c @ ''/misc/osie'', oi_defaultParams = Join defaultParams '' '',
               oi_workflowParams = [], oi_hollowParams = [], oi_osieFullURLOverride = osiePathOverride,
               oi_extraIPXEVars = dynamicIPXEVars\<rparr>;
          i1 = (if HollowClientID c \<noteq> [] \<and> HollowClientRequestSecret c \<noteq> []
                then i\<lparr>oi_hollowParams := Join
                       [''hollow_client_id='' @ HollowClientID c,
                        ''hollow_client_request_secret='' @ HollowClientRequestSecret c] '' ''\<rparr>
                else i)
      in if dataModelVersion = [] then i1
         else
           (let workflowParams =
                  [''grpc_authority='' @ tinkGRPCAuth, ''packet_base_url='' @ MirrorBaseURL c @ ''/workflow''] @
                  (if \<not> tinkTLS then [''tinkerbell_tls=false''] else []) @
                  (if registry \<noteq> [] then [''docker_registry='' @ registry] else []) @
                  (if registryUsername \<noteq> [] then [''registry_username='' @ registryUsername] else []) @
                  (if registryPassword \<noteq> [] then [''registry_password='' @ registryPassword] else [])
            in i1\<lparr>oi_workflowParams := Join workflowParams '' ''\<rparr>))"

definition osie_kernelPath :: "job \<Rightarrow> string go" where
  "osie_kernelPath j = map_ok (\<lambda>path. if path \<noteq> [] then path else ''vmlinuz-${arch}'') (KernelPath j)"

definition osie_initrdPath :: "job \<Rightarrow> string go" where
  "osie_initrdPath j = map_ok (\<lambda>path. if path \<noteq> [] then path else ''initramfs-${arch}'') (InitrdPath j)"

definition isCustomOSIE :: "job \<Rightarrow> bool" where
  "isCustomOSIE j \<longleftrightarrow> OSIEVersion j \<noteq> []"

definition osieBaseURL :: "string \<Rightarrow> string \<Rightarrow> job \<Rightarrow> string go" where
  "osieBaseURL osieURL osieFullURLOverride j =
     (if osieFullURLOverride \<noteq> [] then Ok osieFullURLOverride
      else
        map_ok (\<lambda>u. if u \<noteq> [] then u
                    else if isCustomOSIE j then osieURL @ ''/'' @ OSIEVersion j
                    else osieURL @ ''/current'')
          (OSIEBaseURL j))"

text \<open>The arguments that only the action \<open>install\<close> has; \<open>j.OperatingSystem()\<close> may be nil.\<close>

definition install_params :: "job \<Rightarrow> script \<Rightarrow> script go" where
  "install_params j = run_steps [
     Args [''plan='' @ PlanSlug j],
     Args [''manufacturer='' @ Manufacturer j],
     with_go (bind_go (job_OperatingSystem j) deref) (\<lambda>os.
       let slug = TrimSuffix (os_OsSlug os) ''_image''; tag = os_ImageTag os
       in if length tag > 0 then Args [''slug='' @ slug @ '':'' @ tag] else Args [''slug='' @ slug]),
     if PasswordHash j \<noteq> [] then Args [''pwhash='' @ PasswordHash j] else Ok]"

definition osie_kernelParams ::
  "osie_installer \<Rightarrow> string \<Rightarrow> spanctx \<Rightarrow> job \<Rightarrow> script \<Rightarrow> script go" where
  "osie_kernelParams i action sc j = run_steps [
     Args [oi_defaultParams i],
     if IsSampled sc
       then Args [''traceparent=00-'' @ hex_bytes (TraceID sc) @ ''-'' @ hex_bytes (SpanID sc) @ ''-'' @ hex_byte2 (TraceFlags sc)] else Ok,
     if job_HardwareState j = ''deprovisioning'' \<and> oi_hollowParams i \<noteq> [] then Args [oi_hollowParams i] else Ok,
     if isCustomOSIE j then Args [''packet_base_url=${base-url}''] else Ok,
     with_go (VLANID j) (\<lambda>vlan. if vlan \<noteq> [] then Args [''vlan_id='' @ vlan] else Ok),
     with_go (CanWorkflow j) (\<lambda>can.
       if can then run_steps [Args [oi_workflowParams i], Args [''instance_id='' @ InstanceID j],
         Args [''worker_id='' @ job_HardwareID j]] else Ok),
     Args [''packet_bootdev_mac=${bootdevmac}''],
     Args [''facility='' @ job_FacilityCode j],
     if PlanSlug j \<in> {''c2.large.arm'', ''c2.large.anbox'', ''c3.large.arm''}
       then Args [''iommu.passthrough=1''] else Args [''intel_iommu=on iommu=pt''],
     if action = ''install'' then install_params j else Ok,
     with_go (osie_initrdPath j) (\<lambda>p. Args [''initrd='' @ p]),
     with_go (job_IsARM j) (\<lambda>arm. if arm then Args [''console=ttyAMA0,115200'']
       else run_steps [Args [''console=tty0''], Args [''console=ttyS1,115200'']])]"

definition osie_setBootScript ::
  "osie_installer \<Rightarrow> string \<Rightarrow> spanctx \<Rightarrow> job \<Rightarrow> script \<Rightarrow> script go" where
  "osie_setBootScript i action sc j = run_steps [
     with_go (job_Arch j) (\<lambda>arch. Set ''arch'' arch),
     Set ''bootdevmac'' (mac_String (PrimaryNIC j)),
     with_go (osieBaseURL (oi_osieURL i) (oi_osieFullURLOverride i) j) (\<lambda>u. Set ''base-url'' u),
     with_go (osie_kernelPath j) (\<lambda>p. Kernel (''${base-url}/'' @ p) []),
     osie_kernelParams i action sc j,
     with_go (osie_initrdPath j) (\<lambda>p. Initrd (''${base-url}/'' @ p) []),
     Boot]"

definition osie_rescue ::
  "osie_installer \<Rightarrow> spanctx \<Rightarrow> job \<Rightarrow> script \<Rightarrow> script go" where
  "osie_rescue i sc j = run_steps [
     Set ''action'' ''rescue'',
     Set ''state'' (job_HardwareState j),
     osie_setBootScript i ''rescue'' sc j]"

definition osie_install ::
  "osie_installer \<Rightarrow> spanctx \<Rightarrow> job \<Rightarrow> script \<Rightarrow> script go" where
  "osie_install i sc j = run_steps [
     set_vars (oi_extraIPXEVars i),
     if Rescue j then osie_rescue i sc j
     else run_steps [
       PhoneHome (if job_HardwareState j = ''deprovisioning'' then ''deprovisioning.304.1'' else ''provisioning.104.01''),
       with_go (CanWorkflow j) (\<lambda>can. if can then Set ''action'' ''workflow'' else Set ''action'' ''install''),
       Set ''state'' (job_HardwareState j),
       osie_setBootScript i ''install'' sc j]]"

definition osie_discover ::
  "osie_installer \<Rightarrow> spanctx \<Rightarrow> job \<Rightarrow> script \<Rightarrow> script go" where
  "osie_discover i sc j = run_steps [
     set_vars (oi_extraIPXEVars i),
     Set ''action'' ''discover'',
     Set ''state'' (job_HardwareState j),
     osie_setBootScript i ''discover'' sc j]"

definition osie_BootScript :: "osie_installer \<Rightarrow> string \<Rightarrow> boot_script go" where
  "osie_BootScript i slug =
     (if slug = ''install'' \<or> slug = ''rescue'' \<or> slug = ''default'' then
        Ok (\<lambda>sc j. on_script (osie_install i sc j))
      else if slug = ''discover'' then Ok (\<lambda>sc j. on_script (osie_discover i sc j))
      else Fault (PanicCall (''unknown slug:'' @ slug)))"

lemmas osie_defs [go_defs] =
  osie_Installer_def osie_kernelPath_def osie_initrdPath_def isCustomOSIE_def osieBaseURL_def install_params_def
  osie_kernelParams_def osie_setBootScript_def osie_rescue_def osie_install_def osie_discover_def osie_BootScript_def

section \<open>The boot scripts keep the contract\<close>

lemma script_safe_install_params: "script_safe (install_params j)"
  unfolding install_params_def Let_def by (intro script_safe_intros)

lemma script_safe_osie_kernelParams: "script_safe (osie_kernelParams i action sc j)"
  unfolding osie_kernelParams_def by (intro script_safe_intros script_safe_install_params)

lemma script_safe_osie_setBootScript: "script_safe (osie_setBootScript i action sc j)"
  unfolding osie_setBootScript_def by (intro script_safe_intros script_safe_osie_kernelParams)

lemma script_safe_osie:
  "script_safe (osie_install i sc j)" "script_safe (osie_discover i sc j)"
  unfolding osie_install_def osie_discover_def osie_rescue_def
  by (intro script_safe_intros script_safe_osie_setBootScript script_safe_set_vars)+

interpretation osie_install_boot: boot_safe "\<lambda>sc j. on_script (osie_install i sc j)" for i
  by (rule boot_safe_on_script) (rule script_safe_osie)

interpretation osie_discover_boot: boot_safe "\<lambda>sc j. on_script (osie_discover i sc j)" for i
  by (rule boot_safe_on_script) (rule script_safe_osie)

section \<open>The boot scripts by their lines\<close>

text \<open>The kernel arguments, in order; each group is there only under its condition.\<close>

definition install_args :: "job \<Rightarrow> opsys \<Rightarrow> string list" where
  "install_args j os =
     [''plan='' @ PlanSlug j, ''manufacturer='' @ Manufacturer j,
      ''slug='' @ TrimSuffix (os_OsSlug os) ''_image'' @ (if os_ImageTag os = [] then [] else '':'' @ os_ImageTag os)] @
     (if PasswordHash j \<noteq> [] then [''pwhash='' @ PasswordHash j] else [])"

definition osie_args ::
  "osie_installer \<Rightarrow> string \<Rightarrow> spanctx \<Rightarrow> job \<Rightarrow> string \<Rightarrow> bool \<Rightarrow> opsys \<Rightarrow> string \<Rightarrow> bool \<Rightarrow> string list" where
  "osie_args i action sc j vlan can os ip arm =
     [oi_defaultParams i] @
     (if IsSampled sc then [''traceparent=00-'' @ hex_bytes (TraceID sc) @ ''-'' @ hex_bytes (SpanID sc) @ ''-'' @ hex_byte2 (TraceFlags sc)] else []) @
     (if job_HardwareState j = ''deprovisioning'' \<and> oi_hollowParams i \<noteq> [] then [oi_hollowParams i] else []) @
     (if isCustomOSIE j then [''packet_base_url=${base-url}''] else []) @
     (if vlan \<noteq> [] then [''vlan_id='' @ vlan] else []) @
     (if can then [oi_workflowParams i, ''instance_id='' @ InstanceID j, ''worker_id='' @ job_HardwareID j] else []) @
     [''packet_bootdev_mac=${bootdevmac}'', ''facility='' @ job_FacilityCode j] @
     (if PlanSlug j \<in> {''c2.large.arm'', ''c2.large.anbox'', ''c3.large.arm''}
      then [''iommu.passthrough=1''] else [''intel_iommu=on iommu=pt'']) @
     (if action = ''install'' then install_args j os else []) @
     [''initrd='' @ ip] @
     (if arm then [''console=ttyAMA0,115200''] else [''console=tty0'', ''console=ttyS1,115200''])"

lemma args_install_params:
  assumes "job_OperatingSystem j = Ok (Some os)"
  shows "args_op (install_params j) (install_args j os)"
proof -
  have os: "bind_go (job_OperatingSystem j) deref = Ok os" by (simp add: assms)
  have "args_op (install_params j) ([''plan='' @ PlanSlug j] @ [''manufacturer='' @ Manufacturer j] @
      (if length (os_ImageTag os) > 0 then [''slug='' @ TrimSuffix (os_OsSlug os) ''_image'' @ '':'' @ os_ImageTag os]
       else [''slug='' @ TrimSuffix (os_OsSlug os) ''_image'']) @
      (if PasswordHash j \<noteq> [] then [''pwhash='' @ PasswordHash j] else []) @ [])"
    unfolding install_params_def Let_def
    by (intro args_op_intros args_op_with_go [OF os])
  then show ?thesis by (auto simp: install_args_def split: if_splits)
qed

lemma args_osie_kernelParams:
  assumes "job_OperatingSystem j = Ok (Some os)" and "VLANID j = Ok vlan" and "CanWorkflow j = Ok can"
    and "osie_initrdPath j = Ok ip" and "job_IsARM j = Ok arm"
  shows "args_op (osie_kernelParams i action sc j) (osie_args i action sc j vlan can os ip arm)"
proof -
  have "args_op (osie_kernelParams i action sc j)
     ([oi_defaultParams i] @
     (if IsSampled sc then [''traceparent=00-'' @ hex_bytes (TraceID sc) @ ''-'' @ hex_bytes (SpanID sc) @ ''-'' @ hex_byte2 (TraceFlags sc)] else []) @
     (if job_HardwareState j = ''deprovisioning'' \<and> oi_hollowParams i \<noteq> [] then [oi_hollowParams i] else []) @
     (if isCustomOSIE j then [''packet_base_url=${base-url}''] else []) @
     (if vlan \<noteq> [] then [''vlan_id='' @ vlan] else []) @
     (if can then [oi_workflowParams i] @ [''instance_id='' @ InstanceID j] @ [''worker_id='' @ job_HardwareID j] @ [] else []) @
     [''packet_bootdev_mac=${bootdevmac}''] @ [''facility='' @ job_FacilityCode j] @
     (if PlanSlug j \<in> {''c2.large.arm'', ''c2.large.anbox'', ''c3.large.arm''}
      then [''iommu.passthrough=1''] else [''intel_iommu=on iommu=pt'']) @
     (if action = ''install'' then install_args j os else []) @
     [''initrd='' @ ip] @
     (if arm then [''console=ttyAMA0,115200''] else [''console=tty0''] @ [''console=ttyS1,115200''] @ []) @ [])"
    unfolding osie_kernelParams_def
    by (intro args_op_intros assms(2-5) [THEN args_op_with_go] args_install_params assms(1))
  then show ?thesis by (simp only: osie_args_def append.simps append_Nil2 append_assoc)
qed

definition osie_boot_lines ::
  "osie_installer \<Rightarrow> string \<Rightarrow> spanctx \<Rightarrow> job \<Rightarrow> string \<Rightarrow> string \<Rightarrow> string \<Rightarrow> string \<Rightarrow>
   string \<Rightarrow> bool \<Rightarrow> opsys \<Rightarrow> string list" where
  "osie_boot_lines i action sc j arch base kp ip vlan can os =
     [''set arch '' @ arch, ''set bootdevmac '' @ mac_String (PrimaryNIC j), ''set base-url '' @ base,
      ''kernel ${base-url}/'' @ kp @ spaced (osie_args i action sc j vlan can os ip (arch = ''aarch64'')),
      ''initrd ${base-url}/'' @ ip, ''boot'']"

lemma lines_osie_setBootScript:
  assumes "job_OperatingSystem j = Ok (Some os)" and "VLANID j = Ok vlan" and "CanWorkflow j = Ok can"
    and "osie_initrdPath j = Ok ip" and "job_Arch j = Ok arch" and "osie_kernelPath j = Ok kp"
    and "osieBaseURL (oi_osieURL i) (oi_osieFullURLOverride i) j = Ok base"
  shows "lines_op (osie_setBootScript i action sc j) (osie_boot_lines i action sc j arch base kp ip vlan can os)"
proof -
  have arm: "job_IsARM j = Ok (arch = ''aarch64'')" by (simp add: job_IsARM_def assms(5))
  have tail: "lines_op (run_steps [with_go (osie_kernelPath j) (\<lambda>p. Kernel (''${base-url}/'' @ p) []),
       osie_kernelParams i action sc j,
       with_go (osie_initrdPath j) (\<lambda>p. Initrd (''${base-url}/'' @ p) []), Boot])
      (((''kernel '' @ ''${base-url}/'' @ kp) @ spaced (osie_args i action sc j vlan can os ip (arch = ''aarch64''))) #
       [''initrd '' @ ''${base-url}/'' @ ip] @ [''boot''] @ [])"
    by (rule lines_op_line_args)
      (intro lines_op_intros assms(4,6) [THEN lines_op_with_go] args_osie_kernelParams assms(1-4) arm)+
  have "lines_op (osie_setBootScript i action sc j)
      ([''set '' @ ''arch'' @ '' '' @ arch] @ [''set '' @ ''bootdevmac'' @ '' '' @ mac_String (PrimaryNIC j)] @
       [''set '' @ ''base-url'' @ '' '' @ base] @
       ((''kernel '' @ ''${base-url}/'' @ kp) @ spaced (osie_args i action sc j vlan can os ip (arch = ''aarch64''))) #
       [''initrd '' @ ''${base-url}/'' @ ip] @ [''boot''] @ [])"
    unfolding osie_setBootScript_def
    by (intro tail lines_op_Cons assms(5,7) [THEN lines_op_with_go] lines_Set.lines_op_axioms)
  then show ?thesis by (simp add: osie_boot_lines_def)
qed

definition osie_lines ::
  "osie_installer \<Rightarrow> spanctx \<Rightarrow> job \<Rightarrow> string \<Rightarrow> string \<Rightarrow> string \<Rightarrow> string \<Rightarrow> string \<Rightarrow> bool \<Rightarrow>
   opsys \<Rightarrow> string list" where
  "osie_lines i sc j arch base kp ip vlan can os =
     var_lines (oi_extraIPXEVars i) @
     (if Rescue j then
        [''set action rescue'', ''set state '' @ job_HardwareState j] @
        osie_boot_lines i ''rescue'' sc j arch base kp ip vlan can os
      else
        phone_home_lines (if job_HardwareState j = ''deprovisioning'' then ''deprovisioning.304.1'' else ''provisioning.104.01'') @
        [''set action '' @ (if can then ''workflow'' else ''install''), ''set state '' @ job_HardwareState j] @
        osie_boot_lines i ''install'' sc j arch base kp ip vlan can os)"

lemma lines_osie_install:
  assumes "\<forall>kv \<in> set (oi_extraIPXEVars i). length kv = 2"
    and facts: "job_OperatingSystem j = Ok (Some os)" "VLANID j = Ok vlan" "CanWorkflow j = Ok can"
      "osie_initrdPath j = Ok ip" "job_Arch j = Ok arch" "osie_kernelPath j = Ok kp"
      "osieBaseURL (oi_osieURL i) (oi_osieFullURLOverride i) j = Ok base"
  shows "lines_op (osie_install i sc j) (osie_lines i sc j arch base kp ip vlan can os)"
proof -
  note boot = lines_osie_setBootScript [OF facts]
  have "lines_op (osie_install i sc j) (var_lines (oi_extraIPXEVars i) @
      (if Rescue j then
        [''set '' @ ''action'' @ '' '' @ ''rescue''] @ [''set '' @ ''state'' @ '' '' @ job_HardwareState j] @
        osie_boot_lines i ''rescue'' sc j arch base kp ip vlan can os @ []
       else
        phone_home_lines (if job_HardwareState j = ''deprovisioning'' then ''deprovisioning.304.1'' else ''provisioning.104.01'') @
        (if can then [''set '' @ ''action'' @ '' '' @ ''workflow''] else [''set '' @ ''action'' @ '' '' @ ''install'']) @
        [''set '' @ ''state'' @ '' '' @ job_HardwareState j] @
        osie_boot_lines i ''install'' sc j arch base kp ip vlan can os @ []) @ [])"
    unfolding osie_install_def osie_rescue_def
    by (intro lines_op_intros facts(3) [THEN lines_op_with_go] lines_op_set_vars boot assms(1))
  then show ?thesis by (auto simp: osie_lines_def split: if_splits)
qed

end
