(* ===== verification/Installer_Custom.thy ===== *)
theory Installer_Custom
  imports Job_Ipxe
begin

text \<open>
  The custom iPXE installer, \<open>src/installers/customipxe/main.go\<close>: it boots the script or the URL of the
  operating system's installer data, of the user data, or of the instance, in this order.
\<close>

section \<open>Operations\<close>

definition ErrEmptyIPXEConfig :: string where
  "ErrEmptyIPXEConfig = ''ipxe config URL or Script must be defined''"

definition validateConfig :: "installerData \<Rightarrow> string option" where
  "validateConfig cfg = (if id_Chain cfg = [] \<and> id_Script cfg = [] then Some ErrEmptyIPXEConfig else None)"

definition ipxeScriptFromConfig :: "installerData \<Rightarrow> job \<Rightarrow> script \<Rightarrow> script go" where
  "ipxeScriptFromConfig cfg j =
     (case validateConfig cfg of
        Some err \<Rightarrow> run_steps [Echo err, Shell]
      | None \<Rightarrow> run_steps [
          PhoneHome ''provisioning.104.01'',
          Set ''packet_facility'' (job_FacilityCode j),
          Set ''packet_plan'' (PlanSlug j),
          if id_Chain cfg \<noteq> [] then Chain (id_Chain cfg)
          else if id_Script cfg \<noteq> [] then AppendString (TrimPrefix (id_Script cfg) ''#!ipxe'')
          else Ok])"

definition custom_setBootScript :: "string list list \<Rightarrow> job \<Rightarrow> script \<Rightarrow> script go" where
  "custom_setBootScript extraIPXEVars j =
     with_go (bind_go (job_OperatingSystem j) deref) (\<lambda>os.
     if os_Installer os = ''custom_ipxe'' then
       (case os_InstallerData os of
          None \<Rightarrow> run_steps [Echo ''Installer data not provided'', Shell]
        | Some cfg \<Rightarrow> run_steps [set_vars extraIPXEVars, ipxeScriptFromConfig cfg j])
     else if HasPrefix (UserData j) ''#!ipxe'' then
       run_steps [set_vars extraIPXEVars, ipxeScriptFromConfig \<lparr>id_Chain = [], id_Script = UserData j\<rparr> j]
     else if IPXEScriptURL j \<noteq> [] then
       run_steps [set_vars extraIPXEVars, ipxeScriptFromConfig \<lparr>id_Chain = IPXEScriptURL j, id_Script = []\<rparr> j]
     else run_steps [Echo ''Unknown ipxe configuration'', Shell])"

definition custom_BootScript :: "string list list \<Rightarrow> string \<Rightarrow> boot_script" where
  "custom_BootScript extraIPXEVars slug = (\<lambda>sc j. on_script (custom_setBootScript extraIPXEVars j))"

lemmas custom_defs [go_defs] =
  ErrEmptyIPXEConfig_def validateConfig_def ipxeScriptFromConfig_def custom_setBootScript_def custom_BootScript_def

section \<open>The contract\<close>

lemma script_safe_ipxeScriptFromConfig: "script_safe (ipxeScriptFromConfig cfg j)"
  unfolding ipxeScriptFromConfig_def
  by (cases "validateConfig cfg") (simp_all only: option.case, (intro script_safe_intros)+)

lemma script_safe_custom: "script_safe (custom_setBootScript vars j)"
proof -
  have "script_safe (case d of None \<Rightarrow> run_steps [Echo ''Installer data not provided'', Shell]
      | Some cfg \<Rightarrow> run_steps [set_vars vars, ipxeScriptFromConfig cfg j])" for d
    by (cases d) (simp_all only: option.case,
        (intro script_safe_intros script_safe_set_vars script_safe_ipxeScriptFromConfig)+)
  then show ?thesis
    unfolding custom_setBootScript_def
    by (intro script_safe_intros script_safe_set_vars script_safe_ipxeScriptFromConfig)
qed

interpretation custom_boot: boot_safe "custom_BootScript vars slug" for vars slug
  unfolding custom_BootScript_def by (rule boot_safe_on_script) (rule script_safe_custom)

section \<open>The script by its lines\<close>

text \<open>The configuration that is chosen, or the message when there is none.\<close>

definition custom_choice :: "job \<Rightarrow> opsys \<Rightarrow> string + installerData" where
  "custom_choice j os =
     (if os_Installer os = ''custom_ipxe'' then
        (case os_InstallerData os of None \<Rightarrow> Inl ''Installer data not provided'' | Some cfg \<Rightarrow> Inr cfg)
      else if HasPrefix (UserData j) ''#!ipxe'' then Inr \<lparr>id_Chain = [], id_Script = UserData j\<rparr>
      else if IPXEScriptURL j \<noteq> [] then Inr \<lparr>id_Chain = IPXEScriptURL j, id_Script = []\<rparr>
      else Inl ''Unknown ipxe configuration'')"

definition custom_lines :: "string list list \<Rightarrow> job \<Rightarrow> opsys \<Rightarrow> string list" where
  "custom_lines vars j os =
     (case custom_choice j os of
        Inl msg \<Rightarrow> [''echo '' @ msg, ''shell'']
      | Inr cfg \<Rightarrow> var_lines vars @
          (if id_Chain cfg = [] \<and> id_Script cfg = [] then [''echo '' @ ErrEmptyIPXEConfig, ''shell'']
           else phone_home_lines ''provisioning.104.01'' @
             [''set packet_facility '' @ job_FacilityCode j, ''set packet_plan '' @ PlanSlug j,
              if id_Chain cfg \<noteq> [] then ''chain --autofree '' @ id_Chain cfg
              else TrimPrefix (id_Script cfg) ''#!ipxe'']))"

lemma lines_ipxeScriptFromConfig:
  "lines_op (ipxeScriptFromConfig cfg j)
     (if id_Chain cfg = [] \<and> id_Script cfg = [] then [''echo '' @ ErrEmptyIPXEConfig, ''shell'']
      else phone_home_lines ''provisioning.104.01'' @
        [''set packet_facility '' @ job_FacilityCode j, ''set packet_plan '' @ PlanSlug j,
         if id_Chain cfg \<noteq> [] then ''chain --autofree '' @ id_Chain cfg else TrimPrefix (id_Script cfg) ''#!ipxe''])"
proof (cases "id_Chain cfg = [] \<and> id_Script cfg = []")
  case True
  have "lines_op (run_steps [Echo ErrEmptyIPXEConfig, Shell]) ([''echo '' @ ErrEmptyIPXEConfig] @ [''shell''] @ [])"
    by (intro lines_op_intros)
  with True show ?thesis by (simp add: ipxeScriptFromConfig_def validateConfig_def)
next
  case False
  have "lines_op (run_steps [PhoneHome ''provisioning.104.01'', Set ''packet_facility'' (job_FacilityCode j),
      Set ''packet_plan'' (PlanSlug j), if id_Chain cfg \<noteq> [] then Chain (id_Chain cfg)
        else if id_Script cfg \<noteq> [] then AppendString (TrimPrefix (id_Script cfg) ''#!ipxe'') else Ok])
      (phone_home_lines ''provisioning.104.01'' @ [''set '' @ ''packet_facility'' @ '' '' @ job_FacilityCode j] @
       [''set '' @ ''packet_plan'' @ '' '' @ PlanSlug j] @ (if id_Chain cfg \<noteq> [] then [''chain --autofree '' @ id_Chain cfg]
        else if id_Script cfg \<noteq> [] then [TrimPrefix (id_Script cfg) ''#!ipxe''] else []) @ [])"
    by (intro lines_op_intros)
  with False show ?thesis
    by (auto simp: ipxeScriptFromConfig_def validateConfig_def split: if_splits)
qed

text \<open>
  C31: the custom iPXE script is exactly what \<^const>\<open>custom_lines\<close> says, after the lines that were there:
  the installer data win over user data that start with \<open>#!ipxe\<close>, which win over the script URL of
  the instance; a URL is chained, a script is copied without its own header, the phone-home and
  the variables come first; without a configuration, or with an empty one, the machine gets a
  shell and neither phones home nor chains.
\<close>

theorem custom_setBootScript_lines:
  assumes "job_OperatingSystem j = Ok (Some os)" and "\<forall>kv \<in> set vars. length kv = 2" and "ls \<noteq> []"
  shows "custom_setBootScript vars j \<lparr>buf = render ls\<rparr> = Ok \<lparr>buf = render (ls @ custom_lines vars j os)\<rparr>"
proof -
  have msg: "lines_op (run_steps [Echo m, Shell]) [''echo '' @ m, ''shell'']" for m
  proof -
    have "lines_op (run_steps [Echo m, Shell]) ([''echo '' @ m] @ [''shell''] @ [])" by (intro lines_op_intros)
    then show ?thesis by simp
  qed
  have cfg: "lines_op (run_steps [set_vars vars, ipxeScriptFromConfig cfg j]) (var_lines vars @
      (if id_Chain cfg = [] \<and> id_Script cfg = [] then [''echo '' @ ErrEmptyIPXEConfig, ''shell'']
      else phone_home_lines ''provisioning.104.01'' @
        [''set packet_facility '' @ job_FacilityCode j, ''set packet_plan '' @ PlanSlug j,
         if id_Chain cfg \<noteq> [] then ''chain --autofree '' @ id_Chain cfg else TrimPrefix (id_Script cfg) ''#!ipxe'']) @ [])" for cfg
    by (intro lines_op_Cons lines_op_Nil lines_op_set_vars assms(2) lines_ipxeScriptFromConfig)
  have "\<exists>f. (\<forall>s. custom_setBootScript vars j s = f s) \<and> lines_op f (custom_lines vars j os)"
  proof (cases "custom_choice j os")
    case (Inl m)
    then have "\<forall>s. custom_setBootScript vars j s = run_steps [Echo m, Shell] s"
      by (auto simp: custom_setBootScript_def custom_choice_def with_go_def assms(1) split: if_splits option.splits)
    with msg [of m] Inl show ?thesis by (auto simp: custom_lines_def simp del: run_steps.simps)
  next
    case (Inr cfg)
    then have "\<forall>s. custom_setBootScript vars j s = run_steps [set_vars vars, ipxeScriptFromConfig cfg j] s"
      by (auto simp: custom_setBootScript_def custom_choice_def with_go_def assms(1) split: if_splits option.splits)
    with cfg [of cfg] Inr show ?thesis by (auto simp: custom_lines_def simp del: run_steps.simps)
  qed
  then show ?thesis using lines_op.appends assms(3) by fastforce
qed

theorem custom_setBootScript_lines_witness:
  "custom_setBootScript [[''a'', ''b'']] (sample_installed\<lparr>j_instance := Some (sample_instance\<lparr>i_IPXEScriptURL := ''http://x/''\<rparr>)\<rparr>)
     \<lparr>buf = render [''#!ipxe'']\<rparr> =
   Ok \<lparr>buf = render ([''#!ipxe'', ''set a b''] @ phone_home_lines ''provisioning.104.01'' @
     [''set packet_facility ewr1'', ''set packet_plan c3.small.x86'', ''chain --autofree http://x/''])\<rparr>"
proof -
  let ?j = "sample_installed\<lparr>j_instance := Some (sample_instance\<lparr>i_IPXEScriptURL := ''http://x/''\<rparr>)\<rparr>"
  have os: "job_OperatingSystem ?j = Ok (Some zero_os)"
    by (simp add: job_OperatingSystem_def sample_installed_def sample_instance_def zero_instance_def hc_OperatingSystem_def
        sample_hc_def)
  have "custom_lines [[''a'', ''b'']] ?j zero_os = ''set a b'' # phone_home_lines ''provisioning.104.01'' @
     [''set packet_facility ewr1'', ''set packet_plan c3.small.x86'', ''chain --autofree http://x/'']"
    by (simp add: custom_lines_def custom_choice_def zero_os_def UserData_def IPXEScriptURL_def with_inst_def HasPrefix_def
        sample_instance_def zero_instance_def var_lines_def job_FacilityCode_def PlanSlug_def sample_installed_def sample_hc_def)
  with custom_setBootScript_lines [OF os, of "[[''a'', ''b'']]" "[''#!ipxe'']"] show ?thesis by simp
qed

end
