(* ===== verification/Installer_Vmware.thy ===== *)
theory Installer_Vmware
  imports Job_Ipxe
begin

text \<open>
  The VMware installer, \<open>src/installers/vmware/main.go\<close>, and the helpers of its kickstart template,
  \<open>src/installers/vmware/kickstart.go\<close>.  \<open>c\<close> is the package \<open>conf\<close> and \<open>r\<close> the reporter of the job.
\<close>

section \<open>Boot scripts\<close>

definition slug2Paths :: "string \<rightharpoonup> string" where
  "slug2Paths = map_of
     [(''vmware_esxi_5_5'', ''esxi-5.5.0.update03''),
      (''vmware_esxi_6_0'', ''esxi-6.0.0.update03''),
      (''vmware_esxi_6_5'', ''esxi-6.5.0''),
      (''vmware_esxi_6_5_vcf'', ''esxi-6.5.0''),
      (''vmware_esxi_6_7'', ''esxi-6.7.0''),
      (''vmware_esxi_6_7_vcf'', ''esxi-6.7.0''),
      (''vmware_esxi_7_0U2a'', ''esxi-7.0U2a''),
      (''vmware_esxi_7_0'', ''esxi-7.0.0''),
      (''vmware_esxi_7_0_vcf'', ''esxi-7.0.0''),
      (''vmware'', ''abort'')]"

definition vmware_kernelParams :: "job \<Rightarrow> script \<Rightarrow> script go" where
  "vmware_kernelParams j =
     (let vmnic = mac_String (PrimaryNIC j)
      in run_steps [
           Args [''ks=${tinkerbell}/vmware/ks-esxi.cfg''],
           Args [''netdevice='' @ vmnic],
           Args [''ksdevice='' @ vmnic]])"

definition vmware_script :: "conf \<Rightarrow> string list list \<Rightarrow> job \<Rightarrow> string \<Rightarrow> script \<Rightarrow> script go" where
  "vmware_script c extraIPXEVars j basePath = run_steps [
     set_vars extraIPXEVars,
     PhoneHome ''provisioning.104.01'',
     Set ''base-url'' (OsieVendorServicesURL c @ ''/vmware/'' @ basePath),
     with_go (job_IsUEFI j) (\<lambda>uefi.
       if uefi then Kernel ''${base-url}/efi/boot/bootx64.efi -c ${base-url}/boot.cfg'' []
       else Kernel ''${base-url}/mboot.c32 -c ${base-url}/boot.cfg'' []),
     vmware_kernelParams j,
     Boot]"

definition vmware_abort :: "reporter \<Rightarrow> boot_script" where
  "vmware_abort r sc j st =
     bind_go (on_script Shell st) (\<lambda>(s, tr). Ok (s, MarkDeviceActive r j (DisablePXE r j tr)))"

definition vmware_BootScript :: "conf \<Rightarrow> reporter \<Rightarrow> string list list \<Rightarrow> string \<Rightarrow> boot_script go" where
  "vmware_BootScript c r extraIPXEVars slug =
     (let path = (case slug2Paths slug of None \<Rightarrow> [] | Some p \<Rightarrow> p)
      in if path = [] then Fault (PanicCall (''unknown slug:'' @ slug))
         else if path = ''abort'' then Ok (vmware_abort r)
         else Ok (\<lambda>sc j. on_script (vmware_script c extraIPXEVars j path)))"

section \<open>The kickstart file\<close>

definition vmnic :: "job \<Rightarrow> string" where
  "vmnic j = mac_String (PrimaryNIC j)"

text \<open>
  The custom data are a decoded JSON value; indexing a missing key of a map gives nil, and the later
  of two equal keys wins in the decoder.
\<close>

definition rootpw :: "job \<Rightarrow> string" where
  "rootpw j =
     (case CustomData j of
        Some (JObj cdmap) \<Rightarrow>
          (case map_of (rev cdmap) ''rootpwcrypt'' of
             Some (JStr override) \<Rightarrow> override
           | _ \<Rightarrow> PasswordHash j)
      | _ \<Rightarrow> PasswordHash j)"

definition equinixPlanDisk :: "string \<Rightarrow> string \<Rightarrow> string" where
  "equinixPlanDisk slug version =
     (if slug \<in> {''c1.small.x86'', ''s1.large.x86'', ''t1.small.x86'', ''x1.small.x86''} then ''vmw_ahci''
      else if slug \<in> {''c2.medium.x86'', ''g2.large.x86'', ''m2.xlarge.x86'', ''n2.xlarge.x86'', ''n2.xlarge.google'',
          ''x2.xlarge.x86''} then ''vmw_ahci,lsi_mr3,lsi_msgpt3''
      else if slug \<in> {''c3.medium.x86'', ''c3.small.x86'', ''m3.large.x86'', ''s3.xlarge.x86''} then
        (if version = ''c3.medium.x86.01'' then ''Micron_5100_MTFD,vmw_ahci''
         else if version = ''s3.xlarge.x86.01'' then ''KXG50ZNV256G_TOSHIBA,vmw_ahci''
         else ''vmw_ahci,lsi_mr3,lsi_msgpt3'')
      else if slug = ''m1.xlarge.x86'' then
        (if version = ''baremetal_2_04'' then ''vmw_ahci'' else ''lsi_mr3,lsi_msgpt3,vmw_ahci'')
      else if slug = ''c1.xlarge.x86'' then ''lsi_mr3,vmw_ahci''
      else [])"

text \<open>\<open>hint[:int(math.Min(16, float64(len(hint))))]\<close>; the conversion is exact for these lengths.\<close>

definition firstDisk :: "job \<Rightarrow> string go" where
  "firstDisk j =
     (let hint = BootDriveHint j
      in if hint \<noteq> [] then slice hint 0 (min 16 (length hint))
         else Ok (equinixPlanDisk (PlanSlug j) (PlanVersionSlug j)))"

text \<open>The head of the template, with its two trimmed branches; the rest is in \<open>Vmware_Kickstart\<close>.\<close>

definition ks_head :: "job \<Rightarrow> string go" where
  "ks_head j =
     map_ok (\<lambda>disk.
       [nl] @ ''# Accept the VMware End User License Agreement'' @ [nl] @
       ''vmaccepteula'' @ [nl] @
       ''# Set the root password for the DCUI and Tech Support Mode'' @ [nl] @
       ''rootpw --iscrypted '' @ rootpw j @ [nl] @
       ''# The install media is in the CD-ROM drive'' @
       (if disk \<noteq> [] then [nl] @ ''install --firstdisk='' @ [CHR 0x22] @ disk @ [CHR 0x22] @ '' --overwritevmfs''
        else [nl] @ ''install --firstdisk --overwritevmfs'') @ [nl] @
       ''# Set the network to DHCP on the proper network adapter based on its type'' @ [nl] @
       ''network --bootproto=dhcp --device='' @ vmnic j @ [nl] @
       ''reboot'' @ [nl])
     (firstDisk j)"

lemmas vmware_defs [go_defs] =
  vmware_kernelParams_def vmware_script_def vmware_abort_def vmware_BootScript_def vmnic_def rootpw_def
  equinixPlanDisk_def firstDisk_def ks_head_def

section \<open>The contract\<close>

lemma script_safe_vmware: "script_safe (vmware_script c vars j path)"
  unfolding vmware_script_def vmware_kernelParams_def Let_def
  by (intro script_safe_intros script_safe_set_vars)

interpretation vmware_script_boot: boot_safe "\<lambda>sc j. on_script (vmware_script c vars j path)" for c vars path
  by (rule boot_safe_on_script) (rule script_safe_vmware)

lemma DisablePXE_prefix: "prefix tr (DisablePXE r j tr)"
  by (auto simp: DisablePXE_def job_Error_calls Let_def split: option.splits sum.splits)

lemma MarkDeviceActive_prefix: "prefix tr (MarkDeviceActive r j tr)"
  by (auto simp: MarkDeviceActive_def job_Error_calls Let_def split: sum.splits)

interpretation vmware_abort_boot: boot_safe "vmware_abort r" for r
proof
  fix st sc j st' assume s: "script_ok (fst st)" and "vmware_abort r sc j st = Ok st'"
  then obtain s1 tr1 where "shell sc j st = Ok (s1, tr1)" and st': "st' = (s1, MarkDeviceActive r j (DisablePXE r j tr1))"
    by (auto simp: vmware_abort_def shell_def)
  with shell_boot.boot [OF s, of sc j "(s1, tr1)"] DisablePXE_prefix [of tr1 r j]
    MarkDeviceActive_prefix [of "DisablePXE r j tr1" r j]
  show "script_ok (fst st') \<and> extends (fst st) (fst st') \<and> prefix (snd st) (snd st')"
    by (auto intro: prefix_order.trans)
qed

lemma vmware_BootScript_safe: "vmware_BootScript c r vars slug = Ok f \<Longrightarrow> boot_safe f"
  using vmware_script_boot.boot_safe_axioms vmware_abort_boot.boot_safe_axioms
  by (auto simp: vmware_BootScript_def Let_def split: if_splits)

section \<open>What the scripts do\<close>

definition vmware_lines :: "conf \<Rightarrow> string list list \<Rightarrow> job \<Rightarrow> string \<Rightarrow> bool \<Rightarrow> string list" where
  "vmware_lines c vars j path uefi =
     var_lines vars @ phone_home_lines ''provisioning.104.01'' @
     [''set base-url '' @ OsieVendorServicesURL c @ ''/vmware/'' @ path,
      (if uefi then ''kernel ${base-url}/efi/boot/bootx64.efi -c ${base-url}/boot.cfg''
       else ''kernel ${base-url}/mboot.c32 -c ${base-url}/boot.cfg'') @
      spaced [''ks=${tinkerbell}/vmware/ks-esxi.cfg'', ''netdevice='' @ vmnic j, ''ksdevice='' @ vmnic j],
      ''boot'']"

lemma lines_vmware_script:
  assumes "\<forall>kv \<in> set vars. length kv = 2" and "job_IsUEFI j = Ok uefi"
  shows "lines_op (vmware_script c vars j path) (vmware_lines c vars j path uefi)"
proof -
  have args: "args_op (vmware_kernelParams j) ([''ks=${tinkerbell}/vmware/ks-esxi.cfg''] @ [''netdevice='' @ vmnic j] @
      [''ksdevice='' @ vmnic j] @ [])"
    unfolding vmware_kernelParams_def Let_def vmnic_def by (intro args_op_intros)
  have k: "lines_op (with_go (job_IsUEFI j) (\<lambda>uefi.
       if uefi then Kernel ''${base-url}/efi/boot/bootx64.efi -c ${base-url}/boot.cfg'' []
       else Kernel ''${base-url}/mboot.c32 -c ${base-url}/boot.cfg'' []))
      [if uefi then ''kernel ${base-url}/efi/boot/bootx64.efi -c ${base-url}/boot.cfg''
       else ''kernel ${base-url}/mboot.c32 -c ${base-url}/boot.cfg'']"
    using lines_Kernel.lines_op_axioms by (intro lines_op_with_go [OF assms(2)]) (cases uefi; simp)
  have b: "lines_op (run_steps [Boot]) [''boot'']"
    using lines_op_Cons [OF lines_Boot.lines_op_axioms lines_op_Nil] by simp
  have "lines_op (vmware_script c vars j path)
      (var_lines vars @ phone_home_lines ''provisioning.104.01'' @
       [''set '' @ ''base-url'' @ '' '' @ OsieVendorServicesURL c @ ''/vmware/'' @ path] @
       ((if uefi then ''kernel ${base-url}/efi/boot/bootx64.efi -c ${base-url}/boot.cfg''
         else ''kernel ${base-url}/mboot.c32 -c ${base-url}/boot.cfg'') @
        spaced ([''ks=${tinkerbell}/vmware/ks-esxi.cfg''] @ [''netdevice='' @ vmnic j] @ [''ksdevice='' @ vmnic j] @ [])) # [''boot''])"
    unfolding vmware_script_def
    by (intro lines_op_line_args [OF k args b] lines_op_Cons lines_op_set_vars assms(1)
        lines_PhoneHome.lines_op_axioms lines_Set.lines_op_axioms)
  then show ?thesis by (simp add: vmware_lines_def)
qed

text \<open>The disk as a value: the hint cut to the 16 characters that VMware accepts, or the disk of the plan.\<close>

definition ks_disk :: "job \<Rightarrow> string" where
  "ks_disk j = (if BootDriveHint j = [] then equinixPlanDisk (PlanSlug j) (PlanVersionSlug j) else take 16 (BootDriveHint j))"

lemma firstDisk_Ok: "firstDisk j = Ok (ks_disk j)"
  by (simp add: firstDisk_def ks_disk_def Let_def slice_def min_def)

end
