(* ===== verification/Ignition_Storage.thy ===== *)
theory Ignition_Storage
  imports Go_Json_Store
begin

text \<open>
  The storage and the users of an ignition document: \<open>storage.go\<close> and \<open>passwd.go\<close> of
  \<open>src/installers/flatcar/files/ignition\<close>, with their JSON form.  An entry of a list of pointers that is nil is null
  there, as is a nil slice that is always printed.
\<close>

section \<open>Optional keys\<close>

text \<open>A key with \<open>omitempty\<close> is left out for the empty value of its kind.\<close>

definition omit_str :: "string \<Rightarrow> string \<Rightarrow> (string \<times> jval) list" where
  "omit_str k s = (if s = [] then [] else [(k, JStr s)])"

definition omit_int :: "string \<Rightarrow> int \<Rightarrow> (string \<times> jval) list" where
  "omit_int k n = (if n = 0 then [] else [(k, JNum n)])"

definition omit_bool :: "string \<Rightarrow> bool \<Rightarrow> (string \<times> jval) list" where
  "omit_bool k b = (if b then [(k, JBool True)] else [])"

definition omit_list :: "string \<Rightarrow> jval list \<Rightarrow> (string \<times> jval) list" where
  "omit_list k vs = (if vs = [] then [] else [(k, JList vs)])"

definition omit_ptr :: "string \<Rightarrow> ('a \<Rightarrow> jval) \<Rightarrow> 'a option \<Rightarrow> (string \<times> jval) list" where
  "omit_ptr k enc p = (case p of None \<Rightarrow> [] | Some x \<Rightarrow> [(k, enc x)])"

definition ptr_json :: "('a \<Rightarrow> jval) \<Rightarrow> 'a option \<Rightarrow> jval" where
  "ptr_json enc p = (case p of None \<Rightarrow> JNull | Some x \<Rightarrow> enc x)"

section \<open>Storage\<close>

record ign_partition =
  pt_Label :: string
  pt_Number :: int
  pt_Size :: int
  pt_Start :: int
  pt_TypeGUID :: string

definition partition_json :: "ign_partition \<Rightarrow> jval" where
  "partition_json p = JObj (
     omit_str ''label'' (pt_Label p) @ omit_int ''number'' (pt_Number p) @ omit_int ''size'' (pt_Size p) @
     omit_int ''start'' (pt_Start p) @ omit_str ''typeGuid'' (pt_TypeGUID p))"

record ign_disk =
  dk_Device :: string
  dk_WipeTable :: bool
  dk_Partitions :: "ign_partition option list"

definition disk_json :: "ign_disk \<Rightarrow> jval" where
  "disk_json d = JObj (
     [(''device'', JStr (dk_Device d))] @ omit_bool ''wipeTable'' (dk_WipeTable d) @
     omit_list ''partitions'' (map (ptr_json partition_json) (dk_Partitions d)))"

record ign_file =
  fi_Path :: string
  fi_Contents :: string
  fi_Mode :: int
  fi_UID :: int
  fi_GID :: int

definition file_json :: "ign_file \<Rightarrow> jval" where
  "file_json f = JObj (
     [(''path'', JStr (fi_Path f))] @ omit_str ''contents'' (fi_Contents f) @ omit_int ''mode'' (fi_Mode f) @
     omit_int ''uid'' (fi_UID f) @ omit_int ''gid'' (fi_GID f))"

record ign_fs_options =
  fo_Force :: bool
  fo_Options :: "string list"

definition fs_options_json :: "ign_fs_options \<Rightarrow> jval" where
  "fs_options_json o' = JObj (omit_bool ''force'' (fo_Force o') @ omit_list ''options'' (map JStr (fo_Options o')))"

record ign_filesystem =
  fy_Device :: string
  fy_Format :: string
  fy_Files :: "ign_file option list"
  fy_Create :: "ign_fs_options option"

definition filesystem_json :: "ign_filesystem \<Rightarrow> jval" where
  "filesystem_json f = JObj (
     [(''device'', JStr (fy_Device f)), (''format'', JStr (fy_Format f))] @
     omit_list ''files'' (map (ptr_json file_json) (fy_Files f)) @ omit_ptr ''create'' fs_options_json (fy_Create f))"

record ign_raid =
  rd_Name :: string
  rd_Level :: string
  rd_Devices :: "string list option"
  rd_Spares :: int

definition raid_json :: "ign_raid \<Rightarrow> jval" where
  "raid_json r = JObj (
     [(''name'', JStr (rd_Name r)), (''level'', JStr (rd_Level r)),
      (''devices'', ptr_json (\<lambda>ds. JList (map JStr ds)) (rd_Devices r))] @ omit_int ''spares'' (rd_Spares r))"

record ign_storage =
  sg_Disks :: "ign_disk option list"
  sg_RAID :: "ign_raid option list"
  sg_Filesystems :: "ign_filesystem option list"

definition storage_json :: "ign_storage \<Rightarrow> jval" where
  "storage_json s = JObj (
     omit_list ''disks'' (map (ptr_json disk_json) (sg_Disks s)) @
     omit_list ''raid'' (map (ptr_json raid_json) (sg_RAID s)) @
     omit_list ''filesystems'' (map (ptr_json filesystem_json) (sg_Filesystems s)))"

section \<open>Users and groups\<close>

record ign_group =
  gr_Name :: string
  gr_GID :: int
  gr_PasswordHash :: string

definition group_json :: "ign_group \<Rightarrow> jval" where
  "group_json g = JObj (
     [(''group'', JStr (gr_Name g))] @ omit_int ''gid'' (gr_GID g) @ omit_str ''passwordHash'' (gr_PasswordHash g))"

record ign_user_options =
  uo_UID :: int
  uo_GECOS :: string
  uo_HomeDir :: string
  uo_NoCreateHome :: bool
  uo_PrimaryGroup :: string
  uo_Groups :: "string list"
  uo_NoUserGroup :: bool
  uo_NoLogInit :: bool
  uo_Shell :: string

definition user_options_json :: "ign_user_options \<Rightarrow> jval" where
  "user_options_json o' = JObj (
     omit_int ''uid'' (uo_UID o') @ omit_str ''gecos'' (uo_GECOS o') @ omit_str ''homeDir'' (uo_HomeDir o') @
     omit_bool ''noCreateHome'' (uo_NoCreateHome o') @ omit_str ''primaryGroup'' (uo_PrimaryGroup o') @
     omit_list ''groups'' (map JStr (uo_Groups o')) @ omit_bool ''noUserGroup'' (uo_NoUserGroup o') @
     omit_bool ''noLogInit'' (uo_NoLogInit o') @ omit_str ''shell'' (uo_Shell o'))"

record ign_user =
  us_Name :: string
  us_PasswordHash :: string
  us_AuthorizedKeys :: "string list"
  us_Create :: "ign_user_options option"

definition user_json :: "ign_user \<Rightarrow> jval" where
  "user_json u = JObj (
     [(''name'', JStr (us_Name u))] @ omit_str ''passwordHash'' (us_PasswordHash u) @
     omit_list ''sshAuthorizedKeys'' (map JStr (us_AuthorizedKeys u)) @ omit_ptr ''create'' user_options_json (us_Create u))"

record ign_passwd =
  pw_Users :: "ign_user option list"
  pw_Groups :: "ign_group option list"

definition passwd_json :: "ign_passwd \<Rightarrow> jval" where
  "passwd_json p = JObj (
     omit_list ''users'' (map (ptr_json user_json) (pw_Users p)) @ omit_list ''groups'' (map (ptr_json group_json) (pw_Groups p)))"

lemmas ignition_defs [go_defs] =
  omit_str_def omit_int_def omit_bool_def omit_list_def omit_ptr_def ptr_json_def partition_json_def disk_json_def
  file_json_def fs_options_json_def filesystem_json_def raid_json_def storage_json_def group_json_def user_options_json_def
  user_json_def passwd_json_def

section \<open>The documents are JSON\<close>

text \<open>How deep each document nests.\<close>

lemma fits_omit:
  "(k, v) \<in> set (omit_str n s) \<Longrightarrow> json_fits d v" "(k, v) \<in> set (omit_int n i) \<Longrightarrow> json_fits d v"
  "(k, v) \<in> set (omit_bool n b) \<Longrightarrow> json_fits d v"
  by (auto simp: omit_str_def omit_int_def omit_bool_def split: if_splits)

lemma fits_omit_list:
  "(k, v) \<in> set (omit_list n vs) \<Longrightarrow> 0 < d \<Longrightarrow> (\<And>w. w \<in> set vs \<Longrightarrow> json_fits (d - 1) w) \<Longrightarrow> json_fits d v"
  by (auto simp: omit_list_def split: if_splits)

lemma fits_omit_ptr: "(k, v) \<in> set (omit_ptr n enc p) \<Longrightarrow> (\<And>x. json_fits d (enc x)) \<Longrightarrow> json_fits d v"
  by (auto simp: omit_ptr_def split: option.splits)

lemma fits_ptr: "(\<And>x. json_fits d (enc x)) \<Longrightarrow> json_fits d (ptr_json enc p)"
  by (cases p) (simp_all add: ptr_json_def)

lemma fits_storage: "5 \<le> d \<Longrightarrow> json_fits d (storage_json s)"
  by (auto simp: storage_json_def disk_json_def raid_json_def filesystem_json_def partition_json_def file_json_def
      fs_options_json_def intro!: fits_ptr elim!: fits_omit fits_omit_list fits_omit_ptr)

lemma fits_passwd: "5 \<le> d \<Longrightarrow> json_fits d (passwd_json p)"
  by (auto simp: passwd_json_def user_json_def group_json_def user_options_json_def
      intro!: fits_ptr elim!: fits_omit fits_omit_list fits_omit_ptr)

end
