(* ===== verification/Flatcar_Units.thy ===== *)
theory Flatcar_Units
  imports Ignition_Storage
begin

text \<open>
  Systemd unit files and ignition documents: \<open>src/installers/flatcar/files/unit\<close> and
  \<open>src/installers/flatcar/files/ignition\<close>.  A builder is the list of its section buffers; a pointer to a
  section is its index, so that lines can still be added to it after later sections.
\<close>

section \<open>Sections and builders\<close>

type_synonym builder = "bytes list"

definition sec_Reset :: "string \<Rightarrow> bytes" where
  "sec_Reset name = ''['' @ name @ '']'' @ [CHR 0x0A]"

definition sec_Add :: "string \<Rightarrow> string \<Rightarrow> bytes \<Rightarrow> bytes" where
  "sec_Add key v s = s @ key @ ''='' @ v @ [CHR 0x0A]"

fun sec_AddLines :: "string list \<Rightarrow> bytes \<Rightarrow> bytes" where
  "sec_AddLines [] s = s"
| "sec_AddLines (line # lines) s = sec_AddLines lines (s @ line @ [CHR 0x0A])"

definition sec_AddComment :: "string \<Rightarrow> bytes \<Rightarrow> bytes" where
  "sec_AddComment comment s = s @ ''# '' @ comment @ [CHR 0x0A]"

definition sec_Len :: "bytes \<Rightarrow> nat" where
  "sec_Len s = length s"

definition AddSection :: "string \<Rightarrow> string list \<Rightarrow> builder \<Rightarrow> nat \<times> builder" where
  "AddSection name lines b = (length b, b @ [sec_AddLines lines (sec_Reset name)])"

text \<open>\<open>s.Add\<close> through the pointer.\<close>

definition Add_at :: "nat \<Rightarrow> string \<Rightarrow> string \<Rightarrow> builder \<Rightarrow> builder" where
  "Add_at i key v b = b[i := sec_Add key v (b ! i)]"

text \<open>The two loops run over the sections with the index \<open>i\<close>.\<close>

fun len_from :: "nat \<Rightarrow> builder \<Rightarrow> nat" where
  "len_from i [] = 0"
| "len_from i (s # ss) = (if i > 0 then 1 else 0) + sec_Len s + len_from (Suc i) ss"

definition builder_Len :: "builder \<Rightarrow> nat" where
  "builder_Len b = len_from 0 b"

fun marshal_from :: "nat \<Rightarrow> builder \<Rightarrow> bytes \<Rightarrow> bytes" where
  "marshal_from i [] buf = buf"
| "marshal_from i (s # ss) buf = marshal_from (Suc i) ss ((if i > 0 then buf @ [CHR 0x0A] else buf) @ s)"

definition MarshalText :: "builder \<Rightarrow> bytes" where
  "MarshalText b = marshal_from 0 b []"

section \<open>Units\<close>

record unit_file =
  u_Name :: string
  u_Contents :: builder

definition unit_New :: "string \<Rightarrow> unit_file" where
  "unit_New name = \<lparr>u_Name = name, u_Contents = []\<rparr>"

definition unit_Bytes :: "unit_file \<Rightarrow> bytes" where
  "unit_Bytes u = MarshalText (u_Contents u)"

record systemd_unit = unit_file +
  su_Enabled :: bool
  su_Masked :: bool
  su_Dropins :: "unit_file list"

definition NewSystemdUnit :: "string \<Rightarrow> systemd_unit" where
  "NewSystemdUnit name = \<lparr>u_Name = name, u_Contents = [], su_Enabled = False, su_Masked = False, su_Dropins = []\<rparr>"

definition AddDropin :: "string \<Rightarrow> systemd_unit \<Rightarrow> systemd_unit" where
  "AddDropin name u = u\<lparr>su_Dropins := su_Dropins u @ [unit_New name]\<rparr>"

definition Enable :: "systemd_unit \<Rightarrow> systemd_unit" where
  "Enable u = u\<lparr>su_Enabled := True\<rparr>"

definition Mask :: "systemd_unit \<Rightarrow> systemd_unit" where
  "Mask u = u\<lparr>su_Masked := True\<rparr>"

section \<open>The ignition document\<close>

text \<open>The JSON of a unit; the contents are text, so they become a string.\<close>

definition unit_json :: "unit_file \<Rightarrow> jval" where
  "unit_json u = JObj [(''name'', JStr (u_Name u)), (''contents'', JStr (unit_Bytes u))]"

definition systemd_json :: "systemd_unit \<Rightarrow> jval" where
  "systemd_json u = JObj (
     [(''name'', JStr (u_Name u)), (''contents'', JStr (MarshalText (u_Contents u)))] @
     (if su_Enabled u then [(''enable'', JBool True)] else []) @
     (if su_Masked u then [(''mask'', JBool True)] else []) @
     (if su_Dropins u \<noteq> [] then [(''dropins'', JList (map unit_json (su_Dropins u)))] else []))"

text \<open>The two \<open>MarshalJSON\<close> methods; an empty list of units marshals to nothing.\<close>

definition SystemdUnits_MarshalJSON :: "systemd_unit list \<Rightarrow> jval option" where
  "SystemdUnits_MarshalJSON us =
     (if length us = 0 then None else Some (JObj [(''units'', JList (map systemd_json us))]))"

definition NetworkUnits_MarshalJSON :: "unit_file list \<Rightarrow> jval option" where
  "NetworkUnits_MarshalJSON us =
     (if length us = 0 then None else Some (JObj [(''units'', JList (map unit_json us))]))"

text \<open>\<open>Add\<close> returns the pointer to the new unit, which is its index.\<close>

definition SystemdUnits_Add :: "string \<Rightarrow> systemd_unit list \<Rightarrow> nat \<times> systemd_unit list" where
  "SystemdUnits_Add name us = (length us, us @ [NewSystemdUnit name])"

definition NetworkUnits_Add :: "string \<Rightarrow> unit_file list \<Rightarrow> nat \<times> unit_file list" where
  "NetworkUnits_Add name us = (length us, us @ [unit_New name])"

definition NetworkUnits_Append :: "unit_file \<Rightarrow> unit_file list \<Rightarrow> unit_file list" where
  "NetworkUnits_Append u us = us @ [u]"

record ign_config =
  c_Systemd :: "systemd_unit list"
  c_Network :: "unit_file list"
  c_Storage :: "ign_storage option"
  c_Passwd :: "ign_passwd option"

text \<open>
  The slices and the pointers have \<open>omitempty\<close>, so the key of a list of units is left out exactly when the method
  above would print nothing.
\<close>

definition config_json :: "ign_config \<Rightarrow> jval" where
  "config_json c = JObj (
     [(''ignitionVersion'', JNum 1)] @
     (case SystemdUnits_MarshalJSON (c_Systemd c) of None \<Rightarrow> [] | Some v \<Rightarrow> [(''systemd'', v)]) @
     (case NetworkUnits_MarshalJSON (c_Network c) of None \<Rightarrow> [] | Some v \<Rightarrow> [(''networkd'', v)]) @
     omit_ptr ''storage'' storage_json (c_Storage c) @ omit_ptr ''passwd'' passwd_json (c_Passwd c))"

definition Render :: "ign_config \<Rightarrow> bytes" where
  "Render c = json_Marshal (config_json c)"

lemmas unit_defs [go_defs] =
  sec_Reset_def sec_Add_def sec_AddComment_def sec_Len_def AddSection_def Add_at_def builder_Len_def MarshalText_def
  unit_New_def unit_Bytes_def NewSystemdUnit_def AddDropin_def Enable_def Mask_def unit_json_def systemd_json_def
  SystemdUnits_MarshalJSON_def NetworkUnits_MarshalJSON_def SystemdUnits_Add_def NetworkUnits_Add_def
  NetworkUnits_Append_def config_json_def Render_def

section \<open>Facts\<close>

lemma sec_AddLines_eq: "sec_AddLines ls s = s @ concat (map (\<lambda>l. l @ [CHR 0x0A]) ls)"
  by (induction ls arbitrary: s) auto

lemma marshal_from_eq:
  "marshal_from (Suc i) ss buf = buf @ concat (map (\<lambda>s. CHR 0x0A # s) ss)"
  by (induction ss arbitrary: i buf) auto

lemma MarshalText_eq: "MarshalText b = (case b of [] \<Rightarrow> [] | s # ss \<Rightarrow> s @ concat (map (\<lambda>s. CHR 0x0A # s) ss))"
  by (cases b) (simp_all add: MarshalText_def marshal_from_eq)

lemma len_from_eq: "len_from (Suc i) ss = length (concat (map (\<lambda>s. CHR 0x0A # s) ss))"
  by (induction ss arbitrary: i) (auto simp: sec_Len_def)

text \<open>
  The capacity that a unit file is allocated with is exactly the length of its text, so the
  appends of \<open>MarshalText\<close> never reallocate: \<open>Len\<close> counts every section and the blank line between
  two of them, and nothing else.
\<close>

lemma builder_Len_exact: "builder_Len b = length (MarshalText b)"
  by (cases b) (simp_all add: builder_Len_def MarshalText_eq len_from_eq sec_Len_def)

text \<open>
  Whatever the units contain, the document is one JSON text, and a decoder reads from it what was put in.
\<close>

lemma fits_units:
  "json_fits (d + 5) (systemd_json u)" "json_fits (d + 5) (unit_json v)" if "0 \<le> d"
  using that by (auto simp: systemd_json_def unit_json_def)

lemma Render_json: "json_parse (Render c) = Some (json_of (config_json c))"
proof -
  have s: "json_fits 9997 (systemd_json u)" and n: "json_fits 9997 (unit_json v)" for u v
    using fits_units [of 9992] by simp_all
  have "json_fits maxNestingDepth (config_json c)"
    by (auto simp: config_json_def maxNestingDepth_def SystemdUnits_MarshalJSON_def NetworkUnits_MarshalJSON_def s n
        intro: fits_storage fits_passwd elim!: fits_omit_ptr)
  then show ?thesis unfolding Render_def by (rule json_parse_Marshal)
qed

end
