(* ===== verification/Installer_Flatcar.thy ===== *)
theory Installer_Flatcar
  imports Job_Ipxe Flatcar_Units
begin

text \<open>
  The Flatcar installer: the boot script of \<open>src/installers/flatcar/main.go\<close>, the installer unit of
  \<open>installer.go\<close>, the bond of \<open>networkd.go\<close> and the ignition endpoint of \<open>ignition.go\<close>.
\<close>

section \<open>The boot script\<close>

definition flatcar_kernelPath :: "job \<Rightarrow> string go" where
  "flatcar_kernelPath j =
     map_ok (\<lambda>arm. if arm then ''flatcar-arm.vmlinuz'' else ''flatcar_production_pxe.vmlinuz'') (job_IsARM j)"

definition flatcar_initrdPath :: "job \<Rightarrow> string go" where
  "flatcar_initrdPath j =
     map_ok (\<lambda>arm. if arm then ''flatcar-arm.cpio.gz'' else ''flatcar_production_pxe_image.cpio.gz'') (job_IsARM j)"

definition flatcar_kernelParams :: "job \<Rightarrow> script \<Rightarrow> script go" where
  "flatcar_kernelParams j = run_steps [
     with_go (job_IsARM j) (\<lambda>arm.
       if arm then Args [''console=ttyAMA0,115200''] else Args [''console=ttyS1,115200n8 console=tty0 vga=773'']),
     with_go (flatcar_initrdPath j) (\<lambda>p. Args [''initrd='' @ p]),
     Args [''bonding.max_bonds=0''],
     Args [''flatcar.autologin''],
     Args [''flatcar.first_boot=1''],
     Args [''flatcar.config.url=${tinkerbell}/flatcar/ignition.json''],
     Args [''systemd.setenv=phone_home_url=${tinkerbell}/phone-home'']]"

definition flatcar_setBootScript :: "conf \<Rightarrow> string list list \<Rightarrow> job \<Rightarrow> script \<Rightarrow> script go" where
  "flatcar_setBootScript c extraIPXEVars j = run_steps [
     set_vars extraIPXEVars,
     PhoneHome ''provisioning.104.01'',
     Set ''base-url'' (OsieVendorServicesURL c @ ''/flatcar''),
     with_go (flatcar_kernelPath j) (\<lambda>p. Kernel (''${base-url}/'' @ p) []),
     flatcar_kernelParams j,
     with_go (flatcar_initrdPath j) (\<lambda>p. Initrd (''${base-url}/'' @ p) []),
     Boot]"

definition flatcar_BootScript :: "conf \<Rightarrow> string list list \<Rightarrow> string \<Rightarrow> boot_script" where
  "flatcar_BootScript c extraIPXEVars slug = (\<lambda>sc j. on_script (flatcar_setBootScript c extraIPXEVars j))"

section \<open>The installer unit\<close>

definition getInstallOpts :: "conf \<Rightarrow> job \<Rightarrow> string \<Rightarrow> string go" where
  "getInstallOpts c j channel =
     map_ok (\<lambda>arm.
       let base = OsieVendorServicesURL c @ (if arm then ''/flatcar/arm64-usr/'' else ''/flatcar/amd64-usr/'') @ channel;
           args = [''-V current'', ''-C '' @ channel, ''-b '' @ base] @
             (if \<not> arm then [''-o packet''] else []) @
             (if Contains (PlanSlug j) ''s3.xlarge'' then [''-s'', ''-e'', ''259''] else [''-s''])
       in Join args '' '')
     (job_IsARM j)"

definition phone_home_cmd :: "string \<Rightarrow> string \<Rightarrow> string" where
  "phone_home_cmd flags ty =
     ''/usr/bin/curl '' @ flags @ ''-H '' @ [CHR 0x22] @ ''Content-Type: application/json'' @ [CHR 0x22] @
     '' -X POST -d '' @ [CHR 0x27] @ ''{'' @ [CHR 0x22] @ ''type'' @ [CHR 0x22] @ '':'' @ [CHR 0x22] @ ty @ [CHR 0x22] @
     ''}'' @ [CHR 0x27] @ '' ${phone_home_url}''"

definition grub_cmd :: "string \<Rightarrow> string" where
  "grub_cmd console =
     (let bs = CHR 0x5C; q = CHR 0x22
      in ''/usr/bin/bash -c '' @ [q] @ ''/usr/bin/echo '' @ [bs, q] @ ''set linux_console='' @ [bs, bs, bs, q] @ console @
         [bs, bs, bs, q] @ [bs, q] @ '' >> /oemmnt/grub.cfg'' @ [q])"

definition configureInstaller :: "conf \<Rightarrow> job \<Rightarrow> systemd_unit \<Rightarrow> systemd_unit go" where
  "configureInstaller c j u =
     (let b1 = snd (AddSection ''Unit''
            [''Requires=systemd-networkd-wait-online.service'', ''After=systemd-networkd-wait-online.service''] (u_Contents u))
      in bind_go (job_OperatingSystem j) (\<lambda>osp.
         let channel = (case osp of None \<Rightarrow> [] | Some os \<Rightarrow> os_Version os);
             channel = (if channel = [] then ''alpha'' else channel)
         in bind_go (job_IsARM j) (\<lambda>arm.
            let console = (if arm then ''console=ttyAMA0,115200'' else ''console=tty0 console=ttyS1,115200n8'')
            in bind_go (getInstallOpts c j channel) (\<lambda>installOpts.
               let lines =
                     [phone_home_cmd ''--retry 10 '' ''provisioning.106'',
                      ''/usr/bin/flatcar-install '' @ installOpts,
                      ''/usr/bin/udevadm settle'',
                      ''/usr/bin/mkdir -p /oemmnt'',
                      ''/usr/bin/mount /dev/disk/by-label/OEM /oemmnt'',
                      grub_cmd console,
                      phone_home_cmd [] ''provisioning.109'',
                      ''/usr/bin/systemctl reboot''];
                   (s, b2) = AddSection ''Service'' [''Type=oneshot''] b1;
                   b3 = fold (\<lambda>line b. Add_at s ''ExecStart'' line b) lines b2;
                   b4 = snd (AddSection ''Install'' [''WantedBy=multi-user.target''] b3)
               in Ok (Enable (u\<lparr>u_Contents := b4\<rparr>))))))"

definition configureNetworkService :: "job \<Rightarrow> systemd_unit \<Rightarrow> systemd_unit" where
  "configureNetworkService j u = Enable u"

section \<open>The bond\<close>

definition bondName :: string where
  "bondName = ''bond0''"

text \<open>\<open>net.IPNet.String\<close>: the mask as a prefix length, or in hexadecimal when it is not a prefix.\<close>

definition mask_bits :: "bytes \<Rightarrow> bool list" where
  "mask_bits m = concat (map (\<lambda>c. map (\<lambda>k. odd (of_char c div (2 ^ k :: nat))) [7, 6, 5, 4, 3, 2, 1, 0]) m)"

definition formatCIDR :: "ip \<Rightarrow> bytes \<Rightarrow> string" where
  "formatCIDR ip m =
     (let v4 = To4 ip;
          n = (if v4 \<noteq> [] then v4 else ip);
          m' = (if length m = 16 \<and> length n = 4 then drop 12 m else m)
      in if (length n \<noteq> 4 \<and> length n \<noteq> 16) \<or> length m' \<noteq> length n then ''<nil>''
         else
           (let bits = mask_bits m'; l = length (takeWhile id bits)
            in ip_String n @ ''/'' @
               (if True \<in> set (drop l bits) then hex_bytes m' else dec_digits l)))"

definition defaultIPv4 :: string where
  "defaultIPv4 = formatCIDR (IPv4 (CHR 0x00) (CHR 0x00) (CHR 0x00) (CHR 0x00)) (replicate 4 (CHR 0x00))"

definition defaultIPv6 :: string where
  "defaultIPv6 = formatCIDR (replicate 16 (CHR 0x00)) (replicate 16 (CHR 0x00))"

definition privateIPv4 :: string where
  "privateIPv4 = formatCIDR (IPv4 (CHR 0x0A) (CHR 0x00) (CHR 0x00) (CHR 0x00)) (CHR 0xFF # replicate 3 (CHR 0x00))"

definition configureBondSlaveUnit :: "unit_file \<Rightarrow> port \<Rightarrow> (bool \<times> unit_file) go" where
  "configureBondSlaveUnit u p =
     (if p_Bond p \<noteq> bondName then Ok (False, u)
      else
        (let (s, b1) = AddSection ''Match'' [] (u_Contents u)
         in bind_go (deref (p_MAC p)) (\<lambda>m.
            let b2 = Add_at s ''MACAddress'' (MACAddr_String m) b1;
                b3 = snd (AddSection ''Network'' [''Bond='' @ bondName] b2)
            in Ok (True, u\<lparr>u_Contents := b3\<rparr>))))"

definition configureBondDevUnit :: "job \<Rightarrow> unit_file \<Rightarrow> unit_file go" where
  "configureBondDevUnit j u =
     (let (s0, b1) = AddSection ''NetDev'' [''Name='' @ bondName, ''Kind=bond''] (u_Contents u)
      in bind_go (InterfaceMAC j 0) (\<lambda>mac.
         let b2 = Add_at s0 ''MACAddress'' (mac_String mac) b1;
             (s, b3) = AddSection ''Bond'' [''TransmitHashPolicy=layer3+4'', ''MIIMonitorSec=.1''] b2
         in bind_go (BondingMode j) (\<lambda>mode.
            let b4 = (if mode = 4 then Add_at s ''LACPTransmitRate'' ''fast'' (Add_at s ''Mode'' ''802.3ad'' b3)
                      else if mode = 5 then Add_at s ''Mode'' ''balance-tlb'' b3 else b3)
            in Ok (u\<lparr>u_Contents := b4\<rparr>))))"

text \<open>One round of the loop over the addresses; \<open>s\<close> is the section \<open>Network\<close>.\<close>

definition add_address :: "nat \<Rightarrow> client_ip \<Rightarrow> builder \<Rightarrow> builder" where
  "add_address s ip b =
     (let b1 = Add_at s ''Address'' (formatCIDR (ip_Address ip) (ip_Netmask ip)) b
      in if \<not> ip_Management ip then b1
         else
           (let dest = (if ip_Family ip = 4 then (if ip_Public ip then defaultIPv4 else privateIPv4)
                        else if ip_Family ip = 6 then defaultIPv6 else [])
            in if dest = [] then b1
               else
                 (let (s', b2) = AddSection ''Route'' [] b1
                  in Add_at s' ''Gateway'' (ip_String (ip_Gateway ip)) (Add_at s' ''Destination'' dest b2))))"

definition configureNetworkUnit :: "conf \<Rightarrow> job \<Rightarrow> unit_file \<Rightarrow> unit_file" where
  "configureNetworkUnit c j u =
     (let b1 = snd (AddSection ''Match'' [''Name='' @ bondName] (u_Contents u));
          (s, b2) = AddSection ''Network'' [] b1;
          b3 = fold (\<lambda>ip b. Add_at s ''DNS'' (ip_String ip) b) (DNSServers c) b2;
          b4 = fold (add_address s) (InstanceIPs j) b3
      in u\<lparr>u_Contents := b4\<rparr>)"

section \<open>The ignition endpoint\<close>

text \<open>\<open>fmt.Sprintf("%02d-nic%d.network", i+1, i)\<close>\<close>

definition nic_name :: "nat \<Rightarrow> string" where
  "nic_name i =
     (let d = dec_digits (i + 1)
      in (if length d < 2 then ''0'' @ d else d) @ ''-nic'' @ dec_digits i @ ''.network'')"

fun slave_units :: "nat \<Rightarrow> port list \<Rightarrow> unit_file list \<Rightarrow> unit_file list go" where
  "slave_units i [] nu = Ok nu"
| "slave_units i (p # ps) nu =
     bind_go (configureBondSlaveUnit (unit_New (nic_name i)) p) (\<lambda>(ok, u).
     slave_units (Suc i) ps (if ok then nu @ [u] else nu))"

definition buildNetworkUnits :: "conf \<Rightarrow> job \<Rightarrow> unit_file list go" where
  "buildNetworkUnits c j =
     bind_go (configureBondDevUnit j (unit_New ''00-bond.netdev'')) (\<lambda>u1.
     let u2 = configureNetworkUnit c j (unit_New ''00-bond.network'')
     in bind_go (job_Interfaces j) (\<lambda>ports. slave_units 0 ports [u1, u2]))"

definition buildSystemdUnits :: "conf \<Rightarrow> job \<Rightarrow> systemd_unit list go" where
  "buildSystemdUnits c j =
     (let u1 = configureNetworkService j (NewSystemdUnit ''systemd-networkd.service'');
          u2 = configureNetworkService j (NewSystemdUnit ''systemd-networkd-wait-online.service'')
      in map_ok (\<lambda>u3. [u1, u2, u3]) (configureInstaller c j (NewSystemdUnit ''install.service'')))"

definition ServeIgnitionConfig ::
  "'p dhcp4 \<Rightarrow> conf \<Rightarrow> finder \<Rightarrow> string \<Rightarrow> string \<Rightarrow> writer \<Rightarrow> writer go" where
  "ServeIgnitionConfig L c f engine remoteAddr w =
     bind_go (CreateFromRemoteAddr L c f engine remoteAddr) (\<lambda>res.
     case res of
       Inl err \<Rightarrow> Ok (WriteHeader 404 w)
     | Inr j \<Rightarrow>
         bind_go (buildNetworkUnits c j) (\<lambda>nu.
         bind_go (buildSystemdUnits c j) (\<lambda>su.
         Ok (w_Write (Render \<lparr>c_Systemd = su, c_Network = nu, c_Storage = None, c_Passwd = None\<rparr>) w))))"

lemmas flatcar_defs [go_defs] =
  flatcar_kernelPath_def flatcar_initrdPath_def flatcar_kernelParams_def flatcar_setBootScript_def flatcar_BootScript_def
  getInstallOpts_def phone_home_cmd_def grub_cmd_def configureInstaller_def configureNetworkService_def bondName_def
  mask_bits_def formatCIDR_def defaultIPv4_def defaultIPv6_def privateIPv4_def configureBondSlaveUnit_def
  configureBondDevUnit_def add_address_def configureNetworkUnit_def nic_name_def buildNetworkUnits_def
  buildSystemdUnits_def ServeIgnitionConfig_def

section \<open>The contract\<close>

lemma script_safe_flatcar: "script_safe (flatcar_setBootScript c vars j)"
  unfolding flatcar_setBootScript_def flatcar_kernelParams_def
  by (intro script_safe_intros script_safe_set_vars)

interpretation flatcar_boot: boot_safe "flatcar_BootScript c vars slug" for c vars slug
  unfolding flatcar_BootScript_def by (rule boot_safe_on_script) (rule script_safe_flatcar)

section \<open>The network units\<close>

definition unit_number :: "string \<Rightarrow> nat" where
  "unit_number name = dec_value (takeWhile ((\<noteq>) (CHR ''-'')) name)"

lemma digits_no_dash: "list_all is_digit d \<Longrightarrow> takeWhile ((\<noteq>) (CHR ''-'')) (d @ CHR ''-'' # s) = d"
  by (induction d) (auto simp: is_digit_def)

lemma dec_value_0: "dec_value (CHR ''0'' # d) = dec_value d"
  by (simp add: dec_value_def)

lemma unit_number_nic: "unit_number (nic_name i) = i + 1"
proof -
  let ?d = "dec_digits (i + 1)"
  have d: "list_all is_digit ?d" by (rule dec_digits_digits)
  have z: "list_all is_digit (CHR ''0'' # ?d)" using d by (simp add: is_digit_def)
  have "nic_name i = (if length ?d < 2 then CHR ''0'' # ?d else ?d) @ CHR ''-'' # (''nic'' @ dec_digits i @ ''.network'')"
    by (simp add: nic_name_def Let_def)
  then have "takeWhile ((\<noteq>) (CHR ''-'')) (nic_name i) = (if length ?d < 2 then CHR ''0'' # ?d else ?d)"
    using digits_no_dash [OF d] digits_no_dash [OF z] by (simp del: append_Cons)
  then show ?thesis by (simp add: unit_number_def dec_value_0)
qed

definition slave_text :: "macaddr \<Rightarrow> string" where
  "slave_text m = ''[Match]'' @ [CHR 0x0A] @ ''MACAddress='' @ MACAddr_String m @ [CHR 0x0A, CHR 0x0A] @
     ''[Network]'' @ [CHR 0x0A] @ ''Bond=bond0'' @ [CHR 0x0A]"

lemma configureBondSlaveUnit_value:
  assumes "configureBondSlaveUnit (unit_New name) p = Ok (ok, u)"
  shows "ok = (p_Bond p = bondName)" and "u_Name u = name"
    and "p_Bond p = bondName \<Longrightarrow> \<exists>m. p_MAC p = Some m \<and> unit_Bytes u = slave_text m"
  using assms
  by (auto simp: configureBondSlaveUnit_def unit_New_def AddSection_def Add_at_def sec_Add_def sec_Reset_def unit_Bytes_def
      MarshalText_def slave_text_def bondName_def Let_def split: if_splits)

lemma slave_units_exact:
  assumes "slave_units i ps nu = Ok nu'"
  shows "\<exists>us. nu' = nu @ us \<and> length us = length (filter (\<lambda>p. p_Bond p = bondName) ps) \<and>
    distinct (map (\<lambda>u. unit_number (u_Name u)) us) \<and> (\<forall>u \<in> set us. unit_number (u_Name u) > i) \<and>
    (\<forall>k < length ps. p_Bond (ps ! k) = bondName \<longrightarrow>
       (\<exists>m. p_MAC (ps ! k) = Some m \<and> (\<exists>u \<in> set us. u_Name u = nic_name (i + k) \<and> unit_Bytes u = slave_text m)))"
  using assms
proof (induction i ps nu rule: slave_units.induct)
  case (1 i nu)
  then show ?case by simp
next
  case (2 i p ps nu)
  then obtain ok u where u: "configureBondSlaveUnit (unit_New (nic_name i)) p = Ok (ok, u)"
    and r: "slave_units (Suc i) ps (if ok then nu @ [u] else nu) = Ok nu'" by auto
  note v = configureBondSlaveUnit_value [OF u]
  obtain us where us: "nu' = (if ok then nu @ [u] else nu) @ us" "length us = length (filter (\<lambda>p. p_Bond p = bondName) ps)"
      "distinct (map (\<lambda>u. unit_number (u_Name u)) us)" "\<forall>u \<in> set us. unit_number (u_Name u) > Suc i"
      "\<forall>k < length ps. p_Bond (ps ! k) = bondName \<longrightarrow>
        (\<exists>m. p_MAC (ps ! k) = Some m \<and> (\<exists>u \<in> set us. u_Name u = nic_name (Suc i + k) \<and> unit_Bytes u = slave_text m))"
    using 2(1) [OF u refl r] by blast
  let ?us = "(if ok then [u] else []) @ us"
  have "unit_number (u_Name u) = i + 1" using v(2) by (simp add: unit_number_nic)
  then have "distinct (map (\<lambda>u. unit_number (u_Name u)) ?us)" "\<forall>u \<in> set ?us. unit_number (u_Name u) > i"
    using us(3,4) by auto
  moreover have "p_Bond ((p # ps) ! k) = bondName \<longrightarrow> (\<exists>m. p_MAC ((p # ps) ! k) = Some m \<and>
      (\<exists>u \<in> set ?us. u_Name u = nic_name (i + k) \<and> unit_Bytes u = slave_text m))" if "k < length (p # ps)" for k
    using v us(5) that by (cases k) fastforce+
  ultimately show ?case
    using us(1,2) v(1) by (intro exI [of _ ?us]) auto
qed

lemma configure_names:
  "configureBondDevUnit j u = Ok u' \<Longrightarrow> u_Name u' = u_Name u" "u_Name (configureNetworkUnit c j u) = u_Name u"
  by (auto simp: configureBondDevUnit_def configureNetworkUnit_def AddSection_def Let_def)


definition sample_bonded :: job where
  "sample_bonded = sample_installed\<lparr>j_hardware := Some (HCacher (sample_hc\<lparr>hc_NetworkPorts := [sample_port\<lparr>p_Bond := ''bond0''\<rparr>]\<rparr>))\<rparr>"


end
