(* ===== verification/Workflow_Finders.thy ===== *)
theory Workflow_Finders
  imports Tinkerbell_Discovery Kubernetes_Discovery
begin

text \<open>
  The workflow finders that decide whether a machine may report: the no-op one of
  \<open>src/client/noop_workflow_finder.go\<close>, the tinkerbell one (\<open>HasActiveWorkflow\<close>) and the one of
  \<open>src/client/kubernetes/hardware_finder.go\<close>.  The locale \<open>workflow_finder\<close> is what the HTTP server relies on.
\<close>

section \<open>Operations\<close>

type_synonym wfinder = "string \<Rightarrow> string + bool"

definition noop_HasActiveWorkflow :: wfinder where
  "noop_HasActiveWorkflow hwID = Inr False"

text \<open>
  The list call of the controller-runtime client and the conversion of a stored workflow to the state of
  its current action are arguments.
\<close>

fun k8s_contexts :: "('w \<Rightarrow> wf_state) \<Rightarrow> 'w list \<Rightarrow> wf_state list \<Rightarrow> wf_state list" where
  "k8s_contexts convert [] acc = acc"
| "k8s_contexts convert (w # items) acc = k8s_contexts convert items (acc @ [convert w])"

fun any_active :: "wf_state list \<Rightarrow> bool" where
  "any_active [] = False"
| "any_active (w # ws) = (if w = STATE_PENDING \<or> w = STATE_RUNNING then True else any_active ws)"

definition k8s_HasActiveWorkflow ::
  "(string \<Rightarrow> string + 'w list) \<Rightarrow> ('w \<Rightarrow> wf_state) \<Rightarrow> wfinder" where
  "k8s_HasActiveWorkflow list_wf convert hwID =
     (if hwID = [] then Inl ''missing hardware id''
      else case list_wf hwID of
             Inl err \<Rightarrow> Inl (''failed to list workflows: '' @ err)
           | Inr items \<Rightarrow> Inr (any_active (k8s_contexts convert items [])))"

lemmas workflow_defs [go_defs] = noop_HasActiveWorkflow_def k8s_HasActiveWorkflow_def

section \<open>The interface\<close>

abbreviation active :: "wf_state \<Rightarrow> bool" where
  "active s \<equiv> s = STATE_PENDING \<or> s = STATE_RUNNING"

text \<open>
  \<open>states hw\<close> are the states of the workflows that the store has for a machine; an answer is about them and
  nothing else.
\<close>

locale workflow_finder =
  fixes find :: wfinder and states :: "string \<Rightarrow> string + wf_state list"
  assumes answer: "find hw = Inr b \<Longrightarrow> \<exists>ws. states hw = Inr ws \<and> b = list_ex active ws"
begin

lemma true_has_workflow: "find hw = Inr True \<Longrightarrow> \<exists>ws w. states hw = Inr ws \<and> w \<in> set ws \<and> active w"
  using answer [of hw True] by (auto simp: list_ex_iff)

lemma no_workflow_no: "states hw = Inr [] \<Longrightarrow> find hw \<noteq> Inr True"
  using answer [of hw True] by auto

end

interpretation noop: workflow_finder noop_HasActiveWorkflow "\<lambda>hw. Inr []"
  by unfold_locales (simp add: noop_HasActiveWorkflow_def)

interpretation tink_wf: workflow_finder "HasActiveWorkflow get" get for get
  by unfold_locales (auto simp: HasActiveWorkflow_def split: if_splits sum.splits)

lemma k8s_contexts_eq [simp]: "k8s_contexts convert items acc = acc @ map convert items"
  by (induction items arbitrary: acc) simp_all

lemma any_active_iff [simp]: "any_active ws \<longleftrightarrow> list_ex active ws"
  by (induction ws) simp_all

interpretation k8s_wf: workflow_finder "k8s_HasActiveWorkflow list_wf convert" "\<lambda>hw. map_sum id (map convert) (list_wf hw)"
  for list_wf convert
  by unfold_locales (auto simp: k8s_HasActiveWorkflow_def split: if_splits sum.splits)

end
