(* ===== verification/Boots_Main.thy ===== *)
theory Boots_Main
  imports Boots_Dhcp Workflow_Finders Installer_Osie Installer_Custom Installer_Vmware Installer_Flatcar
begin

text \<open>
  The set-up of the process, \<open>src/cmd/boots/main.go\<close>: the extra iPXE variables, the registration of the
  installers, the choice of the hardware and workflow finders and of the reporter, and the addresses that
  the DHCP handler hands out.  The functions \<open>Get\<close> and \<open>Bool\<close> of the environment package, the dials of the
  remote services and \<open>netaddr.ParseIPPort\<close> are arguments.
\<close>

section \<open>The extra iPXE variables\<close>

text \<open>The fields of the command line configuration that the set-up reads.\<close>

record cli_config =
  cf_TFTPAddr :: string
  cf_TFTPTimeout :: int
  cf_ipxeTFTPEnabled :: bool
  cf_ipxeHTTPEnabled :: bool
  cf_ipxeRemoteTFTPAddr :: string
  cf_ipxeRemoteHTTPAddr :: string
  cf_ipxeVars :: string
  cf_httpAddr :: string
  cf_dhcpAddr :: string
  cf_syslogAddr :: string
  cf_logLevel :: string
  cf_extraKernelArgs :: string
  cf_kubeconfig :: string
  cf_kubeAPI :: string
  cf_kubeNamespace :: string
  cf_osiePathOverride :: string

text \<open>The loop over the definitions; an error names the whole string \<open>v\<close>.\<close>

fun parse_defs :: "string \<Rightarrow> string list \<Rightarrow> string + string list list" where
  "parse_defs v [] = Inr []"
| "parse_defs v (el # els) =
     (let varDef = SplitN el (CHR ''='') 2
      in if length varDef = 2 \<and> varDef ! 0 \<noteq> [] \<and> varDef ! 1 \<noteq> [] then map_sum id ((#) varDef) (parse_defs v els)
         else Inl (''unable to parse iPXE dynamic variable definitions from string '' @ v))"

definition parseDynamicIPXEVars :: "string \<Rightarrow> string + string list list" where
  "parseDynamicIPXEVars v = (if v = [] then Inr [] else parse_defs v (Fields v))"

section \<open>The installers\<close>

record env_pkg =
  env_Get :: "string \<Rightarrow> string"
  env_Bool :: "string \<Rightarrow> bool \<Rightarrow> bool"

text \<open>\<open>i.RegisterSlug(slug, v.BootScript(slug))\<close>\<close>

definition register_vmware :: "(string \<Rightarrow> boot_script go) \<Rightarrow> string \<Rightarrow> installers \<Rightarrow> installers go" where
  "register_vmware bs slug = with_go (bs slug) (RegisterSlug slug)"

definition registerInstallers ::
  "env_pkg \<Rightarrow> conf \<Rightarrow> reporter \<Rightarrow> cli_config \<Rightarrow> (string + installers) go" where
  "registerInstallers E c r cf =
     (case parseDynamicIPXEVars (cf_ipxeVars cf) of
        Inl err \<Rightarrow> Ok (Inl err)
      | Inr vars \<Rightarrow>
          bind_go (run_steps [
            RegisterDistro ''flatcar'' (flatcar_BootScript c vars ''flatcar''),
            RegisterDistro ''custom_ipxe'' (custom_BootScript vars ''custom_ipxe''),
            RegisterInstaller ''custom_ipxe'' (custom_BootScript vars ''custom_ipxe'')] NewInstallers) (\<lambda>i.
          let dataModelVersion = env_Get E ''DATA_MODEL_VERSION'';
              auth = env_Get E ''TINKERBELL_GRPC_AUTHORITY''
          in if dataModelVersion = ''1'' \<and> auth = [] then
               Ok (Inl ''TINKERBELL_GRPC_AUTHORITY is required when in tinkerbell mode'')
             else
               (let os = osie_Installer c dataModelVersion auth (cf_extraKernelArgs cf) (env_Get E ''DOCKER_REGISTRY'')
                      (env_Get E ''REGISTRY_USERNAME'') (env_Get E ''REGISTRY_PASSWORD'') (env_Bool E ''TINKERBELL_TLS'' True)
                      (cf_osiePathOverride cf) vars;
                    v = vmware_BootScript c r vars
                in map_ok Inr (run_steps [
                     with_go (osie_BootScript os ''discover'') (RegisterDistro ''discovery''),
                     with_go (osie_BootScript os ''default'') RegisterDefaultInstaller,
                     register_vmware v ''vmware_esxi_5_5'',
                     register_vmware v ''vmware_esxi_6_0'',
                     register_vmware v ''vmware_esxi_6_5'',
                     register_vmware v ''vmware_esxi_6_7'',
                     register_vmware v ''vmware_esxi_7_0'',
                     register_vmware v ''vmware_esxi_7_0U2a'',
                     register_vmware v ''vmware_esxi_6_5_vcf'',
                     register_vmware v ''vmware_esxi_6_7_vcf'',
                     register_vmware v ''vmware_esxi_7_0_vcf'',
                     with_go (v ''vmware'') (RegisterDistro ''vmware'')] i))))"

section \<open>The finders and the reporter\<close>

text \<open>The clients of the remote services, as their constructors return them.\<close>

record ('r, 'w) dials =
  dial_cacher :: "string \<Rightarrow> string + ((string \<Rightarrow> string + string) \<times> (string \<Rightarrow> string + string))"
  go_json :: json_pkg
  em_post :: "em_request \<Rightarrow> string + hardwareCacher option"
  dial_tink_hw :: "string + ((string \<Rightarrow> string + 'r) \<times> (string \<Rightarrow> string + 'r))"
  tink_marshal :: "'r \<Rightarrow> string + string"
  dial_tink_wf :: "string + (string \<Rightarrow> string + wf_state list)"
  read_file :: "string \<Rightarrow> string option"
  dial_kube :: "string \<Rightarrow> string \<Rightarrow> string \<Rightarrow>
    string + ((string \<Rightarrow> string + k8s_hardware list) \<times> (string \<Rightarrow> string + k8s_hardware list) \<times> (string \<Rightarrow> string + 'w list))"
  kube_convert :: "'w \<Rightarrow> wf_state"

definition cacher_NewHardwareFinder :: "('r, 'w) dials \<Rightarrow> string \<Rightarrow> string + finder" where
  "cacher_NewHardwareFinder D facility =
     (case dial_cacher D facility of
        Inl err \<Rightarrow> Inl (''connect to cacher: '' @ err)
      | Inr (byIP, byMAC) \<Rightarrow> Inr (cacher_finder byIP byMAC (go_json D) (em_post D)))"

definition tink_NewHardwareFinder :: "('r, 'w) dials \<Rightarrow> string + finder" where
  "tink_NewHardwareFinder D =
     (case dial_tink_hw D of
        Inl err \<Rightarrow> Inl (''connect to tink: '' @ err)
      | Inr (byIP, byMAC) \<Rightarrow> Inr (tink_hw_finder byIP byMAC (tink_marshal D) (go_json D)))"

definition NewWorkflowFinder :: "('r, 'w) dials \<Rightarrow> string + wfinder" where
  "NewWorkflowFinder D =
     (case dial_tink_wf D of
        Inl err \<Rightarrow> Inl (''connect to tink: '' @ err)
      | Inr get \<Rightarrow> Inr (HasActiveWorkflow get))"

text \<open>The errors are the messages without the path and the cause.\<close>

definition standalone_NewHardwareFinder :: "('r, 'w) dials \<Rightarrow> string \<Rightarrow> string + finder" where
  "standalone_NewHardwareFinder D path =
     (case read_file D path of
        None \<Rightarrow> Inl ''could not read file''
      | Some content \<Rightarrow>
          (case Unmarshal (st_db (go_json D)) content [] of
             None \<Rightarrow> Inl ''unable to parse configuration file''
           | Some db \<Rightarrow> Inr (standalone_finder db)))"

text \<open>The hardware finder stays nil (None) for a data model that no case names.\<close>

definition getFinders :: "('r, 'w) dials \<Rightarrow> env \<Rightarrow> cli_config \<Rightarrow> string + (wfinder \<times> finder option)" where
  "getFinders D env cf =
     (let v = Getenv env ''DATA_MODEL_VERSION''
      in if v = [] then
           (case cacher_NewHardwareFinder D (Getenv env ''FACILITY_CODE'') of
              Inl err \<Rightarrow> Inl err
            | Inr hf \<Rightarrow> Inr (noop_HasActiveWorkflow, Some hf))
         else if v = ''1'' then
           (case tink_NewHardwareFinder D of
              Inl err \<Rightarrow> Inl err
            | Inr hf \<Rightarrow>
                (case NewWorkflowFinder D of
                   Inl err \<Rightarrow> Inl err
                 | Inr wff \<Rightarrow> Inr (wff, Some hf)))
         else if v = ''standalone'' then
           (let saFile = Getenv env ''BOOTS_STANDALONE_JSON''
            in if saFile = [] then Inl ''BOOTS_STANDALONE_JSON env must be set''
               else
                 (case standalone_NewHardwareFinder D saFile of
                    Inl err \<Rightarrow> Inl err
                  | Inr hf \<Rightarrow>
                      (case NewWorkflowFinder D of
                         Inl err \<Rightarrow> Inl err
                       | Inr wff \<Rightarrow> Inr (wff, Some hf))))
         else if v = ''kubernetes'' then
           (case dial_kube D (cf_kubeAPI cf) (cf_kubeconfig cf) (cf_kubeNamespace cf) of
              Inl err \<Rightarrow> Inl err
            | Inr (byIP, byMAC, wfs) \<Rightarrow>
                Inr (k8s_HasActiveWorkflow wfs (kube_convert D), Some (k8s_finder byIP byMAC)))
         else Inr (noop_HasActiveWorkflow, None))"

definition getReporter ::
  "env_pkg \<Rightarrow> (string \<Rightarrow> string \<Rightarrow> string + reporter) \<Rightarrow> env \<Rightarrow> string + reporter" where
  "getReporter E newReporter env =
     (let dataModelVersion = Getenv env ''DATA_MODEL_VERSION''
      in if dataModelVersion = [] then
           (let consumer = env_Get E ''API_CONSUMER_TOKEN''
            in if consumer = [] then Inl ''required envvar missing: API_CONSUMER_TOKEN''
               else
                 (let auth = env_Get E ''API_AUTH_TOKEN''
                  in if auth = [] then Inl ''required envvar missing: API_AUTH_TOKEN''
                     else newReporter consumer auth))
         else Inr noOpReporter)"

section \<open>The servers\<close>

text \<open>
  The TFTP part of \<open>main\<close>: the address the local server listens on, and the next server of the replies.
  \<open>parseIPPort\<close> gives an address and its port.
\<close>

definition tftp_setup :: "(string \<Rightarrow> string + (ip \<times> nat)) \<Rightarrow> conf \<Rightarrow> cli_config \<Rightarrow> ((ip \<times> nat) option \<times> ip) go" where
  "tftp_setup parseIPPort c cf =
     (if cf_ipxeRemoteTFTPAddr cf = [] then
        bind_go
          (if cf_ipxeTFTPEnabled cf then
             (case parseIPPort (cf_TFTPAddr cf) of
                Inl err \<Rightarrow> Fault (FatalLog (err @ '': tftp addr must be an ip:port''))
              | Inr a \<Rightarrow> if snd a \<noteq> 69 then Fault (FatalLog ''port for tftp addr must be 69'') else Ok (Some a))
           else Ok None)
          (\<lambda>spec. Ok (spec, PublicIPv4 c))
      else
        (let ip = ParseIP (cf_ipxeRemoteTFTPAddr cf)
         in if ip = [] then
              Fault (FatalLog (''invalid IP for remote TFTP server: '' @ cf_ipxeRemoteTFTPAddr cf))
            else Ok (None, ip)))"

text \<open>The HTTP part: whether the binaries are served here, the pattern and the base URL of the replies.\<close>

definition http_setup :: "conf \<Rightarrow> cli_config \<Rightarrow> bool \<times> string \<times> string" where
  "http_setup c cf =
     (if cf_ipxeRemoteHTTPAddr cf = [] then (cf_ipxeHTTPEnabled cf, ''/ipxe/'', PublicFQDN c @ ''/ipxe/'')
      else (False, [], cf_ipxeRemoteHTTPAddr cf))"


text \<open>A nil interface panics when it is called.\<close>

definition nil_finder :: finder where
  "nil_finder = \<lparr>ByIP = (\<lambda>_. Fault NilDeref), ByMAC = (\<lambda>_ _ _. Fault NilDeref)\<rparr>"

text \<open>The DHCP handler that \<open>main\<close> starts.\<close>

definition main_dhcp ::
  "(string \<Rightarrow> string + (ip \<times> nat)) \<Rightarrow> conf \<Rightarrow> cli_config \<Rightarrow> string \<Rightarrow> finder option \<Rightarrow> dhcpHandler go" where
  "main_dhcp parseIPPort c cf engine hf =
     (let (_, _, ipxeBaseURL) = http_setup c cf
      in bind_go (tftp_setup parseIPPort c cf) (\<lambda>(_, nextServer).
         Ok \<lparr>dh_nextServer = nextServer, dh_ipxeBaseURL = ipxeBaseURL, dh_bootsBaseURL = PublicFQDN c,
             dh_finder = (case hf of None \<Rightarrow> nil_finder | Some f \<Rightarrow> f), dh_engine = engine\<rparr>))"

lemmas boots_main_defs [go_defs] =
  parseDynamicIPXEVars_def register_vmware_def registerInstallers_def cacher_NewHardwareFinder_def
  tink_NewHardwareFinder_def NewWorkflowFinder_def standalone_NewHardwareFinder_def getFinders_def
  getReporter_def tftp_setup_def http_setup_def nil_finder_def main_dhcp_def

section \<open>The variables\<close>

lemma SplitN_2:
  "sep \<notin> set s \<Longrightarrow> SplitN s sep 2 = [s]" "sep \<notin> set k \<Longrightarrow> SplitN (k @ sep # x) sep 2 = [k, x]"
proof -
  have none: "sep \<notin> set s \<Longrightarrow> dropWhile (\<lambda>c. c \<noteq> sep) s = []" for s :: string
    by (induction s) auto
  show "SplitN s sep 2 = [s]" if "sep \<notin> set s"
    unfolding numeral_2_eq_2 SplitN.simps none [OF that] by simp
  assume k: "sep \<notin> set k"
  then have "takeWhile (\<lambda>c. c \<noteq> sep) (k @ sep # x) = k" by (induction k) auto
  moreover from k have "dropWhile (\<lambda>c. c \<noteq> sep) (k @ sep # x) = sep # x" by (induction k) auto
  ultimately show "SplitN (k @ sep # x) sep 2 = [k, x]" by (simp add: numeral_2_eq_2)
qed

lemma SplitN_2_iff: "SplitN s sep 2 = [k, x] \<longleftrightarrow> sep \<notin> set k \<and> s = k @ [sep] @ x"
proof
  assume a: "SplitN s sep 2 = [k, x]"
  then have "sep \<in> set s" using SplitN_2(1) [of sep s] by auto
  then obtain ys zs where "s = ys @ sep # zs" "sep \<notin> set ys" by (meson split_list_first)
  with a SplitN_2(2) [of sep ys zs] show "sep \<notin> set k \<and> s = k @ [sep] @ x" by simp
next
  assume "sep \<notin> set k \<and> s = k @ [sep] @ x"
  then show "SplitN s sep 2 = [k, x]" by (simp add: SplitN_2)
qed

text \<open>A definition \<open>name=value\<close> with both parts present, and the pair it gives.\<close>

definition var_def_of :: "string \<Rightarrow> string list \<Rightarrow> bool" where
  "var_def_of w kv \<longleftrightarrow> (\<exists>k x. kv = [k, x] \<and> k \<noteq> [] \<and> x \<noteq> [] \<and> CHR ''='' \<notin> set k \<and> w = k @ ''='' @ x)"

lemma var_def_of_iff:
  "var_def_of w kv \<longleftrightarrow> kv = SplitN w (CHR ''='') 2 \<and> length kv = 2 \<and> kv ! 0 \<noteq> [] \<and> kv ! 1 \<noteq> []"
proof
  assume "var_def_of w kv"
  then obtain k x where "kv = [k, x]" "k \<noteq> []" "x \<noteq> []" "CHR ''='' \<notin> set k" "w = k @ [CHR ''=''] @ x"
    by (auto simp: var_def_of_def)
  then show "kv = SplitN w (CHR ''='') 2 \<and> length kv = 2 \<and> kv ! 0 \<noteq> [] \<and> kv ! 1 \<noteq> []"
    using SplitN_2_iff [of w "CHR ''=''" k x] by simp
next
  assume a: "kv = SplitN w (CHR ''='') 2 \<and> length kv = 2 \<and> kv ! 0 \<noteq> [] \<and> kv ! 1 \<noteq> []"
  then obtain k x where kv: "kv = [k, x]" by (auto simp: numeral_2_eq_2 length_Suc_conv)
  with a have "SplitN w (CHR ''='') 2 = [k, x]" "k \<noteq> []" "x \<noteq> []" by auto
  with kv SplitN_2_iff [of w "CHR ''=''" k x] show "var_def_of w kv" by (simp add: var_def_of_def)
qed

lemma parse_defs_iff: "parse_defs v els = Inr kvs \<longleftrightarrow> list_all2 var_def_of els kvs"
proof (induction els arbitrary: kvs)
  case Nil
  then show ?case by auto
next
  case (Cons el els)
  show ?case
  proof (cases kvs)
    case Nil
    then show ?thesis by (cases "parse_defs v els") (auto simp: Let_def)
  next
    case (Cons kv rest)
    then show ?thesis
      using Cons.IH by (cases "parse_defs v els") (auto simp: Let_def var_def_of_iff)
  qed
qed

text \<open>
  The extra iPXE variables are accepted exactly when every space-separated field of the flag is a
  definition \<open>name=value\<close> with a non-empty name and value, the name being the text before the first equals
  sign; the result is then the pairs in the order of the flag, and nothing is dropped or reordered.
\<close>

lemma parseDynamicIPXEVars_exact:
  "parseDynamicIPXEVars v = Inr kvs \<longleftrightarrow>
   list_all2 (\<lambda>w kv. \<exists>k x. kv = [k, x] \<and> k \<noteq> [] \<and> x \<noteq> [] \<and> CHR ''='' \<notin> set k \<and> w = k @ ''='' @ x) (Fields v) kvs"
  using parse_defs_iff [of v "Fields v" kvs]
  by (auto simp: parseDynamicIPXEVars_def var_def_of_def [abs_def] Fields_def)

lemma parse_pairs: "parseDynamicIPXEVars v = Inr kvs \<Longrightarrow> \<forall>kv \<in> set kvs. length kv = 2"
  by (auto simp: parseDynamicIPXEVars_def parse_defs_iff var_def_of_iff in_set_conv_nth list_all2_conv_all_nth split: if_splits)


section \<open>The installers\<close>

text \<open>The OSIE installer of the environment, and the table that the registration builds.\<close>

definition main_osie :: "env_pkg \<Rightarrow> conf \<Rightarrow> cli_config \<Rightarrow> string list list \<Rightarrow> osie_installer" where
  "main_osie E c cf vars =
     osie_Installer c (env_Get E ''DATA_MODEL_VERSION'') (env_Get E ''TINKERBELL_GRPC_AUTHORITY'') (cf_extraKernelArgs cf)
       (env_Get E ''DOCKER_REGISTRY'') (env_Get E ''REGISTRY_USERNAME'') (env_Get E ''REGISTRY_PASSWORD'')
       (env_Bool E ''TINKERBELL_TLS'' True) (cf_osiePathOverride cf) vars"

definition installer_table ::
  "env_pkg \<Rightarrow> conf \<Rightarrow> reporter \<Rightarrow> cli_config \<Rightarrow> string list list \<Rightarrow> installers" where
  "installer_table E c r cf vars = \<lparr>
     in_Default = Some (\<lambda>sc j. on_script (osie_install (main_osie E c cf vars) sc j)),
     in_ByInstaller = [''custom_ipxe'' \<mapsto> (\<lambda>sc j. on_script (custom_setBootScript vars j))],
     in_ByDistro = [''flatcar'' \<mapsto> (\<lambda>sc j. on_script (flatcar_setBootScript c vars j)),
       ''custom_ipxe'' \<mapsto> (\<lambda>sc j. on_script (custom_setBootScript vars j)),
       ''discovery'' \<mapsto> (\<lambda>sc j. on_script (osie_discover (main_osie E c cf vars) sc j)),
       ''vmware'' \<mapsto> vmware_abort r],
     in_BySlug = (\<lambda>slug. if slug = ''vmware'' then None
       else map_option (\<lambda>path sc j. on_script (vmware_script c vars j path)) (slug2Paths slug))\<rparr>"

lemma vmware_BootScript_cases:
  "vmware_BootScript c r vars ''vmware'' = Ok (vmware_abort r)"
  "slug \<noteq> ''vmware'' \<Longrightarrow> slug2Paths slug = Some path \<Longrightarrow>
     vmware_BootScript c r vars slug = Ok (\<lambda>sc j. on_script (vmware_script c vars j path))"
  by (auto simp: vmware_BootScript_def slug2Paths_def split: if_splits)

lemma osie_BootScript_cases:
  "osie_BootScript i ''default'' = Ok (\<lambda>sc j. on_script (osie_install i sc j))"
  "osie_BootScript i ''discover'' = Ok (\<lambda>sc j. on_script (osie_discover i sc j))"
  by (simp_all add: osie_BootScript_def)

text \<open>Slugs registered one after the other.\<close>

lemma register_slugs:
  assumes "\<forall>s \<in> set ss. bs s = Ok (f s)" and "distinct ss" and "\<forall>s \<in> set ss. in_BySlug i s = None"
  shows "run_steps (map (register_vmware bs) ss @ rest) i =
    run_steps rest (i\<lparr>in_BySlug := (\<lambda>s. if s \<in> set ss then Some (f s) else in_BySlug i s)\<rparr>)"
  using assms
proof (induction ss arbitrary: i)
  case Nil
  then show ?case by simp
next
  case (Cons s ss)
  let ?i = "i\<lparr>in_BySlug := (in_BySlug i)(s \<mapsto> f s)\<rparr>"
  have "register_vmware bs s i = Ok ?i"
    using Cons.prems by (simp add: register_vmware_def with_go_def RegisterSlug_def)
  moreover have "run_steps (map (register_vmware bs) ss @ rest) ?i =
      run_steps rest (?i\<lparr>in_BySlug := (\<lambda>t. if t \<in> set ss then Some (f t) else in_BySlug ?i t)\<rparr>)"
    using Cons.prems by (intro Cons.IH) auto
  moreover have "(\<lambda>t. if t \<in> set ss then Some (f t) else in_BySlug ?i t) =
      (\<lambda>t. if t \<in> set (s # ss) then Some (f t) else in_BySlug i t)"
    using Cons.prems(2) by (auto simp: fun_eq_iff)
  ultimately show ?case by simp
qed

definition esxi_slugs :: "string list" where
  "esxi_slugs = [''vmware_esxi_5_5'', ''vmware_esxi_6_0'', ''vmware_esxi_6_5'', ''vmware_esxi_6_7'', ''vmware_esxi_7_0'',
     ''vmware_esxi_7_0U2a'', ''vmware_esxi_6_5_vcf'', ''vmware_esxi_6_7_vcf'', ''vmware_esxi_7_0_vcf'']"

lemma esxi_slugs_paths: "s \<in> set esxi_slugs \<longleftrightarrow> s \<noteq> ''vmware'' \<and> slug2Paths s \<noteq> None"
  by (auto simp: esxi_slugs_def slug2Paths_def split: if_splits)

lemma distinct_esxi: "distinct esxi_slugs"
  by (simp add: esxi_slugs_def)

lemma registerInstallers_Ok:
  "registerInstallers E c r cf =
     (case parseDynamicIPXEVars (cf_ipxeVars cf) of
        Inl err \<Rightarrow> Ok (Inl err)
      | Inr vars \<Rightarrow>
          if env_Get E ''DATA_MODEL_VERSION'' = ''1'' \<and> env_Get E ''TINKERBELL_GRPC_AUTHORITY'' = [] then
            Ok (Inl ''TINKERBELL_GRPC_AUTHORITY is required when in tinkerbell mode'')
          else Ok (Inr (installer_table E c r cf vars)))"
proof (cases "parseDynamicIPXEVars (cf_ipxeVars cf)")
  case (Inl err)
  then show ?thesis by (simp add: registerInstallers_def)
next
  case (Inr vars)
  define f :: "string \<Rightarrow> boot_script" where "f = (\<lambda>s sc j. on_script (vmware_script c vars j (the (slug2Paths s))))"
  let ?v = "vmware_BootScript c r vars"
  have f: "\<forall>s \<in> set esxi_slugs. ?v s = Ok (f s)"
    using esxi_slugs_paths vmware_BootScript_cases(2) by (fastforce simp: f_def)
  have by_slug: "(\<lambda>s. if s \<in> set esxi_slugs then Some (f s) else None) =
      (\<lambda>slug. if slug = ''vmware'' then None
        else map_option (\<lambda>path sc j. on_script (vmware_script c vars j path)) (slug2Paths slug))"
    by (auto simp: fun_eq_iff esxi_slugs_paths f_def)
  define i1 where "i1 = NewInstallers\<lparr>
      in_ByDistro := [''flatcar'' \<mapsto> (\<lambda>sc j. on_script (flatcar_setBootScript c vars j)),
        ''custom_ipxe'' \<mapsto> (\<lambda>sc j. on_script (custom_setBootScript vars j))],
      in_ByInstaller := [''custom_ipxe'' \<mapsto> (\<lambda>sc j. on_script (custom_setBootScript vars j))]\<rparr>"
  define i2 where "i2 = i1\<lparr>
      in_ByDistro := (in_ByDistro i1)(''discovery'' \<mapsto> (\<lambda>sc j. on_script (osie_discover (main_osie E c cf vars) sc j))),
      in_Default := Some (\<lambda>sc j. on_script (osie_install (main_osie E c cf vars) sc j))\<rparr>"
  have head: "run_steps [RegisterDistro ''flatcar'' (flatcar_BootScript c vars ''flatcar''),
      RegisterDistro ''custom_ipxe'' (custom_BootScript vars ''custom_ipxe''),
      RegisterInstaller ''custom_ipxe'' (custom_BootScript vars ''custom_ipxe'')] NewInstallers = Ok i1"
    by (simp add: RegisterDistro_def RegisterInstaller_def NewInstallers_def flatcar_BootScript_def custom_BootScript_def i1_def)
  have osie: "run_steps (with_go (osie_BootScript (main_osie E c cf vars) ''discover'') (RegisterDistro ''discovery'') #
      with_go (osie_BootScript (main_osie E c cf vars) ''default'') RegisterDefaultInstaller # rest) i1 = run_steps rest i2" for rest
    by (simp add: with_go_def osie_BootScript_cases RegisterDistro_def RegisterDefaultInstaller_def i1_def i2_def NewInstallers_def)
  have none: "in_BySlug i2 s = None" for s by (simp add: i2_def i1_def NewInstallers_def)
  then have "\<forall>s \<in> set esxi_slugs. in_BySlug i2 s = None" by simp
  note slugs = register_slugs [OF f distinct_esxi this, of "[with_go (?v ''vmware'') (RegisterDistro ''vmware'')]",
      unfolded esxi_slugs_def list.map append.simps, folded esxi_slugs_def]
  have "run_steps [with_go (?v ''vmware'') (RegisterDistro ''vmware'')]
      (i2\<lparr>in_BySlug := (\<lambda>s. if s \<in> set esxi_slugs then Some (f s) else in_BySlug i2 s)\<rparr>) = Ok (installer_table E c r cf vars)"
    unfolding none by_slug
    by (simp add: with_go_def vmware_BootScript_cases(1) RegisterDistro_def i2_def i1_def NewInstallers_def installer_table_def)
  with slugs show ?thesis
    unfolding registerInstallers_def Inr sum.case head bind_go.simps Let_def main_osie_def [symmetric] osie
    by simp
qed

text \<open>
  C9: the registration of the installers never ends the process on a name that is taken or a slug that is
  unknown; it fails exactly on a malformed variable flag, or in tinkerbell mode without the gRPC authority,
  and otherwise builds one fixed table, in which the ESXi slugs are those that have an image path.
\<close>

theorem registerInstallers_exact:
  "registerInstallers E c r cf =
     (case parseDynamicIPXEVars (cf_ipxeVars cf) of
        Inl err \<Rightarrow> Ok (Inl err)
      | Inr vars \<Rightarrow>
          if env_Get E ''DATA_MODEL_VERSION'' = ''1'' \<and> env_Get E ''TINKERBELL_GRPC_AUTHORITY'' = [] then
            Ok (Inl ''TINKERBELL_GRPC_AUTHORITY is required when in tinkerbell mode'')
          else Ok (Inr (installer_table E c r cf vars)))"
  by (rule registerInstallers_Ok)


lemma installer_table_safe: "installers_safe (installer_table E c r cf vars)"
proof -
  have custom: "boot_safe (\<lambda>sc j. on_script (custom_setBootScript vars j))"
    by (rule boot_safe_on_script) (rule script_safe_custom)
  have flat: "boot_safe (\<lambda>sc j. on_script (flatcar_setBootScript c vars j))"
    by (rule boot_safe_on_script) (rule script_safe_flatcar)
  have slug: "boot_safe f" if "in_BySlug (installer_table E c r cf vars) k = Some f" for k f
    using that vmware_script_boot.boot_safe_axioms by (auto simp: installer_table_def simp del: map_option_eq_Some split: if_splits option.splits)
  have distro: "boot_safe f" if "in_ByDistro (installer_table E c r cf vars) k = Some f" for k f
    using that custom flat osie_discover_boot.boot_safe_axioms vmware_abort_boot.boot_safe_axioms
    unfolding installer_table_def installers.select_convs fun_upd_apply by (auto split: if_splits)
  have inst: "boot_safe f" if "in_ByInstaller (installer_table E c r cf vars) k = Some f" for k f
    using that custom unfolding installer_table_def installers.select_convs fun_upd_apply by (simp split: if_splits)
  have dflt: "boot_safe f" if "in_Default (installer_table E c r cf vars) = Some f" for f
    using that osie_install_boot.boot_safe_axioms unfolding installer_table_def by auto
  from slug distro inst dflt show ?thesis unfolding installers_safe_def by blast
qed

lemma registerInstallers_safe: "registerInstallers E c r cf = Ok (Inr i) \<Longrightarrow> installers_safe i"
  using installer_table_safe by (auto simp: registerInstallers_Ok split: sum.splits if_splits)

section \<open>A data model without a finder\<close>



definition sample_cf :: cli_config where
  "sample_cf = \<lparr>cf_TFTPAddr = ''0.0.0.0:69'', cf_TFTPTimeout = 5000000000, cf_ipxeTFTPEnabled = True, cf_ipxeHTTPEnabled = True,
     cf_ipxeRemoteTFTPAddr = [], cf_ipxeRemoteHTTPAddr = [], cf_ipxeVars = ''a=b c=d=e'',
     cf_httpAddr = ''0.0.0.0:80'', cf_dhcpAddr = ''0.0.0.0:67'', cf_syslogAddr = ''0.0.0.0:514'', cf_logLevel = ''info'', cf_extraKernelArgs = [],
     cf_kubeconfig = [], cf_kubeAPI = [], cf_kubeNamespace = [], cf_osiePathOverride = []\<rparr>"

definition sample_dials :: "(unit, unit) dials" where
  "sample_dials = \<lparr>dial_cacher = (\<lambda>_. Inl ''down''), go_json = sample_json, em_post = (\<lambda>_. Inl ''down''),
     dial_tink_hw = Inl ''down'', tink_marshal = (\<lambda>_. Inl ''down''), dial_tink_wf = Inl ''down'', read_file = (\<lambda>_. None),
     dial_kube = (\<lambda>_ _ _. Inl ''down''), kube_convert = (\<lambda>_. STATE_SUCCESS)\<rparr>"

definition sample_env_pkg :: env_pkg where
  "sample_env_pkg = \<lparr>env_Get = (\<lambda>_. []), env_Bool = (\<lambda>_ d. d)\<rparr>"



end
