(* ===== verification/Job_Http.thy ===== *)
theory Job_Http
  imports Job_Ipxe Go_Json "HOL-Library.Multiset"
begin

text \<open>
  The HTTP endpoints of a job: \<open>src/job/http.go\<close>, \<open>src/job/hardware.go\<close>, the public key of
  \<open>src/job/rsa.go\<close>, and the logging wrapper \<open>src/httplog/httplog.go\<close>.  A request carries what reading its
  body and parsing its form return; the JSON decoders are arguments.
\<close>

section \<open>Requests\<close>

record request =
  rq_Method :: string
  rq_RemoteAddr :: string
  rq_Path :: string
  rq_URI :: string
  rq_ContentType :: string
  rq_Body :: "string + bytes"
  rq_PostForm :: "string + (string \<times> string list) list"

text \<open>
  The request bodies besides the phone-home ones: the field \<open>problem\<close>, the list of components, which encodes
  again as it was decoded, and the fields of a user event.
\<close>

record http_codec =
  hc_codec :: codec

definition dec_problem :: "http_codec \<Rightarrow> bytes \<Rightarrow> string + string" where
  "dec_problem k b = or_error (k_json (hc_codec k)) ''problem'' b (Unmarshal (st_struct [(''problem'', st_string)]) b [])"

record component =
  c_Type :: string
  c_Name :: string
  c_Vendor :: string
  c_Model :: string
  c_Serial :: string
  c_FirmwareVersion :: string
  c_Data :: "jval option"

definition st_Component :: "json_pkg \<Rightarrow> component store" where
  "st_Component J = st_struct [
     fld ''type'' c_Type c_Type_update st_string,
     fld ''name'' c_Name c_Name_update st_string,
     fld ''vendor'' c_Vendor c_Vendor_update st_string,
     fld ''model'' c_Model c_Model_update st_string,
     fld ''serial'' c_Serial c_Serial_update st_string,
     fld ''firmware_version'' c_FirmwareVersion c_FirmwareVersion_update st_string,
     fld ''data'' c_Data c_Data_update (st_any J)]"

definition zero_component :: component where
  "zero_component = \<lparr>c_Type = [], c_Name = [], c_Vendor = [], c_Model = [], c_Serial = [], c_FirmwareVersion = [], c_Data = None\<rparr>"

definition Component_json :: "component \<Rightarrow> jval" where
  "Component_json c = JObj [
     (''type'', JStr (c_Type c)), (''name'', JStr (c_Name c)), (''vendor'', JStr (c_Vendor c)), (''model'', JStr (c_Model c)),
     (''serial'', JStr (c_Serial c)), (''firmware_version'', JStr (c_FirmwareVersion c)),
     (''data'', case c_Data c of None \<Rightarrow> JNull | Some v \<Rightarrow> v)]"

text \<open>The slice of components is \<^const>\<open>None\<close> when it is nil, which encodes as null.\<close>

definition st_ComponentsResponse :: "json_pkg \<Rightarrow> component list option store" where
  "st_ComponentsResponse J = st_struct [(''components'', st_ptr [] (st_slice zero_component (st_Component J)))]"

definition ComponentsResponse_json :: "component list option \<Rightarrow> jval" where
  "ComponentsResponse_json cs =
     JObj [(''components'', case cs of None \<Rightarrow> JNull | Some l \<Rightarrow> JList (map Component_json l))]"

definition dec_components :: "http_codec \<Rightarrow> bytes \<Rightarrow> string + jval" where
  "dec_components k b =
     (let J = k_json (hc_codec k)
      in or_error J ''components'' b (map_option ComponentsResponse_json (Unmarshal (st_ComponentsResponse J) b None)))"

definition dec_userEvent :: "http_codec \<Rightarrow> bytes \<Rightarrow> (int \<times> string \<times> string) option" where
  "dec_userEvent k b = Unmarshal (st_struct [
     fld ''code'' fst apfst st_int,
     fld ''state'' (\<lambda>u. fst (snd u)) (\<lambda>f. apsnd (apfst f)) st_string,
     fld ''message'' (\<lambda>u. snd (snd u)) (\<lambda>f. apsnd (apsnd f)) st_string]) b (0, [], [])"

definition job_readClose :: "request \<Rightarrow> string + bytes" where
  "job_readClose rq = (case rq_Body rq of Inl err \<Rightarrow> Inl (''reading file: '' @ err) | Inr b \<Rightarrow> Inr b)"

definition w_OK :: "writer \<Rightarrow> writer" where
  "w_OK w = w_Write [] (WriteHeader 200 w)"

section \<open>Phone home\<close>

text \<open>\<open>postData[key] = value[0]\<close> for every key of the form.\<close>

fun first_values :: "(string \<times> string list) list \<Rightarrow> (string \<times> string) list go" where
  "first_values [] = Ok []"
| "first_values ((key, v) # form) =
     bind_go (at v 0) (\<lambda>x. map_ok (\<lambda>rest. (key, x) # rest) (first_values form))"

text \<open>The JSON encoder writes the keys of a map in order, and a newline at the end.\<close>

definition form_json :: "(string \<times> string) list \<Rightarrow> bytes" where
  "form_json postData = json_Marshal (JObj (map (\<lambda>(k, v). (k, JStr v)) (sort_key fst postData))) @ [CHR 0x0A]"

definition phone_home_status :: "codec \<Rightarrow> reporter \<Rightarrow> bytes \<Rightarrow> job \<Rightarrow> writer \<Rightarrow> rcall list \<Rightarrow> (writer \<times> rcall list) go" where
  "phone_home_status k r b j w tr = map_ok (\<lambda>(_, tr'). (w_OK w, tr')) (phoneHome k r b j tr)"

definition ServePhoneHomeEndpoint ::
  "http_codec \<Rightarrow> reporter \<Rightarrow> job \<Rightarrow> request \<Rightarrow> writer \<Rightarrow> rcall list \<Rightarrow> (writer \<times> rcall list) go" where
  "ServePhoneHomeEndpoint k r j rq w tr =
     (if rq_ContentType rq = ''application/json'' \<or> rq_ContentType rq = [] then
        (case job_readClose rq of
           Inl err \<Rightarrow> Ok (WriteHeader 400 w, job_Error r (''reading phone-home body: '' @ err) j tr)
         | Inr b \<Rightarrow> phone_home_status (hc_codec k) r b j w tr)
      else if rq_ContentType rq = ''application/x-www-form-urlencoded'' then
        (case rq_PostForm rq of
           Inl err \<Rightarrow> Ok (WriteHeader 400 w, job_Error r (''parsing http form: '' @ err) j tr)
         | Inr form \<Rightarrow>
             bind_go (first_values form) (\<lambda>postData. phone_home_status (hc_codec k) r (form_json postData) j w tr))
      else Ok (WriteHeader 400 w, tr))"

section \<open>Problems and components\<close>

definition ServeProblemEndpoint ::
  "http_codec \<Rightarrow> reporter \<Rightarrow> job \<Rightarrow> request \<Rightarrow> writer \<Rightarrow> rcall list \<Rightarrow> writer \<times> rcall list" where
  "ServeProblemEndpoint k r j rq w tr =
     (case job_readClose rq of
        Inl err \<Rightarrow> (WriteHeader 400 w, job_Error r (''reading problem body: '' @ err) j tr)
      | Inr b \<Rightarrow>
          (case dec_problem k b of
             Inl err \<Rightarrow> (WriteHeader 400 w, job_Error r (''parsing problem body as json: '' @ err) j tr)
           | Inr problem \<Rightarrow>
               (case job_PostHardwareProblem r problem j tr of
                  (ok, tr') \<Rightarrow> if \<not> ok then (WriteHeader 502 w, tr') else (w_OK w, tr'))))"

text \<open>The decoded components encode again: every value the decoder builds is a JSON value.\<close>

definition AddHardware ::
  "http_codec \<Rightarrow> reporter \<Rightarrow> job \<Rightarrow> request \<Rightarrow> writer \<Rightarrow> rcall list \<Rightarrow> (writer \<times> rcall list) go" where
  "AddHardware k r j rq w tr =
     (case job_readClose rq of
        Inl err \<Rightarrow> Ok (WriteHeader 400 w, tr)
      | Inr b \<Rightarrow>
          (case dec_components k b of
             Inl err \<Rightarrow> Ok (WriteHeader 400 w, tr)
           | Inr response \<Rightarrow>
               bind_go (deref (j_hardware j)) (\<lambda>h.
               let c = PostHardwareComponent (HardwareID h) (ComponentsBody response)
               in case r tr c of
                    Inl err \<Rightarrow> Ok (WriteHeader 400 w, tr @ [c])
                  | Inr _ \<Rightarrow> Ok (w_OK w, tr @ [c]))))"

definition ServePublicKey :: "bytes \<Rightarrow> request \<Rightarrow> writer \<Rightarrow> writer" where
  "ServePublicKey pub rq w =
     (if rq_Method rq = ''GET'' \<or> rq_Method rq = ''HEAD'' then w_Write pub (WriteHeader 200 w)
      else WriteHeader 405 w)"

text \<open>
  Setting up the key pair: \<open>gen\<close>, \<open>pub_of\<close> and \<open>marshal\<close> are the generation of the key, the SSH encoding of its public
  half and the line for it.
\<close>

definition initRSA :: "(string + 'k) \<Rightarrow> ('k \<Rightarrow> string + 'q) \<Rightarrow> ('q \<Rightarrow> bytes) \<Rightarrow> ('k \<times> bytes) go" where
  "initRSA gen pub_of marshal =
     (case gen of
        Inl err \<Rightarrow> Fault (FatalLog (''generate RSA key: '' @ err))
      | Inr k \<Rightarrow>
          (case pub_of k of
             Inl err \<Rightarrow> Fault (FatalLog (''encode SSH public key: '' @ err))
           | Inr pub \<Rightarrow> Ok (k, marshal pub)))"

section \<open>The log of requests\<close>

record log_writer =
  lw_w :: writer
  lw_StatusCode :: nat

definition lw_Write :: "bytes \<Rightarrow> log_writer \<Rightarrow> log_writer" where
  "lw_Write b w =
     (let w1 = (if lw_StatusCode w = 0 then w\<lparr>lw_StatusCode := 200\<rparr> else w)
      in w1\<lparr>lw_w := w_Write b (lw_w w1)\<rparr>)"

definition lw_WriteHeader :: "nat \<Rightarrow> log_writer \<Rightarrow> log_writer" where
  "lw_WriteHeader code w =
     (let w1 = (if lw_StatusCode w = 0 then w\<lparr>lw_StatusCode := code\<rparr> else w)
      in w1\<lparr>lw_w := WriteHeader code (lw_w w1)\<rparr>)"

definition clientIP :: "string \<Rightarrow> string" where
  "clientIP str = (case SplitHostPort str of None \<Rightarrow> ''?'' | Some host \<Rightarrow> host)"

text \<open>The line after a request, if there is one: method, URI, client and status.\<close>

definition httplog_ServeHTTP ::
  "(request \<Rightarrow> log_writer \<Rightarrow> log_writer) \<Rightarrow> request \<Rightarrow> writer \<Rightarrow> (string \<times> string \<times> string \<times> nat) option \<times> writer" where
  "httplog_ServeHTTP h rq w =
     (let client = clientIP (rq_RemoteAddr rq);
          log = \<not> (rq_URI rq = ''/metrics'' \<or> HasPrefix (rq_URI rq) ''/_packet'');
          res = h rq \<lparr>lw_w = w, lw_StatusCode = 0\<rparr>
      in (if log then Some (rq_Method rq, rq_URI rq, client, lw_StatusCode res) else None, lw_w res))"

lemmas job_http_defs [go_defs] =
  job_readClose_def w_OK_def form_json_def phone_home_status_def ServePhoneHomeEndpoint_def ServeProblemEndpoint_def
  AddHardware_def ServePublicKey_def initRSA_def lw_Write_def lw_WriteHeader_def clientIP_def httplog_ServeHTTP_def

section \<open>The status that is logged\<close>

text \<open>What a handler does with its response writer, in order.\<close>

datatype wop = WHeader nat | WBody bytes

fun wop_writer :: "wop \<Rightarrow> writer \<Rightarrow> writer" where
  "wop_writer (WHeader n) w = WriteHeader n w"
| "wop_writer (WBody b) w = w_Write b w"

fun wop_log :: "wop \<Rightarrow> log_writer \<Rightarrow> log_writer" where
  "wop_log (WHeader n) w = lw_WriteHeader n w"
| "wop_log (WBody b) w = lw_Write b w"

text \<open>The wrapper is a refinement: it passes every operation on and keeps the first status.\<close>

definition tracks :: "log_writer \<Rightarrow> writer \<Rightarrow> bool" where
  "tracks l w \<longleftrightarrow> lw_w l = w \<and> lw_StatusCode l = (case w_code w of None \<Rightarrow> 0 | Some n \<Rightarrow> n) \<and> w_code w \<noteq> Some 0"

lemma tracks_step: "tracks l w \<Longrightarrow> WHeader 0 \<noteq> x \<Longrightarrow> tracks (wop_log x l) (wop_writer x w)"
  by (cases x)
    (auto simp: tracks_def lw_Write_def lw_WriteHeader_def w_Write_def WriteHeader_def Let_def split: option.splits)

lemma tracks_run: "tracks l w \<Longrightarrow> WHeader 0 \<notin> set ops \<Longrightarrow> tracks (fold wop_log ops l) (fold wop_writer ops w)"
  by (induction ops arbitrary: l w) (simp_all add: tracks_step)

lemma httplog_passes:
  assumes "WHeader 0 \<notin> set ops"
  shows "httplog_ServeHTTP (\<lambda>_. fold wop_log ops) rq new_writer =
    (if rq_URI rq = ''/metrics'' \<or> HasPrefix (rq_URI rq) ''/_packet'' then None
     else Some (rq_Method rq, rq_URI rq, clientIP (rq_RemoteAddr rq),
       if ops = [] then 0 else status (fold wop_writer ops new_writer)),
     fold wop_writer ops new_writer)"
proof -
  have "tracks \<lparr>lw_w = new_writer, lw_StatusCode = 0\<rparr> new_writer" by (simp add: tracks_def new_writer_def)
  from tracks_run [OF this assms] have t: "tracks (fold wop_log ops \<lparr>lw_w = new_writer, lw_StatusCode = 0\<rparr>) (fold wop_writer ops new_writer)" .
  have "w_code (wop_writer x w) \<noteq> None" for x w
    by (cases x) (auto simp: w_Write_def WriteHeader_def Let_def split: option.splits)
  then have "ops = [] \<or> w_code (fold wop_writer ops new_writer) \<noteq> None"
    by (cases ops rule: rev_cases) auto
  then have "lw_StatusCode (fold wop_log ops \<lparr>lw_w = new_writer, lw_StatusCode = 0\<rparr>) =
      (if ops = [] then 0 else status (fold wop_writer ops new_writer))"
    using t by (auto simp: tracks_def status_def new_writer_def)
  with t show ?thesis by (simp add: httplog_ServeHTTP_def Let_def tracks_def)
qed

section \<open>Phone home with a form\<close>

lemma first_values_Ok:
  "first_values form = (if \<forall>kv \<in> set form. snd kv \<noteq> [] then Ok (map (\<lambda>(k, v). (k, hd v)) form) else Fault IndexRange)"
  by (induction form rule: first_values.induct) (auto simp: at_def hd_conv_nth)

lemma form_json_order:
  assumes "mset form = mset form'" and "distinct (map fst form)" and "first_values form = Ok p"
  shows "\<exists>p'. first_values form' = Ok p' \<and> form_json p' = form_json p"
proof -
  let ?f = "\<lambda>(k :: string, v :: string list). (k, hd v)"
  from assms(1) have set: "set form = set form'" by (metis set_mset_mset)
  with assms(3) have p: "p = map ?f form" and p': "first_values form' = Ok (map ?f form')"
    by (auto simp: first_values_Ok split: if_splits)
  have m: "mset (map ?f form') = mset p" unfolding p by (simp only: mset_map assms(1))
  have "map fst p = map fst form" unfolding p by (simp add: case_prod_beta comp_def)
  with assms(2) have "inj_on fst (set p)" by (metis distinct_map)
  then have "inj_on fst (set (map ?f form'))" using arg_cong [OF m, of set_mset] by simp
  then have "sort_key fst (map ?f form') = sort_key fst p"
    using m by (intro sort_key_inj_key_eq) simp_all
  with p' show ?thesis by (simp add: form_json_def)
qed


section \<open>Samples\<close>

definition sample_remote :: string where
  "sample_remote = ''10.1.2.3:80''"

text \<open>The job of a client at the sample address, by the parts that the endpoints read.\<close>

lemma sample_remote_job:
  "\<exists>dh. CreateFromRemoteAddr ref_dhcp4 sample_conf sample_finder ''engine'' sample_remote =
     Ok (Inr ((new_job ''engine'')\<lparr>j_ip := ParseIP ''10.1.2.3'', j_mac := sample_mac, j_hardware := Some (HCacher sample_hc),
       j_instance := Some sample_instance, j_dhcp := dh\<rparr>))"
proof -
  let ?j = "(new_job ''engine'')\<lparr>j_ip := ParseIP ''10.1.2.3'', j_mac := sample_mac\<rparr>"
  have m: "j_mac ?j = j_mac sample_job" by (simp add: sample_job_def)
  have "To4 (ip_Address sample_ip) \<noteq> []" by (simp add: sample_setup_facts)
  from job_setup_value [OF ref_dhcp4_ok sample_setup_facts(1), of ?j, unfolded m, OF sample_setup_facts(2) this sample_setup_facts(4,5,6)]
  obtain dh where s: "job_setup ref_dhcp4 sample_conf (DCacher sample_dc) ?j =
      Ok (Inr (?j\<lparr>j_hardware := Some (disc_Hardware (DCacher sample_dc)), j_instance := Some sample_instance, j_dhcp := dh\<rparr>))"
    by auto
  have h: "disc_Hardware (DCacher sample_dc) = HCacher sample_hc" by (simp add: sample_dc_def)
  have p: "SplitHostPort sample_remote = Some ''10.1.2.3''" by (simp add: SplitHostPort_def sample_remote_def)
  have z: "mac_String sample_mac \<noteq> MACAddr_String MinMAC"
    by (simp add: MACAddr_String_def MinMAC_list sample_mac_def mac_String_def hex_byte2_def hex_digit_def)
  show ?thesis
    using s z unfolding h by (auto simp: CreateFromRemoteAddr_def CreateFromIP_def p sample_finder_def dc_GetMAC_def sample_primary Let_def)
qed


section \<open>What a form reports\<close>

text \<open>
  A form that the decoders read field by field: one value for a key, keys of valid text, none that the decoders would
  take for a field by its letters alone, and no field that is not a string.
\<close>

definition event_keys :: "string list" where
  "event_keys = [''type'', ''password'', ''instance_id'', ''reason'', ''private'']"

definition plain_form :: "(string \<times> string) list \<Rightarrow> bool" where
  "plain_form f \<longleftrightarrow> distinct (map fst f) \<and>
     list_all (\<lambda>(k, v). coerce k = k \<and> (fold_key k \<in> set event_keys \<longrightarrow> k \<in> {''type'', ''instance_id'', ''reason''})) f"

definition form_value :: "(string \<times> string) list \<Rightarrow> string \<Rightarrow> string" where
  "form_value f k = (case map_of f k of None \<Rightarrow> [] | Some v \<Rightarrow> coerce v)"

definition form_poster :: "(string \<times> string) list \<Rightarrow> poster" where
  "form_poster f =
     (if form_value f ''type'' = [] \<and> form_value f ''instance_id'' \<noteq> [] then PEvent (phone_home_event [])
      else if form_value f ''type'' = ''failure'' then PFailure \<lparr>f_Reason = form_value f ''reason'', f_Private = False\<rparr>
      else PEvent \<lparr>e_id = [], e_kind = form_value f ''type'', e_pass = [], e_json = RawBody (form_json f)\<rparr>)"

lemma fold_event_keys: "list_all (\<lambda>k. fold_key k = k) event_keys"
  by code_simp

text \<open>A key of a plain form is looked up among fields with names from the list by its exact name.\<close>

lemma field_of_plain:
  assumes "fold_key k \<in> set event_keys \<longrightarrow> k \<in> {''type'', ''instance_id'', ''reason''}" and "set (map fst fs) \<subseteq> set event_keys"
  shows "field_of fs k = map_of fs k"
proof (cases "map_of fs k")
  case None
  have "fold_key n \<noteq> fold_key k" if "(n, f) \<in> set fs" for n f
  proof
    assume e: "fold_key n = fold_key k"
    have n: "n \<in> set event_keys" using that assms(2) by force
    then have "fold_key n = n" using fold_event_keys by (simp add: list_all_iff)
    with e n have "fold_key k \<in> set event_keys" "fold_key k = n" by simp_all
    then have "k \<in> {''type'', ''instance_id'', ''reason''}" using assms(1) by blast
    then have "fold_key k = k" using fold_event_keys by (auto simp: event_keys_def)
    with \<open>fold_key k = n\<close> None that show False by (force simp: map_of_eq_None_iff)
  qed
  then have "List.find (\<lambda>(n, f). fold_key n = fold_key k) fs = None" by (auto simp: find_None_iff)
  with None show ?thesis by (simp add: field_of_def)
qed (simp add: field_of_def)

definition form_members :: "(string \<times> string) list \<Rightarrow> (string \<times> json) list" where
  "form_members f = map (\<lambda>(k, v). (coerce k, JsStr (coerce v))) f"

lemma form_members_Cons: "form_members ((k, v) # f) = (coerce k, JsStr (coerce v)) # form_members f"
  by (simp add: form_members_def)

lemma form_json_parse: "json_parse (form_json f) = Some (JsObj (form_members (sort_key fst f)))"
proof -
  let ?v = "JObj (map (\<lambda>(k, v). (k, JStr v)) (sort_key fst f))"
  have "json_fits maxNestingDepth ?v" by (auto simp: maxNestingDepth_def)
  from json_parse_Marshal_ws [OF this, of "[CHR 0x0A]"] show ?thesis
    by (simp add: form_json_def form_members_def is_ws_def case_prod_unfold comp_def)
qed

lemma plain_form_sort:
  assumes "plain_form f"
  shows "plain_form (sort_key fst f)" and "map_of (sort_key fst f) = map_of f"
proof -
  have d: "distinct (map fst f)" using assms by (simp add: plain_form_def)
  have "mset (map fst (sort_key fst f)) = mset (map fst f)" by simp
  then have d': "distinct (map fst (sort_key fst f))" using d mset_eq_imp_distinct_iff by blast
  with assms show "plain_form (sort_key fst f)" by (auto simp: plain_form_def list_all_iff)
  show "map_of (sort_key fst f) = map_of f"
    using d d' by (intro map_of_inject_set [THEN iffD2]) simp_all
qed

lemma st_members_form:
  assumes "plain_form ((k, v) # f)" and "set (map fst fs) \<subseteq> set event_keys"
  shows "st_members fs (form_members ((k, v) # f)) r =
    (case map_of fs k of
       None \<Rightarrow> st_members fs (form_members f) r
     | Some st \<Rightarrow> (case st (JsStr (coerce v)) r of None \<Rightarrow> None | Some r' \<Rightarrow> st_members fs (form_members f) r'))"
  using assms field_of_plain [of k fs] by (simp add: plain_form_def form_members_Cons)

lemma plain_form_Cons:
  assumes "plain_form ((k, v) # f)"
  shows "plain_form f" and "map_of f k = None" and "k \<noteq> ''password''" and "k \<noteq> ''private''"
proof -
  show "plain_form f" "map_of f k = None" using assms by (simp_all add: plain_form_def map_of_eq_None_iff)
  have h: "k \<in> set event_keys \<longrightarrow> k \<in> {''type'', ''instance_id'', ''reason''}"
    using assms fold_event_keys by (auto simp: plain_form_def list_all_iff)
  have "''password'' \<in> set event_keys" "''private'' \<in> set event_keys"
    "''password'' \<notin> {''type'', ''instance_id'', ''reason''}" "''private'' \<notin> {''type'', ''instance_id'', ''reason''}"
    by (simp_all add: event_keys_def)
  with h show "k \<noteq> ''password''" "k \<noteq> ''private''" by metis+
qed

lemma st_event_form:
  assumes "plain_form f"
  shows "st_event (JsObj (form_members f)) r = Some (r\<lparr>
     ef_Type := (case map_of f ''type'' of None \<Rightarrow> ef_Type r | Some v \<Rightarrow> coerce v),
     ef_Instance := (case map_of f ''instance_id'' of None \<Rightarrow> ef_Instance r | Some v \<Rightarrow> coerce v)\<rparr>)"
  using assms
proof (induction f arbitrary: r)
  case Nil
  then show ?case by (simp add: st_event_def st_struct_def form_members_def)
next
  case (Cons kv f)
  obtain k v where kv: "kv = (k, v)" by (cases kv)
  note p = plain_form_Cons [OF Cons.prems [unfolded kv]]
  note IH = Cons.IH [OF p(1), unfolded st_event_def st_struct_def json.case]
  have "st_members fs (form_members (kv # f)) r = Some (r\<lparr>
      ef_Type := (case map_of (kv # f) ''type'' of None \<Rightarrow> ef_Type r | Some v \<Rightarrow> coerce v),
      ef_Instance := (case map_of (kv # f) ''instance_id'' of None \<Rightarrow> ef_Instance r | Some v \<Rightarrow> coerce v)\<rparr>)"
    if fs: "fs = [fld ''type'' ef_Type ef_Type_update st_string, fld ''password'' ef_Password ef_Password_update st_bytes,
       fld ''instance_id'' ef_Instance ef_Instance_update st_string]" for fs
  proof -
    have "set (map fst fs) \<subseteq> set event_keys" by (simp add: fs fld_def event_keys_def)
    note step = st_members_form [OF Cons.prems [unfolded kv] this]
    show ?thesis
    proof (cases "k = ''type'' \<or> k = ''instance_id''")
      case True
      with p(2) IH [folded fs] show ?thesis
        unfolding kv step by (elim disjE) (simp_all add: fs fld_def st_string_def split: option.split)
    next
      case False
      with p(3) have "map_of fs k = None" by (simp add: fs fld_def)
      with False IH [folded fs] show ?thesis unfolding kv step by (auto simp: eq_commute [of _ k])
    qed
  qed
  then show ?case by (simp add: st_event_def st_struct_def)
qed

lemma st_failure_form:
  assumes "plain_form f"
  shows "st_failure (JsObj (form_members f)) r =
    Some (r\<lparr>f_Reason := (case map_of f ''reason'' of None \<Rightarrow> f_Reason r | Some v \<Rightarrow> coerce v)\<rparr>)"
  using assms
proof (induction f arbitrary: r)
  case Nil
  then show ?case by (simp add: st_failure_def st_struct_def form_members_def)
next
  case (Cons kv f)
  obtain k v where kv: "kv = (k, v)" by (cases kv)
  note p = plain_form_Cons [OF Cons.prems [unfolded kv]]
  note IH = Cons.IH [OF p(1), unfolded st_failure_def st_struct_def json.case]
  have "st_members fs (form_members (kv # f)) r =
      Some (r\<lparr>f_Reason := (case map_of (kv # f) ''reason'' of None \<Rightarrow> f_Reason r | Some v \<Rightarrow> coerce v)\<rparr>)"
    if fs: "fs = [fld ''reason'' f_Reason f_Reason_update st_string, fld ''private'' f_Private f_Private_update st_bool]" for fs
  proof -
    have "set (map fst fs) \<subseteq> set event_keys" by (simp add: fs fld_def event_keys_def)
    note step = st_members_form [OF Cons.prems [unfolded kv] this]
    show ?thesis
    proof (cases "k = ''reason''")
      case True
      with p(2) IH [folded fs] show ?thesis unfolding kv step by (simp add: fs fld_def st_string_def)
    next
      case False
      with p(4) have "map_of fs k = None" by (simp add: fs fld_def)
      with False IH [folded fs] show ?thesis unfolding kv step by (auto simp: eq_commute [of _ k])
    qed
  qed
  then show ?case by (simp add: st_failure_def st_struct_def)
qed

lemma posterFromJSON_form:
  assumes "plain_form f"
  shows "posterFromJSON k (form_json f) = Ok (Inr (form_poster f))"
proof -
  note s = plain_form_sort [OF assms]
  have ne: "form_json f \<noteq> []" by (simp add: form_json_def)
  have e: "dec_event k (form_json f) =
      Inr \<lparr>ef_Type = form_value f ''type'', ef_Password = [], ef_Instance = form_value f ''instance_id''\<rparr>"
    by (simp add: dec_event_def Unmarshal_def form_json_parse st_event_form [OF s(1)] s(2) or_error_def form_value_def split: option.split)
  have f: "dec_failure k (form_json f) = Inr \<lparr>f_Reason = form_value f ''reason'', f_Private = False\<rparr>"
    by (simp add: dec_failure_def Unmarshal_def form_json_parse st_failure_form [OF s(1)] s(2) or_error_def form_value_def split: option.split)
  show ?thesis by (simp add: posterFromJSON_def ne e f form_poster_def)
qed


definition ipxe_form :: "(string \<times> string) list" where
  "ipxe_form = [(''body'', ''Device connected to DHCP system''), (''type'', ''provisioning.104.01'')]"

definition ipxe_form_request :: request where
  "ipxe_form_request = \<lparr>rq_Method = ''POST'', rq_RemoteAddr = ''10.1.2.3:999'', rq_Path = ''/phone-home'', rq_URI = ''/phone-home'',
     rq_ContentType = ''application/x-www-form-urlencoded'', rq_Body = Inr [],
     rq_PostForm = Inr (map (\<lambda>(key, v). (key, [v])) ipxe_form)\<rparr>"


end
