(* ===== verification/Vmware_Kickstart.thy ===== *)
theory Vmware_Kickstart
  imports Installer_Vmware Job_Http
begin

text \<open>
  The kickstart endpoint of \<open>src/installers/vmware/kickstart.go\<close>: the text of the template after its head, line
  by line, with the address of the server in the places where the template has it.
\<close>

section \<open>The template\<close>

definition ks_firstboot :: "string list" where
  \<open>ks_firstboot = [
    [],
    ''%firstboot --interpreter=busybox'',
    ''echo "Packet firstboot executed" > /packet-firstboot.log'',
    ''echo "Packet firstboot executed" > /var/log/packet-firstboot.log'',
    ''# Fetch packet MD'',
    ''wget http://metadata.packet.net/metadata -O /tmp/metadata'',
    ''uuid=$(cat /tmp/metadata | python -c "import sys, json; print(json.load(sys.stdin)['id'])")'',
    ''hostname=$(cat /tmp/metadata | python -c "import sys, json; print(json.load(sys.stdin)['hostname'])")'',
    ''# Set hostname'',
    ''esxcli system hostname set --fqdn=$hostname'',
    ''# Enable shell'',
    ''vim-cmd hostsvc/enable_esx_shell'',
    ''vim-cmd hostsvc/start_esx_shell'',
    ''# Add private network interface'',
    ''esxcli network vswitch standard portgroup add --portgroup-name='Private Network' --vswitch-name=vSwitch0'',
    ''esxcli network ip interface add --interface-name=vmk1 --portgroup-name='Private Network'' @ [CHR 0x27],
    ''# Set the iSCSI IQN'',
    ''iqn=$(cat /tmp/metadata | python -c "import sys, json; print(json.load(sys.stdin)['iqn'])")'',
    ''esxcli iscsi software set --enabled=true'',
    ''esxcli iscsi adapter set -A vmhba64 -n $iqn'',
    ''esxcli iscsi networkportal add -n vmk1 -A vmhba64'',
    ''# Configure IP addresses statically from metadata using python'']\<close>

definition ks_netcfg :: "string list" where
  \<open>ks_netcfg = [
    ''cat >> /tmp/netcfg.py <<EOF'',
    ''import sys'',
    ''import json'',
    ''import subprocess'',
    ''def exec(cmd):'',
    ''  print(cmd + "'' @ [CHR 0x5C] @ ''n")'',
    ''  subprocess.call(cmd, shell=True)'',
    ''with open('/tmp/metadata', 'r') as json_file:'',
    ''  packet_metadata = json.load(json_file)'',
    [],
    ''try:'',
    ''  netcfg_mgmt_type = packet_metadata['customdata']['network']['management_ip_type']'',
    ''except:'',
    ''  netcfg_mgmt_type = "Null"'',
    [],
    ''private_subnets = packet_metadata.get('private_subnets')'',
    ''if private_subnets is None:'',
    ''  private_subnets = ['10.0.0.0/8']'',
    [],
    ''if netcfg_mgmt_type == "public":'',
    ''  print ("Custom data management IP type is set private for this instance...'' @ [CHR 0x5C] @ ''n")'',
    [],
    ''  for addr in packet_metadata['network']['addresses']:'',
    ''    if addr['public'] == True:'',
    ''      interface = "vmk0"'',
    ''    else:'',
    ''      next'',
    ''    if addr['address_family'] == 4:'',
    ''      exec("esxcli network ip interface ipv4 set -i " + interface + " -t static -I " + addr['address'] + " -N " + addr['netmask'] + " -g " + addr['gateway'])'',
    ''    elif addr['address_family'] == 6:'',
    ''      exec("esxcli network ip interface ipv6 set -i " + interface + " -e true")'',
    ''      exec("esxcli network ip interface ipv6 address add -i " + interface + " -I " + addr['address'] + "/" + str(addr['cidr']))'',
    ''      exec("esxcli network ip interface ipv6 set -i " + interface + " -g " + addr['gateway'])'',
    ''    else:'',
    ''      print("Skipping unknown address_family [" + addr['address_family'] +"]'' @ [CHR 0x5C] @ ''n")'',
    [],
    ''elif netcfg_mgmt_type == "private":'',
    ''  print ("Custom data management IP type is set private for this instance...'' @ [CHR 0x5C] @ ''n")'',
    [],
    ''  for addr in packet_metadata['network']['addresses']:'',
    ''    if addr['public'] == True:'',
    ''      next'',
    ''    else:'',
    ''      interface = "vmk0"'',
    ''    if addr['address_family'] == 4:'',
    ''      interface = "vmk0"'',
    ''      exec("esxcli network ip interface ipv4 set -i " + interface + " -t static -I " + addr['address'] + " -N " + addr['netmask'] + " -g " + addr['gateway'])'',
    ''    elif addr['address_family'] == 6:'',
    ''      exec("esxcli network ip interface ipv6 set -i " + interface + " -e true")'',
    ''      exec("esxcli network ip interface ipv6 address add -i " + interface + " -I " + addr['address'] + "/" + str(addr['cidr']))'',
    ''      exec("esxcli network ip interface ipv6 set -i " + interface + " -g " + addr['gateway'])'',
    ''    else:'',
    ''      print("Skipping unknown address_family [" + addr['address_family'] +"]'' @ [CHR 0x5C] @ ''n")'',
    [],
    ''    exec("esxcli network ip set --ipv6-enabled=false")'',
    [],
    ''elif netcfg_mgmt_type == "both" or netcfg_mgmt_type == "Null":'',
    ''  print ("Custom data management IP type is set " + netcfg_mgmt_type + ". Configuring both as default for this instance...'' @ [CHR 0x5C] @ ''n")'',
    [],
    ''  for addr in packet_metadata['network']['addresses']:'',
    ''    if addr['public'] == True:'',
    ''      interface = "vmk0"'',
    ''    else:'',
    ''      interface = "vmk1"'',
    ''    if addr['address_family'] == 4:'',
    ''      if interface == "vmk1":'',
    ''        exec("esxcli network ip interface ipv4 set -i " + interface + " -t static -I " + addr['address'] + " -N " + addr['netmask'])'',
    ''        for route in private_subnets:'',
    ''          exec("esxcli network ip route ipv4 add --gateway " + addr['gateway'] + " --network " + route)'',
    ''      else:'',
    ''        exec("esxcli network ip interface ipv4 set -i " + interface + " -t static -I " + addr['address'] + " -N " + addr['netmask'] + " -g " + addr['gateway'])'',
    ''    elif addr['address_family'] == 6:'',
    ''      exec("esxcli network ip interface ipv6 set -i " + interface + " -e true")'',
    ''      exec("esxcli network ip interface ipv6 address add -i " + interface + " -I " + addr['address'] + "/" + str(addr['cidr']))'',
    ''      exec("esxcli network ip interface ipv6 set -i " + interface + " -g " + addr['gateway'])'',
    ''    else:'',
    ''      print("Skipping unknown address_family [" + addr['address_family'] +"]'' @ [CHR 0x5C] @ ''n")'',
    [],
    ''if netcfg_mgmt_type == "manual":'',
    ''  print ("Custom data management IP type manual set for this instance...'' @ [CHR 0x5C] @ ''n")'',
    ''  network = packet_metadata['customdata']['network']'',
    ''  exec("esxcli network ip interface ipv4 set -i " + network['interface'] + " -t static -I " + network['ipv4_address'] + " -N " + network['ipv4_netmask'] + " -g " + network['ipv4_gateway'])'',
    ''  exec("esxcli network vswitch standard portgroup set -p='' @ [CHR 0x5C] @ ''"Management Network'' @ [CHR 0x5C] @ ''" -v=" + network['ipv4_vlan'])'',
    ''  exec("esxcli network ip set --ipv6-enabled=false")'',
    [],
    ''if netcfg_mgmt_type == "dhcp":'',
    ''  print ("Custom data management IP type DHCP set for this instance. Nothing to do...'' @ [CHR 0x5C] @ ''n")'',
    [],
    ''else:'',
    ''  print ("Custom data management IP type NOT set for this instance...'' @ [CHR 0x5C] @ ''n")'',
    ''EOF'']\<close>

definition ks_customize :: "string list" where
  \<open>ks_customize = [
    ''cat << 'EOF' > /tmp/customize.sh'',
    ''#/bin/sh'',
    ''metadata=/tmp/metadata'',
    [],
    ''custom_data () {'',
    ''        python -c "import json; print(json.load(open('$metadata'))['customdata']$1)" 2>/dev/null'',
    ''        RESULT=$?'',
    ''        if [ $RESULT -eq 0 ]; then'',
    ''                return'',
    ''        else'',
    ''                echo "null"'',
    ''        fi'',
    ''}'',
    [],
    ''## TODO: Consider validating customdata, but maybe the API is a better place for that'',
    [],
    ''sshset=$(custom_data "['sshd']['enabled']")'',
    ''sshpwauth=$(custom_data "['sshd']['pwauth']")'',
    ''esxishellset=$(custom_data "['esxishell']['enabled']")'',
    ''kickstartfburl=$(custom_data "['kickstart']['firstboot_url']")'',
    ''kickstartfbshell=$(custom_data "['kickstart']['firstboot_shell']")'',
    ''kickstartfbshellcmd=$(custom_data "['kickstart']['firstboot_shell_cmd']")'',
    [],
    ''# SSHd config'',
    ''if [ "$sshset" == "true" ]; then'',
    [CHR 0x09] @ ''echo "Enabling SSHd"'',
    [CHR 0x09] @ ''vim-cmd hostsvc/enable_ssh'',
    [CHR 0x09] @ ''wget -q http://metadata.packet.net/2009-04-04/meta-data/public-keys -O /etc/ssh/keys-root/authorized_keys'',
    ''elif [ "$sshset" == "false" ]; then'',
    [CHR 0x09] @ ''echo "Disabling SSHd"'',
    [CHR 0x09] @ ''vim-cmd hostsvc/disable_ssh'',
    ''else'',
    [CHR 0x09] @ ''echo "Skipping SSHd config"'',
    ''fi'',
    [],
    ''# SSHd pass auth config'',
    ''if [ "$sshpwauth" == "true" ]; then'',
    [CHR 0x09] @ ''echo "Enabling SSHd password auth"'',
    [CHR 0x09] @ ''sed -i 's/ChallengeResponseAuthentication no/ChallengeResponseAuthentication yes/g' /etc/ssh/sshd_config'',
    ''elif [ "$sshpwauth" == "false" ]; then'',
    [CHR 0x09] @ ''echo "Disabling SSHd password auth and force keys (default)"'',
    [CHR 0x09] @ ''echo 'ChallengeResponseAuthentication no' >> /etc/ssh/sshd_config'',
    ''else'',
    ''        echo "Skipping SSHd password auth config"'',
    ''fi'',
    [],
    ''# ESXishell config'',
    ''if [ "$esxishellset" == "true" ]; then'',
    [CHR 0x09] @ ''echo "Enabling ESXishell"'',
    [CHR 0x09] @ ''vim-cmd hostsvc/enable_esx_shell'',
    [CHR 0x09] @ ''vim-cmd hostsvc/start_esx_shell'',
    ''elif [ "$esxishellset" == "false" ]; then'',
    [CHR 0x09] @ ''echo "Disabling ESXishell"'',
    [CHR 0x09] @ ''vim-cmd hostsvc/disable_esx_shell'',
    [CHR 0x09] @ ''vim-cmd hostsvc/stop_esx_shell'',
    ''else'',
    [CHR 0x09] @ ''echo "Skipping ESXishell config"'',
    ''fi'',
    [],
    ''# Kickstart firstboot supplemental config URL'',
    ''if [ "$kickstartfburl" != "null" ]; then'',
    [CHR 0x09] @ ''echo "Using supplemental kickstart firstboot URL: $kickstartfburl"'',
    [CHR 0x09] @ ''if wget -q "$kickstartfburl" -O /tmp/ks-firstboot-sup.sh; then'',
    [CHR 0x09, CHR 0x09] @ ''echo "========Begin execution of supplemental firstboot kickstart"'',
    [CHR 0x09, CHR 0x09] @ ''chmod +x /tmp/ks-firstboot-sup.sh && /tmp/ks-firstboot-sup.sh'',
    [CHR 0x09, CHR 0x09] @ ''echo "========End execution of supplemental firstboot kickstart"'',
    [CHR 0x09] @ ''else'',
    [CHR 0x09, CHR 0x09] @ ''echo "ERROR: Custom kickstart firstboot URL '$kickstartfburl' is NOT accessible!"'',
    [CHR 0x09, CHR 0x09] @ ''exit 1'',
    [CHR 0x09] @ ''fi'',
    ''else'',
    [CHR 0x09] @ ''echo "Skipping supplemental kickstart firstboot URL"'',
    ''fi'',
    [],
    ''# Kickstart firstboot supplemental shell commands'',
    ''if [ "$kickstartfbshellcmd" != "null" ]; then'',
    ''        echo "Using kickstart firstboot shell command(s)"'',
    [CHR 0x09] @ ''if [ "$kickstartfbshell" != "null" ]; then'',
    [CHR 0x09, CHR 0x09] @ ''cmdshell="$kickstartfbshell"'',
    ''#'' @ [CHR 0x09, CHR 0x09] @ ''echo "Shell kickstartfbshell is: $kickstartfbshell"'',
    [CHR 0x09] @ ''else'',
    [CHR 0x09, CHR 0x09] @ ''cmdshell = "/bin/sh -C"'',
    [CHR 0x09] @ ''fi'',
    [],
    [CHR 0x09] @ ''echo "$kickstartfbshellcmd" > /tmp/fbshell.sh'',
    [CHR 0x09] @ ''chmod +x /tmp/fbshell.sh'',
    [CHR 0x09] @ ''echo "========Begin execution of supplemental firstboot shell commands"'',
    [CHR 0x09] @ ''cmdoutput=$($cmdshell /tmp/fbshell.sh)'',
    [CHR 0x09] @ ''echo "${cmdoutput}"'',
    [CHR 0x09] @ ''echo "========End execution of supplemental firstboot shell commands"'',
    ''else'',
    [CHR 0x09] @ ''echo "Skipping kickstart firstboot shell command(s)"'',
    ''fi'',
    ''EOF'']\<close>

definition ks_defaults :: "string list" where
  \<open>ks_defaults = [
    ''python /tmp/netcfg.py'',
    ''# Setup public SSH key auth for root'',
    ''wget http://metadata.packet.net/2009-04-04/meta-data/public-keys -O /etc/ssh/keys-root/authorized_keys'',
    ''# Disable SSH password auth and force public key auth'',
    ''echo 'ChallengeResponseAuthentication no' >> /etc/ssh/sshd_config'',
    ''# Enable ssh'',
    ''vim-cmd hostsvc/enable_ssh'',
    ''# Ensure serial port is activated'',
    ''esxcli system settings kernel set -s logPort -v none'',
    ''esxcli system settings kernel set -s gdbPort -v none'',
    ''esxcli system settings kernel set -s tty2Port -v com2'',
    ''# Execute customization script after the above vim-cmds, etc run as default'',
    ''chmod +x /tmp/customize.sh'',
    ''sh /tmp/customize.sh > /var/log/firstboot-customize.log'']\<close>

definition ks_phone_home :: "string \<Rightarrow> string list" where
  \<open>ks_phone_home host = [
    ''# Phone home to Packet for device activation'',
    ''echo "Tinkerbell: '' @ host @ ''" > /tmp/firstboot-packet.log'',
    ''echo "UUID: $uuid" >> /tmp/firstboot-packet.log'',
    ''BODY='{"instance_id":"$uuid"}'' @ [CHR 0x27],
    ''BODY_LEN=$( echo -n ${BODY} | wc -c )'',
    ''echo -ne "POST /phone-home HTTP/1.0'' @ [CHR 0x5C] @ ''r'' @ [CHR 0x5C] @ ''nHost: '' @ host @ [CHR 0x5C] @ ''r'' @ [CHR 0x5C] @ ''nContent-Type: application/json'' @ [CHR 0x5C] @ ''r'' @ [CHR 0x5C] @ ''nContent-Length: ${BODY_LEN}'' @ [CHR 0x5C] @ ''r'' @ [CHR 0x5C] @ ''n'' @ [CHR 0x5C] @ ''r'' @ [CHR 0x5C] @ ''n${BODY}" | nc -i 3 '' @ host @ '' 80 > /tmp/firstboot-phone-home.log'',
    ''reboot'',
    []]\<close>

definition ks_customize_pi :: "string list" where
  \<open>ks_customize_pi = [
    ''%post --interpreter=busybox'',
    ''cat << 'EOF' > /tmp/customize-pi.sh'',
    ''#/bin/sh'',
    ''metadata=/tmp/metadata'',
    ''wget http://metadata.packet.net/metadata -O $metadata'',
    [],
    ''custom_data () {'',
    ''        python -c "import json; print(json.load(open('$metadata'))['customdata']$1)" 2>/dev/null'',
    ''        RESULT=$?'',
    ''        if [ $RESULT -eq 0 ]; then'',
    ''                return'',
    ''        else'',
    ''                echo "null"'',
    ''        fi'',
    ''}'',
    [],
    ''kickstartpiurl=$(custom_data "['kickstart']['postinstall_url']")'',
    ''kickstartpishell=$(custom_data "['kickstart']['postinstall_shell']")'',
    ''kickstartpishellcmd=$(custom_data "['kickstart']['postinstall_shell_cmd']")'',
    [],
    ''# Kickstart postinstall supplemental config URL'',
    ''if [ "$kickstartpiurl" != "null" ]; then'',
    [CHR 0x09] @ ''echo "Using supplemental kickstart postinstall URL: $kickstartpiurl"'',
    [CHR 0x09] @ ''if wget -q "$kickstartpiurl" -O /tmp/ks-postinstall-sup.sh; then'',
    [CHR 0x09, CHR 0x09] @ ''echo "========Begin execution of supplemental postinstall kickstart"'',
    [CHR 0x09, CHR 0x09] @ ''chmod +x /tmp/ks-postinstall-sup.sh && /tmp/ks-postinstall-sup.sh'',
    [CHR 0x09, CHR 0x09] @ ''echo "========End execution of supplemental postinstall kickstart"'',
    [CHR 0x09] @ ''else'',
    [CHR 0x09, CHR 0x09] @ ''echo "ERROR: Custom kickstart postinstall URL '$kickstartpiurl' is NOT accessible!"'',
    [CHR 0x09, CHR 0x09] @ ''exit 1'',
    [CHR 0x09] @ ''fi'',
    ''else'',
    [CHR 0x09] @ ''echo "Skipping supplemental kickstart postinstall URL"'',
    ''fi'',
    [],
    ''# Kickstart postinstall supplemental shell commands'',
    ''if [ "$kickstartpishellcmd" != "null" ]; then'',
    ''        echo "Using kickstart postinstall shell command(s)"'',
    ''        if [ "$kickstartpishell" != "null" ]; then'',
    ''                cmdshell="$kickstartpishell"'',
    ''        else'',
    ''                cmdshell = "/bin/sh -C"'',
    ''        fi'',
    [],
    ''        echo "$kickstartpishellcmd" > /tmp/customize-pi-cmd.sh'',
    ''        echo "========Begin execution of supplemental postinstall shell commands"'',
    ''        $cmdshell /tmp/customize-pi-cmd.sh'',
    ''        echo "========End execution of supplemental postinstall shell commands"'',
    ''else'',
    ''        echo "Skipping kickstart postinstall shell command(s)"'',
    ''fi'',
    ''EOF'']\<close>

definition ks_post :: "string \<Rightarrow> string list" where
  \<open>ks_post host = [
    ''esxcli system settings kernel set -s logPort -v none'',
    ''esxcli system settings kernel set -s gdbPort -v none'',
    ''esxcli system settings kernel set -s tty2Port -v com2'',
    ''echo "nameserver 147.75.207.207" > /etc/resolv.conf'',
    ''chmod +x /tmp/customize-pi.sh'',
    ''sh /tmp/customize-pi.sh > /tmp/customize-pi.log'',
    ''sleep 60'',
    ''echo "Tinkerbell: '' @ host @ ''" > /tmp/post-packet.log'',
    ''BODY='{"type":"provisioning.109"}'' @ [CHR 0x27],
    ''BODY_LEN=$( echo -n ${BODY} | wc -c )'',
    ''echo -ne "POST /phone-home HTTP/1.0'' @ [CHR 0x5C] @ ''r'' @ [CHR 0x5C] @ ''nHost: '' @ host @ [CHR 0x5C] @ ''r'' @ [CHR 0x5C] @ ''nContent-Type: application/json'' @ [CHR 0x5C] @ ''r'' @ [CHR 0x5C] @ ''nContent-Length: ${BODY_LEN}'' @ [CHR 0x5C] @ ''r'' @ [CHR 0x5C] @ ''n'' @ [CHR 0x5C] @ ''r'' @ [CHR 0x5C] @ ''n${BODY}" | nc -i 3 '' @ host @ '' 80 > /tmp/post-phone-home.log'',
    []]\<close>

definition ks_pre :: "string list" where
  \<open>ks_pre = [
    ''%post --interpreter=busybox --ignorefailure=true'',
    ''echo "Packet installation postinstall executed" > /packet-pi-ks.log'',
    ''sleep 20'',
    [],
    ''%post --interpreter=busybox --ignorefailure=true'',
    ''echo "Packet installation postinstall executed" > /packet-pi-ks-nc.log'',
    ''sleep 20'',
    [],
    ''%pre --interpreter=busybox'',
    ''BOOTOPTIONS=$(/sbin/bootOption -o)'',
    ''echo $BOOTOPTIONS > /cmdline-bootoption'',
    ''echo $BOOTOPTIONS > /tmp/pre-bootoptions'',
    ''sleep 30'']\<close>

section \<open>The endpoint\<close>

definition unlines :: "string list \<Rightarrow> string" where
  "unlines ls = concat (map (\<lambda>l. l @ [nl]) ls)"

text \<open>The text after the head; \<open>tink_host\<close> is the public name of the server.\<close>

definition ks_rest :: "conf \<Rightarrow> string" where
  "ks_rest c = unlines (ks_firstboot @ ks_netcfg @ ks_customize @ ks_defaults @ ks_phone_home (PublicFQDN c) @
     ks_customize_pi @ ks_post (PublicFQDN c) @ ks_pre)"

definition genKickstart :: "conf \<Rightarrow> job \<Rightarrow> string go" where
  "genKickstart c j = map_ok (\<lambda>head. head @ ks_rest c) (ks_head j)"

definition ServeKickstart :: "'p dhcp4 \<Rightarrow> conf \<Rightarrow> finder \<Rightarrow> string \<Rightarrow> string \<Rightarrow> writer \<Rightarrow> writer go" where
  "ServeKickstart L c f engine remoteAddr w =
     bind_go (CreateFromRemoteAddr L c f engine remoteAddr) (\<lambda>res.
     case res of
       Inl err \<Rightarrow> Ok (WriteHeader 404 w)
     | Inr j \<Rightarrow> map_ok (\<lambda>text. w_Write text w) (genKickstart c j))"

lemmas kickstart_defs [go_defs] = unlines_def genKickstart_def ServeKickstart_def

section \<open>The file by its lines\<close>

text \<open>The installation part of the file.\<close>

definition ks_install_lines :: "job \<Rightarrow> string list" where
  "ks_install_lines j =
     [[], ''# Accept the VMware End User License Agreement'', ''vmaccepteula'',
      ''# Set the root password for the DCUI and Tech Support Mode'', ''rootpw --iscrypted '' @ rootpw j,
      ''# The install media is in the CD-ROM drive'',
      (if ks_disk j = [] then ''install --firstdisk --overwritevmfs''
       else ''install --firstdisk='' @ [CHR 0x22] @ ks_disk j @ [CHR 0x22] @ '' --overwritevmfs''),
      ''# Set the network to DHCP on the proper network adapter based on its type'',
      ''network --bootproto=dhcp --device='' @ mac_String (PrimaryNIC j), ''reboot'']"

lemma ks_head_lines: "ks_head j = Ok (unlines (ks_install_lines j))"
  by (simp add: ks_head_def firstDisk_Ok unlines_def ks_install_lines_def vmnic_def)



end
