(* ===== verification/Boots_Http.thy ===== *)
theory Boots_Http
  imports Boots_Main Vmware_Kickstart
begin

text \<open>
  The HTTP server of \<open>src/cmd/boots/http.go\<close>: the routes, the gates in front of the endpoints of a job, and the
  forwarding of user events.  The handlers of other packages (metrics, profiling, the iPXE binaries) and the
  health check, which \<open>Boots_Process\<close> models, are arguments.  A panic in a handler ends its request only; it is a
  \<^const>\<open>Fault\<close> here.
\<close>

section \<open>The server\<close>

record http_server =
  bh_workflowFinder :: "wfinder option"
  bh_reporter :: reporter
  bh_finder :: finder
  bh_engine :: string

definition serveJobFile ::
  "'p dhcp4 \<Rightarrow> conf \<Rightarrow> spanctx \<Rightarrow> installers \<Rightarrow> http_server \<Rightarrow> request \<Rightarrow> writer \<Rightarrow> rcall list \<Rightarrow> (writer \<times> rcall list) go" where
  "serveJobFile L c sc i s rq w tr =
     bind_go (CreateFromRemoteAddr L c (bh_finder s) (bh_engine s) (rq_RemoteAddr rq)) (\<lambda>res.
     case res of
       Inl err \<Rightarrow> Ok (WriteHeader 404 w, tr)
     | Inr j \<Rightarrow>
         bind_go (AllowPXE j) (\<lambda>allow.
         if \<not> allow then Ok (WriteHeader 404 w, tr)
         else ServeFile c i sc j (rq_Path rq) w tr))"

definition serveHardware ::
  "'p dhcp4 \<Rightarrow> conf \<Rightarrow> http_codec \<Rightarrow> http_server \<Rightarrow> request \<Rightarrow> writer \<Rightarrow> rcall list \<Rightarrow> (writer \<times> rcall list) go" where
  "serveHardware L c k s rq w tr =
     bind_go (CreateFromRemoteAddr L c (bh_finder s) (bh_engine s) (rq_RemoteAddr rq)) (\<lambda>res.
     case res of
       Inl err \<Rightarrow> Ok (WriteHeader 404 w, tr)
     | Inr j \<Rightarrow>
         bind_go (CanWorkflow j) (\<lambda>can.
         if can then
           bind_go (deref (bh_workflowFinder s)) (\<lambda>hasActive.
           case hasActive (job_HardwareID j) of
             Inl err \<Rightarrow> Ok (WriteHeader 404 w, tr)
           | Inr activeWorkflows \<Rightarrow> if \<not> activeWorkflows then Ok (WriteHeader 404 w, tr) else AddHardware k (bh_reporter s) j rq w tr)
         else AddHardware k (bh_reporter s) j rq w tr))"

definition servePhoneHome ::
  "'p dhcp4 \<Rightarrow> conf \<Rightarrow> http_codec \<Rightarrow> http_server \<Rightarrow> request \<Rightarrow> writer \<Rightarrow> rcall list \<Rightarrow> (writer \<times> rcall list) go" where
  "servePhoneHome L c k s rq w tr =
     bind_go (CreateFromRemoteAddr L c (bh_finder s) (bh_engine s) (rq_RemoteAddr rq)) (\<lambda>res.
     case res of
       Inl err \<Rightarrow> Ok (WriteHeader 200 w, tr)
     | Inr j \<Rightarrow> ServePhoneHomeEndpoint k (bh_reporter s) j rq w tr)"

definition serveProblem ::
  "'p dhcp4 \<Rightarrow> conf \<Rightarrow> http_codec \<Rightarrow> http_server \<Rightarrow> request \<Rightarrow> writer \<Rightarrow> rcall list \<Rightarrow> (writer \<times> rcall list) go" where
  "serveProblem L c k s rq w tr =
     bind_go (CreateFromRemoteAddr L c (bh_finder s) (bh_engine s) (rq_RemoteAddr rq)) (\<lambda>res.
     case res of
       Inl err \<Rightarrow> Ok (WriteHeader 404 w, tr)
     | Inr j \<Rightarrow>
         bind_go (CanWorkflow j) (\<lambda>can.
         case (if can then bh_workflowFinder s else None) of
           Some hasActive \<Rightarrow>
             (case hasActive (job_HardwareID j) of
                Inl err \<Rightarrow> Ok (WriteHeader 404 w, tr)
              | Inr activeWorkflows \<Rightarrow>
                  if \<not> activeWorkflows then Ok (WriteHeader 404 w, tr) else Ok (ServeProblemEndpoint k (bh_reporter s) j rq w tr))
         | None \<Rightarrow> Ok (ServeProblemEndpoint k (bh_reporter s) j rq w tr)))"

section \<open>User events\<close>

definition GetInstanceIDFromIP :: "finder \<Rightarrow> ip \<Rightarrow> (string + string) go" where
  "GetInstanceIDFromIP f ip =
     bind_go (ByIP f ip) (\<lambda>r.
     case r of
       Inl err \<Rightarrow> Ok (Inl err)
     | Inr d \<Rightarrow> map_ok (\<lambda>inst. case inst of None \<Rightarrow> Inr [] | Some i \<Rightarrow> Inr (i_ID i)) (disc_Instance d))"

definition main_readClose :: "request \<Rightarrow> string + bytes" where
  "main_readClose rq = (case rq_Body rq of Inl err \<Rightarrow> Inl (''read data: '' @ err) | Inr b \<Rightarrow> Inr b)"

text \<open>The Go results (status and error), the response and the calls; \<open>fail\<close> is a return with an error.\<close>

definition serveEvents ::
  "http_codec \<Rightarrow> reporter \<Rightarrow> finder \<Rightarrow> request \<Rightarrow> writer \<Rightarrow> rcall list \<Rightarrow> ((nat \<times> string option) \<times> writer \<times> rcall list) go" where
  "serveEvents k r f rq w tr =
     (let fail = (\<lambda>code err tr. Ok ((code, Some err), WriteHeader code w, tr))
      in case SplitHostPort (rq_RemoteAddr rq) of
           None \<Rightarrow> fail 400 ''split host port'' tr
         | Some host \<Rightarrow>
             (let ip = ParseIP host
              in if ip = [] then fail 200 ''no device found for client address'' tr
                 else
                   bind_go (GetInstanceIDFromIP f ip) (\<lambda>res.
                   case (case res of Inl err \<Rightarrow> [] | Inr i \<Rightarrow> i) of
                     [] \<Rightarrow> fail 200 ''no device found for client address'' tr
                   | deviceID \<Rightarrow>
                       (case main_readClose rq of
                          Inl err \<Rightarrow> fail 400 err tr
                        | Inr b \<Rightarrow>
                            if length b = 0 then fail 400 ''userEvent body is empty'' tr
                            else
                              (case dec_userEvent k b of
                                 None \<Rightarrow> fail 400 ''userEvent cannot be generated from supplied json'' tr
                               | Some (code, state, message) \<Rightarrow>
                                   (let call = PostInstanceEvent deviceID (UserEventBody (''user.'' @ Itoa code) state message)
                                    in case r tr call of
                                         Inl err \<Rightarrow> fail 400 ''failed to post userEvent'' (tr @ [call])
                                       | Inr _ \<Rightarrow> Ok ((200, None), w_OK w, tr @ [call])))))))"

section \<open>Routes\<close>

datatype endpoint =
    EJobFile | EIpxe | EMetrics | EHealthcheck | EPprof string | EPhoneHome | EPublicKey | EProblem | EHardware
  | EEvents | EIgnition | EKickstart

text \<open>
  The patterns that \<open>ServeHTTP\<close> registers; the iPXE binaries only with a handler.  The order does not
  matter for a mux: the installers' paths come from a map.
\<close>

definition http_routes :: "bool \<Rightarrow> string \<Rightarrow> (string \<times> endpoint) list" where
  "http_routes ipxeHandler ipxePattern =
     [(''/'', EJobFile)] @
     (if ipxeHandler then [(ipxePattern, EIpxe)] else []) @
     [(''/metrics'', EMetrics),
      (''/_packet/healthcheck'', EHealthcheck),
      (''/_packet/pprof/'', EPprof ''index''),
      (''/_packet/pprof/cmdline'', EPprof ''cmdline''),
      (''/_packet/pprof/profile'', EPprof ''profile''),
      (''/_packet/pprof/symbol'', EPprof ''symbol''),
      (''/_packet/pprof/trace'', EPprof ''trace''),
      (''/healthcheck'', EHealthcheck),
      (''/phone-home'', EPhoneHome),
      (''/phone-home/key'', EPublicKey),
      (''/problem'', EProblem),
      (''/hardware-components'', EHardware),
      (''/events'', EEvents),
      (''/flatcar/ignition.json'', EIgnition),
      (''/vmware/ks-esxi.cfg'', EKickstart)]"

text \<open>
  \<open>http.ServeMux\<close> on a path: the pattern itself, or else the longest pattern with a slash at its end that
  is a prefix of the path.
\<close>

definition prefix_routes :: "(string \<times> 'e) list \<Rightarrow> string \<Rightarrow> (string \<times> 'e) list" where
  "prefix_routes rs p = filter (\<lambda>(pat, _). HasSuffix pat ''/'' \<and> HasPrefix p pat) rs"

fun longest_route :: "(string \<times> 'e) list \<Rightarrow> (string \<times> 'e) option" where
  "longest_route [] = None"
| "longest_route (r # rs) =
     (case longest_route rs of
        None \<Rightarrow> Some r
      | Some r' \<Rightarrow> if length (fst r) \<ge> length (fst r') then Some r else Some r')"

definition mux_match :: "(string \<times> 'e) list \<Rightarrow> string \<Rightarrow> 'e option" where
  "mux_match rs p =
     (case map_of rs p of
        Some e \<Rightarrow> Some e
      | None \<Rightarrow> map_option snd (longest_route (prefix_routes rs p)))"

text \<open>\<open>path.Clean\<close> of a rooted path, and \<open>cleanPath\<close> of the mux, which keeps the slash at the end.\<close>

fun clean_elems :: "string list \<Rightarrow> string list \<Rightarrow> string list" where
  "clean_elems [] acc = acc"
| "clean_elems (x # xs) acc =
     (if x = [] \<or> x = ''.'' then clean_elems xs acc
      else if x = ''..'' then clean_elems xs (butlast acc)
      else clean_elems xs (acc @ [x]))"

definition cleanPath :: "string \<Rightarrow> string" where
  "cleanPath p =
     (if p = [] then ''/''
      else
        (let p1 = (if hd p \<noteq> CHR ''/'' then ''/'' @ p else p);
             np = ''/'' @ Join (clean_elems (Split p1 (CHR ''/'')) []) ''/''
         in if last p1 = CHR ''/'' \<and> np \<noteq> ''/'' then np @ ''/'' else np))"

text \<open>Either a redirect to another path, or an endpoint.\<close>

definition mux_handler :: "(string \<times> 'e) list \<Rightarrow> string \<Rightarrow> string + 'e option" where
  "mux_handler rs urlPath =
     (let path = cleanPath urlPath
      in if map_of rs path = None \<and> map_of rs (path @ ''/'') \<noteq> None \<and> \<not> HasSuffix path ''/'' then Inl (path @ ''/'')
         else if path \<noteq> urlPath then Inl path
         else Inr (mux_match rs urlPath))"

text \<open>The handlers of other packages.\<close>

type_synonym other_handlers = "endpoint \<Rightarrow> request \<Rightarrow> writer \<Rightarrow> writer"

definition serve_endpoint ::
  "'p dhcp4 \<Rightarrow> conf \<Rightarrow> spanctx \<Rightarrow> http_codec \<Rightarrow> bytes \<Rightarrow> other_handlers \<Rightarrow> installers \<Rightarrow> http_server \<Rightarrow> endpoint \<Rightarrow> request \<Rightarrow>
   writer \<Rightarrow> rcall list \<Rightarrow> (writer \<times> rcall list) go" where
  "serve_endpoint L c sc k pub other i s e rq w tr =
     (case e of
        EJobFile \<Rightarrow> serveJobFile L c sc i s rq w tr
      | EPhoneHome \<Rightarrow> servePhoneHome L c k s rq w tr
      | EPublicKey \<Rightarrow> Ok (ServePublicKey pub rq w, tr)
      | EProblem \<Rightarrow> serveProblem L c k s rq w tr
      | EHardware \<Rightarrow> serveHardware L c k s rq w tr
      | EEvents \<Rightarrow> map_ok snd (serveEvents k (bh_reporter s) (bh_finder s) rq w tr)
      | EIgnition \<Rightarrow> map_ok (\<lambda>w'. (w', tr)) (ServeIgnitionConfig L c (bh_finder s) (bh_engine s) (rq_RemoteAddr rq) w)
      | EKickstart \<Rightarrow> map_ok (\<lambda>w'. (w', tr)) (ServeKickstart L c (bh_finder s) (bh_engine s) (rq_RemoteAddr rq) w)
      | _ \<Rightarrow> Ok (other e rq w, tr))"

definition mux_ServeHTTP ::
  "'p dhcp4 \<Rightarrow> conf \<Rightarrow> spanctx \<Rightarrow> http_codec \<Rightarrow> bytes \<Rightarrow> other_handlers \<Rightarrow> installers \<Rightarrow> http_server \<Rightarrow> bool \<Rightarrow> string \<Rightarrow> request \<Rightarrow>
   rcall list \<Rightarrow> (writer \<times> rcall list) go" where
  "mux_ServeHTTP L c sc k pub other i s ipxeHandler ipxePattern rq tr =
     (case mux_handler (http_routes ipxeHandler ipxePattern) (rq_Path rq) of
        Inl redirect \<Rightarrow> Ok (WriteHeader 301 new_writer, tr)
      | Inr None \<Rightarrow> Ok (WriteHeader 404 new_writer, tr)
      | Inr (Some e) \<Rightarrow> serve_endpoint L c sc k pub other i s e rq new_writer tr)"

lemmas boots_http_defs [go_defs] =
  serveJobFile_def serveHardware_def servePhoneHome_def serveProblem_def GetInstanceIDFromIP_def main_readClose_def
  serveEvents_def http_routes_def prefix_routes_def mux_match_def cleanPath_def mux_handler_def serve_endpoint_def mux_ServeHTTP_def


section \<open>Boot scripts over HTTP\<close>

lemma ServeFile_cases:
  assumes "ServeFile c i sc j path w tr = Ok (w', tr')"
  shows "w' = w \<and> tr' = tr \<or>
    (\<exists>name. path_Base path = name @ ''.ipxe'' \<and> serveBootScript c i sc j name w tr = Ok (w', tr'))"
proof (cases "HasSuffix (path_Base path) ''.ipxe''")
  case True
  then obtain name where n: "path_Base path = name @ ''.ipxe''" by (auto simp: HasSuffix_def suffix_def)
  then have "TrimSuffix (path_Base path) ''.ipxe'' = name" by (simp add: TrimSuffix_def HasSuffix_def suffix_def)
  with n assms show ?thesis by (simp add: ServeFile_def Let_def)
next
  case False
  with assms show ?thesis by (simp add: ServeFile_def TrimSuffix_def Let_def)
qed

lemma serveJobFile_auto:
  assumes "CreateFromRemoteAddr L c (bh_finder s) (bh_engine s) (rq_RemoteAddr rq) = Ok (Inr j)"
    and "AllowPXE j = Ok allow" and "path_Base (rq_Path rq) = ''auto.ipxe''"
  shows "serveJobFile L c sc i s rq w tr =
    (if allow then serveBootScript c i sc j ''auto'' w tr else Ok (WriteHeader 404 w, tr))"
proof -
  have "TrimSuffix ''auto.ipxe'' ''.ipxe'' = ''auto''" by code_simp
  with assms show ?thesis by (simp add: serveJobFile_def ServeFile_def)
qed

lemma serveBootScript_status:
  assumes "serveBootScript c i sc j name new_writer tr = Ok (w, tr')"
  shows "status w = 200 \<or> status w = 404 \<and> w_body w = [] \<and> tr' = tr"
  using assms
  by (auto simp: serveBootScript_def status_def w_Write_def WriteHeader_def new_writer_def Let_def split: option.splits)

text \<open>
  C8: with the installers that the process registers, a file request over HTTP either gets no body and
  reports nothing, or gets the script of a machine that its address identifies and whose hardware data
  allow PXE; that script is a 200 response, starts with the fixed header for the first interface, ends with a
  complete line, and nothing reported before it is lost.
\<close>

theorem serveJobFile_script:
  assumes "registerInstallers E c r cf = Ok (Inr i)" and "serveJobFile L c sc i s rq new_writer tr = Ok (w, tr')"
  shows "w_body w = [] \<and> tr' = tr \<or>
    (\<exists>j name iface rest. CreateFromRemoteAddr L c (bh_finder s) (bh_engine s) (rq_RemoteAddr rq) = Ok (Inr j) \<and>
       AllowPXE j = Ok True \<and> path_Base (rq_Path rq) = name @ ''.ipxe'' \<and> status w = 200 \<and> InterfaceName j 0 = Ok iface \<and>
       w_body w = butlast (render (head_lines c sc iface)) @ rest \<and> last (w_body w) = nl \<and> prefix tr tr')"
proof -
  from assms(2) consider "w_body w = []" "tr' = tr"
    | j where "CreateFromRemoteAddr L c (bh_finder s) (bh_engine s) (rq_RemoteAddr rq) = Ok (Inr j)" "AllowPXE j = Ok True"
        "ServeFile c i sc j (rq_Path rq) new_writer tr = Ok (w, tr')"
    by (auto simp: serveJobFile_def WriteHeader_def new_writer_def split: sum.splits if_splits)
  then show ?thesis
  proof cases
    case (2 j)
    from ServeFile_cases [OF 2(3)] show ?thesis
    proof (elim disjE exE conjE)
      assume "w = new_writer" "tr' = tr"
      then show ?thesis by (simp add: new_writer_def)
    next
      fix name assume n: "path_Base (rq_Path rq) = name @ ''.ipxe''" and b: "serveBootScript c i sc j name new_writer tr = Ok (w, tr')"
      from serveBootScript_status [OF b] show ?thesis
      proof (elim disjE conjE)
        assume s: "status w = 200"
        from serveBootScript_head [OF registerInstallers_safe [OF assms(1)] b s] 2(1,2) n s show ?thesis by metis
      qed simp
    qed
  qed simp
qed


text \<open>A script whose installer is given by its lines, served as \<open>auto.ipxe\<close>.\<close>

lemma serve_lines:
  assumes "path_Base path = ''auto.ipxe''" and "InterfaceName j 0 = Ok iface"
    and "auto_script i sc j = on_script f" and "lines_op f ls"
  shows "ServeFile c i sc j path new_writer tr =
    Ok (\<lparr>w_code = Some 200, w_body = render (head_lines c sc iface @ ls)\<rparr>, tr)"
proof -
  have t: "TrimSuffix (path_Base path) ''.ipxe'' = ''auto''"
    by (simp add: assms(1) TrimSuffix_def HasSuffix_def suffix_def)
  obtain s0 where s0: "NewScript = Ok s0" using NewScript_render by blast
  have "f \<lparr>buf = render (head_lines c sc iface)\<rparr> = Ok \<lparr>buf = render (head_lines c sc iface @ ls)\<rparr>"
    by (rule lines_op.appends [OF assms(4)]) (simp add: head_lines_def)
  then have "serveBootScript c i sc j ''auto'' new_writer tr =
      Ok (\<lparr>w_code = Some 200, w_body = render (head_lines c sc iface @ ls)\<rparr>, tr)"
    unfolding serveBootScript_def s0
    by (simp add: script_head_value [OF s0 assms(2)] assms(3) on_script_def w_Write_def WriteHeader_def new_writer_def
        Bytes_def Let_def)
  then show ?thesis unfolding ServeFile_def Let_def t by (simp add: assms(1))
qed

lemma auto_default:
  assumes "j_instance j \<noteq> None" and "hw_os j = Ok os" and "in_ByInstaller i (os_Installer os) = None"
    and "in_BySlug i (os_Slug os) = None" and "in_ByDistro i (os_Distro os) = None" and "in_Default i = Some f"
  shows "auto_script i sc j = f sc j"
  using assms by (auto simp: auto_script_def fun_eq_iff)

lemma serve_osie_lines:
  assumes "registerInstallers E c r cf = Ok (Inr i)" and "parseDynamicIPXEVars (cf_ipxeVars cf) = Inr vars"
    and "CreateFromRemoteAddr L c (bh_finder s) (bh_engine s) (rq_RemoteAddr rq) = Ok (Inr j)" and "AllowPXE j = Ok True"
    and "path_Base (rq_Path rq) = ''auto.ipxe''" and "InterfaceName j 0 = Ok iface"
    and "j_instance j \<noteq> None" and "hw_os j = Ok os" and "os_Installer os \<noteq> ''custom_ipxe''" and "slug2Paths (os_Slug os) = None"
    and "os_Distro os \<notin> {''flatcar'', ''custom_ipxe'', ''discovery'', ''vmware''}"
    and "job_OperatingSystem j = Ok (Some jos)" and "VLANID j = Ok vlan" and "CanWorkflow j = Ok can"
    and "osie_initrdPath j = Ok initrd" and "job_Arch j = Ok arch" and "osie_kernelPath j = Ok kpath"
    and "osieBaseURL (MirrorBaseURL c @ ''/misc/osie'') (cf_osiePathOverride cf) j = Ok base"
  shows "serveJobFile L c sc i s rq new_writer tr = Ok
    (\<lparr>w_code = Some 200, w_body = render (head_lines c sc iface @
       osie_lines (main_osie E c cf vars) sc j arch base kpath initrd vlan can jos)\<rparr>, tr)"
proof -
  let ?o = "main_osie E c cf vars"
  have i: "i = installer_table E c r cf vars"
    using assms(1,2) by (simp add: registerInstallers_Ok split: if_splits)
  have d: "in_Default i = Some (\<lambda>sc j. on_script (osie_install ?o sc j))"
    "in_ByInstaller i (os_Installer os) = None" "in_BySlug i (os_Slug os) = None" "in_ByDistro i (os_Distro os) = None"
    using assms(9-11) by (simp_all add: i installer_table_def)
  have osie: "oi_osieURL ?o = MirrorBaseURL c @ ''/misc/osie''" "oi_osieFullURLOverride ?o = cf_osiePathOverride cf"
    "oi_extraIPXEVars ?o = vars"
    by (simp_all add: main_osie_def osie_Installer_def Let_def)
  have "lines_op (osie_install ?o sc j) (osie_lines ?o sc j arch base kpath initrd vlan can jos)"
    using lines_osie_install [of ?o j jos vlan can initrd arch kpath base sc] assms(12-18) parse_pairs [OF assms(2)] osie by simp
  from serve_lines [OF assms(5,6) _ this, of i sc c tr] auto_default [OF assms(7,8) d(2,3,4,1)]
  show ?thesis using assms(3,4) by (simp add: serveJobFile_def)
qed



definition sample_server :: http_server where
  "sample_server = \<lparr>bh_workflowFinder = Some noop_HasActiveWorkflow, bh_reporter = noOpReporter, bh_finder = sample_finder,
     bh_engine = ''engine''\<rparr>"

definition sample_rq :: "string \<Rightarrow> bytes \<Rightarrow> request" where
  "sample_rq path b = \<lparr>rq_Method = ''GET'', rq_RemoteAddr = sample_remote, rq_Path = path, rq_URI = path, rq_ContentType = [],
     rq_Body = Inr b, rq_PostForm = Inr []\<rparr>"

abbreviation sample_http_job :: "config \<Rightarrow> job" where
  "sample_http_job dh \<equiv> (new_job ''engine'')\<lparr>j_ip := ParseIP ''10.1.2.3'', j_mac := sample_mac,
     j_hardware := Some (HCacher sample_hc), j_instance := Some sample_instance, j_dhcp := dh\<rparr>"

lemma sample_http_facts:
  "AllowPXE (sample_http_job dh) = Ok True"
  "InterfaceName (sample_http_job dh) 0 = Ok ''eth1''"
  "hw_os (sample_http_job dh) = Ok zero_os"
  "job_OperatingSystem (sample_http_job dh) = Ok (Some zero_os)"
  "VLANID (sample_http_job dh) = Ok []"
  "CanWorkflow (sample_http_job dh) = Ok False"
  "osie_initrdPath (sample_http_job dh) = Ok ''initramfs-${arch}''"
  "job_Arch (sample_http_job dh) = Ok ''x86_64''"
  "osie_kernelPath (sample_http_job dh) = Ok ''vmlinuz-${arch}''"
  "osieBaseURL (MirrorBaseURL sample_conf @ ''/misc/osie'') [] (sample_http_job dh) =
     Ok ''http://install.ewr1.packet.net/misc/osie/current''"
  by (simp_all add: AllowPXE_def with_hw_def InterfaceName_def job_Interfaces_def hc_Interfaces_def sample_port_def hw_os_def
      hc_OperatingSystem_def job_OperatingSystem_def Rescue_def with_inst_def VLANID_def CanWorkflow_def osie_initrdPath_def
      InitrdPath_def job_Arch_def osie_kernelPath_def KernelPath_def osieBaseURL_def isCustomOSIE_def OSIEVersion_def
      OSIEBaseURL_def ServicesVersion_def Let_def sample_instance_def zero_instance_def zero_os_def sample_conf_def sample_hc_def)


lemma sample_vars: "parseDynamicIPXEVars (cf_ipxeVars sample_cf) = Inr [[''a'', ''b''], [''c'', ''d=e'']]"
proof -
  have "parseDynamicIPXEVars ''a=b c=d=e'' = Inr [[''a'', ''b''], [''c'', ''d=e'']]" by code_simp
  then show ?thesis by (simp add: sample_cf_def)
qed

lemma sample_registered:
  "registerInstallers sample_env_pkg sample_conf noOpReporter sample_cf =
     Ok (Inr (installer_table sample_env_pkg sample_conf noOpReporter sample_cf [[''a'', ''b''], [''c'', ''d=e'']]))"
  by (simp add: registerInstallers_Ok sample_vars sample_env_pkg_def)

lemma sample_http_hyps:
  "\<exists>dh. CreateFromRemoteAddr ref_dhcp4 sample_conf (bh_finder sample_server) (bh_engine sample_server)
     (rq_RemoteAddr (sample_rq path b)) = Ok (Inr (sample_http_job dh))"
  using sample_remote_job by (simp add: sample_server_def sample_rq_def)

lemma sample_auto_path: "path_Base (rq_Path (sample_rq ''/auto.ipxe'' [])) = ''auto.ipxe''"
  by (simp add: sample_rq_def path_Base_def)

lemma sample_zero_os:
  "os_Installer zero_os \<noteq> ''custom_ipxe''" "slug2Paths (os_Slug zero_os) = None"
  "os_Distro zero_os \<notin> {''flatcar'', ''custom_ipxe'', ''discovery'', ''vmware''}"
  by (simp_all add: zero_os_def slug2Paths_def)

abbreviation sample_osie_lines :: "job \<Rightarrow> string list" where
  "sample_osie_lines j \<equiv> osie_lines (main_osie sample_env_pkg sample_conf sample_cf [[''a'', ''b''], [''c'', ''d=e'']])
     sample_sc j ''x86_64'' ''http://install.ewr1.packet.net/misc/osie/current'' ''vmlinuz-${arch}'' ''initramfs-${arch}'' [] False zero_os"


theorem serveJobFile_script_witness:
  "\<exists>i w tr' rest. registerInstallers sample_env_pkg sample_conf noOpReporter sample_cf = Ok (Inr i) \<and>
     serveJobFile ref_dhcp4 sample_conf sample_sc i sample_server (sample_rq ''/auto.ipxe'' []) new_writer [] = Ok (w, tr') \<and>
     w_body w = butlast (render (head_lines sample_conf sample_sc ''eth1'')) @ rest \<and> last (w_body w) = nl"
proof -
  obtain dh where j: "CreateFromRemoteAddr ref_dhcp4 sample_conf (bh_finder sample_server) (bh_engine sample_server)
      (rq_RemoteAddr (sample_rq ''/auto.ipxe'' [])) = Ok (Inr (sample_http_job dh))"
    using sample_http_hyps by blast
  have o: "cf_osiePathOverride sample_cf = []" by (simp add: sample_cf_def)
  have inst: "j_instance (sample_http_job dh) \<noteq> None" by simp
  note s = serve_osie_lines [OF sample_registered sample_vars j sample_http_facts(1) sample_auto_path sample_http_facts(2) inst
        sample_http_facts(3) sample_zero_os sample_http_facts(4-9), unfolded o, OF sample_http_facts(10), of sample_sc "[]"]
  have "render (head_lines sample_conf sample_sc ''eth1'' @ sample_osie_lines (sample_http_job dh)) \<noteq> []"
    by (simp add: head_lines_def)
  with serveJobFile_script [OF sample_registered s] j sample_http_facts(2)
  obtain rest where "render (head_lines sample_conf sample_sc ''eth1'' @ sample_osie_lines (sample_http_job dh)) =
      butlast (render (head_lines sample_conf sample_sc ''eth1'')) @ rest"
    "last (render (head_lines sample_conf sample_sc ''eth1'' @ sample_osie_lines (sample_http_job dh))) = nl"
    by auto
  with sample_registered s show ?thesis by (metis writer.select_convs(2))
qed


section \<open>Reports\<close>

lemma AddHardware_cases:
  assumes "AddHardware k r j rq new_writer tr = Ok (w, tr')"
  shows "status w = 400 \<and> (tr' = tr \<or> (\<exists>h v. j_hardware j = Some h \<and> tr' = tr @ [PostHardwareComponent (HardwareID h) (ComponentsBody v)])) \<or>
    status w = 200 \<and> (\<exists>h b v ident. j_hardware j = Some h \<and> rq_Body rq = Inr b \<and> dec_components k b = Inr v \<and>
      r tr (PostHardwareComponent (HardwareID h) (ComponentsBody v)) = Inr ident \<and>
      tr' = tr @ [PostHardwareComponent (HardwareID h) (ComponentsBody v)])"
  using assms
  by (cases "rq_Body rq"; cases "j_hardware j")
    (auto simp: AddHardware_def job_readClose_def status_def WriteHeader_def new_writer_def w_OK_def w_Write_def Let_def
      split: sum.splits)

lemma serveHardware_cases:
  assumes "serveHardware L c k s rq w0 tr = Ok (w, tr')"
  obtains "w = WriteHeader 404 w0" "tr' = tr"
    | j where "CreateFromRemoteAddr L c (bh_finder s) (bh_engine s) (rq_RemoteAddr rq) = Ok (Inr j)"
        "CanWorkflow j = Ok False \<or> (\<exists>hasActive. bh_workflowFinder s = Some hasActive \<and> hasActive (job_HardwareID j) = Inr True)"
        "AddHardware k (bh_reporter s) j rq w0 tr = Ok (w, tr')"
  using assms
  by (cases "bh_workflowFinder s") (fastforce simp: serveHardware_def split: sum.splits if_splits)+

lemma serveProblem_cases:
  assumes "serveProblem L c k s rq w0 tr = Ok (w, tr')"
  obtains "w = WriteHeader 404 w0" "tr' = tr"
    | j where "CreateFromRemoteAddr L c (bh_finder s) (bh_engine s) (rq_RemoteAddr rq) = Ok (Inr j)"
        "CanWorkflow j = Ok False \<or> bh_workflowFinder s = None \<or>
          (\<exists>hasActive. bh_workflowFinder s = Some hasActive \<and> hasActive (job_HardwareID j) = Inr True)"
        "ServeProblemEndpoint k (bh_reporter s) j rq w0 tr = (w, tr')"
  using assms
  by (cases "bh_workflowFinder s") (fastforce simp: serveProblem_def split: sum.splits if_splits)+

text \<open>
  C36: the components of a machine are answered with 200 exactly when they were forwarded once, for the hardware
  that the client address identifies, and the reporter accepted them; a machine that can run workflows must
  have been found to have an active one, and every other outcome is a 400 or a 404.
\<close>

theorem serveHardware_exact:
  assumes "serveHardware L c k s rq new_writer tr = Ok (w, tr')"
  shows "(status w = 200 \<longleftrightarrow>
      (\<exists>j h b v ident. CreateFromRemoteAddr L c (bh_finder s) (bh_engine s) (rq_RemoteAddr rq) = Ok (Inr j) \<and> j_hardware j = Some h \<and>
         (CanWorkflow j = Ok False \<or> (\<exists>hasActive. bh_workflowFinder s = Some hasActive \<and> hasActive (job_HardwareID j) = Inr True)) \<and>
         rq_Body rq = Inr b \<and> dec_components k b = Inr v \<and>
         bh_reporter s tr (PostHardwareComponent (HardwareID h) (ComponentsBody v)) = Inr ident \<and>
         tr' = tr @ [PostHardwareComponent (HardwareID h) (ComponentsBody v)])) \<and>
    status w \<in> {200, 400, 404}"
  using assms
proof (cases rule: serveHardware_cases)
  case 1
  then show ?thesis by (auto simp: status_def WriteHeader_def new_writer_def)
next
  case (2 j)
  have "status w = 200" if "j_hardware j = Some h" "rq_Body rq = Inr b" "dec_components k b = Inr v"
      "bh_reporter s tr (PostHardwareComponent (HardwareID h) (ComponentsBody v)) = Inr ident" for h b v ident
    using 2(3) that
    by (auto simp: AddHardware_def job_readClose_def status_def w_OK_def w_Write_def WriteHeader_def new_writer_def Let_def)
  with AddHardware_cases [OF 2(3)] 2(1,2) show ?thesis by auto
qed


definition sample_http_codec :: http_codec where
  "sample_http_codec = \<lparr>hc_codec = sample_codec\<rparr>"

text \<open>The bodies of a request with one disk and of a user event.\<close>

definition sample_components :: jval where
  "sample_components = JObj [(''components'', JList [JObj [
     (''type'', JStr ''disk''), (''name'', JStr ''sda''), (''vendor'', JStr []), (''model'', JStr []), (''serial'', JStr ''s-1''),
     (''firmware_version'', JStr []), (''data'', JObj [(''size'', JNum 480)])]])]"

definition sample_components_body :: bytes where
  "sample_components_body = json_Marshal (JObj [(''components'', JList [JObj [
     (''type'', JStr ''disk''), (''name'', JStr ''sda''), (''serial'', JStr ''s-1''), (''data'', JObj [(''size'', JNum 480)])]])])"

definition sample_user_body :: bytes where
  "sample_user_body = json_Marshal (JObj [(''code'', JNum 7), (''state'', JStr ''ok''), (''message'', JStr ''hello'')])"

lemma sample_dec_components: "dec_components sample_http_codec sample_components_body = Inr sample_components"
  by code_simp

lemma sample_user_body_ne: "sample_user_body \<noteq> []"
  by (simp add: sample_user_body_def)

lemma sample_dec_userEvent: "dec_userEvent sample_http_codec sample_user_body = Some (7, ''ok'', ''hello'')"
  by code_simp

theorem serveHardware_exact_witness:
  "\<exists>w tr'. serveHardware ref_dhcp4 sample_conf sample_http_codec sample_server (sample_rq ''/hardware-components'' sample_components_body) new_writer [] = Ok (w, tr') \<and>
     status w = 200 \<and> tr' = [PostHardwareComponent ''hw-1'' (ComponentsBody sample_components)]"
proof -
  obtain dh where j: "CreateFromRemoteAddr ref_dhcp4 sample_conf (bh_finder sample_server) (bh_engine sample_server)
      (rq_RemoteAddr (sample_rq ''/hardware-components'' sample_components_body)) = Ok (Inr (sample_http_job dh))"
    using sample_http_hyps by blast
  have "\<exists>w tr'. serveHardware ref_dhcp4 sample_conf sample_http_codec sample_server (sample_rq ''/hardware-components'' sample_components_body) new_writer [] = Ok (w, tr') \<and>
      tr' = [PostHardwareComponent ''hw-1'' (ComponentsBody sample_components)]"
    by (simp add: serveHardware_def j sample_http_facts(6) AddHardware_def job_readClose_def)
      (simp add: sample_rq_def sample_dec_components sample_server_def noOpReporter_def sample_hc_def)
  then obtain w where h: "serveHardware ref_dhcp4 sample_conf sample_http_codec sample_server (sample_rq ''/hardware-components'' sample_components_body) new_writer [] =
      Ok (w, [PostHardwareComponent ''hw-1'' (ComponentsBody sample_components)])" by blast
  have "\<exists>v ident. bh_reporter sample_server [] (PostHardwareComponent (HardwareID (HCacher sample_hc)) (ComponentsBody v)) = Inr ident \<and>
      dec_components sample_http_codec sample_components_body = Inr v \<and> PostHardwareComponent (HardwareID (HCacher sample_hc)) (ComponentsBody v) =
      PostHardwareComponent ''hw-1'' (ComponentsBody sample_components)"
    by (simp add: sample_server_def noOpReporter_def sample_dec_components sample_hc_def)
  then have "status w = 200"
    using serveHardware_exact [OF h] j sample_http_facts(6) by (fastforce simp: sample_rq_def)
  with h show ?thesis by blast
qed

text \<open>
  The tinkerbell finder answers from the states of the workflows, so nothing is reported for a machine that can
  run workflows without one of them pending or running.
\<close>

lemma reports_need_active_workflow:
  assumes "bh_workflowFinder s = Some (HasActiveWorkflow get)" and "tr' \<noteq> tr"
    and "serveHardware L c k s rq w0 tr = Ok (w, tr') \<or> serveProblem L c k s rq w0 tr = Ok (w, tr')"
  shows "\<exists>j. CreateFromRemoteAddr L c (bh_finder s) (bh_engine s) (rq_RemoteAddr rq) = Ok (Inr j) \<and>
    (CanWorkflow j = Ok False \<or> (\<exists>ws st. get (job_HardwareID j) = Inr ws \<and> st \<in> set ws \<and> active st))"
  using assms(3)
proof
  assume "serveHardware L c k s rq w0 tr = Ok (w, tr')"
  then show ?thesis
    by (cases rule: serveHardware_cases) (use assms(1,2) tink_wf.true_has_workflow in auto)
next
  assume "serveProblem L c k s rq w0 tr = Ok (w, tr')"
  then show ?thesis
    by (cases rule: serveProblem_cases) (use assms(1,2) tink_wf.true_has_workflow in auto)
qed


section \<open>Forwarding user events\<close>

text \<open>The event that a request stands for: the instance of the client address and the decoded body.\<close>

definition user_event :: "http_codec \<Rightarrow> finder \<Rightarrow> request \<Rightarrow> rcall option" where
  "user_event k f rq =
     (case SplitHostPort (rq_RemoteAddr rq) of
        None \<Rightarrow> None
      | Some host \<Rightarrow>
          if ParseIP host = [] then None
          else
            (case GetInstanceIDFromIP f (ParseIP host) of
               Ok (Inr i) \<Rightarrow>
                 (case (rq_Body rq, i) of
                    (Inr b, _ # _) \<Rightarrow>
                      if b = [] then None
                      else map_option (\<lambda>(code, state, message).
                        PostInstanceEvent i (UserEventBody (''user.'' @ Itoa code) state message)) (dec_userEvent k b)
                  | _ \<Rightarrow> None)
             | _ \<Rightarrow> None))"

lemma serveEvents_none:
  assumes "serveEvents k r f rq w0 tr = Ok ((code, err), w, tr')" and "user_event k f rq = None"
  shows "err \<noteq> None \<and> tr' = tr \<and> w = WriteHeader code w0 \<and> code \<in> {200, 400}"
  using assms
  by (auto simp: serveEvents_def user_event_def main_readClose_def Let_def
      split: option.splits sum.splits list.splits if_splits go.splits prod.splits)

lemma serveEvents_some:
  assumes "user_event k f rq = Some ev"
  shows "serveEvents k r f rq w0 tr =
    (case r tr ev of
       Inl err \<Rightarrow> Ok ((400, Some ''failed to post userEvent''), WriteHeader 400 w0, tr @ [ev])
     | Inr _ \<Rightarrow> Ok ((200, None), w_OK w0, tr @ [ev]))"
  using assms
  by (auto simp: serveEvents_def user_event_def main_readClose_def Let_def
      split: option.splits sum.splits list.splits if_splits go.splits prod.splits)

text \<open>
  C37: a user event is forwarded at most once, only for the instance that the client address identifies and with
  the fields of the decoded body; the handler reports success exactly when the reporter accepted it, and the
  status it returns is the status it sent, 200 or 400.
\<close>

theorem serveEvents_exact:
  assumes "serveEvents k r f rq new_writer tr = Ok ((code, err), w, tr')"
  shows "status w = code \<and> code \<in> {200, 400} \<and>
    tr' = tr @ (case user_event k f rq of None \<Rightarrow> [] | Some ev \<Rightarrow> [ev]) \<and>
    (err = None \<longleftrightarrow> (\<exists>ev ident. user_event k f rq = Some ev \<and> r tr ev = Inr ident))"
proof (cases "user_event k f rq")
  case None
  from serveEvents_none [OF assms None] None show ?thesis
    by (auto simp: status_def WriteHeader_def new_writer_def)
next
  case (Some ev)
  with serveEvents_some [OF Some, of r new_writer tr] assms show ?thesis
    by (auto simp: status_def WriteHeader_def w_OK_def w_Write_def new_writer_def Let_def split: sum.splits)
qed

theorem serveEvents_exact_witness:
  "\<exists>w tr'. serveEvents sample_http_codec noOpReporter sample_finder (sample_rq ''/events'' sample_user_body) new_writer [] = Ok ((200, None), w, tr') \<and>
     tr' = [PostInstanceEvent ''i-1'' (UserEventBody ''user.7'' ''ok'' ''hello'')]"
proof -
  have p: "SplitHostPort sample_remote = Some ''10.1.2.3''" "ParseIP ''10.1.2.3'' \<noteq> []"
    by (simp add: SplitHostPort_def sample_remote_def) code_simp
  have i: "GetInstanceIDFromIP sample_finder (ParseIP ''10.1.2.3'') = Ok (Inr ''i-1'')"
    using sample_setup_facts(1) by (simp add: GetInstanceIDFromIP_def sample_finder_def sample_instance_def)
  have e: "user_event sample_http_codec sample_finder (sample_rq ''/events'' sample_user_body) =
      Some (PostInstanceEvent ''i-1'' (UserEventBody ''user.7'' ''ok'' ''hello''))"
    using p i sample_dec_userEvent by (simp add: user_event_def sample_rq_def sample_user_body_ne Itoa_def dec_digits.simps)
  have "\<exists>w tr'. serveEvents sample_http_codec noOpReporter sample_finder (sample_rq ''/events'' sample_user_body) new_writer [] = Ok ((200, None), w, tr')"
    by (simp add: serveEvents_some [OF e] noOpReporter_def)
  then show ?thesis using serveEvents_exact e by fastforce
qed


section \<open>Which handler answers\<close>

lemma suffix_slash: "HasSuffix p ''/'' \<longleftrightarrow> p \<noteq> [] \<and> last p = CHR ''/''"
  by (cases p rule: rev_cases) (auto simp: HasSuffix_def suffix_def)

lemma prefix_routes_http:
  assumes "HasPrefix p ''/''"
  shows "prefix_routes (http_routes h ''/ipxe/'') p = [(''/'', EJobFile)] @
    (if h \<and> HasPrefix p ''/ipxe/'' then [(''/ipxe/'', EIpxe)] else []) @
    (if HasPrefix p ''/_packet/pprof/'' then [(''/_packet/pprof/'', EPprof ''index'')] else [])"
  using assms by (simp add: prefix_routes_def http_routes_def suffix_slash)

text \<open>
  Every path that starts with a slash has a handler: its own, or that of the iPXE binaries or the profiles when
  it lies below them, and the file handler of the jobs otherwise.
\<close>

lemma routes_exact:
  assumes "HasPrefix p ''/''"
  shows "mux_match (http_routes h ''/ipxe/'') p = Some
    (case map_of (http_routes h ''/ipxe/'') p of
       Some e \<Rightarrow> e
     | None \<Rightarrow> if HasPrefix p ''/_packet/pprof/'' then EPprof ''index'' else if h \<and> HasPrefix p ''/ipxe/'' then EIpxe else EJobFile)"
  unfolding mux_match_def prefix_routes_http [OF assms] by (auto split: option.splits)

lemma job_file_route:
  assumes "HasPrefix p ''/''" and "\<not> HasPrefix p ''/ipxe/''" and "\<not> HasPrefix p ''/_packet/pprof/''" and "HasSuffix p ''.ipxe''"
  shows "mux_match (http_routes h ''/ipxe/'') p = Some EJobFile"
proof -
  have "list_all (\<lambda>(pat, _). take 5 (rev pat) \<noteq> rev ''.ipxe'') (http_routes True ''/ipxe/'')" by code_simp
  moreover have "list_all (\<lambda>(pat, _). take 5 (rev pat) \<noteq> rev ''.ipxe'') (http_routes False ''/ipxe/'')" by code_simp
  ultimately have "list_all (\<lambda>(pat, _). take 5 (rev pat) \<noteq> rev ''.ipxe'') (http_routes h ''/ipxe/'')" by (cases h) simp_all
  then have "\<not> HasSuffix pat ''.ipxe''" if "pat \<in> fst ` set (http_routes h ''/ipxe/'')" for pat
    using that by (auto simp: list_all_iff HasSuffix_def suffix_def)
  with assms(4) have "map_of (http_routes h ''/ipxe/'') p = None" by (auto simp: map_of_eq_None_iff)
  with routes_exact [OF assms(1)] assms(2,3) show ?thesis by simp
qed


end
