(* ===== verification/Syslog_Message.thy ===== *)
theory Syslog_Message
  imports Go_Net "HOL-Library.Word"
begin

text \<open>
  The messages of the syslog server, \<open>src/syslog/message.go\<close>, with the names generated in \<open>facility_string.go\<close> and
  \<open>severity_string.go\<close>.  The buffer of a message has 1024 bytes and is reused; the parsed fields are slices of it,
  nil as \<^const>\<open>None\<close>.  The calendar of package \<open>time\<close> (parsing, formatting, adding years) and the verb \<open>%q\<close> are
  arguments; durations are 64-bit nanoseconds, and a priority is a byte that wraps.
\<close>

section \<open>Names\<close>

datatype severity = EMERG | ALERT | CRIT | ERR | WARNING | NOTICE | INFO | DEBUG

definition severities :: "severity list" where
  "severities = [EMERG, ALERT, CRIT, ERR, WARNING, NOTICE, INFO, DEBUG]"

fun severity_String :: "severity \<Rightarrow> string" where
  "severity_String EMERG = ''EMERG''"
| "severity_String ALERT = ''ALERT''"
| "severity_String CRIT = ''CRIT''"
| "severity_String ERR = ''ERR''"
| "severity_String WARNING = ''WARNING''"
| "severity_String NOTICE = ''NOTICE''"
| "severity_String INFO = ''INFO''"
| "severity_String DEBUG = ''DEBUG''"

definition facility_names :: "string list" where
  "facility_names = [''kern'', ''user'', ''mail'', ''daemon'', ''auth'', ''syslog'', ''lpr'', ''news'', ''uucp'', ''clock'',
     ''authpriv'', ''ftp'', ''ntp'', ''audit'', ''alert'', ''cron'', ''local0'', ''local1'', ''local2'', ''local3'', ''local4'',
     ''local5'', ''local6'', ''local7'']"

text \<open>A facility is a byte; the numbers past the last name are printed as such.\<close>

definition facility_String :: "nat \<Rightarrow> string" where
  "facility_String i =
     (if i \<ge> length facility_names then ''facility('' @ Itoa (int i) @ '')'' else facility_names ! i)"

text \<open>The constants of type \<open>facility\<close>, in the order of \<open>iota\<close>; the generated table of names agrees with them.\<close>

definition facility_consts :: "(string \<times> nat) list" where
  "facility_consts =
    [(''kern'', 0), (''user'', 1), (''mail'', 2), (''daemon'', 3), (''auth'', 4), (''syslog'', 5), (''lpr'', 6),
     (''news'', 7), (''uucp'', 8), (''clock'', 9), (''authpriv'', 10), (''ftp'', 11), (''ntp'', 12), (''audit'', 13),
     (''alert'', 14), (''cron'', 15), (''local0'', 16), (''local1'', 17), (''local2'', 18), (''local3'', 19),
     (''local4'', 20), (''local5'', 21), (''local6'', 22), (''local7'', 23)]"

lemma facility_consts_names: "list_all (\<lambda>(n, i). facility_String i = n) facility_consts"
  by code_simp

section \<open>Messages\<close>

text \<open>The functions of package \<open>time\<close>: instants are of any type, differences are in nanoseconds.\<close>

record 't timelib =
  parse_stamp :: "string \<Rightarrow> 't option"
  parse_rfc3339 :: "string \<Rightarrow> 't option"
  t_IsZero :: "'t \<Rightarrow> bool"
  t_Year :: "'t \<Rightarrow> int"
  t_AddYears :: "'t \<Rightarrow> int \<Rightarrow> 't"
  t_Sub :: "'t \<Rightarrow> 't \<Rightarrow> int"
  t_Add :: "'t \<Rightarrow> int \<Rightarrow> 't"
  t_Format :: "'t \<Rightarrow> string"

record 't message =
  m_buf :: bytes
  m_size :: nat
  m_time :: 't
  m_host :: ip
  m_priority :: "8 word"
  m_hostname :: "bytes option"
  m_app :: "bytes option"
  m_procid :: "bytes option"
  m_msgid :: "bytes option"
  m_msg :: "bytes option"

definition buf_len :: nat where
  "buf_len = 1024"

definition new_message :: "'t \<Rightarrow> 't message" where
  "new_message t0 = \<lparr>m_buf = replicate buf_len (CHR 0x00), m_size = 0, m_time = t0, m_host = [], m_priority = 0,
     m_hostname = None, m_app = None, m_procid = None, m_msgid = None, m_msg = None\<rparr>"

definition Facility :: "'t message \<Rightarrow> nat" where
  "Facility m = unat (m_priority m div 8)"

definition Severity :: "'t message \<Rightarrow> severity" where
  "Severity m = severities ! unat (m_priority m mod 8)"

definition Host :: "'t message \<Rightarrow> string" where
  "Host m = ip_String (m_host m)"

text \<open>\<open>msgCleanup\<close> removes the backspaces; \<open>q\<close> is the verb \<open>%q\<close>.\<close>

definition msgCleanup :: "bytes \<Rightarrow> bytes" where
  "msgCleanup b = filter (\<lambda>c. c \<noteq> CHR 0x08) b"

definition opt_field :: "string \<Rightarrow> bytes option \<Rightarrow> string list" where
  "opt_field name v = (case v of None \<Rightarrow> [] | Some b \<Rightarrow> [name @ b])"

definition message_String :: "(bytes \<Rightarrow> string) \<Rightarrow> 't message \<Rightarrow> string go" where
  "message_String q m =
     (case m_msg m of
        None \<Rightarrow> map_ok (\<lambda>b. ''host='' @ ip_String (m_host m) @ '' syslog='' @ q b) (Go_Prelude.slice (m_buf m) 0 (m_size m))
      | Some msg \<Rightarrow>
          Ok (Join (
            [case m_hostname m of Some h \<Rightarrow> ''host='' @ h | None \<Rightarrow> ''host='' @ ip_String (m_host m),
             ''facility='' @ facility_String (Facility m),
             ''severity='' @ severity_String (Severity m)] @
            opt_field ''app-name='' (m_app m) @ opt_field ''procid='' (m_procid m) @ opt_field ''msgid='' (m_msgid m) @
            [''msg='' @ q (msgCleanup msg)]) '' ''))"

section \<open>Parsing\<close>

definition msg_bytes :: "'t message \<Rightarrow> bytes" where
  "msg_bytes m = (case m_msg m of None \<Rightarrow> [] | Some b \<Rightarrow> b)"

definition ignoreNil :: "bytes \<Rightarrow> bytes option" where
  "ignoreNil b = (if b = ''-'' then None else Some b)"

text \<open>The loop over \<open>m.buf[1:5]\<close>; the priority is a byte.\<close>

fun pri_loop :: "nat \<Rightarrow> bytes \<Rightarrow> 8 word \<Rightarrow> (nat \<times> 8 word) option" where
  "pri_loop i [] pri = None"
| "pri_loop i (c # cs) pri =
     (if c = CHR ''>'' then Some (i, pri)
      else if c < CHR ''0'' \<or> c > CHR ''9'' then None
      else pri_loop (Suc i) cs (pri * 10 + of_nat (of_char c) - 48))"

definition parsePriority :: "'t message \<Rightarrow> (bool \<times> 't message) go" where
  "parsePriority m =
     (if m_size m < 3 \<or> m_buf m ! 0 \<noteq> CHR ''<'' then Ok (False, m)
      else
        (case pri_loop 0 (take 4 (drop 1 (m_buf m))) 0 of
           None \<Rightarrow> Ok (False, m)
         | Some (i, pri) \<Rightarrow>
             map_ok (\<lambda>s. (True, m\<lparr>m_priority := pri, m_msg := Some s\<rparr>)) (Go_Prelude.slice (m_buf m) (i + 2) (m_size m))))"

definition parseVersion :: "'t message \<Rightarrow> bool \<times> 't message" where
  "parseVersion m =
     (let b = msg_bytes m
      in if length b < 2 then (False, m)
         else if b ! 1 \<noteq> CHR '' '' then (False, m)
         else if b ! 0 \<noteq> CHR ''1'' then (False, m)
         else (True, m\<lparr>m_msg := Some (drop 2 b)\<rparr>))"

text \<open>The layout \<open>2006-01-02T15:04:05.999999Z07:00\<close> has 32 bytes.\<close>

definition parseTimestamp :: "'t timelib \<Rightarrow> bytes \<Rightarrow> 't message \<Rightarrow> bool \<times> 't message" where
  "parseTimestamp T b m =
     (if ignoreNil b = None then (True, m)
      else if length b > 32 then (False, m)
      else case parse_rfc3339 T b of None \<Rightarrow> (False, m) | Some t \<Rightarrow> (True, m\<lparr>m_time := t\<rparr>))"

definition parseHeader :: "'t timelib \<Rightarrow> 't message \<Rightarrow> bool \<times> 't message" where
  "parseHeader T m =
     (let parts = SplitN (msg_bytes m) (CHR '' '') 6
      in if length parts \<noteq> 6 then (False, m)
         else
           (case parseTimestamp T (parts ! 0) m of
              (False, m1) \<Rightarrow> (False, m1)
            | (True, m1) \<Rightarrow>
                (True, m1\<lparr>m_hostname := ignoreNil (parts ! 1), m_app := ignoreNil (parts ! 2), m_procid := ignoreNil (parts ! 3),
                   m_msgid := ignoreNil (parts ! 4), m_msg := Some (parts ! 5)\<rparr>)))"

definition parseStructuredData :: "'t message \<Rightarrow> bool \<times> 't message" where
  "parseStructuredData m =
     (let b = msg_bytes m
      in if length b \<ge> 2 \<and> b ! 0 = CHR ''-'' \<and> b ! 1 = CHR '' '' then (True, m\<lparr>m_msg := Some (drop 2 b)\<rparr>) else (False, m))"

text \<open>The negation and the division of a 64-bit duration.\<close>

definition neg64 :: "int \<Rightarrow> int" where
  "neg64 x = (if x = - (2 ^ 63) then x else - x)"

definition hour :: int where
  "hour = 3600000000000"

definition go_div :: "int \<Rightarrow> int \<Rightarrow> int" where
  "go_div a b = sgn a * sgn b * (\<bar>a\<bar> div \<bar>b\<bar>)"

text \<open>\<open>hoursOff\<close> is a number of hours; \<open>t.Add\<close> takes it as nanoseconds.\<close>

definition correctLegacyTime :: "'t timelib \<Rightarrow> 't \<Rightarrow> 't message \<Rightarrow> 't message" where
  "correctLegacyTime T t0 m =
     (let t = t_AddYears T t0 (t_Year T (m_time m));
          offset = t_Sub T (m_time m) t;
          offset = (if offset < 0 then neg64 offset else offset);
          rem = offset - go_div offset hour * hour;
          hoursOff = go_div (offset - rem) hour
      in m\<lparr>m_time := if hoursOff > 1 then t_Add T t hoursOff else t\<rparr>)"

definition tag_char :: "char \<Rightarrow> bool" where
  "tag_char c =
     (if c \<ge> CHR ''0'' \<and> c \<le> CHR ''9'' then True
      else if c \<ge> CHR ''a'' \<and> c \<le> CHR ''z'' then True
      else if c \<ge> CHR ''A'' \<and> c \<le> CHR ''Z'' then True
      else c = CHR ''-'' \<or> c = CHR ''_'' \<or> c = CHR ''/'' \<or> c = CHR ''.'')"

text \<open>The first byte that is not part of a tag ends it; an opening bracket starts the process identifier.\<close>

definition parseLegacyTag :: "'t message \<Rightarrow> 't message" where
  "parseLegacyTag m =
     (let b = msg_bytes m; tag = takeWhile tag_char b; r = dropWhile tag_char b
      in case r of
           [] \<Rightarrow> m\<lparr>m_app := None, m_procid := None\<rparr>
         | c # cs \<Rightarrow>
             (let m1 = m\<lparr>m_app := Some tag\<rparr>
              in if c = CHR ''['' then
                   (if CHR '']'' \<in> set cs then
                      (let pid = takeWhile (\<lambda>x. x \<noteq> CHR '']'') cs
                       in m1\<lparr>m_procid := Some pid, m_msg := Some (TrimPrefix (drop (length pid + 1) cs) '': '')\<rparr>)
                    else m1\<lparr>m_procid := None, m_msg := Some (TrimPrefix r '': '')\<rparr>)
                 else m1\<lparr>m_msg := Some (TrimPrefix r '': '')\<rparr>))"

definition trimSeverityPrefix :: "'t message \<Rightarrow> 't message" where
  "trimSeverityPrefix m = m\<lparr>m_msg := Some (TrimPrefix (msg_bytes m) (severity_String (Severity m) @ '': ''))\<rparr>"

definition trimTimePrefix :: "'t timelib \<Rightarrow> 't message \<Rightarrow> 't message" where
  "trimTimePrefix T m = m\<lparr>m_msg := Some (TrimPrefix (msg_bytes m) (t_Format T (m_time m)))\<rparr>"

definition trimCarriageReturns :: "'t message \<Rightarrow> 't message" where
  "trimCarriageReturns m =
     (case msg_bytes m of
        c # b \<Rightarrow> if c = CHR 0x0D then m\<lparr>m_msg := Some b\<rparr> else m
      | [] \<Rightarrow> m)"

text \<open>The layout \<open>time.Stamp\<close> has 15 bytes.\<close>

definition legacy_time :: "'t timelib \<Rightarrow> 't message \<Rightarrow> 't message" where
  "legacy_time T m =
     (let b = msg_bytes m
      in if length b \<le> 15 \<or> b ! 15 \<noteq> CHR '' '' then m
         else
           (case parse_stamp T (take 15 b) of
              None \<Rightarrow> m
            | Some t \<Rightarrow> (if t_IsZero T t then m else correctLegacyTime T t m)\<lparr>m_msg := Some (drop 16 b)\<rparr>))"

definition parseLegacyHeader :: "'t timelib \<Rightarrow> 't message \<Rightarrow> bool \<times> 't message" where
  "parseLegacyHeader T m =
     (let m1 = (legacy_time T m)\<lparr>m_hostname := None\<rparr>
      in (True, trimCarriageReturns (trimTimePrefix T (trimSeverityPrefix (parseLegacyTag m1)))))"

definition parse :: "'t timelib \<Rightarrow> 't message \<Rightarrow> (bool \<times> 't message) go" where
  "parse T m =
     bind_go (parsePriority m) (\<lambda>(ok, m1).
     if \<not> ok then Ok (False, m1)
     else
       (case parseVersion m1 of
          (False, m2) \<Rightarrow> Ok (parseLegacyHeader T m2)
        | (True, m2) \<Rightarrow>
            (case parseHeader T m2 of
               (False, m3) \<Rightarrow> Ok (False, m3)
             | (True, m3) \<Rightarrow> Ok (parseStructuredData m3))))"

definition m_reset :: "'t message \<Rightarrow> 't message" where
  "m_reset m = m\<lparr>m_priority := 0, m_hostname := None, m_app := None, m_procid := None, m_msgid := None, m_msg := None\<rparr>"

lemmas syslog_defs [go_defs] =
  severities_def facility_names_def facility_String_def new_message_def Facility_def Severity_def Host_def msgCleanup_def
  opt_field_def message_String_def msg_bytes_def ignoreNil_def parsePriority_def parseVersion_def parseTimestamp_def
  parseHeader_def parseStructuredData_def correctLegacyTime_def parseLegacyTag_def trimSeverityPrefix_def trimTimePrefix_def
  trimCarriageReturns_def legacy_time_def parseLegacyHeader_def parse_def m_reset_def


section \<open>Priorities\<close>

lemma pri_digit:
  assumes "k < 10"
  shows "of_char (''0123456789'' ! k) = (48 + k :: nat)" "\<not> ''0123456789'' ! k < CHR ''0''" "\<not> CHR ''9'' < ''0123456789'' ! k"
    "''0123456789'' ! k \<noteq> CHR ''>''"
proof -
  have "list_all (\<lambda>k. of_char (''0123456789'' ! k) = (48 + k :: nat) \<and> \<not> ''0123456789'' ! k < CHR ''0'' \<and>
      \<not> CHR ''9'' < ''0123456789'' ! k \<and> ''0123456789'' ! k \<noteq> CHR ''>'') [0..<10]"
    by code_simp
  with assms show "of_char (''0123456789'' ! k) = (48 + k :: nat)" "\<not> ''0123456789'' ! k < CHR ''0''"
    "\<not> CHR ''9'' < ''0123456789'' ! k" "''0123456789'' ! k \<noteq> CHR ''>''"
    by (simp_all add: list_all_iff)
qed

text \<open>A decimal number in front is read into the byte, modulo 256.\<close>

lemma pri_loop_dec:
  "pri_loop i (dec_digits n @ r) 0 = pri_loop (i + length (dec_digits n)) r (of_nat n)"
proof (induction n arbitrary: r rule: dec_digits.induct)
  case (1 n)
  show ?case
  proof (cases "n < 10")
    case True
    with pri_digit [of n] show ?thesis by (simp add: dec_digits.simps [of n])
  next
    case False
    have w: "(of_nat (n div 10) :: 8 word) * 10 + of_nat (48 + n mod 10) - 48 = of_nat n"
    proof -
      have "(of_nat n :: 8 word) = of_nat (10 * (n div 10) + n mod 10)" by simp
      also have "\<dots> = 10 * of_nat (n div 10) + of_nat (n mod 10)" by (simp only: of_nat_add of_nat_mult of_nat_numeral)
      finally show ?thesis by (simp add: mult.commute)
    qed
    have d: "n mod 10 < 10" by simp
    have dd: "dec_digits n = dec_digits (n div 10) @ [''0123456789'' ! (n mod 10)]"
      using False by (simp add: dec_digits.simps [of n])
    show ?thesis
      unfolding dd append_assoc 1 [OF False]
      using pri_digit [OF d] w by simp
  qed
qed

lemma length_dec_digits_3: "n < 1000 \<Longrightarrow> length (dec_digits n) \<le> 3"
  by (simp add: dec_digits.simps)


section \<open>Round trip of RFC 5424 messages\<close>

text \<open>The text of a message with version 1 and no structured data; a missing field is a dash.\<close>

definition rfc5424 :: "nat \<Rightarrow> bytes \<Rightarrow> bytes list \<Rightarrow> bytes \<Rightarrow> bytes" where
  "rfc5424 pri ts hdr msg =
     ''<'' @ dec_digits pri @ ''>1 '' @ ts @ concat (map (\<lambda>f. CHR '' '' # f) hdr) @ '' - '' @ msg"

lemma SplitN_step: "sep \<notin> set k \<Longrightarrow> SplitN (k @ sep # x) sep (Suc (Suc n)) = k # SplitN x sep (Suc n)"
proof -
  assume k: "sep \<notin> set k"
  then have "takeWhile (\<lambda>c. c \<noteq> sep) (k @ sep # x) = k" by (induction k) auto
  moreover from k have "dropWhile (\<lambda>c. c \<noteq> sep) (k @ sep # x) = sep # x" by (induction k) auto
  ultimately show ?thesis by simp
qed

lemma SplitN_6:
  assumes "list_all (\<lambda>f. sep \<notin> set f) [f0, f1, f2, f3, f4]"
  shows "SplitN (f0 @ sep # f1 @ sep # f2 @ sep # f3 @ sep # f4 @ sep # rest) sep 6 = [f0, f1, f2, f3, f4, rest]"
  using assms by (simp add: SplitN_step eval_nat_numeral del: SplitN.simps(3))

lemma parsePriority_rfc:
  assumes "m_buf m = ''<'' @ dec_digits pri @ ''>'' @ body @ rest" and "m_size m = length (''<'' @ dec_digits pri @ ''>'' @ body)"
    and "pri < 1000"
  shows "parsePriority m = Ok (True, m\<lparr>m_priority := of_nat pri, m_msg := Some body\<rparr>)"
proof -
  let ?d = "dec_digits pri"
  have l: "length ?d \<le> 3" "0 < length ?d" using length_dec_digits_3 [OF assms(3)] by simp_all
  then have t: "take 4 (drop 1 (m_buf m)) = ?d @ CHR ''>'' # take (3 - length ?d) (body @ rest)"
    by (simp add: assms(1) take_Cons')
  have p: "pri_loop 0 (take 4 (drop 1 (m_buf m))) 0 = Some (length ?d, of_nat pri)"
    unfolding t by (simp add: pri_loop_dec)
  have "Go_Prelude.slice (m_buf m) (length ?d + 2) (m_size m) = Ok body"
    by (simp add: Go_Prelude.slice_def assms(1,2))
  moreover have "\<not> (m_size m < 3 \<or> m_buf m ! 0 \<noteq> CHR ''<'')" using l(2) by (simp add: assms(1,2))
  ultimately show ?thesis unfolding parsePriority_def p by simp
qed

text \<open>
  C38: a version 1 message without structured data is read back exactly from the buffer it was received into,
  whatever follows it there: the priority, the timestamp, the four header fields, a dash meaning that a field is
  missing, and the text, which may itself contain spaces.
\<close>

theorem parse_rfc5424:
  assumes "m_buf m = rfc5424 pri ts [host, app, procid, msgid] msg @ rest" and "m_size m = length (rfc5424 pri ts [host, app, procid, msgid] msg)"
    and "pri < 256" and "list_all (\<lambda>f. CHR '' '' \<notin> set f) [ts, host, app, procid, msgid]"
    and "ts = ''-'' \<and> t = m_time m \<or> ts \<noteq> ''-'' \<and> length ts \<le> 32 \<and> parse_rfc3339 T ts = Some t"
  shows "\<exists>m'. parse T m = Ok (True, m') \<and> Facility m' = pri div 8 \<and> Severity m' = severities ! (pri mod 8) \<and> m_time m' = t \<and>
    [m_hostname m', m_app m', m_procid m', m_msgid m'] = map ignoreNil [host, app, procid, msgid] \<and> m_msg m' = Some msg"
proof -
  define h where "h = ts @ CHR '' '' # host @ CHR '' '' # app @ CHR '' '' # procid @ CHR '' '' # msgid @ CHR '' '' # (''- '' @ msg)"
  have r: "rfc5424 pri ts [host, app, procid, msgid] msg = ''<'' @ dec_digits pri @ ''>'' @ (''1 '' @ h)"
    by (simp add: rfc5424_def h_def)
  have pp: "parsePriority m = Ok (True, m\<lparr>m_priority := of_nat pri, m_msg := Some (''1 '' @ h)\<rparr>)"
    using parsePriority_rfc [of m pri "''1 '' @ h" rest] assms(1-3) unfolding r by simp
  define m2 where "m2 = m\<lparr>m_priority := of_nat pri, m_msg := Some h\<rparr>"
  have pv: "parseVersion (m\<lparr>m_priority := of_nat pri, m_msg := Some (''1 '' @ h)\<rparr>) = (True, m2)"
    by (simp add: parseVersion_def msg_bytes_def Let_def m2_def)
  have "msg_bytes m2 = h" by (simp add: msg_bytes_def m2_def)
  then have sp: "SplitN (msg_bytes m2) (CHR '' '') 6 = [ts, host, app, procid, msgid, ''- '' @ msg]"
    using SplitN_6 [OF assms(4), of "''- '' @ msg"] by (simp only: h_def)
  have ts: "parseTimestamp T ts m2 = (True, m2\<lparr>m_time := t\<rparr>)"
    using assms(5) by (auto simp: parseTimestamp_def ignoreNil_def m2_def)
  define m3 where "m3 = m2\<lparr>m_time := t, m_hostname := ignoreNil host, m_app := ignoreNil app, m_procid := ignoreNil procid,
      m_msgid := ignoreNil msgid, m_msg := Some (''- '' @ msg)\<rparr>"
  have ph: "parseHeader T m2 = (True, m3)" unfolding parseHeader_def sp Let_def m3_def by (simp add: ts)
  have ps: "parseStructuredData m3 = (True, m3\<lparr>m_msg := Some msg\<rparr>)"
    by (simp add: parseStructuredData_def msg_bytes_def m3_def)
  have "parse T m = Ok (True, m3\<lparr>m_msg := Some msg\<rparr>)"
    unfolding parse_def pp bind_go.simps prod.case pv ph ps by simp
  moreover have "unat (of_nat pri :: 8 word) = pri" using assms(3) by (simp add: unat_of_nat)
  then have "unat ((of_nat pri :: 8 word) div 8) = pri div 8" "unat ((of_nat pri :: 8 word) mod 8) = pri mod 8"
    by (simp_all add: unat_div unat_mod)
  ultimately show ?thesis by (simp add: Facility_def Severity_def m3_def m2_def)
qed


section \<open>The contract of a parsing step\<close>

text \<open>The bytes of the datagram, and the fields that were cut out of them.\<close>

definition datagram :: "'t message \<Rightarrow> bytes" where
  "datagram m = take (m_size m) (m_buf m)"

definition in_datagram :: "'t message \<Rightarrow> bytes option \<Rightarrow> bool" where
  "in_datagram m v \<longleftrightarrow> (\<forall>b. v = Some b \<longrightarrow> sublist b (datagram m))"

definition fields_ok :: "'t message \<Rightarrow> bool" where
  "fields_ok m \<longleftrightarrow> list_all (in_datagram m) [m_hostname m, m_app m, m_procid m, m_msgid m, m_msg m]"

text \<open>A step leaves the buffer alone and only ever cuts fields out of the datagram.\<close>

locale parse_op =
  fixes f :: "'t message \<Rightarrow> 't message"
  assumes keeps: "m_buf (f m) = m_buf m \<and> m_size (f m) = m_size m \<and> m_host (f m) = m_host m"
    and cuts: "fields_ok m \<Longrightarrow> fields_ok (f m)"
begin

lemma datagram_same: "datagram (f m) = datagram m"
  using keeps by (simp add: datagram_def)

end

lemma parse_op_comp: "parse_op f \<Longrightarrow> parse_op g \<Longrightarrow> parse_op (\<lambda>m. f (g m))"
  by (simp add: parse_op_def)

lemma sublist_trans_drop: "sublist b d \<Longrightarrow> sublist (drop n b) d" "sublist b d \<Longrightarrow> sublist (take n b) d"
  by (meson sublist_drop sublist_take sublist_order.order.trans)+

lemma sublist_TrimPrefix: "sublist b d \<Longrightarrow> sublist (TrimPrefix b p) d"
  by (auto simp: TrimPrefix_def intro: sublist_trans_drop)

lemma sublist_SplitN: "w \<in> set (SplitN b sep n) \<Longrightarrow> sublist w b"
proof (induction b sep n arbitrary: w rule: SplitN.induct)
  case (3 s sep n)
  show ?case
  proof (cases "dropWhile (\<lambda>c. c \<noteq> sep) s")
    case Nil
    with 3 show ?thesis by simp
  next
    case (Cons c rest)
    have "sublist rest s" by (metis Cons suffix_dropWhile suffix_imp_sublist sublist_Cons_right sublist_order.order.trans sublist_order.order.refl)
    moreover have "sublist (takeWhile (\<lambda>c. c \<noteq> sep) s) s" by (metis takeWhile_is_prefix prefix_imp_sublist)
    ultimately show ?thesis using 3 Cons by (auto intro: sublist_order.order.trans)
  qed
qed auto

lemma fields_ok_iff:
  "fields_ok m \<longleftrightarrow> in_datagram m (m_hostname m) \<and> in_datagram m (m_app m) \<and> in_datagram m (m_procid m) \<and> in_datagram m (m_msgid m) \<and>
     in_datagram m (m_msg m)"
  by (simp add: fields_ok_def)

lemma msg_in_datagram: "fields_ok m \<Longrightarrow> sublist (msg_bytes m) (datagram m)"
  by (auto simp: fields_ok_iff in_datagram_def msg_bytes_def split: option.splits)

text \<open>Cutting the message only.\<close>

lemma parse_op_msg:
  assumes "\<And>m. sublist (g m) (msg_bytes m)"
  shows "parse_op (\<lambda>m. m\<lparr>m_msg := Some (g m)\<rparr>)"
proof
  fix m :: "'a message"
  show "m_buf (m\<lparr>m_msg := Some (g m)\<rparr>) = m_buf m \<and> m_size (m\<lparr>m_msg := Some (g m)\<rparr>) = m_size m \<and> m_host (m\<lparr>m_msg := Some (g m)\<rparr>) = m_host m"
    by simp
  assume f: "fields_ok m"
  with msg_in_datagram [OF f] assms [of m] show "fields_ok (m\<lparr>m_msg := Some (g m)\<rparr>)"
    by (auto simp: fields_ok_iff in_datagram_def datagram_def intro: sublist_order.order.trans)
qed

lemma parse_op_trims:
  "parse_op trimSeverityPrefix" "parse_op (trimTimePrefix T)"
  unfolding trimSeverityPrefix_def trimTimePrefix_def
  by (rule parse_op_msg, simp add: sublist_TrimPrefix)+


text \<open>One update of the fields, each of them cut out of the message.\<close>

lemma fields_ok_upd:
  assumes "fields_ok m" and "m_buf m' = m_buf m" and "m_size m' = m_size m"
    and "\<forall>b. Some b \<in> {m_hostname m', m_app m', m_procid m', m_msgid m', m_msg m'} \<longrightarrow>
      Some b \<in> {m_hostname m, m_app m, m_procid m, m_msgid m, m_msg m} \<or> sublist b (msg_bytes m)"
  shows "fields_ok m'"
proof -
  have d: "datagram m' = datagram m" by (simp add: datagram_def assms(2,3))
  from msg_in_datagram [OF assms(1)] have "sublist b (datagram m)" if "sublist b (msg_bytes m)" for b
    using that sublist_order.order.trans by blast
  moreover have "sublist b (datagram m)" if "Some b \<in> {m_hostname m, m_app m, m_procid m, m_msgid m, m_msg m}" for b
    using assms(1) that by (auto simp: fields_ok_iff in_datagram_def)
  ultimately have "sublist b (datagram m)" if "Some b \<in> {m_hostname m', m_app m', m_procid m', m_msgid m', m_msg m'}" for b
    using assms(4) that by blast
  then show ?thesis by (simp add: fields_ok_iff in_datagram_def d)
qed

interpretation trim_severity: parse_op trimSeverityPrefix
  by (rule parse_op_trims)

interpretation trim_time: parse_op "trimTimePrefix T" for T
  by (rule parse_op_trims)

interpretation trim_cr: parse_op trimCarriageReturns
proof
  fix m :: "'a message"
  show "m_buf (trimCarriageReturns m) = m_buf m \<and> m_size (trimCarriageReturns m) = m_size m \<and> m_host (trimCarriageReturns m) = m_host m"
    by (simp add: trimCarriageReturns_def split: list.splits)
  assume f: "fields_ok m"
  show "fields_ok (trimCarriageReturns m)"
    by (rule fields_ok_upd [OF f]) (auto simp: trimCarriageReturns_def intro: sublist_Cons_right [THEN iffD2] split: list.splits)
qed

interpretation legacy_tag: parse_op parseLegacyTag
proof
  fix m :: "'a message"
  show "m_buf (parseLegacyTag m) = m_buf m \<and> m_size (parseLegacyTag m) = m_size m \<and> m_host (parseLegacyTag m) = m_host m"
    by (simp add: parseLegacyTag_def Let_def split: list.splits)
  assume f: "fields_ok m"
  show "fields_ok (parseLegacyTag m)"
  proof (cases "dropWhile tag_char (msg_bytes m)")
    case Nil
    have e: "parseLegacyTag m = m\<lparr>m_app := None, m_procid := None\<rparr>"
      unfolding parseLegacyTag_def Let_def Nil by simp
    show ?thesis unfolding e by (rule fields_ok_upd [OF f]) auto
  next
    case (Cons c cs)
    have "sublist (c # cs) (msg_bytes m)" by (metis Cons suffix_dropWhile suffix_imp_sublist)
    then have "sublist w (msg_bytes m)" if "sublist w (c # cs)" for w
      using that sublist_order.order.trans by blast
    moreover have "sublist cs (c # cs)" by (simp add: sublist_Cons_right)
    ultimately have "sublist w (msg_bytes m)" if "sublist w cs \<or> w = c # cs" for w
      using that by (metis sublist_order.order.refl sublist_order.order.trans)
    then show ?thesis
      using Cons
      by (intro fields_ok_upd [OF f]) (auto simp: parseLegacyTag_def Let_def intro: sublist_TrimPrefix sublist_trans_drop)
  qed
qed

interpretation legacy_time: parse_op "legacy_time T" for T
proof
  fix m :: "'a message"
  show "m_buf (legacy_time T m) = m_buf m \<and> m_size (legacy_time T m) = m_size m \<and> m_host (legacy_time T m) = m_host m"
    by (simp add: legacy_time_def correctLegacyTime_def Let_def split: option.splits)
  assume f: "fields_ok m"
  show "fields_ok (legacy_time T m)"
    by (rule fields_ok_upd [OF f]) (auto simp: legacy_time_def correctLegacyTime_def Let_def split: option.splits if_splits)
qed

interpretation version_op: parse_op "\<lambda>m. snd (parseVersion m)"
proof
  fix m :: "'a message"
  show "m_buf (snd (parseVersion m)) = m_buf m \<and> m_size (snd (parseVersion m)) = m_size m \<and> m_host (snd (parseVersion m)) = m_host m"
    by (simp add: parseVersion_def Let_def)
  assume f: "fields_ok m"
  show "fields_ok (snd (parseVersion m))"
    by (rule fields_ok_upd [OF f]) (auto simp: parseVersion_def Let_def split: if_splits)
qed

interpretation data_op: parse_op "\<lambda>m. snd (parseStructuredData m)"
proof
  fix m :: "'a message"
  show "m_buf (snd (parseStructuredData m)) = m_buf m \<and> m_size (snd (parseStructuredData m)) = m_size m \<and>
      m_host (snd (parseStructuredData m)) = m_host m"
    by (simp add: parseStructuredData_def Let_def)
  assume f: "fields_ok m"
  show "fields_ok (snd (parseStructuredData m))"
    by (rule fields_ok_upd [OF f]) (auto simp: parseStructuredData_def Let_def split: if_splits)
qed

interpretation header_op: parse_op "\<lambda>m. snd (parseHeader T m)" for T
proof
  fix m :: "'a message"
  have k: "m_buf (snd (parseTimestamp T b m)) = m_buf m \<and> m_size (snd (parseTimestamp T b m)) = m_size m \<and>
      m_host (snd (parseTimestamp T b m)) = m_host m \<and> m_hostname (snd (parseTimestamp T b m)) = m_hostname m \<and>
      m_app (snd (parseTimestamp T b m)) = m_app m \<and> m_procid (snd (parseTimestamp T b m)) = m_procid m \<and>
      m_msgid (snd (parseTimestamp T b m)) = m_msgid m \<and> m_msg (snd (parseTimestamp T b m)) = m_msg m" for b
    by (simp add: parseTimestamp_def split: option.splits)
  show "m_buf (snd (parseHeader T m)) = m_buf m \<and> m_size (snd (parseHeader T m)) = m_size m \<and> m_host (snd (parseHeader T m)) = m_host m"
    using k by (auto simp: parseHeader_def Let_def case_prod_beta split: bool.splits)
  assume f: "fields_ok m"
  let ?p = "SplitN (msg_bytes m) (CHR '' '') 6"
  have "sublist (?p ! i) (msg_bytes m)" if "length ?p = 6" "i < 6" for i
    using that sublist_SplitN [of "?p ! i" "msg_bytes m"] by (metis nth_mem)
  then show "fields_ok (snd (parseHeader T m))"
    using k
    by (intro fields_ok_upd [OF f])
      (auto simp: parseHeader_def Let_def case_prod_beta ignoreNil_def split: bool.splits if_splits)
qed


section \<open>What parsing guarantees\<close>

lemma parse_op_legacy:
  fixes T :: "'a timelib"
  shows "parse_op (\<lambda>m. snd (parseLegacyHeader T m))"
proof -
  have host: "parse_op (\<lambda>m :: 'a message. m\<lparr>m_hostname := None\<rparr>)"
  proof
    fix m :: "'a message"
    show "m_buf (m\<lparr>m_hostname := None\<rparr>) = m_buf m \<and> m_size (m\<lparr>m_hostname := None\<rparr>) = m_size m \<and> m_host (m\<lparr>m_hostname := None\<rparr>) = m_host m"
      by simp
    show "fields_ok m \<Longrightarrow> fields_ok (m\<lparr>m_hostname := None\<rparr>)" by (erule fields_ok_upd) auto
  qed
  note tag = parse_op_comp [OF legacy_tag.parse_op_axioms parse_op_comp [OF host legacy_time.parse_op_axioms [of T]]]
  show ?thesis
    unfolding parseLegacyHeader_def Let_def snd_conv
    by (rule parse_op_comp [OF trim_cr.parse_op_axioms parse_op_comp [OF trim_time.parse_op_axioms
          parse_op_comp [OF trim_severity.parse_op_axioms tag]]])
qed

lemma parsePriority_cuts:
  assumes "parsePriority m = Ok (ok, m')" and "fields_ok m"
  shows "m_buf m' = m_buf m \<and> m_size m' = m_size m \<and> m_host m' = m_host m \<and> fields_ok m'"
proof (cases "m' = m")
  case False
  with assms(1) obtain i pri s where s: "Go_Prelude.slice (m_buf m) (i + 2) (m_size m) = Ok s"
    and m': "m' = m\<lparr>m_priority := pri, m_msg := Some s\<rparr>"
    by (auto simp: parsePriority_def map_ok_Ok_iff split: if_splits option.splits)
  from s have "s = drop (i + 2) (take (m_size m) (m_buf m))" by (auto simp: Go_Prelude.slice_def drop_take split: if_splits)
  then have "sublist s (datagram m)" by (simp add: datagram_def)
  with assms(2) show ?thesis by (simp add: m' fields_ok_iff in_datagram_def datagram_def)
qed (use assms(2) in simp)

lemma parse_cuts:
  assumes "parse T m = Ok (ok, m')" and "fields_ok m"
  shows "m_buf m' = m_buf m \<and> m_size m' = m_size m \<and> m_host m' = m_host m \<and> fields_ok m'"
proof -
  from assms(1) obtain b m1 where p: "parsePriority m = Ok (b, m1)" by (auto simp: parse_def)
  note k1 = parsePriority_cuts [OF p assms(2)]
  have v: "parse_op (\<lambda>m. snd (parseLegacyHeader T (snd (parseVersion m))))"
    by (rule parse_op_comp [OF parse_op_legacy version_op.parse_op_axioms])
  have h: "parse_op (\<lambda>m. snd (parseHeader T (snd (parseVersion m))))"
    by (rule parse_op_comp [OF header_op.parse_op_axioms version_op.parse_op_axioms])
  have d: "parse_op (\<lambda>m. snd (parseStructuredData (snd (parseHeader T (snd (parseVersion m))))))"
    by (rule parse_op_comp [OF data_op.parse_op_axioms h])
  have "m' = m1 \<or> m' = snd (parseLegacyHeader T (snd (parseVersion m1))) \<or> m' = snd (parseHeader T (snd (parseVersion m1))) \<or>
      m' = snd (parseStructuredData (snd (parseHeader T (snd (parseVersion m1)))))"
    using assms(1) by (auto simp: parse_def p split: if_splits prod.splits bool.splits)
  with k1 show ?thesis
    using parse_op.keeps [OF v, of m1] parse_op.cuts [OF v, of m1] parse_op.keeps [OF h, of m1] parse_op.cuts [OF h, of m1]
      parse_op.keeps [OF d, of m1] parse_op.cuts [OF d, of m1]
    by auto
qed

lemma fields_ok_reset: "fields_ok (m_reset m)"
  by (simp add: fields_ok_def in_datagram_def m_reset_def)

text \<open>
  Parsing panics exactly when the closing bracket of the priority lies behind the end of the datagram, among
  bytes that an earlier and longer message left in the buffer.
\<close>

lemma parse_faults_iff:
  assumes "m_size m \<le> length (m_buf m)"
  shows "(\<exists>e. parse T m = Fault e) \<longleftrightarrow>
    3 \<le> m_size m \<and> m_buf m ! 0 = CHR ''<'' \<and>
    (\<exists>i pri. pri_loop 0 (take 4 (drop 1 (m_buf m))) 0 = Some (i, pri) \<and> m_size m < i + 2)"
proof -
  have "(\<exists>e. parse T m = Fault e) \<longleftrightarrow> (\<exists>e. parsePriority m = Fault e)"
    by (cases "parsePriority m") (auto simp: parse_def split: prod.splits bool.splits)
  also have "\<dots> \<longleftrightarrow> 3 \<le> m_size m \<and> m_buf m ! 0 = CHR ''<'' \<and>
      (\<exists>i pri. pri_loop 0 (take 4 (drop 1 (m_buf m))) 0 = Some (i, pri) \<and> m_size m < i + 2)"
    using assms by (auto simp: parsePriority_def Go_Prelude.slice_def split: option.splits)
  finally show ?thesis .
qed

text \<open>The loop ends at the closing bracket.\<close>

lemma pri_loop_end: "pri_loop i cs p = Some (k, q) \<Longrightarrow> i \<le> k \<and> k - i < length cs \<and> cs ! (k - i) = CHR ''>''"
  by (induction i cs p rule: pri_loop.induct) (auto simp: nth_Cons' Suc_diff_le split: if_splits)

text \<open>In a buffer that is zero behind the datagram nothing is read there, and parsing returns.\<close>

lemma parse_fresh:
  assumes "m_size m \<le> length (m_buf m)" and "\<forall>k < length (m_buf m). m_size m \<le> k \<longrightarrow> m_buf m ! k = CHR 0x00"
  shows "\<exists>ok m'. parse T m = Ok (ok, m')"
proof (rule ccontr)
  assume "\<not> ?thesis"
  then have "\<exists>e. parse T m = Fault e" by (cases "parse T m") auto
  with parse_faults_iff [OF assms(1)] obtain i pri where l: "pri_loop 0 (take 4 (drop 1 (m_buf m))) 0 = Some (i, pri)" "m_size m < i + 2"
    by blast
  from pri_loop_end [OF l(1)] have "Suc i < length (m_buf m)" "m_buf m ! Suc i = CHR ''>''" by auto
  with assms(2) l(2) show False by fastforce
qed

text \<open>
  A legacy timestamp that is hours away from the arrival is moved by as many nanoseconds as there are whole
  hours between them, which is never more than a few milliseconds, and not by the hours.
\<close>

lemma correctLegacyTime_nanoseconds:
  assumes "t = t_AddYears T t0 (t_Year T (m_time m))" and "\<bar>t_Sub T (m_time m) t\<bar> < 2 ^ 63"
  shows "m_time (correctLegacyTime T t0 m) =
    (let n = \<bar>t_Sub T (m_time m) t\<bar> div hour in if n > 1 then t_Add T t n else t)" "\<bar>t_Sub T (m_time m) t\<bar> div hour \<le> 2562047"
proof -
  let ?o = "\<bar>t_Sub T (m_time m) t\<bar>"
  have g: "go_div x hour = x div hour" if "0 \<le> x" for x using that by (auto simp: go_div_def hour_def sgn_if)
  have "(if t_Sub T (m_time m) t < 0 then neg64 (t_Sub T (m_time m) t) else t_Sub T (m_time m) t) = ?o"
    using assms(2) by (auto simp: neg64_def)
  moreover have "0 \<le> ?o div hour * hour" by (simp add: hour_def)
  moreover have "?o div hour * hour div hour = ?o div hour" by (simp add: hour_def)
  ultimately show "m_time (correctLegacyTime T t0 m) = (let n = ?o div hour in if n > 1 then t_Add T t n else t)"
    by (simp add: correctLegacyTime_def Let_def assms(1) [symmetric] g)
  show "?o div hour \<le> 2562047" using assms(2) by (simp add: hour_def)
qed

section \<open>Samples\<close>

text \<open>A calendar that counts nanoseconds and knows no dates.\<close>

definition sample_time :: "int timelib" where
  "sample_time = \<lparr>parse_stamp = (\<lambda>_. None), parse_rfc3339 = (\<lambda>_. None), t_IsZero = (\<lambda>t. t = 0), t_Year = (\<lambda>_. 0),
     t_AddYears = (\<lambda>t _. t), t_Sub = (-), t_Add = (+), t_Format = (\<lambda>_. [])\<rparr>"

definition sample_text :: bytes where
  "sample_text = rfc5424 134 ''-'' [''node'', ''app'', ''-'', ''ID47''] ''hello world''"

definition sample_message :: "int message" where
  "sample_message = (new_message 0)\<lparr>m_buf := sample_text @ replicate 986 (CHR 0x00), m_size := length sample_text\<rparr>"

theorem parse_rfc5424_witness:
  "\<exists>m'. parse sample_time sample_message = Ok (True, m') \<and> Facility m' = 16 \<and> Severity m' = INFO \<and>
     m_hostname m' = Some ''node'' \<and> m_procid m' = None \<and> m_msg m' = Some ''hello world''"
proof -
  have f: "list_all (\<lambda>f. CHR '' '' \<notin> set f) [''-'', ''node'', ''app'', ''-'', ''ID47'']" by simp
  have "\<exists>m'. parse sample_time sample_message = Ok (True, m') \<and> Facility m' = 134 div 8 \<and> Severity m' = severities ! (134 mod 8) \<and>
      m_time m' = 0 \<and> [m_hostname m', m_app m', m_procid m', m_msgid m'] = map ignoreNil [''node'', ''app'', ''-'', ''ID47''] \<and>
      m_msg m' = Some ''hello world''"
    by (rule parse_rfc5424 [where ts = "''-''" and rest = "replicate 986 (CHR 0x00)", OF _ _ _ f])
      (simp_all add: sample_message_def sample_text_def new_message_def)
  then show ?thesis by (auto simp: severities_def ignoreNil_def)
qed

end
