(* ===== verification/Syslog_Receiver.thy ===== *)
theory Syslog_Receiver
  imports Syslog_Message "HOL-Library.Multiset"
begin

text \<open>
  The syslog receiver of \<open>src/syslog/receiver.go\<close> as a step relation: the goroutine that reads datagrams, the
  parsers, the channel between them and the pool of messages that both reuse.  A message is an address in a store,
  so that sharing is visible.  A panic of a parser ends the process.  The pool of package \<open>sync\<close> may hand out a new
  message or forget one at any time.
\<close>

section \<open>The receiver\<close>

text \<open>The program points of the reader: without a message, reading into one, sending one.\<close>

datatype reader = Idle | Reading nat | Sending nat

datatype log_level = LDebug | LInfo

record 't rx =
  rx_store :: "nat \<Rightarrow> 't message"
  rx_next :: nat
  rx_pool :: "nat list"
  rx_reader :: reader
  rx_chan :: "nat list"
  rx_parsers :: "nat option list"
  rx_log :: "(log_level \<times> 't message) list"
  rx_seen :: "bytes list"
  rx_err :: "string option"
  rx_done :: bool
  rx_panic :: bool

definition StartReceiver :: "'t \<Rightarrow> int \<Rightarrow> 't rx" where
  "StartReceiver t0 parsers =
     (let n = nat (if parsers < 1 then 1 else parsers)
      in \<lparr>rx_store = (\<lambda>_. new_message t0), rx_next = 0, rx_pool = [], rx_reader = Idle, rx_chan = [],
          rx_parsers = replicate n None, rx_log = [], rx_seen = [], rx_err = None, rx_done = False, rx_panic = False\<rparr>)"

text \<open>\<open>make(chan *message, parsers)\<close>\<close>

definition rx_cap :: "'t rx \<Rightarrow> nat" where
  "rx_cap s = length (rx_parsers s)"

text \<open>A read fills the front of the buffer and cuts a longer datagram off; the rest of the buffer stays.\<close>

definition receive :: "'t \<Rightarrow> ip \<Rightarrow> bytes \<Rightarrow> 't message \<Rightarrow> 't message" where
  "receive now from data m =
     (let n = min (length data) (length (m_buf m))
      in m\<lparr>m_buf := take n data @ drop n (m_buf m), m_time := now, m_host := from, m_size := n\<rparr>)"

definition log_of :: "bool \<Rightarrow> 't message \<Rightarrow> log_level" where
  "log_of ok m = (if ok then (if Severity m = DEBUG then LDebug else LInfo) else LDebug)"

text \<open>
  The wrapped error of a read is never a \<open>net.Error\<close>, so every failed read takes the branch that returns; the
  deferred call gives the message back and closes the channels.
\<close>

inductive rx_step :: "'t timelib \<Rightarrow> 't rx \<Rightarrow> 't rx \<Rightarrow> bool" for T where
  get_pool: "rx_step T s (s\<lparr>rx_reader := Reading a, rx_pool := remove1 a (rx_pool s)\<rparr>)"
    if "\<not> rx_panic s" "\<not> rx_done s" "rx_reader s = Idle" "a \<in> set (rx_pool s)"
| get_new: "rx_step T s (s\<lparr>rx_reader := Reading (rx_next s), rx_next := Suc (rx_next s),
      rx_store := (rx_store s)(rx_next s := new_message t0)\<rparr>)"
    if "\<not> rx_panic s" "\<not> rx_done s" "rx_reader s = Idle"
| forget: "rx_step T s (s\<lparr>rx_pool := remove1 a (rx_pool s)\<rparr>)"
    if "\<not> rx_panic s" "a \<in> set (rx_pool s)"
| read: "rx_step T s (s\<lparr>rx_reader := Sending a, rx_store := (rx_store s)(a := receive now src data (rx_store s a)),
      rx_seen := rx_seen s @ [data]\<rparr>)"
    if "\<not> rx_panic s" "rx_reader s = Reading a"
| read_error: "rx_step T s (s\<lparr>rx_err := Some (''error reading udp message: '' @ err), rx_pool := a # rx_pool s, rx_reader := Idle,
      rx_done := True\<rparr>)"
    if "\<not> rx_panic s" "rx_reader s = Reading a"
| send: "rx_step T s (s\<lparr>rx_reader := Idle, rx_chan := rx_chan s @ [a]\<rparr>)"
    if "\<not> rx_panic s" "rx_reader s = Sending a" "length (rx_chan s) < rx_cap s"
| take_msg: "rx_step T s (s\<lparr>rx_chan := rest, rx_parsers := (rx_parsers s)[i := Some a]\<rparr>)"
    if "\<not> rx_panic s" "i < length (rx_parsers s)" "rx_parsers s ! i = None" "rx_chan s = a # rest"
| parsed: "rx_step T s (s\<lparr>rx_log := rx_log s @ [(log_of ok m, m)], rx_store := (rx_store s)(a := m_reset m),
      rx_parsers := (rx_parsers s)[i := None], rx_pool := a # rx_pool s\<rparr>)"
    if "\<not> rx_panic s" "i < length (rx_parsers s)" "rx_parsers s ! i = Some a" "parse T (rx_store s a) = Ok (ok, m)"
| panics: "rx_step T s (s\<lparr>rx_panic := True\<rparr>)"
    if "\<not> rx_panic s" "i < length (rx_parsers s)" "rx_parsers s ! i = Some a" "parse T (rx_store s a) = Fault e"

abbreviation rx_reach :: "'t timelib \<Rightarrow> 't rx \<Rightarrow> 't rx \<Rightarrow> bool" where
  "rx_reach T \<equiv> (rx_step T)\<^sup>*\<^sup>*"

inductive_cases rx_stepE: "rx_step T s s'"

section \<open>Ownership\<close>

fun reader_owns :: "reader \<Rightarrow> nat list" where
  "reader_owns Idle = []"
| "reader_owns (Reading a) = [a]"
| "reader_owns (Sending a) = [a]"

fun busy :: "nat option list \<Rightarrow> nat list" where
  "busy [] = []"
| "busy (None # ps) = busy ps"
| "busy (Some a # ps) = a # busy ps"

definition owners :: "'t rx \<Rightarrow> nat list" where
  "owners s = rx_pool s @ reader_owns (rx_reader s) @ rx_chan s @ busy (rx_parsers s)"

text \<open>
  Every message has one owner; a message that is not being parsed has no fields left from the last one; and the
  buffers keep their size.
\<close>

definition rx_inv :: "'t rx \<Rightarrow> bool" where
  "rx_inv s \<longleftrightarrow> distinct (owners s) \<and> (\<forall>a \<in> set (owners s). a < rx_next s) \<and> length (rx_chan s) \<le> rx_cap s \<and>
     (\<forall>a. length (m_buf (rx_store s a)) = buf_len \<and> m_size (rx_store s a) \<le> buf_len \<and> m_reset (rx_store s a) = rx_store s a) \<and>
     (\<forall>e \<in> set (rx_log s). fields_ok (snd e))"

lemma busy_update:
  assumes "i < length ps"
  shows "mset (busy (ps[i := x])) + mset (busy [ps ! i]) = mset (busy ps) + mset (busy [x])"
proof -
  have app: "busy (xs @ ys) = busy xs @ busy ys" for xs ys by (induction xs rule: busy.induct) simp_all
  have "ps = take i ps @ [ps ! i] @ drop (Suc i) ps" "ps[i := x] = take i ps @ [x] @ drop (Suc i) ps"
    using assms by (simp_all add: id_take_nth_drop upd_conv_take_nth_drop)
  then have "mset (busy ps) = mset (busy (take i ps)) + mset (busy [ps ! i]) + mset (busy (drop (Suc i) ps))"
    "mset (busy (ps[i := x])) = mset (busy (take i ps)) + mset (busy [x]) + mset (busy (drop (Suc i) ps))"
    by (metis app mset_append add.assoc)+
  then show ?thesis by simp
qed

text \<open>A step moves messages between owners, forgets one of the pool, or creates one.\<close>

lemma owners_step:
  assumes "rx_step T s s'"
  shows "(mset (owners s') \<subseteq># mset (owners s) \<and> rx_next s' = rx_next s) \<or>
    (mset (owners s') = add_mset (rx_next s) (mset (owners s)) \<and> rx_next s' = Suc (rx_next s))"
  using assms
proof cases
  case (take_msg i a rest)
  then show ?thesis using busy_update [of i "rx_parsers s" "Some a"] by (simp add: owners_def)
next
  case (parsed i a ok m)
  then show ?thesis using busy_update [of i "rx_parsers s" None] by (simp add: owners_def)
qed (simp_all add: owners_def insert_DiffM)

lemma distinct_subset: "mset xs \<subseteq># mset ys \<Longrightarrow> distinct ys \<Longrightarrow> distinct xs"
  unfolding distinct_count_atmost_1 by (metis count_mset_0_iff in_multiset_in_set le_antisym less_one mset_subset_eq_count not_le set_mset_mono subsetD)


section \<open>The invariant\<close>

text \<open>The size of a message is that of a datagram that was received, and only short datagrams can make a parser panic.\<close>

definition sizes_inv :: "'t rx \<Rightarrow> bool" where
  "sizes_inv s \<longleftrightarrow> (\<forall>a. m_size (rx_store s a) = 0 \<or> (\<exists>d \<in> set (rx_seen s). m_size (rx_store s a) = min (length d) buf_len)) \<and>
     (rx_panic s \<longrightarrow> (\<exists>d \<in> set (rx_seen s). length d = 3 \<or> length d = 4))"

definition msg_inv :: "'t message \<Rightarrow> bool" where
  "msg_inv m \<longleftrightarrow> length (m_buf m) = buf_len \<and> m_size m \<le> buf_len \<and> m_reset m = m"

lemma rx_inv_msg: "rx_inv s \<longleftrightarrow> distinct (owners s) \<and> (\<forall>a \<in> set (owners s). a < rx_next s) \<and> length (rx_chan s) \<le> rx_cap s \<and>
     (\<forall>a. msg_inv (rx_store s a)) \<and> (\<forall>e \<in> set (rx_log s). fields_ok (snd e))"
  by (auto simp: rx_inv_def msg_inv_def)

lemma msg_inv_new: "msg_inv (new_message t0)"
  by (simp add: msg_inv_def new_message_def m_reset_def)

lemma msg_inv_receive: "msg_inv m \<Longrightarrow> msg_inv (receive now from data m)"
  by (cases m) (auto simp: msg_inv_def receive_def m_reset_def Let_def)

lemma msg_inv_parsed:
  assumes "msg_inv m" and "parse T m = Ok (ok, m')"
  shows "msg_inv (m_reset m')" "fields_ok m'" "m_size (m_reset m') = m_size m"
proof -
  have "fields_ok m" using assms(1) fields_ok_reset [of m] by (simp add: msg_inv_def)
  from parse_cuts [OF assms(2) this] assms(1)
  show "msg_inv (m_reset m')" "fields_ok m'" "m_size (m_reset m') = m_size m" by (simp_all add: msg_inv_def m_reset_def)
qed

lemma rx_inv_step:
  assumes "rx_step T s s'" and "rx_inv s"
  shows "rx_inv s'"
proof -
  have own: "distinct (owners s') \<and> (\<forall>a \<in> set (owners s'). a < rx_next s')"
    using owners_step [OF assms(1)]
  proof (elim disjE conjE)
    assume sub: "mset (owners s') \<subseteq># mset (owners s)" and n: "rx_next s' = rx_next s"
    have "set (owners s') \<subseteq> set (owners s)" using set_mset_mono [OF sub] by simp
    with distinct_subset [OF sub] assms(2) n show ?thesis by (auto simp: rx_inv_def)
  next
    assume add: "mset (owners s') = add_mset (rx_next s) (mset (owners s))" and n: "rx_next s' = Suc (rx_next s)"
    have "mset (owners s') = mset (rx_next s # owners s)" by (simp add: add)
    then have "distinct (owners s') = distinct (rx_next s # owners s)" "set (owners s') = set (rx_next s # owners s)"
      by (metis mset_eq_imp_distinct_iff, metis mset_eq_setD)
    with assms(2) n show ?thesis by (auto simp: rx_inv_def)
  qed
  have rest: "length (rx_chan s') \<le> rx_cap s' \<and> (\<forall>a. msg_inv (rx_store s' a)) \<and> (\<forall>e \<in> set (rx_log s'). fields_ok (snd e))"
    using assms(1)
  proof cases
    case (parsed i a ok m)
    with assms(2) msg_inv_parsed [of "rx_store s a" T ok m] show ?thesis by (auto simp: rx_inv_msg rx_cap_def)
  qed (use assms(2) in \<open>auto simp: rx_inv_msg rx_cap_def msg_inv_new msg_inv_receive\<close>)
  from own rest show ?thesis by (simp add: rx_inv_msg)
qed


lemma parse_fault_size:
  assumes "msg_inv m" and "parse T m = Fault e"
  shows "m_size m = 3 \<or> m_size m = 4"
proof -
  have "m_size m \<le> length (m_buf m)" using assms(1) by (simp add: msg_inv_def)
  from parse_faults_iff [OF this] assms(2) obtain i pri where "3 \<le> m_size m" "m_size m < i + 2"
    and l: "pri_loop 0 (take 4 (drop 1 (m_buf m))) 0 = Some (i, pri)" by metis
  moreover from pri_loop_end [OF l] have "i < 4" by auto
  ultimately show ?thesis by linarith
qed

lemma sizes_inv_step:
  assumes "rx_step T s s'" and "rx_inv s" and "sizes_inv s"
  shows "sizes_inv s'"
  using assms(1)
proof cases
  case (get_new t0)
  with assms(3) show ?thesis by (auto simp: sizes_inv_def new_message_def)
next
  case (read a)
  then obtain now src data where s': "s' = s\<lparr>rx_reader := Sending a, rx_store := (rx_store s)(a := receive now src data (rx_store s a)),
      rx_seen := rx_seen s @ [data]\<rparr>" and p: "\<not> rx_panic s" by blast
  from assms(2) have "length (m_buf (rx_store s a)) = buf_len" by (simp add: rx_inv_def)
  then have "m_size (receive now src data (rx_store s a)) = min (length data) buf_len"
    by (simp add: receive_def Let_def)
  with assms(3) p show ?thesis unfolding sizes_inv_def s' by simp (metis neq0_conv)
next
  case (parsed i a ok m)
  have "msg_inv (rx_store s a)" using assms(2) by (simp add: rx_inv_msg)
  from msg_inv_parsed(3) [OF this parsed(5)] assms(3) show ?thesis by (auto simp: sizes_inv_def parsed)
next
  case (panics i a e)
  have "msg_inv (rx_store s a)" using assms(2) by (simp add: rx_inv_msg)
  from parse_fault_size [OF this panics(5)] have z: "m_size (rx_store s a) = 3 \<or> m_size (rx_store s a) = 4" .
  moreover have "m_size (rx_store s a) = 0 \<or> (\<exists>d \<in> set (rx_seen s). m_size (rx_store s a) = min (length d) buf_len)"
    using assms(3) by (simp add: sizes_inv_def)
  ultimately obtain d where d: "d \<in> set (rx_seen s)" "m_size (rx_store s a) = min (length d) 1024"
    unfolding buf_len_def by (metis zero_neq_numeral)
  with z have "length d = 3 \<or> length d = 4" by (simp add: min_def split: if_splits)
  with d(1) have "\<exists>d \<in> set (rx_seen s). length d = 3 \<or> length d = 4" by blast
  with assms(3) show ?thesis by (auto simp: sizes_inv_def panics)
qed (use assms(3) in \<open>auto simp: sizes_inv_def\<close>)


lemma start_inv: "rx_inv (StartReceiver t0 n)" "sizes_inv (StartReceiver t0 n)"
proof -
  have "busy (replicate k None) = []" for k by (induction k) simp_all
  then show "rx_inv (StartReceiver t0 n)" "sizes_inv (StartReceiver t0 n)"
    by (simp_all add: rx_inv_msg sizes_inv_def StartReceiver_def owners_def rx_cap_def msg_inv_new Let_def)
      (simp add: new_message_def)
qed

lemma reach_inv: "rx_reach T (StartReceiver t0 n) s \<Longrightarrow> rx_inv s \<and> sizes_inv s"
  by (induction rule: rtranclp_induct) (auto simp: start_inv intro: rx_inv_step sizes_inv_step)

text \<open>
  C39: in every state that the receiver can reach, under any interleaving of the reader and the parsers, no message
  is owned twice, the channel is within its capacity, and every field that was logged was cut out of the bytes of
  its own datagram, never out of what an earlier message left in the buffer; only a datagram of three or four
  bytes can have made the process panic.
\<close>

theorem receiver_invariant:
  assumes "rx_reach T (StartReceiver t0 n) s"
  shows "distinct (owners s) \<and> length (rx_chan s) \<le> rx_cap s \<and>
    (\<forall>e \<in> set (rx_log s). list_all (\<lambda>v. \<forall>b. v = Some b \<longrightarrow> sublist b (take (m_size (snd e)) (m_buf (snd e))))
       [m_hostname (snd e), m_app (snd e), m_procid (snd e), m_msgid (snd e), m_msg (snd e)]) \<and>
    (rx_panic s \<longrightarrow> (\<exists>d \<in> set (rx_seen s). length d = 3 \<or> length d = 4))"
  using reach_inv [OF assms] by (auto simp: rx_inv_def sizes_inv_def fields_ok_def in_datagram_def datagram_def)

section \<open>A crash\<close>

text \<open>One message through the receiver: read, sent, taken by the first parser.\<close>

lemma deliver_one:
  assumes "\<not> rx_panic s" and "rx_reader s = Reading a" and "rx_chan s = []" and "rx_parsers s = [None]"
  shows "rx_reach T s (s\<lparr>rx_reader := Idle, rx_store := (rx_store s)(a := receive now src data (rx_store s a)),
    rx_seen := rx_seen s @ [data], rx_parsers := [Some a]\<rparr>)"
proof -
  define s1 where "s1 = s\<lparr>rx_reader := Sending a, rx_store := (rx_store s)(a := receive now src data (rx_store s a)),
    rx_seen := rx_seen s @ [data]\<rparr>"
  define s2 where "s2 = s1\<lparr>rx_reader := Idle, rx_chan := rx_chan s1 @ [a]\<rparr>"
  define s3 where "s3 = s2\<lparr>rx_chan := [], rx_parsers := (rx_parsers s2)[0 := Some a]\<rparr>"
  have "rx_step T s s1" unfolding s1_def by (rule rx_step.read) (use assms in simp_all)
  moreover have "rx_step T s1 s2" unfolding s2_def by (rule rx_step.send) (use assms in \<open>simp_all add: rx_cap_def s1_def\<close>)
  moreover have "rx_step T s2 s3" unfolding s3_def by (rule rx_step.take_msg) (use assms in \<open>simp_all add: s1_def s2_def\<close>)
  ultimately have "rx_reach T s s3" by (auto intro: rtranclp.rtrancl_into_rtrancl)
  moreover have "s3 = s\<lparr>rx_reader := Idle, rx_store := (rx_store s)(a := receive now src data (rx_store s a)),
    rx_seen := rx_seen s @ [data], rx_parsers := [Some a]\<rparr>" by (cases s) (use assms in \<open>simp add: s1_def s2_def s3_def\<close>)
  ultimately show ?thesis by simp
qed


lemma first_message:
  "\<exists>ok m. parse T (receive t0 [] ''<134>x'' (new_message t0)) = Ok (ok, m) \<and> m_buf (m_reset m) = ''<134>x'' @ replicate 1018 (CHR 0x00)"
proof -
  define m1 where "m1 = receive t0 [] ''<134>x'' (new_message t0)"
  have b: "m_buf m1 = ''<134>x'' @ replicate 1018 (CHR 0x00)" and z: "m_size m1 = 6"
    by (simp_all add: m1_def receive_def new_message_def buf_len_def Let_def drop_replicate)
  have "\<forall>k < length (m_buf m1). m_size m1 \<le> k \<longrightarrow> m_buf m1 ! k = CHR 0x00"
    by (auto simp: b z nth_append)
  moreover have "m_size m1 \<le> length (m_buf m1)" by (simp add: b z)
  ultimately obtain ok m where p: "parse T m1 = Ok (ok, m)" using parse_fresh by blast
  have "fields_ok m1" by (simp add: m1_def receive_def new_message_def fields_ok_def in_datagram_def Let_def)
  from parse_cuts [OF p this] b have "m_buf (m_reset m) = ''<134>x'' @ replicate 1018 (CHR 0x00)" by (simp add: m_reset_def)
  with p show ?thesis unfolding m1_def by blast
qed

lemma second_message:
  assumes "m_buf m = ''<134>x'' @ replicate 1018 (CHR 0x00)"
  shows "\<exists>e. parse T (receive t0 [] ''<13'' m) = Fault e"
proof -
  let ?m = "receive t0 [] ''<13'' m"
  have b: "m_buf ?m = ''<134>x'' @ replicate 1018 (CHR 0x00)" and z: "m_size ?m = 3"
    by (simp_all add: receive_def assms Let_def numeral_3_eq_3)
  have "pri_loop 0 ''134>'' 0 = Some (3, 134)" by code_simp
  then have "pri_loop 0 (take 4 (drop 1 (m_buf ?m))) 0 = Some (3, 134)" unfolding b by simp
  moreover have "3 \<le> m_size ?m" "m_size ?m \<le> length (m_buf ?m)" "m_size ?m < 3 + 2" "m_buf ?m ! 0 = CHR ''<''"
    by (simp_all add: b z)
  ultimately show ?thesis using parse_faults_iff [of ?m T] by blast
qed

lemma crash_trace:
  "\<exists>s. rx_reach T (StartReceiver t0 1) s \<and> rx_panic s \<and> rx_seen s = [''<134>x'', ''<13''] \<and> length (rx_log s) = 1"
proof -
  let ?s0 = "StartReceiver t0 1"
  obtain ok m where p: "parse T (receive t0 [] ''<134>x'' (new_message t0)) = Ok (ok, m)"
    and b: "m_buf (m_reset m) = ''<134>x'' @ replicate 1018 (CHR 0x00)" using first_message [of T t0] by blast
  obtain e where f: "parse T (receive t0 [] ''<13'' (m_reset m)) = Fault e" using second_message [OF b, of T t0] by blast
  define s1 where "s1 = ?s0\<lparr>rx_reader := Reading (rx_next ?s0), rx_next := Suc (rx_next ?s0),
    rx_store := (rx_store ?s0)(rx_next ?s0 := new_message t0)\<rparr>"
  define s2 where "s2 = s1\<lparr>rx_reader := Idle, rx_store := (rx_store s1)(0 := receive t0 [] ''<134>x'' (rx_store s1 0)),
    rx_seen := rx_seen s1 @ [''<134>x''], rx_parsers := [Some 0]\<rparr>"
  define s3 where "s3 = s2\<lparr>rx_log := rx_log s2 @ [(log_of ok m, m)], rx_store := (rx_store s2)(0 := m_reset m),
    rx_parsers := (rx_parsers s2)[0 := None], rx_pool := 0 # rx_pool s2\<rparr>"
  define s4 where "s4 = s3\<lparr>rx_reader := Reading 0, rx_pool := remove1 0 (rx_pool s3)\<rparr>"
  define s5 where "s5 = s4\<lparr>rx_reader := Idle, rx_store := (rx_store s4)(0 := receive t0 [] ''<13'' (rx_store s4 0)),
    rx_seen := rx_seen s4 @ [''<13''], rx_parsers := [Some 0]\<rparr>"
  note defs = s1_def s2_def s3_def s4_def s5_def StartReceiver_def
  have "rx_step T ?s0 s1" unfolding s1_def by (rule rx_step.get_new) (simp_all add: StartReceiver_def)
  moreover have "rx_reach T s1 s2" unfolding s2_def by (rule deliver_one) (simp_all add: defs)
  moreover have "rx_step T s2 s3" unfolding s3_def by (rule rx_step.parsed) (use p in \<open>simp_all add: defs\<close>)
  moreover have "rx_step T s3 s4" unfolding s4_def by (rule rx_step.get_pool) (simp_all add: defs)
  moreover have "rx_reach T s4 s5" unfolding s5_def by (rule deliver_one) (simp_all add: defs)
  moreover have "rx_step T s5 (s5\<lparr>rx_panic := True\<rparr>)"
    by (rule rx_step.panics [where i = 0 and a = 0]) (use f in \<open>simp_all add: defs\<close>)
  ultimately have "rx_reach T ?s0 (s5\<lparr>rx_panic := True\<rparr>)"
    by (meson r_into_rtranclp rtranclp_trans)
  moreover have "rx_seen (s5\<lparr>rx_panic := True\<rparr>) = [''<134>x'', ''<13'']" by (simp add: defs)
  moreover have "rx_panic (s5\<lparr>rx_panic := True\<rparr>)" by simp
  moreover have "length (rx_log (s5\<lparr>rx_panic := True\<rparr>)) = 1" by (simp add: defs)
  ultimately show ?thesis by blast
qed

text \<open>
  C40: two datagrams are enough to end the process: after \<open><134>x\<close>, the three bytes \<open><13\<close> are parsed together with
  the \<open>4>\<close> that the first one left behind them in the buffer, and the slice that follows is out of range.
\<close>

theorem stale_buffer_crash:
  "\<exists>s. rx_reach T (StartReceiver t0 1) s \<and> rx_panic s \<and> rx_seen s = [''<134>x'', ''<13''] \<and> length (rx_log s) = 1"
  by (rule crash_trace)

theorem receiver_invariant_witness:
  "\<exists>s. rx_reach sample_time (StartReceiver 0 1) s \<and> length (rx_log s) = 1 \<and> distinct (owners s) \<and>
     list_all (\<lambda>v. \<forall>b. v = Some b \<longrightarrow> sublist b (take (m_size (snd (hd (rx_log s)))) (m_buf (snd (hd (rx_log s)))))) [m_msg (snd (hd (rx_log s)))] \<and>
     (\<exists>d \<in> set (rx_seen s). length d = 3 \<or> length d = 4)"
proof -
  obtain s where s: "rx_reach sample_time (StartReceiver 0 1) s" "rx_panic s" "length (rx_log s) = 1"
    using crash_trace [of sample_time 0] by blast
  then have "hd (rx_log s) \<in> set (rx_log s)" by (cases "rx_log s") simp_all
  with receiver_invariant [OF s(1)] s show ?thesis by auto
qed

end
