(* ===== verification/Packet_Reporter.thy ===== *)
theory Packet_Reporter
  imports Boots_Main Job_Http "HOL-Library.AList"
begin

text \<open>
  The reporter that posts to the Packet API: \<open>src/client/packet/reporter.go\<close>, \<open>endpoints.go\<close> and \<open>errors.go\<close>.
  The packages \<open>net/url\<close> and \<open>net/http\<close> are an argument \<open>N\<close>: a URL and the stream of a response body are of any type,
  the bytes of a stream are those before its end or a read error, and the remote end answers a request knowing the requests before it.
  The requests submitted so far are the state \<open>sent\<close>.  The calls refine the reporters of \<open>Job_Events\<close>.
\<close>

section \<open>Errors\<close>

text \<open>The errors of the package: a text, the type \<open>httpError\<close>, and an error wrapped with a message.\<close>

datatype goerr = ErrText string | HttpError int "goerr list" | ErrWrap goerr string

definition IsNotExist :: "goerr \<Rightarrow> bool" where
  "IsNotExist err = (case err of HttpError code _ \<Rightarrow> code = 404 | _ \<Rightarrow> False)"

fun Error :: "goerr \<Rightarrow> string" where
  "Error (ErrText s) = s"
| "Error (HttpError code errs) =
     (case errs of
        [] \<Rightarrow> ''HTTP '' @ Itoa code
      | [e] \<Rightarrow> ''HTTP '' @ Itoa code @ '': '' @ Error e
      | _ \<Rightarrow> ''HTTP '' @ Itoa code @ '': '' @ Join (map Error errs) ''; '')"
| "Error (ErrWrap e msg) = msg @ '': '' @ Error e"

definition unmarshalErrors :: "('b \<Rightarrow> string + string \<times> string list) \<Rightarrow> 'b \<Rightarrow> goerr list" where
  "unmarshalErrors dec r =
     (case dec r of
        Inl err \<Rightarrow> [ErrWrap (ErrText err) ''unmarshalling errors body'']
      | Inr (error, errors) \<Rightarrow>
          if length errors > 0 then map ErrText errors
          else if error \<noteq> [] then [ErrText error]
          else [])"

section \<open>Requests\<close>

record 'u out_request =
  or_Method :: string
  or_URL :: 'u
  or_Header :: "(string \<times> string) list"
  or_Body :: "bytes option"

record 'b response =
  rs_StatusCode :: int
  rs_Body :: 'b

record ('u, 'b) http_pkg =
  url_Parse :: "string \<Rightarrow> string + 'u"
  ResolveReference :: "'u \<Rightarrow> 'u \<Rightarrow> 'u"
  http_Do :: "'u out_request list \<Rightarrow> 'u out_request \<Rightarrow> string + 'b response"
  stream_bytes :: "'b \<Rightarrow> bytes"
  hp_json :: json_pkg

text \<open>The decoders of the error bodies, the bodies with an identifier and the list of components.\<close>

definition dec_errors :: "('u, 'b) http_pkg \<Rightarrow> 'b \<Rightarrow> string + string \<times> string list" where
  "dec_errors N b = or_error (hp_json N) ''errors'' (stream_bytes N b) (Decode (st_struct [
     fld ''error'' fst apfst st_string, fld ''errors'' snd apsnd (st_slice [] st_string)]) (stream_bytes N b) ([], []))"

definition dec_id :: "('u, 'b) http_pkg \<Rightarrow> 'b \<Rightarrow> string + string" where
  "dec_id N b = or_error (hp_json N) ''id'' (stream_bytes N b) (Decode (st_struct [(''id'', st_string)]) (stream_bytes N b) [])"

definition dec_response :: "('u, 'b) http_pkg \<Rightarrow> 'b \<Rightarrow> string + jval" where
  "dec_response N b = or_error (hp_json N) ''ComponentsResponse'' (stream_bytes N b)
     (map_option ComponentsResponse_json (Decode (st_ComponentsResponse (hp_json N)) (stream_bytes N b) None))"

record 'u packet_client =
  pc_baseURL :: 'u
  pc_consumerToken :: string
  pc_authToken :: string
  pc_MaxIdleConnsPerHost :: int

text \<open>
  \<open>transport_ok\<close> is the type assertion on the default transport, \<open>env_Int\<close> the function \<open>Int\<close> of the environment
  package and \<open>procs\<close> the value of \<open>GOMAXPROCS\<close>, which is not negative.
\<close>

definition NewReporter ::
  "bool \<Rightarrow> (string \<Rightarrow> int \<Rightarrow> int) \<Rightarrow> int \<Rightarrow> 'u \<Rightarrow> string \<Rightarrow> string \<Rightarrow> string + 'u packet_client" where
  "NewReporter transport_ok env_Int procs baseURL consumerToken authToken =
     (if \<not> transport_ok then Inl ''unexpected type for http.DefaultTransport''
      else
        Inr \<lparr>pc_baseURL = baseURL, pc_consumerToken = consumerToken, pc_authToken = authToken,
          pc_MaxIdleConnsPerHost = env_Int ''BOOTS_HTTP_HOST_CONNECTIONS'' (procs div 2)\<rparr>)"

definition addHeaders :: "'u packet_client \<Rightarrow> 'u out_request \<Rightarrow> 'u out_request" where
  "addHeaders c req =
     (let h = AList.update ''X-Packet-Staff'' ''1'' (or_Header req);
          h = (if pc_consumerToken c \<noteq> [] then AList.update ''X-Consumer-Token'' (pc_consumerToken c) h else h);
          h = (if pc_authToken c \<noteq> [] then AList.update ''X-Auth-Token'' (pc_authToken c) h else h)
      in req\<lparr>or_Header := h\<rparr>)"

text \<open>The result of a decoding that was asked for with a nil pointer is \<^const>\<open>None\<close>.\<close>

definition unmarshalResponse ::
  "('u, 'b) http_pkg \<Rightarrow> 'b response \<Rightarrow> ('b \<Rightarrow> string + 'v) option \<Rightarrow> goerr + 'v option" where
  "unmarshalResponse N res result =
     (if rs_StatusCode res < 200 \<or> rs_StatusCode res > 399 then
        Inl (ErrWrap (HttpError (rs_StatusCode res) (unmarshalErrors (dec_errors N) (rs_Body res))) ''unmarshalling response'')
      else
        (case result of
           None \<Rightarrow> Inr None
         | Some dec \<Rightarrow>
             (case dec (rs_Body res) of
                Inr v \<Rightarrow> Inr (Some v)
              | Inl err \<Rightarrow>
                  Inl (ErrWrap (HttpError (rs_StatusCode res) [ErrWrap (ErrText err) ''decode json body''])
                    ''unmarshalling response''))))"

definition api_Do ::
  "('u, 'b) http_pkg \<Rightarrow> 'u packet_client \<Rightarrow> 'u out_request \<Rightarrow> ('b \<Rightarrow> string + 'v) option \<Rightarrow> 'u out_request list \<Rightarrow>
   (goerr + 'v option) \<times> 'u out_request list" where
  "api_Do N c req v sent =
     (let req1 = addHeaders c (req\<lparr>or_URL := ResolveReference N (pc_baseURL c) (or_URL req)\<rparr>)
      in (case http_Do N sent req1 of
            Inl err \<Rightarrow> Inl (ErrWrap (ErrText err) ''submit http request'')
          | Inr res \<Rightarrow> unmarshalResponse N res v,
          sent @ [req1]))"

definition api_Get ::
  "('u, 'b) http_pkg \<Rightarrow> 'u packet_client \<Rightarrow> string \<Rightarrow> ('b \<Rightarrow> string + 'v) option \<Rightarrow> 'u out_request list \<Rightarrow>
   (goerr + 'v option) \<times> 'u out_request list" where
  "api_Get N c ref v sent =
     (case url_Parse N ref of
        Inl err \<Rightarrow> (Inl (ErrWrap (ErrText err) ''setup GET request''), sent)
      | Inr u \<Rightarrow> api_Do N c \<lparr>or_Method = ''GET'', or_URL = u, or_Header = [], or_Body = None\<rparr> v sent)"

definition api_Patch ::
  "('u, 'b) http_pkg \<Rightarrow> 'u packet_client \<Rightarrow> string \<Rightarrow> string \<Rightarrow> bytes option \<Rightarrow> ('b \<Rightarrow> string + 'v) option \<Rightarrow>
   'u out_request list \<Rightarrow> (goerr + 'v option) \<times> 'u out_request list" where
  "api_Patch N c ref mime body v sent =
     (case url_Parse N ref of
        Inl err \<Rightarrow> (Inl (ErrWrap (ErrText err) ''setup PATCH request''), sent)
      | Inr u \<Rightarrow>
          api_Do N c \<lparr>or_Method = ''PATCH'', or_URL = u,
            or_Header = (if mime \<noteq> [] then AList.update ''Content-Type'' mime [] else []), or_Body = body\<rparr> v sent)"

definition api_Post ::
  "('u, 'b) http_pkg \<Rightarrow> 'u packet_client \<Rightarrow> string \<Rightarrow> string \<Rightarrow> bytes option \<Rightarrow> ('b \<Rightarrow> string + 'v) option \<Rightarrow>
   'u out_request list \<Rightarrow> (goerr + 'v option) \<times> 'u out_request list" where
  "api_Post N c ref mime body v sent =
     (case url_Parse N ref of
        Inl err \<Rightarrow> (Inl (ErrWrap (ErrText err) ''setup POST request''), sent)
      | Inr u \<Rightarrow>
          api_Do N c \<lparr>or_Method = ''POST'', or_URL = u,
            or_Header = (if mime \<noteq> [] then AList.update ''Content-Type'' mime [] else []), or_Body = body\<rparr> v sent)"

section \<open>Endpoints\<close>

definition mimeJSON :: string where
  "mimeJSON = ''application/json''"

text \<open>The identifier in a decoded answer, and the answers of the calls that decode nothing.\<close>

definition id_result :: "(goerr + string option) \<times> 'r \<Rightarrow> (goerr + string) \<times> 'r" where
  "id_result p =
     (case p of
        (Inl err, s) \<Rightarrow> (Inl err, s)
      | (Inr v, s) \<Rightarrow> (Inr (case v of None \<Rightarrow> [] | Some i \<Rightarrow> i), s))"

definition no_result :: "(goerr + string option) \<times> 'r \<Rightarrow> goerr option \<times> 'r" where
  "no_result p = (case p of (Inl err, s) \<Rightarrow> (Some err, s) | (Inr _, s) \<Rightarrow> (None, s))"

definition packet_PostHardwareComponent where
  "packet_PostHardwareComponent N c hardwareID body sent =
     api_Post N c (''/hardware/'' @ hardwareID @ ''/components'') mimeJSON (Some body) (Some (dec_response N)) sent"

definition packet_PostHardwareEvent where
  "packet_PostHardwareEvent N c ident body sent =
     id_result (api_Post N c (''/hardware/'' @ ident @ ''/events'') mimeJSON (Some body) (Some (dec_id N)) sent)"

definition packet_PostHardwarePhoneHome where
  "packet_PostHardwarePhoneHome N c ident sent =
     no_result (api_Post N c (''/hardware/'' @ ident @ ''/phone-home'') [] None None sent)"

definition packet_PostHardwareFail where
  "packet_PostHardwareFail N c ident body sent =
     no_result (api_Post N c (''/hardware/'' @ ident @ ''/fail'') mimeJSON (Some body) None sent)"

definition packet_PostHardwareProblem where
  "packet_PostHardwareProblem N c ident body sent =
     id_result (api_Post N c (''/hardware/'' @ ident @ ''/problems'') mimeJSON (Some body) (Some (dec_id N)) sent)"

definition packet_PostInstancePhoneHome where
  "packet_PostInstancePhoneHome N c ident sent =
     no_result (api_Post N c (''/devices/'' @ ident @ ''/phone-home'') [] None None sent)"

definition packet_PostInstanceEvent where
  "packet_PostInstanceEvent N c ident body sent =
     id_result (api_Post N c (''/devices/'' @ ident @ ''/events'') mimeJSON (Some body) (Some (dec_id N)) sent)"

definition packet_PostInstanceFail where
  "packet_PostInstanceFail N c ident body sent =
     no_result (api_Post N c (''/devices/'' @ ident @ ''/fail'') mimeJSON (Some body) None sent)"

text \<open>A struct with one string always encodes.\<close>

definition packet_PostInstancePassword where
  "packet_PostInstancePassword N c ident pass sent =
     no_result (api_Post N c (''/devices/'' @ ident @ ''/password'') mimeJSON
       (Some (json_Marshal (JObj [(''password'', JStr pass)]))) None sent)"

definition packet_UpdateInstance where
  "packet_UpdateInstance N c ident body sent =
     no_result (api_Patch N c (''/devices/'' @ ident) mimeJSON (Some body) None sent)"

section \<open>The bodies of the reports\<close>

definition event_json :: "string \<Rightarrow> string \<Rightarrow> bool \<Rightarrow> bytes" where
  "event_json k b private =
     json_Marshal (JObj ([(''type'', JStr k)] @ (if b = [] then [] else [(''body'', JStr b)]) @ [(''private'', JBool private)]))"

definition failure_json :: "string \<Rightarrow> bool \<Rightarrow> bytes" where
  "failure_json reason private = json_Marshal (JObj [(''reason'', JStr reason), (''private'', JBool private)])"

definition problem_json :: "string \<Rightarrow> bytes" where
  "problem_json slug = json_Marshal (JObj [(''problem'', JStr slug)])"

definition user_event_json :: "string \<Rightarrow> string \<Rightarrow> string \<Rightarrow> bytes" where
  "user_event_json code state message =
     json_Marshal (JObj [(''type'', JStr code), (''state'', JStr state), (''body'', JStr message)])"

fun body_bytes :: "body \<Rightarrow> bytes" where
  "body_bytes (RawBody b) = b"
| "body_bytes (EventBody k b p) = event_json k b p"
| "body_bytes (FailBody reason p) = failure_json reason p"
| "body_bytes (ProblemBody slug) = problem_json slug"
| "body_bytes (UserEventBody code state message) = user_event_json code state message"
| "body_bytes (ComponentsBody v) = json_Marshal v"

section \<open>The reporter interface\<close>

text \<open>A call of the interface, with the error or the identifier that its caller looks at.\<close>

definition opt_err :: "goerr option \<times> 'r \<Rightarrow> (goerr + string) \<times> 'r" where
  "opt_err p = (case p of (None, s) \<Rightarrow> (Inr [], s) | (Some err, s) \<Rightarrow> (Inl err, s))"

fun packet_call ::
  "('u, 'b) http_pkg \<Rightarrow> 'u packet_client \<Rightarrow> rcall \<Rightarrow> 'u out_request list \<Rightarrow> (goerr + string) \<times> 'u out_request list" where
  "packet_call N c (PostHardwareComponent i b) sent =
     (case packet_PostHardwareComponent N c i (body_bytes b) sent of (a, s) \<Rightarrow> (map_sum id (\<lambda>_. []) a, s))"
| "packet_call N c (PostHardwareEvent i b) sent = packet_PostHardwareEvent N c i (body_bytes b) sent"
| "packet_call N c (PostHardwarePhoneHome i) sent = opt_err (packet_PostHardwarePhoneHome N c i sent)"
| "packet_call N c (PostHardwareFail i b) sent = opt_err (packet_PostHardwareFail N c i (body_bytes b) sent)"
| "packet_call N c (PostHardwareProblem i b) sent = packet_PostHardwareProblem N c i (body_bytes b) sent"
| "packet_call N c (PostInstancePhoneHome i) sent = opt_err (packet_PostInstancePhoneHome N c i sent)"
| "packet_call N c (PostInstanceEvent i b) sent = packet_PostInstanceEvent N c i (body_bytes b) sent"
| "packet_call N c (PostInstanceFail i b) sent = opt_err (packet_PostInstanceFail N c i (body_bytes b) sent)"
| "packet_call N c (PostInstancePassword i pass) sent = opt_err (packet_PostInstancePassword N c i pass sent)"
| "packet_call N c (UpdateInstance i b) sent = opt_err (packet_UpdateInstance N c i (body_bytes b) sent)"

text \<open>The requests submitted by a sequence of calls, and the client as a reporter.\<close>

definition sent_after :: "('u, 'b) http_pkg \<Rightarrow> 'u packet_client \<Rightarrow> rcall list \<Rightarrow> 'u out_request list" where
  "sent_after N c tr = fold (\<lambda>call sent. snd (packet_call N c call sent)) tr []"

definition packet_reporter :: "('u, 'b) http_pkg \<Rightarrow> 'u packet_client \<Rightarrow> reporter" where
  "packet_reporter N c tr call = map_sum Error id (fst (packet_call N c call (sent_after N c tr)))"

lemmas packet_defs [go_defs] =
  IsNotExist_def unmarshalErrors_def NewReporter_def addHeaders_def unmarshalResponse_def api_Do_def api_Get_def
  api_Patch_def api_Post_def mimeJSON_def id_result_def no_result_def opt_err_def packet_PostHardwareComponent_def
  packet_PostHardwareEvent_def packet_PostHardwarePhoneHome_def packet_PostHardwareFail_def packet_PostHardwareProblem_def
  packet_PostInstancePhoneHome_def packet_PostInstanceEvent_def packet_PostInstanceFail_def
  packet_PostInstancePassword_def packet_UpdateInstance_def

section \<open>The contract of a verb\<close>

text \<open>
  A verb of the client submits nothing when the reference is no URL; otherwise it submits one request, with its
  method, resolved against the base, and every error it returns is wrapped.
\<close>

locale api_verb =
  fixes verb :: "('u, 'b) http_pkg \<Rightarrow> 'u packet_client \<Rightarrow> string \<Rightarrow> string \<Rightarrow> bytes option \<Rightarrow> ('b \<Rightarrow> string + 'v) option \<Rightarrow>
      'u out_request list \<Rightarrow> (goerr + 'v option) \<times> 'u out_request list"
    and name :: string
  assumes bad_url: "url_Parse N ref = Inl err \<Longrightarrow>
      verb N c ref mime b v sent = (Inl (ErrWrap (ErrText err) (''setup '' @ name @ '' request'')), sent)"
    and one_request: "url_Parse N ref = Inr u \<Longrightarrow>
      verb N c ref mime b v sent = api_Do N c \<lparr>or_Method = name, or_URL = u,
        or_Header = (if mime = [] then [] else [(''Content-Type'', mime)]), or_Body = b\<rparr> v sent"
begin

lemma keeps_sent: "\<exists>new. snd (verb N c ref mime b v sent) = sent @ new \<and> length new \<le> 1 \<and> (\<forall>q \<in> set new. or_Method q = name)"
  by (cases "url_Parse N ref") (simp_all add: bad_url one_request api_Do_def addHeaders_def Let_def)

lemma errors_wrapped: "fst (verb N c ref mime b v sent) = Inl err \<Longrightarrow> \<exists>e msg. err = ErrWrap e msg"
  by (cases "url_Parse N ref")
    (auto simp: bad_url one_request api_Do_def unmarshalResponse_def Let_def split: sum.splits option.splits if_splits)

end

interpretation post_verb: api_verb api_Post "''POST''"
  by unfold_locales (simp_all add: api_Post_def)

interpretation patch_verb: api_verb api_Patch "''PATCH''"
  by unfold_locales (simp_all add: api_Patch_def)

section \<open>What a report sends\<close>

text \<open>
  The reference: the method, the path and the body of each call of the interface, the request they make, and what
  an answer of the API means.
\<close>

fun call_method :: "rcall \<Rightarrow> string" where
  "call_method (UpdateInstance _ _) = ''PATCH''"
| "call_method _ = ''POST''"

fun call_path :: "rcall \<Rightarrow> string" where
  "call_path (PostHardwareComponent i _) = ''/hardware/'' @ i @ ''/components''"
| "call_path (PostHardwareEvent i _) = ''/hardware/'' @ i @ ''/events''"
| "call_path (PostHardwarePhoneHome i) = ''/hardware/'' @ i @ ''/phone-home''"
| "call_path (PostHardwareFail i _) = ''/hardware/'' @ i @ ''/fail''"
| "call_path (PostHardwareProblem i _) = ''/hardware/'' @ i @ ''/problems''"
| "call_path (PostInstancePhoneHome i) = ''/devices/'' @ i @ ''/phone-home''"
| "call_path (PostInstanceEvent i _) = ''/devices/'' @ i @ ''/events''"
| "call_path (PostInstanceFail i _) = ''/devices/'' @ i @ ''/fail''"
| "call_path (PostInstancePassword i _) = ''/devices/'' @ i @ ''/password''"
| "call_path (UpdateInstance i _) = ''/devices/'' @ i"

fun call_body :: "rcall \<Rightarrow> bytes option" where
  "call_body (PostHardwareComponent _ b) = Some (body_bytes b)"
| "call_body (PostHardwareEvent _ b) = Some (body_bytes b)"
| "call_body (PostHardwarePhoneHome _) = None"
| "call_body (PostHardwareFail _ b) = Some (body_bytes b)"
| "call_body (PostHardwareProblem _ b) = Some (body_bytes b)"
| "call_body (PostInstancePhoneHome _) = None"
| "call_body (PostInstanceEvent _ b) = Some (body_bytes b)"
| "call_body (PostInstanceFail _ b) = Some (body_bytes b)"
| "call_body (PostInstancePassword _ pass) = Some (json_Marshal (JObj [(''password'', JStr pass)]))"
| "call_body (UpdateInstance _ b) = Some (body_bytes b)"

fun call_decode :: "('u, 'b) http_pkg \<Rightarrow> rcall \<Rightarrow> 'b \<Rightarrow> string + string" where
  "call_decode N (PostHardwareComponent _ _) s = map_sum id (\<lambda>_. []) (dec_response N s)"
| "call_decode N (PostHardwareEvent _ _) s = dec_id N s"
| "call_decode N (PostHardwareProblem _ _) s = dec_id N s"
| "call_decode N (PostInstanceEvent _ _) s = dec_id N s"
| "call_decode N _ s = Inr []"

definition api_request :: "('u, 'b) http_pkg \<Rightarrow> 'u packet_client \<Rightarrow> rcall \<Rightarrow> 'u \<Rightarrow> 'u out_request" where
  "api_request N c call u =
     \<lparr>or_Method = call_method call, or_URL = ResolveReference N (pc_baseURL c) u,
      or_Header = (if call_body call = None then [] else [(''Content-Type'', ''application/json'')]) @
        [(''X-Packet-Staff'', ''1'')] @
        (if pc_consumerToken c = [] then [] else [(''X-Consumer-Token'', pc_consumerToken c)]) @
        (if pc_authToken c = [] then [] else [(''X-Auth-Token'', pc_authToken c)]),
      or_Body = call_body call\<rparr>"

definition api_answer :: "('u, 'b) http_pkg \<Rightarrow> rcall \<Rightarrow> string + 'b response \<Rightarrow> goerr + string" where
  "api_answer N call a =
     (case a of
        Inl err \<Rightarrow> Inl (ErrWrap (ErrText err) ''submit http request'')
      | Inr res \<Rightarrow>
          if 200 \<le> rs_StatusCode res \<and> rs_StatusCode res \<le> 399 then
            (case call_decode N call (rs_Body res) of
               Inr i \<Rightarrow> Inr i
             | Inl err \<Rightarrow>
                 Inl (ErrWrap (HttpError (rs_StatusCode res) [ErrWrap (ErrText err) ''decode json body'']) ''unmarshalling response''))
          else
            Inl (ErrWrap (HttpError (rs_StatusCode res) (unmarshalErrors (dec_errors N) (rs_Body res))) ''unmarshalling response''))"

lemma addHeaders_request:
  "addHeaders c \<lparr>or_Method = m, or_URL = u, or_Header = (if mime = [] then [] else [(''Content-Type'', mime)]), or_Body = b\<rparr> =
   \<lparr>or_Method = m, or_URL = u, or_Header = (if mime = [] then [] else [(''Content-Type'', mime)]) @ [(''X-Packet-Staff'', ''1'')] @
      (if pc_consumerToken c = [] then [] else [(''X-Consumer-Token'', pc_consumerToken c)]) @
      (if pc_authToken c = [] then [] else [(''X-Auth-Token'', pc_authToken c)]), or_Body = b\<rparr>"
  by (simp add: addHeaders_def)

lemmas endpoint_defs =
  packet_PostHardwareComponent_def packet_PostHardwareEvent_def packet_PostHardwarePhoneHome_def
  packet_PostHardwareFail_def packet_PostHardwareProblem_def packet_PostInstancePhoneHome_def
  packet_PostInstanceEvent_def packet_PostInstanceFail_def packet_PostInstancePassword_def packet_UpdateInstance_def

text \<open>One submission with a decoder, and one without.\<close>

definition submit :: "('u, 'b) http_pkg \<Rightarrow> ('b \<Rightarrow> string + 'v) option \<Rightarrow> string + 'b response \<Rightarrow> goerr + 'v option" where
  "submit N v a = (case a of Inl err \<Rightarrow> Inl (ErrWrap (ErrText err) ''submit http request'') | Inr res \<Rightarrow> unmarshalResponse N res v)"

lemma api_Do_submit:
  "api_Do N c req v sent =
     (let q = addHeaders c (req\<lparr>or_URL := ResolveReference N (pc_baseURL c) (or_URL req)\<rparr>)
      in (submit N v (http_Do N sent q), sent @ [q]))"
  by (simp add: api_Do_def submit_def Let_def)

lemma submit_id: "id_result (submit N (Some (dec_id N)) a, s) = (api_answer N call a, s)"
  if "\<And>x. call_decode N call x = dec_id N x"
  using that by (auto simp: submit_def id_result_def api_answer_def unmarshalResponse_def split: sum.splits)

lemma submit_nothing: "opt_err (no_result (submit N None a, s)) = (api_answer N call a, s)"
  if "\<And>x. call_decode N call x = Inr []"
  using that by (auto simp: submit_def no_result_def opt_err_def api_answer_def unmarshalResponse_def split: sum.splits)

lemma submit_components:
  "map_sum id (\<lambda>_. []) (submit N (Some (dec_response N)) a) = api_answer N (PostHardwareComponent i b) a"
  by (auto simp: submit_def api_answer_def unmarshalResponse_def split: sum.splits)

lemma api_Post_call:
  assumes "url_Parse N (call_path call) = Inr u" and "call_method call = ''POST''"
  shows "api_Post N c (call_path call) (if call_body call = None then [] else mimeJSON) (call_body call) v sent =
    (submit N v (http_Do N sent (api_request N c call u)), sent @ [api_request N c call u])"
  using assms
  by (simp add: post_verb.one_request api_Do_submit addHeaders_request [of c _ _ "[]", simplified]
    addHeaders_request [of c _ _ "''application/json''", simplified] api_request_def mimeJSON_def Let_def)

lemma api_Patch_call:
  assumes "url_Parse N (call_path call) = Inr u" and "call_method call = ''PATCH''"
  shows "api_Patch N c (call_path call) (if call_body call = None then [] else mimeJSON) (call_body call) v sent =
    (submit N v (http_Do N sent (api_request N c call u)), sent @ [api_request N c call u])"
  using assms
  by (simp add: patch_verb.one_request api_Do_submit addHeaders_request [of c _ _ "[]", simplified]
    addHeaders_request [of c _ _ "''application/json''", simplified] api_request_def mimeJSON_def Let_def)

lemma packet_call_Ok:
  assumes "url_Parse N (call_path call) = Inr u"
  shows "packet_call N c call sent =
    (api_answer N call (http_Do N sent (api_request N c call u)), sent @ [api_request N c call u])"
  using assms api_Post_call [OF assms, of c "Some (dec_id N)" sent] api_Post_call [OF assms, of c "None :: ('b \<Rightarrow> string + string) option" sent]
    api_Post_call [OF assms, of c "Some (dec_response N)" sent] api_Patch_call [OF assms, of c "None :: ('b \<Rightarrow> string + string) option" sent]
  by (cases call) (simp_all add: endpoint_defs submit_id submit_nothing submit_components)

lemma packet_call_bad_url:
  assumes "url_Parse N (call_path call) = Inl err"
  shows "packet_call N c call sent = (Inl (ErrWrap (ErrText err) (''setup '' @ call_method call @ '' request'')), sent)"
  using assms
  by (cases call) (simp_all add: endpoint_defs post_verb.bad_url patch_verb.bad_url id_result_def no_result_def opt_err_def)

text \<open>
  C19: every call of the reporter makes at most one request to the API.  A call whose path is no URL sends nothing and
  fails.  Any other call sends exactly one request: the method, the path under the base URL, the JSON body and the
  credentials of that call.  It succeeds exactly when the API answers with a status from 200 to 399 and a body that
  decodes, and it returns the decoded identifier.
\<close>

theorem packet_call_exact:
  "packet_call N c call sent =
     (case url_Parse N (call_path call) of
        Inl err \<Rightarrow> (Inl (ErrWrap (ErrText err) (''setup '' @ call_method call @ '' request'')), sent)
      | Inr u \<Rightarrow>
          (api_answer N call (http_Do N sent (api_request N c call u)), sent @ [api_request N c call u]))"
  by (simp add: packet_call_Ok packet_call_bad_url split: sum.split)

text \<open>The error of a missing object is wrapped on its way out, so the test for it never succeeds.\<close>

lemma IsNotExist_never: "fst (packet_call N c call sent) = Inl err \<Longrightarrow> \<not> IsNotExist err"
  by (cases "url_Parse N (call_path call)")
    (auto simp: packet_call_Ok packet_call_bad_url api_answer_def IsNotExist_def split: sum.splits if_splits)

section \<open>Sequences of reports\<close>

definition call_requests :: "('u, 'b) http_pkg \<Rightarrow> 'u packet_client \<Rightarrow> rcall \<Rightarrow> 'u out_request list" where
  "call_requests N c call = (case url_Parse N (call_path call) of Inl _ \<Rightarrow> [] | Inr u \<Rightarrow> [api_request N c call u])"

lemma packet_call_sends: "snd (packet_call N c call sent) = sent @ call_requests N c call"
  by (simp add: packet_call_Ok packet_call_bad_url call_requests_def split: sum.split)

lemma sent_after_calls: "sent_after N c tr = concat (map (call_requests N c) tr)"
proof -
  have "fold (\<lambda>call sent. snd (packet_call N c call sent)) tr sent = sent @ concat (map (call_requests N c) tr)" for sent
    by (induction tr arbitrary: sent) (simp_all add: packet_call_sends)
  then show ?thesis by (simp add: sent_after_def)
qed

lemma call_requests_method: "q \<in> set (call_requests N c call) \<Longrightarrow> or_Method q = call_method call"
  by (auto simp: call_requests_def api_request_def split: sum.splits)

lemma call_method_update: "call_method call = ''PATCH'' \<longleftrightarrow> is_update call"
  by (cases call) (simp_all add: is_update_def)

lemma sent_updates:
  "filter (\<lambda>q. or_Method q = ''PATCH'') (sent_after N c tr) = sent_after N c (filter is_update tr)"
proof -
  have "filter (\<lambda>q. or_Method q = ''PATCH'') (call_requests N c call) = (if is_update call then call_requests N c call else [])" for call
    using call_requests_method [of _ N c call] call_method_update [of call]
    by (auto simp: filter_empty_conv filter_id_conv)
  then show ?thesis by (induction tr) (simp_all add: sent_after_calls)
qed

text \<open>Both tokens are set when the process builds the reporter, so every request carries them.\<close>

lemma main_reporter_authenticated:
  assumes "getReporter E (\<lambda>consumer auth. map_sum id (packet_reporter N) (NewReporter ok ei procs u consumer auth)) env = Inr r"
    and "Getenv env ''DATA_MODEL_VERSION'' = []"
  obtains c where "r = packet_reporter N c" "pc_consumerToken c \<noteq> []" "pc_authToken c \<noteq> []" "pc_baseURL c = u"
    "\<And>tr q. q \<in> set (sent_after N c tr) \<Longrightarrow>
       (''X-Consumer-Token'', env_Get E ''API_CONSUMER_TOKEN'') \<in> set (or_Header q) \<and>
       (''X-Auth-Token'', env_Get E ''API_AUTH_TOKEN'') \<in> set (or_Header q)"
proof -
  define c where "c = \<lparr>pc_baseURL = u, pc_consumerToken = env_Get E ''API_CONSUMER_TOKEN'',
    pc_authToken = env_Get E ''API_AUTH_TOKEN'', pc_MaxIdleConnsPerHost = ei ''BOOTS_HTTP_HOST_CONNECTIONS'' (procs div 2)\<rparr>"
  have c: "r = packet_reporter N c" "pc_consumerToken c \<noteq> []" "pc_authToken c \<noteq> []" "pc_baseURL c = u"
    using assms by (auto simp: getReporter_def NewReporter_def c_def Let_def split: if_splits)
  moreover have "(''X-Consumer-Token'', env_Get E ''API_CONSUMER_TOKEN'') \<in> set (or_Header q) \<and>
      (''X-Auth-Token'', env_Get E ''API_AUTH_TOKEN'') \<in> set (or_Header q)" if "q \<in> set (sent_after N c tr)" for tr q
    using that c(2, 3) by (auto simp: sent_after_calls call_requests_def api_request_def c_def split: sum.splits)
  ultimately show ?thesis by (rule that)
qed

text \<open>
  C18: seen from the API, phoning home turns PXE off exactly when the event is \<open>provisioning.104.01\<close> of an
  instance and the API accepted it: then the requests contain exactly one update, a PATCH of that device with the body
  that disables PXE, and in every other case they contain none.
\<close>

theorem phone_home_patches_once:
  assumes "phoneHome k (packet_reporter N c) b j [] = Ok (ok, tr)"
  shows "filter (\<lambda>q. or_Method q = ''PATCH'') (sent_after N c tr) =
    (case posterFromJSON k b of
       Ok (Inr p) \<Rightarrow>
         if InstanceID j \<noteq> [] \<and> kind p = ''provisioning.104.01'' \<and>
            fst (postInstance (packet_reporter N c) (InstanceID j) p []) = None
         then
           (case url_Parse N (''/devices/'' @ InstanceID j) of
              Inl _ \<Rightarrow> []
            | Inr u \<Rightarrow> [api_request N c (UpdateInstance (InstanceID j) (RawBody allow_pxe_false)) u])
         else []
     | _ \<Rightarrow> [])"
proof -
  have one: "sent_after N c [UpdateInstance (InstanceID j) (RawBody allow_pxe_false)] =
      (case url_Parse N (''/devices/'' @ InstanceID j) of
         Inl _ \<Rightarrow> [] | Inr u \<Rightarrow> [api_request N c (UpdateInstance (InstanceID j) (RawBody allow_pxe_false)) u])"
    by (simp add: sent_after_calls call_requests_def)
  have none: "sent_after N c [] = []" by (simp add: sent_after_def)
  show ?thesis
    unfolding sent_updates phoneHome_disables_pxe_iff [OF assms]
    by (simp add: one none split: go.split sum.split)
qed

definition sample_answer :: bytes where
  "sample_answer = json_Marshal (JObj [(''id'', JStr ''id''), (''state'', JStr ''queued'')])"

definition sample_api :: "(string, bytes) http_pkg" where
  "sample_api = \<lparr>url_Parse = Inr, ResolveReference = (@), http_Do = (\<lambda>sent q. Inr \<lparr>rs_StatusCode = 201, rs_Body = sample_answer\<rparr>),
     stream_bytes = (\<lambda>b. b), hp_json = sample_json\<rparr>"

lemma sample_dec_id: "dec_id sample_api sample_answer = Inr ''id''"
  by code_simp

definition sample_client :: "string packet_client" where
  "sample_client = \<lparr>pc_baseURL = ''https://api'', pc_consumerToken = ''ct'', pc_authToken = ''at'', pc_MaxIdleConnsPerHost = 4\<rparr>"

theorem phone_home_patches_once_witness:
  "\<exists>ok tr. phoneHome sample_codec (packet_reporter sample_api sample_client) sample_event sample_installed [] = Ok (ok, tr) \<and>
     filter (\<lambda>q. or_Method q = ''PATCH'') (sent_after sample_api sample_client tr) =
       [\<lparr>or_Method = ''PATCH'', or_URL = ''https://api/devices/i-1'',
         or_Header = [(''Content-Type'', ''application/json''), (''X-Packet-Staff'', ''1''), (''X-Consumer-Token'', ''ct''),
           (''X-Auth-Token'', ''at'')],
         or_Body = Some allow_pxe_false\<rparr>]"
proof -
  obtain ok tr where h: "phoneHome sample_codec (packet_reporter sample_api sample_client) sample_event sample_installed [] = Ok (ok, tr)"
    using sample_phoneHome by blast
  have acc: "packet_reporter sample_api sample_client [] (PostInstanceEvent ''i-1'' (RawBody sample_event)) = Inr ''id''"
    using packet_call_Ok [of sample_api "PostInstanceEvent ''i-1'' (RawBody sample_event)" "''/devices/i-1/events''" sample_client]
    using sample_dec_id by (simp add: packet_reporter_def sample_api_def api_answer_def)
  from phone_home_patches_once [OF h] h show ?thesis
    by (simp add: sample_poster sample_installed_id event_post_def acc)
      (simp add: sample_api_def sample_client_def api_request_def)
qed

section \<open>The log of the requests sent\<close>

text \<open>
  The transport that logs, \<open>Transport.RoundTrip\<close> of \<open>src/httplog/httplog.go\<close>: it returns what the wrapped transport
  returns, and writes a line before it and, with a response, a line after it.
\<close>

definition RoundTrip ::
  "('u \<Rightarrow> string) \<Rightarrow> ('u out_request \<Rightarrow> 'b response option \<times> string option) \<Rightarrow> 'u out_request \<Rightarrow>
   ('b response option \<times> string option) \<times> (string \<times> string \<times> string \<times> int option) list" where
  "RoundTrip show_url rt req =
     (let method = or_Method req; uri = show_url (or_URL req); (res, err) = rt req
      in ((res, err), [(''cs'', method, uri, None)] @
           (case res of None \<Rightarrow> [] | Some r \<Rightarrow> [(''cr'', method, uri, Some (rs_StatusCode r))])))"

lemma RoundTrip_passes: "fst (RoundTrip s rt req) = rt req"
  by (simp add: RoundTrip_def Let_def case_prod_unfold)

section \<open>The bodies that are sent\<close>

text \<open>
  A failure is sent as the JSON that the phone-home endpoint reads failures from: decoding the body gives the reason,
  with invalid bytes replaced, and the flag back.
\<close>

lemma failure_body_round_trip:
  "dec_failure k (body_bytes (FailBody reason private)) = Inr \<lparr>f_Reason = coerce reason, f_Private = private\<rparr>"
proof -
  let ?v = "JObj [(''reason'', JStr reason), (''private'', JBool private)]"
  have "json_fits maxNestingDepth ?v" by (simp add: maxNestingDepth_def)
  from json_parse_Marshal [OF this] have p: "json_parse (failure_json reason private) =
      Some (JsObj [(coerce ''reason'', JsStr (coerce reason)), (coerce ''private'', JsBool private)])"
    by (simp add: failure_json_def)
  have "coerce ''reason'' = ''reason''" "coerce ''private'' = ''private''" by code_simp+
  then show ?thesis
    by (simp add: dec_failure_def Unmarshal_def p st_failure_def st_struct_def field_of_def fld_def st_string_def st_bool_def
        or_error_def)
qed

end
