(* ===== verification/Job_Modes.thy ===== *)
theory Job_Modes
  imports Go_Prelude "HOL-Library.Multiset"
begin

text \<open>
  The modes of a job as they are named in queries, \<open>src/job/modes.go\<close>.  A mode is a number; the Go maps from modes to
  names are lists of pairs, and the map from slugs to modes is built in the order \<open>ord\<close> in which a \<open>range\<close> visits them.
\<close>

section \<open>Names\<close>

definition modeSlugs :: "(nat \<times> string) list" where
  "modeSlugs = [(0, ''none''), (1, ''hardware''), (2, ''management''), (3, ''instance''), (4, ''prov''), (5, ''deprov'')]"

definition Slug :: "nat \<Rightarrow> string" where
  "Slug m = (case map_of modeSlugs m of Some s \<Rightarrow> s | None \<Rightarrow> ''unknown'')"

definition modeStrings :: "(nat \<times> string) list" where
  "modeStrings = [(0, ''(no mode)''), (1, ''Hardware''), (2, ''Management''), (3, ''Instance''), (4, ''Provision''),
     (5, ''Deprovision'')]"

definition mode_String :: "nat \<Rightarrow> string" where
  "mode_String m = (case map_of modeStrings m of Some s \<Rightarrow> s | None \<Rightarrow> ''(unknown mode)'')"

definition modesBySlug :: "(nat \<times> string) list \<Rightarrow> string \<Rightarrow> nat option" where
  "modesBySlug ord = fold (\<lambda>(mode, slug) modes. modes(slug \<mapsto> mode)) ord Map.empty"

section \<open>Queries\<close>

text \<open>\<open>url.Values.Get\<close>: the first value of a key, or the empty string.\<close>

definition values_Get :: "(string \<times> string list) list \<Rightarrow> string \<Rightarrow> string" where
  "values_Get params key = (case map_of params key of Some (v # _) \<Rightarrow> v | _ \<Rightarrow> [])"

text \<open>The result is the set of the modes that the Go map takes to true.\<close>

definition modesFromQuery :: "(nat \<times> string) list \<Rightarrow> (string \<times> string list) list \<Rightarrow> nat list" where
  "modesFromQuery ord params =
     (let str = values_Get params ''modes'';
          str = (if str = [] then values_Get params ''mode'' else str)
      in fold (\<lambda>slug modes. case modesBySlug ord slug of None \<Rightarrow> modes | Some mode \<Rightarrow> List.insert mode modes)
           (Split str (CHR '','')) [])"

section \<open>The two maps are inverse\<close>

lemma modesBySlug_map_of: "distinct (map snd ord) \<Longrightarrow> modesBySlug ord = map_of (map prod.swap ord)"
proof -
  assume d: "distinct (map snd ord)"
  have "fold (\<lambda>(mode, slug) modes. modes(slug \<mapsto> mode)) xs m = m ++ map_of (rev (map prod.swap xs))" for xs and m :: "string \<rightharpoonup> nat"
    by (induction xs arbitrary: m) (auto simp: fun_eq_iff map_add_def split: option.splits)
  then have "modesBySlug ord = map_of (rev (map prod.swap ord))" by (simp add: modesBySlug_def)
  also have "\<dots> = map_of (map prod.swap ord)"
  proof -
    have "distinct (map fst (map prod.swap ord))" using d by (simp add: o_def prod.swap_def)
    then show ?thesis by (intro map_of_inject_set [THEN iffD2]) (simp_all add: rev_map [symmetric])
  qed
  finally show ?thesis .
qed

lemma modeSlugs_distinct: "distinct (map fst modeSlugs)" "distinct (map snd modeSlugs)"
  by code_simp+

text \<open>Whatever order the map was visited in, a slug leads to the mode it names.\<close>

lemma modesBySlug_iff:
  assumes "mset ord = mset modeSlugs"
  shows "modesBySlug ord slug = Some mode \<longleftrightarrow> (mode, slug) \<in> set modeSlugs"
proof -
  have s: "set ord = set modeSlugs" using assms by (rule mset_eq_setD)
  have "mset (map snd ord) = mset (map snd modeSlugs)" using assms by simp
  then have d: "distinct (map snd ord)" using modeSlugs_distinct(2) by (metis mset_eq_imp_distinct_iff)
  then have "distinct (map fst (map prod.swap ord))" by (simp add: o_def prod.swap_def)
  then have "map_of (map prod.swap ord) slug = Some mode \<longleftrightarrow> (slug, mode) \<in> set (map prod.swap ord)" by simp
  then show ?thesis using s modesBySlug_map_of [OF d] by force
qed

lemma modesBySlug_Slug: "mset ord = mset modeSlugs \<Longrightarrow> m < 6 \<Longrightarrow> modesBySlug ord (Slug m) = Some m"
proof -
  have "list_all (\<lambda>m. (m, Slug m) \<in> set modeSlugs) [0..<6]" by code_simp
  then show "mset ord = mset modeSlugs \<Longrightarrow> m < 6 \<Longrightarrow> ?thesis" by (simp add: modesBySlug_iff list_all_iff)
qed

text \<open>A query selects exactly the modes whose slugs it lists, in whatever order the maps are visited.\<close>

lemma modesFromQuery_exact:
  assumes "mset ord = mset modeSlugs"
  shows "set (modesFromQuery ord params) =
    {mode. \<exists>slug. (mode, slug) \<in> set modeSlugs \<and>
       slug \<in> set (Split (if values_Get params ''modes'' = [] then values_Get params ''mode'' else values_Get params ''modes'') (CHR '',''))}"
proof -
  have "set (fold (\<lambda>slug modes. case modesBySlug ord slug of None \<Rightarrow> modes | Some mode \<Rightarrow> List.insert mode modes) ss ms) =
      set ms \<union> {mode. \<exists>slug \<in> set ss. modesBySlug ord slug = Some mode}" for ss ms
    by (induction ss arbitrary: ms) (auto split: option.splits)
  then show ?thesis
    by (auto simp: modesFromQuery_def Let_def modesBySlug_iff [OF assms])
qed

end
