(* ===== verification/Metrics.thy ===== *)
theory Metrics
  imports Go_Prelude "HOL-Library.Multiset"
begin

text \<open>
  The metrics, \<open>src/metrics/setup.go\<close>.  The Prometheus client is outside the model: what the program does with it is
  the sequence of calls it makes.  The declarations of \<open>Init\<close> give every vector its label names; a call with other names
  panics in the client, and so does a call on a vector that was not declared.
\<close>

section \<open>Calls\<close>

datatype vec =
    DHCPTotal | CacherDuration | CacherCacheHits | CacherTotal | CacherRequestsInProgress | DiscoverDuration
  | HardwareDiscovers | DiscoversInProgress | JobDuration | JobsTotal | JobsInProgress

type_synonym labels = "(string \<times> string) list"

text \<open>
  The constructor of a vector, \<open>With\<close> alone, \<open>With\<close> followed by \<open>Inc\<close>, \<open>WithLabelValues\<close> followed by \<open>Inc\<close>, \<open>Dec\<close>, and
  the observation of a timer.
\<close>

datatype mcall =
    NewVec vec string "string list"
  | With vec labels
  | Inc vec labels
  | IncValues vec "string list"
  | Dec vec labels
  | ObserveDuration vec labels

text \<open>\<open>initCounterLabels\<close>, \<open>initGaugeLabels\<close> and \<open>initObserverLabels\<close> have the same body.\<close>

definition initLabels :: "vec \<Rightarrow> labels list \<Rightarrow> mcall list" where
  "initLabels m l = map (With m) l"

definition dhcp_label :: "string \<Rightarrow> string \<Rightarrow> labels" where
  "dhcp_label dir ty = [(''op'', dir), (''type'', ty), (''giaddr'', ''0.0.0.0'')]"

definition from_label :: "string \<Rightarrow> labels" where
  "from_label src = [(''from'', src)]"

definition job_label :: "string \<Rightarrow> string \<Rightarrow> labels" where
  "job_label src act = [(''from'', src), (''op'', act)]"

definition dhcp_types :: "string list" where
  "dhcp_types = [''DHCPACK'', ''DHCPDECLINE'', ''DHCPDISCOVER'', ''DHCPINFORM'', ''DHCPNAK'', ''DHCPOFFER'', ''DHCPRELEASE'',
     ''DHCPREQUEST'']"

definition dhcp_labelValues :: "labels list" where
  "dhcp_labelValues = map (dhcp_label ''recv'') dhcp_types @ [dhcp_label ''send'' ''DHCPOFFER'']"

definition from_labelValues :: "labels list" where
  "from_labelValues = [from_label ''dhcp'', from_label ''ip'']"

definition job_labelValues :: "labels list" where
  "job_labelValues = map (job_label ''dhcp'') dhcp_types @
     [job_label ''http'' ''file'', job_label ''http'' ''hardware-components'', job_label ''http'' ''phone-home'',
      job_label ''http'' ''problem'', job_label ''http'' ''event'', job_label ''tftp'' ''read'']"

definition metrics_Init :: "mcall list" where
  "metrics_Init =
     [NewVec DHCPTotal ''dhcp_total'' [''op'', ''type'', ''giaddr'']] @
     initLabels DHCPTotal dhcp_labelValues @
     [NewVec CacherDuration ''cacher_request_duration_seconds'' [''from''],
      NewVec CacherCacheHits ''cacher_cache_hits'' [''from''],
      NewVec CacherTotal ''cacher_total'' [''from''],
      NewVec CacherRequestsInProgress ''cacher_requests_in_progress'' [''from'']] @
     initLabels CacherDuration from_labelValues @
     initLabels CacherCacheHits from_labelValues @
     initLabels CacherTotal from_labelValues @
     initLabels CacherRequestsInProgress from_labelValues @
     [NewVec DiscoverDuration ''discover_duration_seconds'' [''from''],
      NewVec HardwareDiscovers ''discover_total'' [''from''],
      NewVec DiscoversInProgress ''discover_in_progress'' [''from'']] @
     initLabels DiscoverDuration from_labelValues @
     initLabels HardwareDiscovers from_labelValues @
     initLabels DiscoversInProgress from_labelValues @
     [NewVec JobDuration ''jobs_duration_seconds'' [''from'', ''op''],
      NewVec JobsTotal ''jobs_total'' [''from'', ''op''],
      NewVec JobsInProgress ''jobs_in_progress'' [''from'', ''op'']] @
     initLabels JobDuration job_labelValues @
     initLabels JobsTotal job_labelValues @
     initLabels JobsInProgress job_labelValues"

lemmas metrics_defs [go_defs] =
  initLabels_def dhcp_label_def from_label_def job_label_def dhcp_types_def dhcp_labelValues_def from_labelValues_def
  job_labelValues_def metrics_Init_def

section \<open>Well-typed calls\<close>

text \<open>The label names a sequence of calls has declared.\<close>

fun declares :: "mcall \<Rightarrow> (vec \<times> string list) list" where
  "declares (NewVec m _ names) = [(m, names)]"
| "declares _ = []"

definition declared :: "mcall list \<Rightarrow> (vec \<times> string list) list" where
  "declared cs = concat (map declares cs)"

definition labels_ok :: "string list \<Rightarrow> labels \<Rightarrow> bool" where
  "labels_ok names l \<longleftrightarrow> distinct (map fst l) \<and> set (map fst l) = set names"

text \<open>A vector is declared once, and a call has exactly the label names of its vector.\<close>

fun call_ok :: "(vec \<times> string list) list \<Rightarrow> mcall \<Rightarrow> bool" where
  "call_ok ds (NewVec m _ names) = (map_of ds m = None \<and> distinct names)"
| "call_ok ds (With m l) = (case map_of ds m of None \<Rightarrow> False | Some names \<Rightarrow> labels_ok names l)"
| "call_ok ds (Inc m l) = (case map_of ds m of None \<Rightarrow> False | Some names \<Rightarrow> labels_ok names l)"
| "call_ok ds (IncValues m vs) = (case map_of ds m of None \<Rightarrow> False | Some names \<Rightarrow> length vs = length names)"
| "call_ok ds (Dec m l) = (case map_of ds m of None \<Rightarrow> False | Some names \<Rightarrow> labels_ok names l)"
| "call_ok ds (ObserveDuration m l) = (case map_of ds m of None \<Rightarrow> False | Some names \<Rightarrow> labels_ok names l)"

fun calls_ok :: "(vec \<times> string list) list \<Rightarrow> mcall list \<Rightarrow> bool" where
  "calls_ok ds [] = True"
| "calls_ok ds (c # cs) = (call_ok ds c \<and> calls_ok (declares c @ ds) cs)"

lemma calls_ok_append: "calls_ok ds (xs @ ys) \<longleftrightarrow> calls_ok ds xs \<and> calls_ok (rev (declared xs) @ ds) ys"
proof (induction xs arbitrary: ds)
  case (Cons c xs)
  have "rev (declares c) = declares c" by (cases c) simp_all
  then show ?case by (simp add: Cons.IH declared_def)
qed (simp add: declared_def)

lemma calls_ok_no_new: "declared cs = [] \<Longrightarrow> calls_ok ds cs \<longleftrightarrow> list_all (call_ok ds) cs"
  by (induction cs) (auto simp: declared_def)

definition init_vecs :: "(vec \<times> string list) list" where
  "init_vecs = rev (declared metrics_Init)"

lemma Init_ok: "calls_ok [] metrics_Init"
  by code_simp

lemma init_vecs_eval:
  "map_of init_vecs JobDuration = Some [''from'', ''op'']" "map_of init_vecs JobsTotal = Some [''from'', ''op'']"
  "map_of init_vecs JobsInProgress = Some [''from'', ''op'']" "map_of init_vecs DHCPTotal = Some [''op'', ''type'', ''giaddr'']"
  "map_of init_vecs HardwareDiscovers = Some [''from'']" "map_of init_vecs DiscoversInProgress = Some [''from'']"
  "map_of init_vecs DiscoverDuration = Some [''from'']"
  by code_simp+

lemma label_shapes_ok: "labels_ok [''from'', ''op''] (job_label src act)" "labels_ok [''from''] (from_label src)"
  by (auto simp: labels_ok_def job_label_def from_label_def)

section \<open>Gauges under interleaving\<close>

text \<open>The value of a gauge after a sequence of calls, from zero.\<close>

definition gauge :: "vec \<Rightarrow> labels \<Rightarrow> mcall list \<Rightarrow> int" where
  "gauge m l cs = int (count_list cs (Inc m l)) - int (count_list cs (Dec m l))"

lemma gauge_simps [simp]:
  "gauge m l [] = 0"
  "gauge m l (c # cs) = (if c = Inc m l then 1 else if c = Dec m l then - 1 else 0) + gauge m l cs"
  "gauge m l (xs @ ys) = gauge m l xs + gauge m l ys"
  by (auto simp: gauge_def)

definition in_progress :: "vec \<Rightarrow> bool" where
  "in_progress m \<longleftrightarrow> m = JobsInProgress \<or> m = DiscoversInProgress"

text \<open>A request that takes a gauge up by at most one and has taken it down again when it ends.\<close>

definition balanced :: "mcall list \<Rightarrow> bool" where
  "balanced cs \<longleftrightarrow> (\<forall>m l n. in_progress m \<longrightarrow> gauge m l cs = 0 \<and> gauge m l (drop n cs) \<in> {- 1, 0})"

text \<open>
  Requests run in goroutines of their own: the calls of the requests \<open>runs\<close> interleave.  The calls made so far are the
  second argument and the calls each request still has to make the third.
\<close>

inductive interleaved :: "mcall list list \<Rightarrow> mcall list \<Rightarrow> mcall list list \<Rightarrow> bool" for runs where
  start: "interleaved runs [] runs"
| step: "interleaved runs tr rem \<Longrightarrow> i < length rem \<Longrightarrow> rem ! i = c # cs \<Longrightarrow> interleaved runs (tr @ [c]) (rem[i := cs])"

lemma sum_list_upd: "i < length xs \<Longrightarrow> sum_list (map f (xs[i := y])) = sum_list (map f xs) - f (xs ! i) + (f y :: int)"
  by (induction xs arbitrary: i) (auto split: nat.splits)

lemma interleaved_sum:
  "interleaved runs tr rem \<Longrightarrow> gauge m l tr + (\<Sum>r \<leftarrow> rem. gauge m l r) = (\<Sum>r \<leftarrow> runs. gauge m l r)"
  by (induction rule: interleaved.induct) (auto simp: sum_list_upd)

lemma interleaved_suffix:
  "interleaved runs tr rem \<Longrightarrow> length rem = length runs \<and> (\<forall>i < length runs. \<exists>n. rem ! i = drop n (runs ! i))"
proof (induction rule: interleaved.induct)
  case start
  then show ?case by (metis drop0)
next
  case (step tr rem i c cs)
  have "\<exists>n. rem[i := cs] ! j = drop n (runs ! j)" if "j < length runs" for j
  proof (cases "j = i")
    case True
    from step.IH step.hyps obtain n where "drop n (runs ! i) = c # cs" by metis
    then have "drop (Suc n) (runs ! i) = cs" by (metis drop_Suc list.sel(3) tl_drop)
    with True that step show ?thesis by auto
  qed (use that step.IH in simp)
  with step.IH show ?case by simp
qed

lemma sum_list_between:
  "(\<And>r. r \<in> set rs \<Longrightarrow> f r \<in> {- 1, 0 :: int}) \<Longrightarrow> - int (length rs) \<le> sum_list (map f rs) \<and> sum_list (map f rs) \<le> 0"
  by (induction rs) force+

text \<open>At every moment a gauge lies between zero and the number of requests, and it is zero when all have ended.\<close>

lemma interleaved_gauge:
  assumes "interleaved runs tr rem" and "\<forall>r \<in> set runs. balanced r" and "in_progress m"
  shows "0 \<le> gauge m l tr \<and> gauge m l tr \<le> int (length runs) \<and> (list_all (\<lambda>r. r = []) rem \<longrightarrow> gauge m l tr = 0)"
proof -
  from assms(2, 3) have "(\<Sum>r \<leftarrow> runs. gauge m l r) = 0" by (induction runs) (auto simp: balanced_def)
  with interleaved_sum [OF assms(1), of m l] have s: "gauge m l tr = - (\<Sum>r \<leftarrow> rem. gauge m l r)" by simp
  have len: "length rem = length runs" using interleaved_suffix [OF assms(1)] by blast
  have "gauge m l r \<in> {- 1, 0}" if r: "r \<in> set rem" for r
  proof -
    from r obtain i where "i < length rem" "r = rem ! i" by (metis in_set_conv_nth)
    with interleaved_suffix [OF assms(1)] obtain n where "r = drop n (runs ! i)" "runs ! i \<in> set runs" by auto
    with assms(2, 3) show ?thesis by (auto simp: balanced_def)
  qed
  then have "- int (length rem) \<le> (\<Sum>r \<leftarrow> rem. gauge m l r) \<and> (\<Sum>r \<leftarrow> rem. gauge m l r) \<le> 0"
    by (rule sum_list_between)
  with s len have "0 \<le> gauge m l tr \<and> gauge m l tr \<le> int (length runs)" by simp
  moreover have "list_all (\<lambda>r. r = []) rem \<Longrightarrow> (\<Sum>r \<leftarrow> rem. gauge m l r) = 0" by (induction rem) auto
  ultimately show ?thesis using s by simp
qed

lemma interleaved_two:
  assumes "n \<le> length a" and "k \<le> length b"
  shows "interleaved [a, b] (take n a @ take k b) [drop n a, drop k b]"
proof -
  have first: "interleaved [a, b] (take n a) [drop n a, b]" using assms(1)
  proof (induction n)
    case 0
    then show ?case using interleaved.start [of "[a, b]"] by simp
  next
    case (Suc n)
    then have "interleaved [a, b] (take n a @ [a ! n]) ([drop n a, b][0 := drop (Suc n) a])"
      by (intro interleaved.step) (simp_all add: Cons_nth_drop_Suc)
    then show ?case using Suc.prems by (simp add: take_Suc_conv_app_nth)
  qed
  from assms(2) show ?thesis
  proof (induction k)
    case (Suc k)
    then have "interleaved [a, b] ((take n a @ take k b) @ [b ! k]) ([drop n a, drop k b][1 := drop (Suc k) b])"
      by (intro interleaved.step) (simp_all add: Cons_nth_drop_Suc)
    then show ?case using Suc.prems by (simp add: take_Suc_conv_app_nth)
  qed (use first in simp)
qed

end
