(* ===== verification/Boots_Metrics.thy ===== *)
theory Boots_Metrics
  imports Metrics Boots_Http
begin

text \<open>
  What the handlers count: the calls to the metrics in \<open>serve\<close> of \<open>src/cmd/boots/dhcp.go\<close>, in the handlers of
  \<open>src/cmd/boots/http.go\<close> and in \<open>getDiscoveryFromEM\<close> of \<open>src/client/cacher/hardware_finder.go\<close>.  Each handler is the one
  of the other theories together with its calls, in order.  A panic of an HTTP handler still runs what it deferred; a
  panic of the DHCP handler ends the process.
\<close>

section \<open>The handlers with their metrics\<close>

definition http_metrics :: "string \<Rightarrow> 'a go \<Rightarrow> 'a go \<times> mcall list" where
  "http_metrics act body =
     (let labels = job_label ''http'' act
      in (body, [Inc JobsTotal labels, Inc JobsInProgress labels, With JobsInProgress labels, With JobDuration labels] @
            [ObserveDuration JobDuration labels, Dec JobsInProgress labels]))"

definition serveJobFile_m where
  "serveJobFile_m L c sc i s rq w tr = http_metrics ''file'' (serveJobFile L c sc i s rq w tr)"

definition serveHardware_m where
  "serveHardware_m L c k s rq w tr = http_metrics ''hardware-components'' (serveHardware L c k s rq w tr)"

definition servePhoneHome_m where
  "servePhoneHome_m L c k s rq w tr = http_metrics ''phone-home'' (servePhoneHome L c k s rq w tr)"

definition serveProblem_m where
  "serveProblem_m L c k s rq w tr = http_metrics ''problem'' (serveProblem L c k s rq w tr)"

text \<open>The calls of the DHCP handler before it creates the job, and after the job is done.\<close>

definition dhcp_begun :: "string \<Rightarrow> string \<Rightarrow> mcall list" where
  "dhcp_begun ty gi =
     (let labels = job_label ''dhcp'' ty
      in [IncValues DHCPTotal [''recv'', ty, gi], Inc JobsTotal labels, Inc JobsInProgress labels, With JobDuration labels])"

definition dhcp_ended :: "string \<Rightarrow> mcall list" where
  "dhcp_ended ty = (let labels = job_label ''dhcp'' ty in [Dec JobsInProgress labels, ObserveDuration JobDuration labels])"

text \<open>\<open>typ_String\<close> prints a DHCP message type.\<close>

definition serve_m ::
  "(nat \<Rightarrow> string) \<Rightarrow> 'p dhcp4 \<Rightarrow> map_order \<Rightarrow> conf \<Rightarrow> spanctx \<Rightarrow> reporter \<Rightarrow> ('p \<Rightarrow> string option) \<Rightarrow> dhcpHandler \<Rightarrow> 'p \<Rightarrow>
   rcall list \<Rightarrow> ('p list \<times> rcall list) go \<times> mcall list" where
  "serve_m typ_String L ord c sc r write d req tr =
     (let mac = pk_GetCHAddr L req; gi = pk_GetGIAddr L req; ty = typ_String (pk_GetMessageType L req);
          begun = dhcp_begun ty (ip_String gi); ended = dhcp_ended ty
      in case ShouldIgnoreOUI c (mac_String mac) of
           Fault e \<Rightarrow> (Fault e, [])
         | Ok True \<Rightarrow> (Ok ([], tr), [])
         | Ok False \<Rightarrow>
             if ShouldIgnoreGI c (ip_String gi) then (Ok ([], tr), [])
             else
               (case getCircuitID L req of
                  Fault e \<Rightarrow> (Fault e, begun)
                | Ok (circuitID, _) \<Rightarrow>
                    (case CreateFromDHCP L c (dh_finder d) (dh_engine d) mac gi circuitID of
                       Fault e \<Rightarrow> (Fault e, begun)
                     | Ok (Inl err) \<Rightarrow> (Ok ([], tr), begun @ ended)
                     | Ok (Inr j0) \<Rightarrow>
                         (let j = j0\<lparr>j_IpxeBaseURL := dh_ipxeBaseURL d, j_BootsBaseURL := dh_bootsBaseURL d,
                            j_NextServer := dh_nextServer d\<rparr>
                          in case ServeDHCP L ord c sc r write j req tr of
                               Fault e \<Rightarrow> (Fault e, begun)
                             | Ok sv \<Rightarrow>
                                 (Ok (sv_sent sv,
                                    case sv_err sv of
                                      Some err \<Rightarrow> if sv_ok sv then sv_calls sv else job_Error r err j (sv_calls sv)
                                    | None \<Rightarrow> sv_calls sv),
                                  begun @ (if sv_ok sv then [IncValues DHCPTotal [''send'', ''DHCPOFFER'', ip_String gi]] else []) @
                                  ended)))))"

definition getDiscoveryFromEM_m where
  "getDiscoveryFromEM_m post mac giaddr circuitID =
     (getDiscoveryFromEM post mac giaddr circuitID,
      if giaddr = [] then []
      else
        (let labels = from_label ''dhcp''
         in [Inc HardwareDiscovers labels, Inc DiscoversInProgress labels, With DiscoversInProgress labels,
             With DiscoverDuration labels, ObserveDuration DiscoverDuration labels, Dec DiscoversInProgress labels]))"

lemmas boots_metrics_defs [go_defs] =
  http_metrics_def serveJobFile_m_def serveHardware_m_def servePhoneHome_m_def serveProblem_m_def getDiscoveryFromEM_m_def

section \<open>The metrics change nothing else\<close>

lemma serve_m_serve: "fst (serve_m typ_String L ord c sc r write d req tr) = serve L ord c sc r write d req tr"
  by (simp add: serve_m_def serve_def Let_def split: go.split prod.split sum.split bool.split)

lemma http_m_same:
  "fst (serveJobFile_m L c sc i s rq w tr) = serveJobFile L c sc i s rq w tr"
  "fst (serveHardware_m L c k s rq w tr) = serveHardware L c k s rq w tr"
  "fst (servePhoneHome_m L c k s rq w tr) = servePhoneHome L c k s rq w tr"
  "fst (serveProblem_m L c k s rq w tr) = serveProblem L c k s rq w tr"
  by (simp_all add: boots_metrics_defs Let_def)

section \<open>Shapes\<close>

lemma serve_m_calls:
  "snd (serve_m typ_String L ord c sc r write d req tr) = [] \<or>
   (\<exists>gi ty sent. snd (serve_m typ_String L ord c sc r write d req tr) =
      dhcp_begun ty gi @ (if sent then [IncValues DHCPTotal [''send'', ''DHCPOFFER'', gi]] else []) @ dhcp_ended ty) \<or>
   (\<exists>e gi ty. serve L ord c sc r write d req tr = Fault e \<and>
      snd (serve_m typ_String L ord c sc r write d req tr) = dhcp_begun ty gi)"
  unfolding serve_m_serve [of typ_String L ord c sc r "write" d req tr, symmetric]
  by (auto simp: serve_m_def Let_def split: go.split prod.split sum.split bool.split)

section \<open>The calls are well typed\<close>

lemma http_metrics_ok: "list_all (call_ok init_vecs) (snd (http_metrics act body))"
  by (simp add: http_metrics_def init_vecs_eval label_shapes_ok Let_def)

lemma dhcp_metrics_ok: "list_all (call_ok init_vecs) (dhcp_begun ty gi)" "list_all (call_ok init_vecs) (dhcp_ended ty)"
  "call_ok init_vecs (IncValues DHCPTotal [a, b, gi])"
  by (simp_all add: dhcp_begun_def dhcp_ended_def init_vecs_eval label_shapes_ok Let_def)

lemma serve_m_ok: "list_all (call_ok init_vecs) (snd (serve_m typ_String L ord c sc r write d req tr))"
  using serve_m_calls [of typ_String L ord c sc r "write" d req tr]
  by (elim disjE exE conjE) (simp_all add: dhcp_metrics_ok del: call_ok.simps)


section \<open>The gauges count the requests in flight\<close>

inductive handler_run :: "(nat \<Rightarrow> string) \<Rightarrow> 'p dhcp4 \<Rightarrow> mcall list \<Rightarrow> bool" for typ_String L where
  dhcp: "serve L ord c sc r write d req tr = Ok x \<Longrightarrow> handler_run typ_String L (snd (serve_m typ_String L ord c sc r write d req tr))"
| job_file: "handler_run typ_String L (snd (serveJobFile_m L c sc i s rq w tr))"
| hardware: "handler_run typ_String L (snd (serveHardware_m L c k s rq w tr))"
| phone_home: "handler_run typ_String L (snd (servePhoneHome_m L c k s rq w tr))"
| problem: "handler_run typ_String L (snd (serveProblem_m L c k s rq w tr))"
| discovery: "handler_run typ_String L (snd (getDiscoveryFromEM_m post mac giaddr circuitID))"

lemma balanced_Nil: "balanced []"
  by (simp add: balanced_def)

lemma balanced_http: "balanced (snd (http_metrics act body))"
  unfolding balanced_def
  by (auto simp: http_metrics_def in_progress_def Let_def drop_Cons' split: if_splits)

lemma balanced_dhcp:
  "balanced (dhcp_begun ty gi @ (if sent then [IncValues DHCPTotal [''send'', ''DHCPOFFER'', gi]] else []) @ dhcp_ended ty)"
  unfolding balanced_def
  by (auto simp: dhcp_begun_def dhcp_ended_def in_progress_def Let_def drop_Cons' split: if_splits)

lemma balanced_discovery: "balanced (snd (getDiscoveryFromEM_m post mac giaddr circuitID))"
  unfolding balanced_def
  by (auto simp: getDiscoveryFromEM_m_def in_progress_def Let_def drop_Cons' split: if_splits)

lemma handler_run_balanced: "handler_run typ_String L cs \<Longrightarrow> balanced cs"
proof (induction rule: handler_run.induct)
  case (dhcp ord c sc r wr d req tr x)
  with serve_m_calls [of typ_String L ord c sc r wr d req tr] show ?case
    using balanced_Nil balanced_dhcp by fastforce
qed (simp_all add: serveJobFile_m_def serveHardware_m_def servePhoneHome_m_def serveProblem_m_def balanced_http balanced_discovery)

text \<open>
  C21: however the requests that end without a panic interleave, the gauges of jobs and discoveries in progress are never
  negative and never exceed the number of requests, and they are back at zero when every request has ended.
\<close>

theorem gauges_count_requests:
  assumes "\<forall>r \<in> set runs. handler_run typ_String L r" and "interleaved runs tr rem" and "m \<in> {JobsInProgress, DiscoversInProgress}"
  shows "0 \<le> gauge m l tr \<and> gauge m l tr \<le> int (length runs) \<and> (list_all (\<lambda>r. r = []) rem \<longrightarrow> gauge m l tr = 0)"
proof (rule interleaved_gauge [OF assms(2)])
  show "\<forall>r \<in> set runs. balanced r" using assms(1) handler_run_balanced by blast
  show "in_progress m" using assms(3) by (simp add: in_progress_def)
qed

text \<open>Two requests, a file and a problem report; both have begun and the first has ended.\<close>

definition sample_runs :: "mcall list list" where
  "sample_runs =
     [snd (serveJobFile_m ref_dhcp4 sample_conf sample_sc NewInstallers sample_server (sample_rq ''/auto.ipxe'' []) new_writer []),
      snd (serveProblem_m ref_dhcp4 sample_conf sample_http_codec sample_server (sample_rq ''/problem'' []) new_writer [])]"

theorem gauges_count_requests_witness:
  "\<exists>tr rem. interleaved sample_runs tr rem \<and> length tr = 8 \<and>
     0 \<le> gauge JobsInProgress (job_label ''http'' ''problem'') tr \<and> gauge JobsInProgress (job_label ''http'' ''problem'') tr \<le> 2 \<and>
     gauge JobsInProgress (job_label ''http'' ''file'') tr = 0"
proof -
  have runs: "\<forall>r \<in> set sample_runs. handler_run (\<lambda>_. ''DHCPDISCOVER'') ref_dhcp4 r"
    by (simp add: sample_runs_def handler_run.job_file handler_run.problem)
  obtain a b where ab: "sample_runs = [a, b]" "length a = 6" "length b = 6"
    and a: "a = snd (http_metrics ''file'' (serveJobFile ref_dhcp4 sample_conf sample_sc NewInstallers sample_server (sample_rq ''/auto.ipxe'' []) new_writer []))"
    and b: "b = snd (http_metrics ''problem'' (serveProblem ref_dhcp4 sample_conf sample_http_codec sample_server (sample_rq ''/problem'' []) new_writer []))"
    by (simp add: sample_runs_def serveJobFile_m_def serveProblem_m_def http_metrics_def Let_def)
  define tr rem where "tr = take 6 a @ take 2 b" and "rem = [drop 6 a, drop 2 b]"
  have i: "interleaved sample_runs tr rem"
    unfolding tr_def rem_def ab(1) by (rule interleaved_two) (simp_all add: ab)
  have "gauge JobsInProgress (job_label ''http'' ''file'') tr = 0"
    by (simp add: tr_def a b http_metrics_def job_label_def Let_def)
  moreover have "length tr = 8" using ab by (simp add: tr_def)
  moreover have "length sample_runs = 2" by (simp add: sample_runs_def)
  ultimately have "interleaved sample_runs tr rem \<and> length tr = 8 \<and>
     0 \<le> gauge JobsInProgress (job_label ''http'' ''problem'') tr \<and> gauge JobsInProgress (job_label ''http'' ''problem'') tr \<le> 2 \<and>
     gauge JobsInProgress (job_label ''http'' ''file'') tr = 0"
    using gauges_count_requests [OF runs i, of JobsInProgress "job_label ''http'' ''problem''"] i by simp
  then show ?thesis by blast
qed

end
