(* ===== verification/Boots_Cli.thy ===== *)
theory Boots_Cli
  imports Boots_Main
begin

text \<open>
  The command line of \<open>src/cmd/boots/main.go\<close>: the flags with their defaults, the configuration that a parsed command
  line gives, and the usage text.  The parser of package \<open>ff\<close> is outside the model: \<open>given\<close> is the value it found for a
  flag among the arguments and the environment, if any.
\<close>

section \<open>Flags\<close>

datatype flag_value = FString string | FBool bool | FDuration int

record flag_spec =
  fl_Name :: string
  fl_Default :: flag_value
  fl_Usage :: string

definition StringVar :: "string \<Rightarrow> string \<Rightarrow> string \<Rightarrow> flag_spec" where
  "StringVar name def usage = \<lparr>fl_Name = name, fl_Default = FString def, fl_Usage = usage\<rparr>"

definition BoolVar :: "string \<Rightarrow> bool \<Rightarrow> string \<Rightarrow> flag_spec" where
  "BoolVar name def usage = \<lparr>fl_Name = name, fl_Default = FBool def, fl_Usage = usage\<rparr>"

definition DurationVar :: "string \<Rightarrow> int \<Rightarrow> string \<Rightarrow> flag_spec" where
  "DurationVar name def usage = \<lparr>fl_Name = name, fl_Default = FDuration def, fl_Usage = usage\<rparr>"

text \<open>\<open>apos\<close> is the quote character; the three arguments are the bind addresses of package \<open>conf\<close>.\<close>

definition apos :: string where
  "apos = [CHR 0x27]"

definition newCLI :: "string \<Rightarrow> string \<Rightarrow> string \<Rightarrow> flag_spec list" where
  "newCLI httpBind bootpBind syslogBind =
     [StringVar ''ipxe-tftp-addr'' ''0.0.0.0:69'' ''local IP and port to listen on for serving iPXE binaries via TFTP (port must be 69).'',
      DurationVar ''ipxe-tftp-timeout'' 5000000000 ''local iPXE TFTP server requests timeout.'',
      BoolVar ''ipxe-enable-tftp'' True ''enable serving iPXE binaries via TFTP.'',
      BoolVar ''ipxe-enable-http'' True ''enable serving iPXE binaries via HTTP.'',
      StringVar ''ipxe-remote-tftp-addr'' [] ''remote IP where iPXE binaries are served via TFTP. Overrides -tftp-addr.'',
      StringVar ''ipxe-remote-http-addr'' [] ''remote IP and port where iPXE binaries are served via HTTP. Overrides -http-addr for iPXE binaries only.'',
      StringVar ''ipxe-vars'' [] (''additional variable definitions to include in all iPXE installer scripts. Separate multiple var definitions with spaces, e.g. '' @ apos @ ''var1=val1 var2=val2'' @ apos @ ''.''),
      StringVar ''http-addr'' httpBind ''local IP and port to listen on for the serving iPXE binaries and files via HTTP.'',
      StringVar ''log-level'' ''info'' ''log level.'',
      StringVar ''dhcp-addr'' bootpBind ''IP and port to listen on for DHCP.'',
      StringVar ''syslog-addr'' syslogBind ''IP and port to listen on for syslog messages.'',
      StringVar ''extra-kernel-args'' [] ''Extra set of kernel args (k=v k=v) that are appended to the kernel cmdline when booting via iPXE.'',
      StringVar ''kubeconfig'' [] ''The Kubernetes config file location. Only applies if DATA_MODEL_VERSION=kubernetes.'',
      StringVar ''kubernetes'' [] ''The Kubernetes API URL, used for in-cluster client construction. Only applies if DATA_MODEL_VERSION=kubernetes.'',
      StringVar ''kube-namespace'' [] ''An optional Kubernetes namespace override to query hardware data from.'',
      StringVar ''osie-path-override'' [] ''A custom URL for OSIE/Hook images.'']"

section \<open>The configuration\<close>

text \<open>A variable holds the default of its flag until the parser sets it; a value of another kind is no value.\<close>

definition flag_default :: "flag_spec list \<Rightarrow> string \<Rightarrow> flag_value option" where
  "flag_default fs name = map_option fl_Default (find (\<lambda>f. fl_Name f = name) fs)"

definition str_flag :: "flag_spec list \<Rightarrow> (string \<Rightarrow> flag_value option) \<Rightarrow> string \<Rightarrow> string" where
  "str_flag fs given name =
     (case given name of
        Some (FString s) \<Rightarrow> s
      | _ \<Rightarrow> (case flag_default fs name of Some (FString s) \<Rightarrow> s | _ \<Rightarrow> []))"

definition bool_flag :: "flag_spec list \<Rightarrow> (string \<Rightarrow> flag_value option) \<Rightarrow> string \<Rightarrow> bool" where
  "bool_flag fs given name =
     (case given name of
        Some (FBool b) \<Rightarrow> b
      | _ \<Rightarrow> (case flag_default fs name of Some (FBool b) \<Rightarrow> b | _ \<Rightarrow> False))"

definition dur_flag :: "flag_spec list \<Rightarrow> (string \<Rightarrow> flag_value option) \<Rightarrow> string \<Rightarrow> int" where
  "dur_flag fs given name =
     (case given name of
        Some (FDuration d) \<Rightarrow> d
      | _ \<Rightarrow> (case flag_default fs name of Some (FDuration d) \<Rightarrow> d | _ \<Rightarrow> 0))"

definition parsed_config :: "flag_spec list \<Rightarrow> (string \<Rightarrow> flag_value option) \<Rightarrow> cli_config" where
  "parsed_config fs given =
     \<lparr>cf_TFTPAddr = str_flag fs given ''ipxe-tftp-addr'',
      cf_TFTPTimeout = dur_flag fs given ''ipxe-tftp-timeout'',
      cf_ipxeTFTPEnabled = bool_flag fs given ''ipxe-enable-tftp'',
      cf_ipxeHTTPEnabled = bool_flag fs given ''ipxe-enable-http'',
      cf_ipxeRemoteTFTPAddr = str_flag fs given ''ipxe-remote-tftp-addr'',
      cf_ipxeRemoteHTTPAddr = str_flag fs given ''ipxe-remote-http-addr'',
      cf_ipxeVars = str_flag fs given ''ipxe-vars'',
      cf_httpAddr = str_flag fs given ''http-addr'',
      cf_dhcpAddr = str_flag fs given ''dhcp-addr'',
      cf_syslogAddr = str_flag fs given ''syslog-addr'',
      cf_logLevel = str_flag fs given ''log-level'',
      cf_extraKernelArgs = str_flag fs given ''extra-kernel-args'',
      cf_kubeconfig = str_flag fs given ''kubeconfig'',
      cf_kubeAPI = str_flag fs given ''kubernetes'',
      cf_kubeNamespace = str_flag fs given ''kube-namespace'',
      cf_osiePathOverride = str_flag fs given ''osie-path-override''\<rparr>"

section \<open>The usage text\<close>

text \<open>
  \<open>q\<close> is the verb \<open>%q\<close> and \<open>dur\<close> prints a duration.  \<open>tabs\<close> is the tab writer with a padding of two blanks, for rows
  of one cell that ends with a tab and a rest; the names of the flags are ASCII, so their width is their length.
\<close>

definition DefValue :: "(int \<Rightarrow> string) \<Rightarrow> flag_value \<Rightarrow> string" where
  "DefValue dur v = (case v of FString s \<Rightarrow> s | FBool b \<Rightarrow> (if b then ''true'' else ''false'') | FDuration d \<Rightarrow> dur d)"

definition tabs :: "(string \<times> string) list \<Rightarrow> string" where
  "tabs rows =
     (let w = fold max (map (length \<circ> fst) rows) 0
      in concat (map (\<lambda>(cell, rest). cell @ replicate (w + 2 - length cell) (CHR '' '') @ rest @ [CHR 0x0A]) rows))"

definition countFlags :: "flag_spec list \<Rightarrow> nat" where
  "countFlags fs = length fs"

record cli_command =
  cmd_Name :: string
  cmd_ShortUsage :: string
  cmd_ShortHelp :: string
  cmd_LongHelp :: string

definition customUsageFunc ::
  "(string \<Rightarrow> string) \<Rightarrow> (int \<Rightarrow> string) \<Rightarrow> cli_command \<Rightarrow> cli_command list \<Rightarrow> flag_spec list \<Rightarrow> string" where
  "customUsageFunc q dur c subcommands fs =
     (let eol = [CHR 0x0A];
          b = ''USAGE'' @ eol @
            (if cmd_ShortUsage c \<noteq> [] then ''  '' @ cmd_ShortUsage c @ eol else ''  '' @ cmd_Name c @ eol) @ eol @
            (if cmd_LongHelp c \<noteq> [] then cmd_LongHelp c @ eol @ eol else []) @
            (if length subcommands > 0 then
               ''SUBCOMMANDS'' @ eol @ tabs (map (\<lambda>s. (''  '' @ cmd_Name s, cmd_ShortHelp s)) subcommands) @ eol
             else []) @
            (if countFlags fs > 0 then
               ''FLAGS'' @ eol @
               tabs (map (\<lambda>f. (''  -'' @ fl_Name f,
                 fl_Usage f @ (let def = DefValue dur (fl_Default f) in if def \<noteq> [] then '' (default '' @ q def @ '')'' else [])))
                 (sort_key fl_Name fs)) @ eol
             else [])
      in TrimSpace b @ eol)"

lemmas cli_defs [go_defs] =
  StringVar_def BoolVar_def DurationVar_def flag_default_def str_flag_def bool_flag_def dur_flag_def parsed_config_def
  DefValue_def tabs_def countFlags_def customUsageFunc_def

section \<open>No flag is defined twice\<close>

text \<open>Defining a flag twice panics; the defaults without arguments are the ones of the table.\<close>

lemma newCLI_names: "map fl_Name (newCLI h b s) =
  [''ipxe-tftp-addr'', ''ipxe-tftp-timeout'', ''ipxe-enable-tftp'', ''ipxe-enable-http'', ''ipxe-remote-tftp-addr'',
   ''ipxe-remote-http-addr'', ''ipxe-vars'', ''http-addr'', ''log-level'', ''dhcp-addr'', ''syslog-addr'', ''extra-kernel-args'',
   ''kubeconfig'', ''kubernetes'', ''kube-namespace'', ''osie-path-override'']"
  by (simp add: newCLI_def StringVar_def BoolVar_def DurationVar_def)

lemma newCLI_distinct: "distinct (map fl_Name (newCLI h b s))"
  unfolding newCLI_names by code_simp

lemma find_distinct: "distinct (map f xs) \<Longrightarrow> x \<in> set xs \<Longrightarrow> find (\<lambda>y. f y = f x) xs = Some x"
  by (induction xs) (auto simp: image_iff)

lemma newCLI_default:
  assumes "f \<in> set (newCLI h b s)"
  shows "flag_default (newCLI h b s) (fl_Name f) = Some (fl_Default f)"
  by (simp add: flag_default_def find_distinct [OF newCLI_distinct assms])

lemma newCLI_lookup:
  "flag_default (newCLI h b s) ''ipxe-tftp-addr'' = Some (FString ''0.0.0.0:69'')"
  "flag_default (newCLI h b s) ''ipxe-enable-http'' = Some (FBool True)"
  "flag_default (newCLI h b s) ''ipxe-remote-http-addr'' = Some (FString [])"
  "flag_default (newCLI h b s) ''ipxe-remote-tftp-addr'' = Some (FString [])"
  "flag_default (newCLI h b s) ''ipxe-vars'' = Some (FString [])"
  "flag_default (newCLI h b s) ''http-addr'' = Some (FString h)"
  "flag_default (newCLI h b s) ''dhcp-addr'' = Some (FString b)"
  "flag_default (newCLI h b s) ''syslog-addr'' = Some (FString s)"
  by (simp_all add: flag_default_def newCLI_def StringVar_def BoolVar_def DurationVar_def)

lemma default_config:
  fixes h b s
  defines "cf \<equiv> parsed_config (newCLI h b s) (\<lambda>_. None)"
  shows "cf_ipxeRemoteTFTPAddr cf = []" "cf_ipxeRemoteHTTPAddr cf = []" "cf_ipxeHTTPEnabled cf" "cf_ipxeVars cf = []"
    "cf_httpAddr cf = h" "cf_dhcpAddr cf = b" "cf_syslogAddr cf = s" "cf_TFTPAddr cf = ''0.0.0.0:69''"
  by (simp_all add: cf_def parsed_config_def str_flag_def bool_flag_def newCLI_lookup)

end
