(* ===== verification/Boots_Process.thy ===== *)
theory Boots_Process
  imports Boots_Http Boots_Cli
begin

text \<open>
  The process as a whole: the health check and the handler that \<open>ServeHTTP\<close> of \<open>src/cmd/boots/http.go\<close> listens with,
  \<open>ServeDHCP\<close> of \<open>src/cmd/boots/dhcp.go\<close>, and \<open>main\<close> of \<open>src/cmd/boots/main.go\<close> as the list of the servers it starts, in order,
  with the fault that ends it.  The middleware of package \<open>xff\<close> and the retry loop are arguments.
\<close>

section \<open>The health check\<close>

text \<open>\<open>uptime\<close> is the printed number of seconds; the encoder ends the object with a newline.\<close>

definition serveHealthchecker :: "string \<Rightarrow> string \<Rightarrow> nat \<Rightarrow> writer \<Rightarrow> writer" where
  "serveHealthchecker gitRev uptime goroutines w =
     w_Write (''{'' @ json_string ''git_rev'' @ '':'' @ json_string gitRev @ '','' @ json_string ''uptime'' @ '':'' @ uptime @ '','' @
       json_string ''goroutines'' @ '':'' @ Itoa (int goroutines) @ ''}'' @ [CHR 0x0A]) w"

section \<open>Trusted proxies\<close>

text \<open>Membership of an address in a network, as \<open>net.ParseCIDR\<close> and \<open>IPNet.Contains\<close> have it.\<close>

definition byte_bits :: "char \<Rightarrow> bool list" where
  "byte_bits c = map (\<lambda>i. odd (of_char c div 2 ^ (7 - i) :: nat)) [0..<8]"

definition short_ip :: "ip \<Rightarrow> ip" where
  "short_ip p = (if To4 p \<noteq> [] then To4 p else p)"

definition cidr_contains :: "string \<Rightarrow> ip \<Rightarrow> bool" where
  "cidr_contains s p =
     (let addr = takeWhile (\<lambda>c. c \<noteq> CHR ''/'') s; msk = drop (length addr + 1) s; v4 = parseIPv4 addr;
          net = short_ip (if v4 \<noteq> [] then v4 else parseIPv6 addr);
          ones = dec_value msk - (if v4 = [] \<and> length net = 4 then 96 else 0);
          x = short_ip p
      in ParseCIDR_ok s \<and> length x = length net \<and>
         take ones (concat (map byte_bits x)) = take ones (concat (map byte_bits net)))"

definition from_subnets :: "string list \<Rightarrow> string \<Rightarrow> bool" where
  "from_subnets subnets remoteAddr =
     (case SplitHostPort remoteAddr of
        None \<Rightarrow> False
      | Some host \<Rightarrow> list_ex (\<lambda>s. cidr_contains s (ParseIP host)) subnets)"

text \<open>The middleware: the error of \<open>New\<close>, and the remote address of a request with some forwarding header.\<close>

record xff_pkg =
  xff_New :: "string list \<Rightarrow> string option"
  xff_addr :: "string list \<Rightarrow> string \<Rightarrow> string \<Rightarrow> string"

text \<open>
  The documented behaviour: \<open>New\<close> fails only on a subnet that does not parse, and the header of a peer outside the
  allowed subnets is ignored.
\<close>

definition xff_ok :: "xff_pkg \<Rightarrow> bool" where
  "xff_ok X \<longleftrightarrow> (\<forall>ss. list_all ParseCIDR_ok ss \<longrightarrow> xff_New X ss = None) \<and>
     (\<forall>ss fwd remoteAddr. \<not> from_subnets ss remoteAddr \<longrightarrow> xff_addr X ss fwd remoteAddr = remoteAddr)"

text \<open>
  The handler of the HTTP server on a forwarding header, a request and the reports made so far.  The log wrapper
  between the middleware and the mux passes requests and responses through.
\<close>

definition ServeHTTP_handler ::
  "xff_pkg \<Rightarrow> 'p dhcp4 \<Rightarrow> conf \<Rightarrow> spanctx \<Rightarrow> http_codec \<Rightarrow> bytes \<Rightarrow> other_handlers \<Rightarrow> installers \<Rightarrow> http_server \<Rightarrow> bool \<Rightarrow>
   string \<Rightarrow> (string \<Rightarrow> request \<Rightarrow> rcall list \<Rightarrow> (writer \<times> rcall list) go) go" where
  "ServeHTTP_handler X L c sc k pub other i s ipxeHandler ipxePattern =
     (let mux = mux_ServeHTTP L c sc k pub other i s ipxeHandler ipxePattern
      in if length (TrustedProxies c) > 0 then
           (case xff_New X (TrustedProxies c) of
              Some err \<Rightarrow> Fault (FatalLog err)
            | None \<Rightarrow>
                Ok (\<lambda>fwd rq. mux (rq\<lparr>rq_RemoteAddr := xff_addr X (TrustedProxies c) fwd (rq_RemoteAddr rq)\<rparr>)))
         else Ok (\<lambda>fwd rq. mux rq))"


definition sample_xff :: xff_pkg where
  "sample_xff = \<lparr>xff_New = (\<lambda>ss. if list_all ParseCIDR_ok ss then None else Some ''invalid CIDR''),
     xff_addr = (\<lambda>ss fwd remoteAddr. if from_subnets ss remoteAddr then fwd else remoteAddr)\<rparr>"

lemma sample_xff_ok: "xff_ok sample_xff"
  by (simp add: xff_ok_def sample_xff_def)

lemma sample_outside: "\<not> from_subnets [''10.0.0.0/8'', ''10.1.2.3/32''] ''192.168.1.9:4711''"
  by code_simp

definition proxied_conf :: conf where
  "proxied_conf = sample_conf\<lparr>TrustedProxies := [''10.0.0.0/8'', ''10.1.2.3/32'']\<rparr>"

definition outside_rq :: request where
  "outside_rq = (sample_rq ''/auto.ipxe'' [])\<lparr>rq_RemoteAddr := ''192.168.1.9:4711''\<rparr>"


section \<open>The DHCP server\<close>

text \<open>
  \<open>retry\<close> runs the listener, whose error is wrapped, and returns the error it gives up with; the call returns only when
  the listener has ended without one.
\<close>

definition ServeDHCP_server :: "((string \<Rightarrow> dhcpHandler \<Rightarrow> string option) \<Rightarrow> string \<Rightarrow> dhcpHandler \<Rightarrow> string option) \<Rightarrow>
    (string \<Rightarrow> dhcpHandler \<Rightarrow> string option) \<Rightarrow> string \<Rightarrow> ip \<Rightarrow> string \<Rightarrow> string \<Rightarrow> finder \<Rightarrow> string \<Rightarrow> unit go" where
  "ServeDHCP_server retry listen address nextServer ipxeBaseURL bootsBaseURL f engine =
     (let handler = \<lparr>dh_nextServer = nextServer, dh_ipxeBaseURL = ipxeBaseURL, dh_bootsBaseURL = bootsBaseURL, dh_finder = f,
        dh_engine = engine\<rparr>
      in case retry (\<lambda>a h. map_option (\<lambda>err. ''serving dhcp: '' @ err) (listen a h)) address handler of
           Some err \<Rightarrow> Fault (FatalLog (''retry dhcp serve: '' @ err))
         | None \<Rightarrow> Ok ())"

section \<open>The process\<close>

text \<open>What \<open>main\<close> starts: goroutines for the servers, with what each is given.\<close>

datatype action =
    StartSyslog string int
  | StartIpxe "(ip \<times> nat) option"
  | StartDHCP string dhcpHandler
  | StartHTTP string installers http_server bool string

definition the_finder :: "finder option \<Rightarrow> finder" where
  "the_finder hf = (case hf of None \<Rightarrow> nil_finder | Some f \<Rightarrow> f)"

definition boots_main ::
  "env_pkg \<Rightarrow> env \<Rightarrow> (string \<Rightarrow> string \<Rightarrow> string + reporter) \<Rightarrow> ('r, 'w) dials \<Rightarrow> (string \<Rightarrow> string + (ip \<times> nat)) \<Rightarrow>
   conf \<Rightarrow> cli_config \<Rightarrow> string \<Rightarrow> action list \<times> unit go" where
  "boots_main E env newReporter D parseIPPort c cf engine =
     (case getReporter E newReporter env of
        Inl err \<Rightarrow> ([], Fault (FatalLog err))
      | Inr reporter \<Rightarrow>
          (case getFinders D env cf of
             Inl err \<Rightarrow> ([], Fault (FatalLog err))
           | Inr (workflowFinder, hf) \<Rightarrow>
               (let sys = StartSyslog (cf_syslogAddr cf) 1; (ipxeHandler, ipxePattern, ipxeBaseURL) = http_setup c cf
                in case tftp_setup parseIPPort c cf of
                     Fault e \<Rightarrow> ([sys], Fault e)
                   | Ok (tftp, nextServer) \<Rightarrow>
                       (let started = [sys, StartIpxe tftp,
                              StartDHCP (cf_dhcpAddr cf) \<lparr>dh_nextServer = nextServer, dh_ipxeBaseURL = ipxeBaseURL,
                                dh_bootsBaseURL = PublicFQDN c, dh_finder = the_finder hf, dh_engine = engine\<rparr>];
                            server = \<lparr>bh_workflowFinder = Some workflowFinder, bh_reporter = reporter,
                              bh_finder = the_finder hf, bh_engine = engine\<rparr>
                        in case registerInstallers E c reporter cf of
                             Fault e \<Rightarrow> (started, Fault e)
                           | Ok (Inl err) \<Rightarrow> (started, Fault (FatalLog err))
                           | Ok (Inr i) \<Rightarrow> (started @ [StartHTTP (cf_httpAddr cf) i server ipxeHandler ipxePattern], Ok ())))))"

lemmas process_defs [go_defs] =
  serveHealthchecker_def byte_bits_def short_ip_def cidr_contains_def from_subnets_def ServeHTTP_handler_def
  ServeDHCP_server_def the_finder_def boots_main_def

section \<open>The servers fit together\<close>

lemma ipxe_route: "mux_match (http_routes h ''/ipxe/'') (''/ipxe/'' @ f) = Some (if h then EIpxe else EJobFile)"
proof -
  have p: "HasPrefix (''/ipxe/'' @ f) ''/''" "HasPrefix (''/ipxe/'' @ f) ''/ipxe/''" "\<not> HasPrefix (''/ipxe/'' @ f) ''/_packet/pprof/''"
    by (simp_all add: HasPrefix_def)
  have "map_of (http_routes h ''/ipxe/'') (''/ipxe/'' @ f) \<in> {None, Some EIpxe}"
    "\<not> h \<Longrightarrow> map_of (http_routes h ''/ipxe/'') (''/ipxe/'' @ f) = None"
    by (simp_all add: http_routes_def)
  with routes_exact [OF p(1), of h] p(2, 3) show ?thesis by (cases h) auto
qed

lemma tftp_setup_Ok:
  assumes "tftp_setup parseIPPort c cf = Ok (tftp, nextServer)"
  shows "(case tftp of None \<Rightarrow> True | Some a \<Rightarrow> snd a = 69) \<and>
    (if cf_ipxeRemoteTFTPAddr cf = [] then nextServer = PublicIPv4 c else nextServer = ParseIP (cf_ipxeRemoteTFTPAddr cf) \<and> nextServer \<noteq> [])"
  using assms by (auto simp: tftp_setup_def Let_def split: if_splits sum.splits)

text \<open>
  C11: when the process comes up, it has started the four servers in order, and they fit together: DHCP and HTTP look
  machines up in the same finder, boot scripts are fetched from the host name that DHCP hands out, TFTP listens on port 69
  only, and the base URL of the iPXE binaries that DHCP hands out is either the remote one or the path below which the HTTP
  server has the handler of the binaries; only when that handler is switched off does the path lead to the job files.
\<close>

theorem main_servers_agree:
  assumes "boots_main E env newReporter D parseIPPort c cf engine = (acts, Ok ())"
  shows "\<exists>tftp d i s h pat.
    acts = [StartSyslog (cf_syslogAddr cf) 1, StartIpxe tftp, StartDHCP (cf_dhcpAddr cf) d, StartHTTP (cf_httpAddr cf) i s h pat] \<and>
    bh_finder s = dh_finder d \<and> bh_engine s = dh_engine d \<and> dh_bootsBaseURL d = PublicFQDN c \<and>
    registerInstallers E c (bh_reporter s) cf = Ok (Inr i) \<and>
    (case tftp of None \<Rightarrow> True | Some a \<Rightarrow> snd a = 69) \<and>
    (if cf_ipxeRemoteTFTPAddr cf = [] then dh_nextServer d = PublicIPv4 c
     else dh_nextServer d = ParseIP (cf_ipxeRemoteTFTPAddr cf) \<and> dh_nextServer d \<noteq> []) \<and>
    (if cf_ipxeRemoteHTTPAddr cf = [] then
       dh_ipxeBaseURL d = PublicFQDN c @ ''/ipxe/'' \<and>
       (\<forall>f. mux_match (http_routes h pat) (''/ipxe/'' @ f) = Some (if cf_ipxeHTTPEnabled cf then EIpxe else EJobFile))
     else dh_ipxeBaseURL d = cf_ipxeRemoteHTTPAddr cf \<and> \<not> h)"
proof -
  from assms obtain r wff hf where r: "getReporter E newReporter env = Inr r" and f: "getFinders D env cf = Inr (wff, hf)"
    by (auto simp: boots_main_def split: sum.splits)
  from assms r f obtain tftp next_ip where t: "tftp_setup parseIPPort c cf = Ok (tftp, next_ip)"
    by (auto simp: boots_main_def Let_def split: go.splits prod.splits)
  from assms r f t obtain i where i: "registerInstallers E c r cf = Ok (Inr i)"
    by (auto simp: boots_main_def Let_def split: go.splits prod.splits sum.splits)
  define d where "d = \<lparr>dh_nextServer = next_ip, dh_ipxeBaseURL = snd (snd (http_setup c cf)), dh_bootsBaseURL = PublicFQDN c,
    dh_finder = the_finder hf, dh_engine = engine\<rparr>"
  define s where "s = \<lparr>bh_workflowFinder = Some wff, bh_reporter = r, bh_finder = the_finder hf, bh_engine = engine\<rparr>"
  have acts: "acts = [StartSyslog (cf_syslogAddr cf) 1, StartIpxe tftp, StartDHCP (cf_dhcpAddr cf) d,
      StartHTTP (cf_httpAddr cf) i s (fst (http_setup c cf)) (fst (snd (http_setup c cf)))]"
    using assms r f t i by (simp add: boots_main_def Let_def case_prod_unfold d_def s_def)
  show ?thesis
    by (rule exI [of _ tftp], rule exI [of _ d], rule exI [of _ i], rule exI [of _ s], rule exI, rule exI, rule conjI, rule acts)
      (use tftp_setup_Ok [OF t] i in
        \<open>auto simp: d_def s_def http_setup_def ipxe_route [unfolded append_Cons append_Nil]\<close>)
qed

text \<open>The DHCP server is up before the installers are registered: a malformed variable ends a process that already answers.\<close>

lemma main_starts_dhcp_before_it_fails:
  assumes "getReporter E newReporter env = Inr r" and "getFinders D env cf = Inr (wff, hf)"
    and "tftp_setup parseIPPort c cf = Ok (tftp, next_ip)" and "parseDynamicIPXEVars (cf_ipxeVars cf) = Inl err"
  shows "\<exists>d. StartDHCP (cf_dhcpAddr cf) d \<in> set (fst (boots_main E env newReporter D parseIPPort c cf engine)) \<and>
    snd (boots_main E env newReporter D parseIPPort c cf engine) = Fault (FatalLog err)"
  using assms by (simp add: boots_main_def registerInstallers_def Let_def case_prod_unfold)

definition standalone_dials :: "(unit, unit) dials" where
  "standalone_dials = sample_dials\<lparr>read_file := (\<lambda>_. Some ''[]''),
     dial_tink_wf := Inr (\<lambda>_. Inr [])\<rparr>"

definition standalone_env :: env where
  "standalone_env = [''DATA_MODEL_VERSION'' \<mapsto> ''standalone'', ''BOOTS_STANDALONE_JSON'' \<mapsto> ''db.json'']"

definition sample_main :: "action list \<times> unit go" where
  "sample_main = boots_main sample_env_pkg standalone_env (\<lambda>_ _. Inl ''none'') standalone_dials
     (\<lambda>_. Inr (replicate 4 (CHR 0x00), 69)) sample_conf sample_cf ''engine''"

lemma sample_main_Ok: "snd sample_main = Ok ()"
proof -
  have "parseDynamicIPXEVars ''a=b c=d=e'' = Inr [[''a'', ''b''], [''c'', ''d=e'']]" by code_simp
  then have i: "\<exists>i. registerInstallers sample_env_pkg sample_conf noOpReporter sample_cf = Ok (Inr i)"
    by (simp add: registerInstallers_Ok sample_env_pkg_def) (simp add: sample_cf_def)
  have r: "getReporter sample_env_pkg (\<lambda>_ _. Inl ''none'') standalone_env = Inr noOpReporter"
    by (simp add: getReporter_def standalone_env_def Getenv_def)
  have "json_parse ''[]'' = Some (JsArr [])" by code_simp
  then have db: "Unmarshal (st_db J) ''[]'' [] = Some []" for J by (simp add: Unmarshal_def st_db_def st_slice_def)
  have f: "\<exists>wff hf. getFinders standalone_dials standalone_env sample_cf = Inr (wff, hf)"
    by (simp add: getFinders_def standalone_env_def Getenv_def standalone_NewHardwareFinder_def NewWorkflowFinder_def db standalone_dials_def)
  have t: "\<exists>tftp n. tftp_setup (\<lambda>_. Inr (replicate 4 (CHR 0x00), 69)) sample_conf sample_cf = Ok (tftp, n)"
    by (simp add: tftp_setup_def sample_cf_def)
  from i f t show ?thesis by (auto simp: sample_main_def boots_main_def r Let_def case_prod_unfold)
qed

theorem main_servers_agree_witness:
  "\<exists>d i s h pat. StartDHCP ''0.0.0.0:67'' d \<in> set (fst sample_main) \<and> StartHTTP ''0.0.0.0:80'' i s h pat \<in> set (fst sample_main) \<and>
     dh_ipxeBaseURL d = PublicFQDN sample_conf @ ''/ipxe/'' \<and> mux_match (http_routes h pat) ''/ipxe/snp.efi'' = Some EIpxe"
proof -
  have "boots_main sample_env_pkg standalone_env (\<lambda>_ _. Inl ''none'') standalone_dials
      (\<lambda>_. Inr (replicate 4 (CHR 0x00), 69)) sample_conf sample_cf ''engine'' = (fst sample_main, Ok ())"
    using sample_main_Ok by (simp add: sample_main_def prod_eq_iff)
  from main_servers_agree [OF this] obtain tftp d i s h pat where
    a: "fst sample_main = [StartSyslog (cf_syslogAddr sample_cf) 1, StartIpxe tftp, StartDHCP (cf_dhcpAddr sample_cf) d,
        StartHTTP (cf_httpAddr sample_cf) i s h pat]" and
    u: "dh_ipxeBaseURL d = PublicFQDN sample_conf @ ''/ipxe/''" and
    m: "\<forall>f. mux_match (http_routes h pat) (''/ipxe/'' @ f) = Some EIpxe"
    by (auto simp: sample_cf_def)
  have "StartDHCP ''0.0.0.0:67'' d \<in> set (fst sample_main)" "StartHTTP ''0.0.0.0:80'' i s h pat \<in> set (fst sample_main)"
    using a by (simp_all add: sample_cf_def)
  moreover have "mux_match (http_routes h pat) ''/ipxe/snp.efi'' = Some EIpxe" using m [rule_format, of "''snp.efi''"] by simp
  ultimately show ?thesis using u by blast
qed

end
