(* ===== verification/Kubernetes_Cluster.thy ===== *)
theory Kubernetes_Cluster
  imports Go_Prelude
begin

text \<open>
  The construction of the Kubernetes client: \<open>src/client/kubernetes/cluster.go\<close> and \<open>NewFinder\<close> of
  \<open>src/client/kubernetes/hardware_finder.go\<close>.  The functions of client-go and controller-runtime are the record \<open>K\<close>; an
  index function is named by the object it belongs to and the field it fills.
\<close>

section \<open>The cluster\<close>

record ('g, 'c) kube_pkg =
  ClientConfig :: "string \<Rightarrow> string \<Rightarrow> string \<Rightarrow> string + 'g"
  AddClientGo :: "string option"
  AddV1alpha1 :: "string option"
  cluster_New :: "'g \<Rightarrow> string + 'c"
  IndexField :: "'c \<Rightarrow> string \<Rightarrow> string \<Rightarrow> string + 'c"

definition WorkflowWorkerNonTerminalStateIndex :: string where
  "WorkflowWorkerNonTerminalStateIndex = ''.status.state.nonTerminalWorker''"

definition HardwareMACAddrIndex :: string where
  "HardwareMACAddrIndex = ''.spec.interfaces.dhcp.mac''"

definition HardwareIPAddrIndex :: string where
  "HardwareIPAddrIndex = ''.spec.interfaces.dhcp.ip''"

definition indexers :: "(string \<times> string) list" where
  "indexers = [(''Workflow'', WorkflowWorkerNonTerminalStateIndex), (''Hardware'', HardwareIPAddrIndex),
     (''Hardware'', HardwareMACAddrIndex)]"

fun index_all :: "('g, 'c) kube_pkg \<Rightarrow> (string \<times> string) list \<Rightarrow> 'c \<Rightarrow> string + 'c" where
  "index_all K [] c = Inr c"
| "index_all K ((obj, field) # rest) c =
     (case IndexField K c obj field of
        Inl err \<Rightarrow> Inl (''failed to setup '' @ field @ '' indexer, '' @ err)
      | Inr c1 \<Rightarrow> index_all K rest c1)"

definition NewCluster :: "('g, 'c) kube_pkg \<Rightarrow> 'g \<Rightarrow> string + 'c" where
  "NewCluster K config =
     (case AddClientGo K of
        Some err \<Rightarrow> Inl err
      | None \<Rightarrow>
          (case AddV1alpha1 K of
             Some err \<Rightarrow> Inl err
           | None \<Rightarrow>
               (case cluster_New K config of
                  Inl err \<Rightarrow> Inl err
                | Inr c \<Rightarrow> index_all K indexers c)))"

definition NewFinder :: "('g, 'c) kube_pkg \<Rightarrow> string \<Rightarrow> string \<Rightarrow> string \<Rightarrow> string + 'c" where
  "NewFinder K k8sAPI kubeconfig kubeNamespace =
     (case ClientConfig K kubeconfig k8sAPI kubeNamespace of
        Inl err \<Rightarrow> Inl err
      | Inr config \<Rightarrow> NewCluster K config)"

lemmas cluster_defs [go_defs] =
  WorkflowWorkerNonTerminalStateIndex_def HardwareMACAddrIndex_def HardwareIPAddrIndex_def indexers_def NewCluster_def
  NewFinder_def

section \<open>A finder has every index\<close>

text \<open>A cluster that keeps the indexes it was given.\<close>

lemma index_all_Inr:
  assumes "index_all K is c = Inr c1" and "\<And>c obj field c1. IndexField K c obj field = Inr c1 \<Longrightarrow> ix c1 = ix c @ [(obj, field)]"
  shows "ix c1 = ix c @ is"
  using assms
proof (induction K "is" c rule: index_all.induct)
  case (2 K obj field rest c)
  from 2(2) obtain c2 where i: "IndexField K c obj field = Inr c2" "index_all K rest c2 = Inr c1"
    by (auto split: sum.splits)
  from 2(1) [OF i 2(3)] 2(3) [OF i(1)] show ?case by simp
qed simp

lemma NewFinder_indexed:
  assumes "\<And>c obj field c1. IndexField K c obj field = Inr c1 \<Longrightarrow> ix c1 = ix c @ [(obj, field)]"
    and "\<And>g c. cluster_New K g = Inr c \<Longrightarrow> ix c = []" and "NewFinder K api cfg ns = Inr c"
  shows "ix c = [(''Workflow'', ''.status.state.nonTerminalWorker''), (''Hardware'', ''.spec.interfaces.dhcp.ip''),
     (''Hardware'', ''.spec.interfaces.dhcp.mac'')]"
proof -
  from assms(3) obtain g c0 where "cluster_New K g = Inr c0" "index_all K indexers c0 = Inr c"
    by (auto simp: NewFinder_def NewCluster_def split: sum.splits option.splits)
  with assms(2) index_all_Inr [of K indexers c0 c ix] assms(1) have "ix c = indexers" by simp
  then show ?thesis by (simp add: cluster_defs)
qed

end
