(* ===== verification/Job_Mock.thy ===== *)
theory Job_Mock
  imports Job_Core
begin

text \<open>
  The mock jobs of \<open>src/job/mock.go\<close>, from which the tests of the installers start.  A mock is a job whose
  setters write through its pointers \<open>hardware\<close> and \<open>instance\<close>.  The two may lead to the same instance: a
  job that was set up from a record points to the instance inside its hardware, and a write to one is seen
  through the other.  \<open>mk_shared\<close> says that this is so.  Generated identifiers are arguments.
\<close>

record mock =
  mk_job :: job
  mk_shared :: bool

section \<open>Writing through pointers\<close>

text \<open>The instance inside the hardware, and the hardware with that instance replaced.\<close>

fun hw_instance :: "hardware \<Rightarrow> instance_data option" where
  "hw_instance (HCacher h) = hc_Instance h"
| "hw_instance (HTink h) = m_Instance (ht_Metadata h)"
| "hw_instance (HK8s h) = None"
| "hw_instance (HStandalone h) = m_Instance (hs_Metadata h)"

fun hw_put_instance :: "instance_data \<Rightarrow> hardware \<Rightarrow> hardware" where
  "hw_put_instance i (HCacher h) = HCacher (h\<lparr>hc_Instance := Some i\<rparr>)"
| "hw_put_instance i (HTink h) = HTink (h\<lparr>ht_Metadata := (ht_Metadata h)\<lparr>m_Instance := Some i\<rparr>\<rparr>)"
| "hw_put_instance i (HK8s h) = HK8s h"
| "hw_put_instance i (HStandalone h) = HStandalone (h\<lparr>hs_Metadata := (hs_Metadata h)\<lparr>m_Instance := Some i\<rparr>\<rparr>)"

text \<open>A write to a field of \<open>m.instance\<close>.\<close>

definition write_instance :: "(instance_data \<Rightarrow> instance_data) \<Rightarrow> mock \<Rightarrow> mock go" where
  "write_instance f m =
     bind_go (deref (j_instance (mk_job m))) (\<lambda>i.
     let j = (mk_job m)\<lparr>j_instance := Some (f i)\<rparr>
     in Ok (m\<lparr>mk_job := if mk_shared m then j\<lparr>j_hardware := map_option (hw_put_instance (f i)) (j_hardware j)\<rparr> else j\<rparr>))"

text \<open>
  The instance after a write to a field of what \<open>OperatingSystem\<close> returns.  The cacher and the tink-server
  backend allocate what is missing; the standalone backend returns the pointer it has; the Kubernetes
  backend returns a copy, and the write is lost (\<^const>\<open>None\<close>).
\<close>

fun os_written :: "(opsys \<Rightarrow> opsys) \<Rightarrow> hardware \<Rightarrow> instance_data option go" where
  "os_written f (HCacher h) =
     (let i = (case hc_Instance h of None \<Rightarrow> zero_instance | Some i \<Rightarrow> i)
      in Ok (Some (i\<lparr>i_OSV := Some (f (case i_OSV i of None \<Rightarrow> zero_os | Some os \<Rightarrow> os))\<rparr>)))"
| "os_written f (HTink h) =
     (let i = (case m_Instance (ht_Metadata h) of None \<Rightarrow> zero_instance | Some i \<Rightarrow> i)
      in Ok (Some (i\<lparr>i_OS := Some (f (case i_OS i of None \<Rightarrow> zero_os | Some os \<Rightarrow> os))\<rparr>)))"
| "os_written f (HK8s h) = map_ok (\<lambda>_. None) (deref (k8s_OperatingSystem h))"
| "os_written f (HStandalone h) =
     bind_go (deref (m_Instance (hs_Metadata h))) (\<lambda>i.
     map_ok (\<lambda>os. Some (i\<lparr>i_OS := Some (f os)\<rparr>)) (deref (i_OS i)))"

definition write_os :: "(opsys \<Rightarrow> opsys) \<Rightarrow> mock \<Rightarrow> mock go" where
  "write_os f m =
     bind_go (deref (j_hardware (mk_job m))) (\<lambda>h.
     map_ok (\<lambda>w.
       case w of
         None \<Rightarrow> m
       | Some i \<Rightarrow>
           let j = (mk_job m)\<lparr>j_hardware := Some (hw_put_instance i h)\<rparr>
           in m\<lparr>mk_job := if mk_shared m then j\<lparr>j_instance := Some i\<rparr> else j\<rparr>) (os_written f h))"

section \<open>Construction\<close>

definition NewMock :: "string \<Rightarrow> string \<Rightarrow> string \<Rightarrow> mock" where
  "NewMock uuid slug facility =
     (let slugs = Split slug (CHR '':'');
          slug1 = hd slugs;
          planVersion = (if length slugs > 1 then slugs ! 1 else []);
          arch = (if Contains slug1 ''.arm'' \<or> Contains slug1 ''baremetal_2a'' \<or> Contains slug1 ''baremetal_hua''
                  then ''aarch64'' else ''x86_64'');
          uefi = (arch = ''aarch64'' \<or> slug1 = ''c2.medium.x86'');
          servicesVersion = (if Contains slug1 ''custom-osie'' then ''osie-v18.08.13.00'' else [])
      in \<lparr>mk_job = (new_job [])\<lparr>
             j_hardware := Some (HCacher (zero_hardwareCacher\<lparr>hc_ID := uuid, hc_PlanSlug := slug1,
               hc_PlanVersionSlug := planVersion, hc_FacilityCode := facility, hc_Arch := arch,
               hc_State := ''provisionable'', hc_UEFI := uefi, hc_ServicesVersion := servicesVersion\<rparr>)),
             j_instance := Some (zero_instance\<lparr>i_State := ''provisioning''\<rparr>)\<rparr>,
          mk_shared = False\<rparr>)"

text \<open>
  The job that \<open>setup\<close> leaves behind: \<open>NewMockFromDiscovery\<close> ignores the error, and keeps what was set before it.
\<close>

definition setup_left :: "'p dhcp4 \<Rightarrow> conf \<Rightarrow> discoverer \<Rightarrow> job \<Rightarrow> job go" where
  "setup_left L c d j =
     (let dh = disc_Hardware d;
          d1 = disc_SetMAC (j_mac j) d;
          j1 = j\<lparr>j_hardware := Some (disc_Hardware d1)\<rparr>
      in bind_go (disc_Instance d1) (\<lambda>inst.
         let j2 = j1\<lparr>j_instance := Some (case inst of None \<Rightarrow> zero_instance | Some i \<Rightarrow> i)\<rparr>
         in bind_go (disc_GetIP d1 (j_mac j)) (\<lambda>ip.
            if ip_Address ip = [] then Ok j2
            else
              bind_go (Setup L (ip_Address ip) (ip_Netmask ip) (ip_Gateway ip) (j_dhcp j2)) (\<lambda>c1.
              bind_go (disc_LeaseTime c d1 (j_mac j)) (\<lambda>lt.
              bind_go (SetLeaseTime L lt c1) (\<lambda>c2.
              bind_go (SetDHCPServer L (PublicIPv4 c) c2) (\<lambda>c3.
              bind_go (disc_DNSServers c d1 (j_mac j)) (\<lambda>dns.
              bind_go (SetDNSServers L dns c3) (\<lambda>c4.
              bind_go (disc_Hostname d1) (\<lambda>hn.
              case hn of
                Inl err \<Rightarrow> Ok (j2\<lparr>j_dhcp := c4\<rparr>)
              | Inr hostname \<Rightarrow>
                  bind_go (if hostname \<noteq> [] then SetHostname L hostname c4 else Ok c4) (\<lambda>c5.
                  bind_go (SetOpt43SubOpt L 116 (GetVLANID dh (j_mac j)) c5) (\<lambda>c6.
                  Ok (j2\<lparr>j_dhcp := c6\<rparr>)))))))))))))"

fun shares_instance :: "discoverer \<Rightarrow> bool" where
  "shares_instance (DCacher d) = (dc_Instance d \<noteq> None)"
| "shares_instance (DTink d) = (dt_Instance d \<noteq> None)"
| "shares_instance (DK8s d) = False"
| "shares_instance (DStandalone d) = (ds_Instance d \<noteq> None)"

definition NewMockFromDiscovery :: "'p dhcp4 \<Rightarrow> conf \<Rightarrow> discoverer \<Rightarrow> hwaddr \<Rightarrow> mock go" where
  "NewMockFromDiscovery L c d mac =
     map_ok (\<lambda>j. \<lparr>mk_job = j, mk_shared = shares_instance d\<rparr>) (setup_left L c d ((new_job [])\<lparr>j_mac := mac\<rparr>))"

definition mock_Job :: "mock \<Rightarrow> job" where
  "mock_Job m = mk_job m"

section \<open>Setters\<close>

definition DropInstance :: "mock \<Rightarrow> mock" where
  "DropInstance m = m\<lparr>mk_job := (mk_job m)\<lparr>j_instance := None\<rparr>, mk_shared := False\<rparr>"

definition SetIP :: "ip \<Rightarrow> mock \<Rightarrow> mock" where
  "SetIP ip m = m\<lparr>mk_job := (mk_job m)\<lparr>j_ip := ip\<rparr>\<rparr>"

definition SetIPXEScriptURL :: "string \<Rightarrow> mock \<Rightarrow> mock go" where
  "SetIPXEScriptURL url = write_instance (\<lambda>i. i\<lparr>i_IPXEScriptURL := url\<rparr>)"

definition SetUserData :: "string \<Rightarrow> mock \<Rightarrow> mock go" where
  "SetUserData userdata = write_instance (\<lambda>i. i\<lparr>i_UserData := userdata\<rparr>)"

definition mock_SetMAC :: "string \<Rightarrow> mock \<Rightarrow> mock go" where
  "mock_SetMAC mac m =
     (case ParseMAC mac of
        None \<Rightarrow> Fault (PanicCall (''address '' @ mac @ '': invalid MAC address''))
      | Some hw \<Rightarrow> Ok (m\<lparr>mk_job := (mk_job m)\<lparr>j_mac := hw\<rparr>\<rparr>))"

text \<open>The type assertion fails for every other hardware, and for nil.\<close>

definition write_cacher :: "(hardwareCacher \<Rightarrow> hardwareCacher) \<Rightarrow> mock \<Rightarrow> mock" where
  "write_cacher f m =
     (case j_hardware (mk_job m) of
        Some (HCacher h) \<Rightarrow> m\<lparr>mk_job := (mk_job m)\<lparr>j_hardware := Some (HCacher (f h))\<rparr>\<rparr>
      | _ \<Rightarrow> m)"

definition SetManufacturer :: "string \<Rightarrow> mock \<Rightarrow> mock" where
  "SetManufacturer slug = write_cacher (\<lambda>h. h\<lparr>hc_ManufacturerSlug := slug\<rparr>)"

definition SetOSDistro :: "string \<Rightarrow> mock \<Rightarrow> mock go" where
  "SetOSDistro distro = write_os (\<lambda>os. os\<lparr>os_Distro := distro\<rparr>)"

definition SetOSSlug :: "string \<Rightarrow> mock \<Rightarrow> mock go" where
  "SetOSSlug slug m =
     bind_go (write_os (\<lambda>os. os\<lparr>os_Slug := slug\<rparr>) m) (write_os (\<lambda>os. os\<lparr>os_OsSlug := slug\<rparr>))"

definition SetOSVersion :: "string \<Rightarrow> mock \<Rightarrow> mock go" where
  "SetOSVersion version = write_os (\<lambda>os. os\<lparr>os_Version := version\<rparr>)"

definition SetOSImageTag :: "string \<Rightarrow> mock \<Rightarrow> mock go" where
  "SetOSImageTag tag = write_os (\<lambda>os. os\<lparr>os_ImageTag := tag\<rparr>)"

definition SetOSInstaller :: "string \<Rightarrow> mock \<Rightarrow> mock go" where
  "SetOSInstaller installer = write_os (\<lambda>os. os\<lparr>os_Installer := installer\<rparr>)"

definition SetOSInstallerData :: "installerData option \<Rightarrow> mock \<Rightarrow> mock go" where
  "SetOSInstallerData installerData = write_os (\<lambda>os. os\<lparr>os_InstallerData := installerData\<rparr>)"

definition SetPassword :: "string \<Rightarrow> mock \<Rightarrow> mock go" where
  "SetPassword p m =
     bind_go (write_instance (\<lambda>i. i\<lparr>i_CryptedRootPassword := ''insecure''\<rparr>) m)
       (write_instance (\<lambda>i. i\<lparr>i_PasswordHash := ''insecure''\<rparr>))"

definition SetCustomData :: "jval option \<Rightarrow> mock \<Rightarrow> mock go" where
  "SetCustomData data = write_instance (\<lambda>i. i\<lparr>i_CustomData := data\<rparr>)"

definition SetState :: "string \<Rightarrow> mock \<Rightarrow> mock" where
  "SetState state = write_cacher (\<lambda>h. h\<lparr>hc_State := state\<rparr>)"

definition SetBootDriveHint :: "string \<Rightarrow> mock \<Rightarrow> mock go" where
  "SetBootDriveHint drive = write_instance (\<lambda>i. i\<lparr>i_BootDriveHint := drive\<rparr>)"

definition SetRescue :: "bool \<Rightarrow> mock \<Rightarrow> mock go" where
  "SetRescue b = write_instance (\<lambda>i. i\<lparr>i_Rescue := b\<rparr>)"

section \<open>Fixtures\<close>

definition data_port :: "string \<Rightarrow> macaddr \<Rightarrow> string \<Rightarrow> port" where
  "data_port name mac bond = \<lparr>p_ID = [], p_Type = ''data'', p_Name = name, p_MAC = Some mac, p_Bond = bond\<rparr>"

definition baddbeef :: "char \<Rightarrow> macaddr" where
  "baddbeef c = [CHR 0x00, CHR 0xBA, CHR 0xDD, CHR 0xBE, CHR 0xEF, c]"

definition deadbeef :: macaddr where
  "deadbeef = [CHR 0x00, CHR 0xDE, CHR 0xAD, CHR 0xBE, CHR 0xEF, CHR 0x00]"

definition fixture_ip :: "string \<Rightarrow> string \<Rightarrow> string \<Rightarrow> bool \<Rightarrow> client_ip" where
  "fixture_ip address gateway netmask public = \<lparr>ip_Address = ParseIP address, ip_Netmask = ParseIP netmask,
     ip_Gateway = ParseIP gateway, ip_Family = 4, ip_Public = public, ip_Management = True\<rparr>"

definition MakeHardwareWithInstance :: "string \<Rightarrow> string \<Rightarrow> discoveryCacher \<times> macaddr list \<times> string" where
  "MakeHardwareWithInstance instanceID hardwareID =
     (let macIPMI = deadbeef;
          mac0 = baddbeef (CHR 0x00); mac1 = baddbeef (CHR 0x01); mac2 = baddbeef (CHR 0x02); mac3 = baddbeef (CHR 0x03);
          d = \<lparr>dc_HardwareCacher = zero_hardwareCacher\<lparr>
                 hc_ID := hardwareID,
                 hc_Name := ''TestSetupInstanceHardwareName'',
                 hc_NetworkPorts :=
                   [data_port ''eth0'' mac0 ''bond0'', data_port ''eth1'' mac1 ''bond0'',
                    data_port ''eth2'' mac2 ''bond1'', data_port ''eth3'' mac3 ''bond1'',
                    \<lparr>p_ID = [], p_Type = ''ipmi'', p_Name = ''ipmi0'', p_MAC = Some macIPMI, p_Bond = []\<rparr>],
                 hc_Instance := Some (zero_instance\<lparr>
                   i_ID := instanceID,
                   i_Hostname := ''TestSetupInstanceHostname'',
                   i_IPs := [fixture_ip ''192.168.100.2'' ''192.168.100.1'' ''192.168.100.255'' True,
                             fixture_ip ''192.168.200.2'' ''192.168.200.1'' ''192.168.200.255'' False]\<rparr>),
                 hc_IPMI := fixture_ip ''192.168.0.2'' ''192.168.0.1'' ''192.168.0.255'' False\<rparr>,
               dc_mac = []\<rparr>
      in (d, [macIPMI, mac0, mac1, mac2, mac3], instanceID))"

definition MakeHardwareWithoutInstance :: "string \<Rightarrow> discoveryCacher \<times> macaddr" where
  "MakeHardwareWithoutInstance hardwareID =
     (let mac = baddbeef (CHR 0x00)
      in (\<lparr>dc_HardwareCacher = zero_hardwareCacher\<lparr>
             hc_ID := hardwareID,
             hc_Name := ''TestSetupWithoutInstanceHardwareName'',
             hc_NetworkPorts := [data_port ''eth0'' mac ''bond0'']\<rparr>,
           dc_mac = []\<rparr>, mac))"

lemmas mock_defs [go_defs] =
  write_instance_def write_os_def NewMock_def setup_left_def NewMockFromDiscovery_def mock_Job_def DropInstance_def
  SetIP_def SetIPXEScriptURL_def SetUserData_def mock_SetMAC_def write_cacher_def SetManufacturer_def SetOSDistro_def
  SetOSSlug_def SetOSVersion_def SetOSImageTag_def SetOSInstaller_def SetOSInstallerData_def SetPassword_def
  SetCustomData_def SetState_def SetBootDriveHint_def SetRescue_def data_port_def baddbeef_def deadbeef_def
  fixture_ip_def MakeHardwareWithInstance_def MakeHardwareWithoutInstance_def

section \<open>Mocks stay coherent\<close>

text \<open>While the two pointers lead to one instance, both show the same one.\<close>

definition coherent :: "mock \<Rightarrow> bool" where
  "coherent m \<longleftrightarrow>
     (mk_shared m \<longrightarrow>
        (\<exists>h i. j_hardware (mk_job m) = Some h \<and> hw_instance h = Some i \<and> j_instance (mk_job m) = Some i))"

text \<open>The contract of a setter, and that of the two writes every setter is made of.\<close>

locale mock_setter =
  fixes set_mock :: "mock \<Rightarrow> mock go"
  assumes keeps: "set_mock m = Ok m' \<Longrightarrow> coherent m \<Longrightarrow> coherent m'"

lemma hw_put_instance_get [simp]: "hw_instance h \<noteq> None \<Longrightarrow> hw_instance (hw_put_instance i h) = Some i"
  by (cases h) auto

lemma os_written_instance: "os_written f h = Ok (Some i) \<Longrightarrow> hw_instance (hw_put_instance i h) = Some i"
  by (cases h) (auto simp: map_ok_Ok_iff)

interpretation write_instance: mock_setter "write_instance f" for f
proof
  fix m m' assume "write_instance f m = Ok m'" and "coherent m"
  then show "coherent m'"
    by (cases "j_instance (mk_job m)") (auto simp: write_instance_def coherent_def Let_def)
qed

interpretation write_os: mock_setter "write_os f" for f
proof
  fix m m' assume w: "write_os f m = Ok m'" and c: "coherent m"
  from w obtain h v where h: "j_hardware (mk_job m) = Some h" "os_written f h = Ok v"
    by (cases "j_hardware (mk_job m)") (auto simp: write_os_def map_ok_Ok_iff)
  show "coherent m'"
  proof (cases v)
    case None
    with w h c show ?thesis by (simp add: write_os_def)
  next
    case (Some i)
    with w h os_written_instance [of f h i] show ?thesis by (auto simp: write_os_def coherent_def Let_def)
  qed
qed

lemma mock_setter_comp:
  assumes "mock_setter f" and "mock_setter g"
  shows "mock_setter (\<lambda>m. bind_go (f m) g)"
proof
  fix m m' assume "bind_go (f m) g = Ok m'" and "coherent m"
  then obtain m1 where "f m = Ok m1" "g m1 = Ok m'" by (cases "f m") auto
  with \<open>coherent m\<close> show "coherent m'" using mock_setter.keeps [OF assms(1)] mock_setter.keeps [OF assms(2)] by blast
qed

lemma mock_setter_pure: "(\<And>m. coherent m \<Longrightarrow> coherent (f m)) \<Longrightarrow> mock_setter (\<lambda>m. Ok (f m))"
  by unfold_locales auto

lemma coherent_write_cacher:
  assumes "\<And>h. hc_Instance (f h) = hc_Instance h" and "coherent m"
  shows "coherent (write_cacher f m)"
  using assms by (auto simp: write_cacher_def coherent_def split: option.splits hardware.splits)

text \<open>The setters by name, as a test calls them.\<close>

inductive setter :: "(mock \<Rightarrow> mock go) \<Rightarrow> bool" where
  "setter (\<lambda>m. Ok (DropInstance m))"
| "setter (\<lambda>m. Ok (SetIP ip m))"
| "setter (SetIPXEScriptURL s)"
| "setter (SetUserData s)"
| "setter (mock_SetMAC s)"
| "setter (\<lambda>m. Ok (SetManufacturer s m))"
| "setter (SetOSDistro s)"
| "setter (SetOSSlug s)"
| "setter (SetOSVersion s)"
| "setter (SetOSImageTag s)"
| "setter (SetOSInstaller s)"
| "setter (SetOSInstallerData data)"
| "setter (SetPassword s)"
| "setter (SetCustomData v)"
| "setter (\<lambda>m. Ok (SetState s m))"
| "setter (SetBootDriveHint s)"
| "setter (SetRescue b)"

lemma setter_keeps: "setter f \<Longrightarrow> mock_setter f"
proof (induction rule: setter.induct)
  case 1
  show ?case by (intro mock_setter_pure) (simp add: coherent_def DropInstance_def)
next
  case (2 ip)
  show ?case by (intro mock_setter_pure) (simp add: coherent_def SetIP_def)
next
  case (5 s)
  show ?case by unfold_locales (auto simp: mock_SetMAC_def coherent_def split: option.splits)
next
  case (8 s)
  show ?case unfolding SetOSSlug_def [abs_def] by (intro mock_setter_comp write_os.mock_setter_axioms)
next
  case (13 s)
  show ?case unfolding SetPassword_def [abs_def] by (intro mock_setter_comp write_instance.mock_setter_axioms)
next
  case (6 s)
  show ?case unfolding SetManufacturer_def [abs_def] by (intro mock_setter_pure coherent_write_cacher) simp_all
next
  case (15 s)
  show ?case unfolding SetState_def [abs_def] by (intro mock_setter_pure coherent_write_cacher) simp_all
qed (simp_all add: SetIPXEScriptURL_def SetUserData_def SetOSDistro_def SetOSVersion_def SetOSImageTag_def SetOSInstaller_def
  SetOSInstallerData_def SetCustomData_def SetBootDriveHint_def SetRescue_def write_instance.mock_setter_axioms
  write_os.mock_setter_axioms)

text \<open>\<open>setup_left\<close> is the job of \<open>setup\<close> whenever that succeeds.\<close>

lemma setup_left_Ok: "job_setup L c d j = Ok (Inr j') \<Longrightarrow> setup_left L c d j = Ok j'"
  by (auto simp: job_setup_def setup_left_def Let_def split: sum.splits if_splits)

text \<open>The mocks that a test can reach.\<close>

inductive mocked :: "'p dhcp4 \<Rightarrow> conf \<Rightarrow> mock \<Rightarrow> bool" for L c where
  new: "mocked L c (NewMock uuid slug facility)"
| discovered: "NewMockFromDiscovery L c d mac = Ok m \<Longrightarrow> mocked L c m"
| set_field: "mocked L c m \<Longrightarrow> setter f \<Longrightarrow> f m = Ok m' \<Longrightarrow> mocked L c m'"

lemma setup_left_pointers:
  assumes "setup_left L c d j = Ok j'"
  shows "\<exists>inst. disc_Instance (disc_SetMAC (j_mac j) d) = Ok inst \<and> j_hardware j' = Some (disc_Hardware (disc_SetMAC (j_mac j) d)) \<and>
    j_instance j' = Some (case inst of None \<Rightarrow> zero_instance | Some i \<Rightarrow> i)"
  using assms by (auto simp: setup_left_def Let_def split: sum.splits if_splits)

lemma shared_instance:
  assumes "shares_instance d" and "disc_Instance (disc_SetMAC mac d) = Ok inst"
  shows "\<exists>i. inst = Some i \<and> hw_instance (disc_Hardware (disc_SetMAC mac d)) = Some i"
  using assms by (cases d) (auto simp: dc_Instance_def dt_Instance_def ds_Instance_def dc_SetMAC_def dt_SetMAC_def ds_SetMAC_def)

text \<open>
  Every mock that the constructors and setters make is coherent: what a test sets through the job is what the
  installers read through the hardware, as long as the job came from a record with an instance.
\<close>

lemma mocked_coherent: "mocked L c m \<Longrightarrow> coherent m"
proof (induction rule: mocked.induct)
  case (new uuid slug facility)
  show ?case by (simp add: coherent_def NewMock_def Let_def)
next
  case (discovered d mac m)
  from discovered obtain j where j: "setup_left L c d ((new_job [])\<lparr>j_mac := mac\<rparr>) = Ok j"
    and m: "m = \<lparr>mk_job = j, mk_shared = shares_instance d\<rparr>" by (auto simp: NewMockFromDiscovery_def map_ok_Ok_iff)
  show ?case using setup_left_pointers [OF j] shared_instance [of d mac] by (auto simp: coherent_def m)
next
  case (set_field m f m')
  then show ?case using mock_setter.keeps [OF setter_keeps] by blast
qed

text \<open>
  What a setter of the operating system wrote is what the job's hardware returns, for the backends that keep a
  pointer; the Kubernetes backend answers every call with a new value, and there the write is lost.
\<close>

lemma os_written_read:
  assumes "os_written f h = Ok w" and "hw_OperatingSystem h = Ok (Some os)"
  shows "hw_OperatingSystem (case w of None \<Rightarrow> h | Some i \<Rightarrow> hw_put_instance i h) =
    Ok (Some (case h of HK8s _ \<Rightarrow> os | _ \<Rightarrow> f os))"
proof (cases h)
  case (HCacher c)
  show ?thesis
    using assms by (cases "hc_Instance c"; cases "i_OSV (the (hc_Instance c))")
      (auto simp: HCacher hc_OperatingSystem_def zero_instance_def Let_def)
next
  case (HTink k)
  show ?thesis
    using assms by (cases "m_Instance (ht_Metadata k)"; cases "i_OS (the (m_Instance (ht_Metadata k)))")
      (auto simp: HTink ht_OperatingSystem_def zero_instance_def Let_def)
next
  case (HK8s k)
  show ?thesis using assms by (cases "k8s_OperatingSystem k") (auto simp: HK8s)
next
  case (HStandalone s)
  show ?thesis
    using assms by (cases "m_Instance (hs_Metadata s)"; cases "i_OS (the (m_Instance (hs_Metadata s)))")
      (auto simp: HStandalone hs_OperatingSystem_def)
qed

lemma write_os_read:
  assumes "write_os f m = Ok m'" and "j_hardware (mk_job m) = Some h" and "hw_OperatingSystem h = Ok (Some os)"
  shows "\<exists>h'. j_hardware (mk_job m') = Some h' \<and>
    hw_OperatingSystem h' = Ok (Some (case h of HK8s _ \<Rightarrow> os | _ \<Rightarrow> f os))"
proof -
  obtain w where w: "os_written f h = Ok w" using assms(1,2) by (auto simp: write_os_def map_ok_Ok_iff)
  show ?thesis
    using assms(1,2) w os_written_read [OF w assms(3)] by (cases w) (auto simp: write_os_def Let_def)
qed

end
