(* ===== verification/Spec2Isabelle.thy ===== *)
theory Spec2Isabelle
  imports Go_Prelude Go_Net Ipxe_Script Conf Dhcp4_Lib Dhcp_Config Ipxe_Options Dhcp_Pxe Client_Model Client_Json
    Cacher_Discovery Tinkerbell_Discovery Kubernetes_Discovery Standalone_Discovery Hardware_Iface
    Job_Core Job_Events Job_Dhcp Boots_Dhcp
    Ipxe_Lines Job_Ipxe Installer_Osie Installer_Custom Installer_Vmware Go_Json Go_Json_Decode Go_Json_Store
    Ignition_Storage Flatcar_Units Installer_Flatcar
    Workflow_Finders Boots_Main Job_Http Vmware_Kickstart Boots_Http Syslog_Message Syslog_Receiver
    Packet_Reporter Job_Modes Metrics Boots_Metrics Boots_Cli Boots_Process Kubernetes_Cluster Job_Mock
begin

text \<open>
  \<^bold>\<open>The program.\<close>  Boots is the network boot server of Tinkerbell, a Go program.  One process runs four servers: DHCP,
  which answers a machine with the address and the boot file of its record; HTTP, which serves the iPXE script of the
  machine that asks and takes its reports; TFTP (with the iPXE binaries, a library); and syslog, which logs what the
  machines send.  All of them look a machine up in one of four data models (cacher, tink-server, Kubernetes, a JSON
  file) and build a \<open>Job\<close> from the record; an installer then writes the script for the job's operating system, and
  events are reported to the Packet API.

  \<^bold>\<open>How Go is modelled.\<close>  \<open>Go_Prelude\<close> has the vocabulary.  Strings and byte slices are \<open>char list\<close>, a character being one
  byte; a pointer is an \<open>option\<close>; a map is a partial function, or a list where its order is observed.  A function that
  can panic or stop the process returns \<open>'a go\<close>, either \<open>Ok\<close> or the \<open>fault\<close> (nil dereference, index or slice out of
  range, write to a nil map, negative capacity, \<open>panic\<close>, \<open>log.Fatal\<close>); a Go error is the left side of
  \<open>string + 'a\<close>.  Mutated values are passed and returned; calls to the reporter and to the metrics are recorded in
  order in a list that every handler threads through.  Sized integers are kept at their width where they can overflow
  (option codes, lease times, durations, the syslog priority).  \<open>Go_Net\<close> models what the sources use of the standard packages
  \<open>net\<close> and \<open>path\<close>, with the round trips between parsing and printing.

  \<^bold>\<open>JSON.\<close>  \<open>Go_Json\<close> is the encoder of \<open>encoding/json\<close>, \<open>Go_Json_Decode\<close> its parser, and what the encoder writes is read back
  (\<open>json_parse_Marshal\<close>).  \<open>Go_Json_Store\<close> stores a parsed value into a Go variable: one function for each kind of
  variable, built up to the structs of the program from their tags (\<open>Client_Json\<close> and the theories of the components),
  with null, missing and unknown keys, letter case and embedded pointers treated as the package treats them.  So the
  records of the data models, the bodies of the endpoints and the services version in the user data are decoded
  from their text.

  \<^bold>\<open>Code outside the repository\<close> is an argument.  The DHCP library is the record \<open>'p dhcp4\<close> over an abstract packet type,
  with its documented laws in \<open>dhcp4_ok\<close> and a reference implementation \<open>ref_dhcp4\<close> that satisfies them
  (\<open>Dhcp4_Lib\<close>); the URLs and the HTTP transport of the Packet client, the lookups of the cacher,
  tink-server and Kubernetes clients, the span context, the RSA key and the X-Forwarded-For package are further arguments,
  and so are two details of \<open>encoding/json\<close>: the texts of its errors and the conversion of numbers that are not
  integers of 53 bits (\<open>json_pkg\<close>).  Each hypothesis about one of them is discharged on a concrete
  function by the witness of the property that has it.

  \<^bold>\<open>Components\<close> (theory, sources, state and operations, what its lemmas show).

  \<^item> \<open>Conf\<close>: \<open>conf/config.go\<close>, \<open>conf/mirror.go\<close>.  The environment is a partial function, the package variables the record
    \<open>conf\<close>; parsing of trusted proxies, ignored OUIs and relays, name servers.
  \<^item> \<open>Dhcp_Config\<close>, \<open>Dhcp_Pxe\<close>, \<open>Ipxe_Options\<close>: \<open>dhcp/\<close> and \<open>ipxe/dhcp_options.go\<close>.  The address and option map of a reply,
    PXE set-up, client recognition, the boot file field, the reply constructors, the printing of iPXE options.
    Setters write exactly one option, option 43 keeps its other sub-options, the file name is never truncated.
  \<^item> \<open>Ipxe_Script\<close>, \<open>Ipxe_Lines\<close>: \<open>ipxe/script.go\<close>.  A script is its buffer; it refines a list of lines
    (\<open>script_refines_lines\<close>), and the locales of \<open>Ipxe_Lines\<close> are the contract on which every installer is verified.
  \<^item> \<open>Client_Model\<close>, \<open>Client_Json\<close>, \<open>Cacher_Discovery\<close>, \<open>Tinkerbell_Discovery\<close>, \<open>Kubernetes_Discovery\<close>, \<open>Kubernetes_Cluster\<close>,
    \<open>Standalone_Discovery\<close>, \<open>Hardware_Iface\<close>, \<open>Workflow_Finders\<close>: \<open>client/\<close>.  The records of the data models and the methods of
    the Go interfaces \<open>Discoverer\<close> and \<open>Hardware\<close>, which are datatypes with one constructor for each implementation.
    Which address, mode and MAC a record yields; panics on absent data are results, and \<open>cacher_lookup_panics_iff\<close> says which
    records cause one in a lookup.
  \<^item> \<open>Packet_Reporter\<close>: \<open>client/packet/\<close>.  Requests, headers, bodies and errors of the API client.  Each call sends exactly the
    request of an abstract table and decodes its answer (\<open>packet_call_exact\<close>).
  \<^item> \<open>Job_Core\<close>, \<open>Job_Dhcp\<close>, \<open>Job_Events\<close>, \<open>Job_Ipxe\<close>, \<open>Job_Http\<close>, \<open>Job_Modes\<close>: \<open>job/\<close>.  The record \<open>job\<close>, its creation from a
    DHCP message or an address, the DHCP answer, events and phone home, boot scripts, the HTTP endpoints of a job.
    A phone-home form is understood as its fields say (\<open>phone_home_form_exact\<close>).
  \<^item> \<open>Job_Mock\<close>: \<open>job/mock.go\<close>.  The mock jobs of the tests, whose setters write through two pointers that may lead to one
    instance; in every mock that can be made both show the same one.
  \<^item> \<open>Installer_Osie\<close>, \<open>Installer_Custom\<close>, \<open>Installer_Vmware\<close>, \<open>Vmware_Kickstart\<close>, \<open>Installer_Flatcar\<close>, \<open>Flatcar_Units\<close>,
    \<open>Ignition_Storage\<close>: \<open>installers/\<close>.  The exact lines of each script, the kickstart text, the network units and the ignition
    document, which is a JSON text whatever the units contain.
  \<^item> \<open>Boots_Dhcp\<close>, \<open>Boots_Http\<close>, \<open>Boots_Main\<close>, \<open>Boots_Cli\<close>, \<open>Boots_Process\<close>: \<open>cmd/boots/\<close>.  The two handlers, the routes, the flags,
    the registration of the installers, and \<open>main\<close> as the list of actions it takes before it waits or fails.
  \<^item> \<open>Metrics\<close>, \<open>Boots_Metrics\<close>: \<open>metrics/setup.go\<close> and the counting in the handlers.  Every call has the labels its vector was
    declared with; under any interleaving of handlers a gauge counts the requests in progress.
  \<^item> \<open>Syslog_Message\<close>, \<open>Syslog_Receiver\<close>: \<open>syslog/\<close>.  The two message formats, and the reader and parser goroutines with their
    pool and channel as a step relation, whose reachable states satisfy an invariant.

  \<^bold>\<open>Properties.\<close>  Each stands in the theory of the last component it needs, after a text that states it; those over the
  whole of a request are \<open>serve_end_to_end\<close> (DHCP), \<open>serveJobFile_script\<close> and \<open>serve_osie_exact\<close> (HTTP), \<open>main_servers_agree\<close> and
  \<open>untrusted_peer_cannot_spoof\<close> (the process), and \<open>boot_chain\<close> below, which ties the DHCP answer to the script that
  HTTP serves for it.  Where a loop of the code is not structural its function has a measure (the bytes that
  remain).  The functions with fuel are those of JSON: the encoder and the decoder of a string take the length of the
  string, and each step consumes a byte; the parser takes two units for a byte, one for a value and one for the list or
  object around it, and more fuel changes nothing (\<open>json_first_fuel\<close>): no text fails for lack of it.  Its depth limit
  is the one of the package.  Every operation is a total function whose faults are values.  Safety properties speak of the
  packets and bodies that are sent (\<open>serve_end_to_end\<close>, \<open>serveJobFile_script\<close>, \<open>boot_chain\<close>); that an answer is sent is
  stated apart, in \<open>ServeDHCP_boot_file\<close> and \<open>serve_osie_exact\<close>, and when a handler panics instead in the properties
  of kind error.

  \<^bold>\<open>Not modelled.\<close>  Log output, except for \<open>log.Fatal\<close>, which is a fault; tracing spans, except for the trace parent that is
  sent to machines; the sockets and the signal handling of the process, whose servers are the actions of
  \<open>boots_main\<close>; the iPXE binaries and the TFTP service, which are libraries; the mocks that a generator writes for the
  tests, whose methods forward to its library; the files of the build.  A slice that one JSON text stores into three times
  starts its new elements from zero values in the model.  Requests
  are handled one at a time in the handlers' own theorems: the handlers share no mutable state apart from the metrics and the
  reporter.
\<close>

section \<open>The two lookups of a machine\<close>

lemma AllowPXE_cong:
  assumes "j_hardware j = j_hardware j'" and "j_mac j = j_mac j'" and "j_instance j = j_instance j'"
  shows "AllowPXE j = AllowPXE j'"
  unfolding AllowPXE_def InstanceID_def with_inst_def assms ..

lemma remote_job_of_dhcp_job:
  assumes "CreateFromDHCP L c f engine mac gi cid = Ok (Inr j)" and "ByMAC f mac gi cid = Ok (Inr d)"
    and "SplitHostPort remote = Some host" and "ByIP f (ParseIP host) = Ok (Inr d)"
    and "disc_GetMAC d (ParseIP host) = Ok mac" and "mac_String mac \<noteq> MACAddr_String MinMAC"
  shows "CreateFromRemoteAddr L c f engine remote = Ok (Inr (j\<lparr>j_ip := ParseIP host\<rparr>))"
proof -
  have s: "job_setup L c d ((new_job engine)\<lparr>j_mac := mac\<rparr>) = Ok (Inr j)"
    using assms(1,2) by (simp add: CreateFromDHCP_def Let_def)
  have e: "(new_job engine)\<lparr>j_mac := mac, j_ip := ParseIP host\<rparr> = (new_job engine)\<lparr>j_ip := ParseIP host, j_mac := mac\<rparr>"
    by (simp add: new_job_def)
  from job_setup_ip [OF s, of "ParseIP host", unfolded e] assms(3-) show ?thesis
    by (simp add: CreateFromRemoteAddr_def CreateFromIP_def Let_def)
qed

text \<open>
  C2: DHCP and HTTP tell a machine the same.  When Tinkerbell's iPXE gets a DHCP reply, and the address it then asks from
  leads the data model back to the same record and hardware address, the reply either names no boot file; or
  names \<open>auto.ipxe\<close> on this server, and the request for it is answered with the script of the very job that DHCP
  answered for; or names the file \<open>nonexistent\<close>, and the request for \<open>auto.ipxe\<close> is refused too.
\<close>

theorem boot_chain:
  assumes "dhcp4_ok L" and "spanctx_ok sc" and "IsTinkerbellIPXE L req"
    and "serve L ord c sc r write h req tr = Ok (sent, tr1)" and "p \<in> set sent" and "getCircuitID L req = Ok (cid, err)"
    and "ByMAC (dh_finder h) (pk_GetCHAddr L req) (pk_GetGIAddr L req) cid = Ok (Inr d)"
    and "bh_finder s = dh_finder h" and "bh_engine s = dh_engine h" and "SplitHostPort (rq_RemoteAddr rq) = Some host"
    and "ByIP (dh_finder h) (ParseIP host) = Ok (Inr d)" and "disc_GetMAC d (ParseIP host) = Ok (pk_GetCHAddr L req)"
    and "mac_String (pk_GetCHAddr L req) \<noteq> MACAddr_String MinMAC" and "path_Base (rq_Path rq) = ''auto.ipxe''"
  shows "\<exists>j. CreateFromDHCP L c (dh_finder h) (dh_engine h) (pk_GetCHAddr L req) (pk_GetGIAddr L req) cid = Ok (Inr j) \<and>
    (pk_File L p = file_field [] \<or>
     pk_File L p = file_field (boot_url True (dh_bootsBaseURL h) ''auto.ipxe'') \<and>
       serveJobFile L c sc' i s rq new_writer tr2 = serveBootScript c i sc' (j\<lparr>j_ip := ParseIP host\<rparr>) ''auto'' new_writer tr2 \<or>
     pk_File L p = file_field (boot_url (IsHTTPClient L req) (dh_bootsBaseURL h) ''nonexistent'') \<and>
       serveJobFile L c sc' i s rq new_writer tr2 = Ok (WriteHeader 404 new_writer, tr2))"
proof -
  obtain j sv where cr: "CreateFromDHCP L c (dh_finder h) (dh_engine h) (pk_GetCHAddr L req) (pk_GetGIAddr L req) cid = Ok (Inr j)"
    and sv: "ServeDHCP L ord c sc r write (j\<lparr>j_IpxeBaseURL := dh_ipxeBaseURL h, j_BootsBaseURL := dh_bootsBaseURL h,
         j_NextServer := dh_nextServer h\<rparr>) req tr = Ok sv" and p: "p \<in> set (sv_sent sv)"
    using serve_sent [OF assms(4,5)] assms(5,6) by auto
  let ?j = "j\<lparr>j_IpxeBaseURL := dh_ipxeBaseURL h, j_BootsBaseURL := dh_bootsBaseURL h, j_NextServer := dh_nextServer h\<rparr>"
  have ready: "job_ready ?j"
    using CreateFromDHCP_setup [OF cr] job_setup_ready [OF assms(1)] by (auto simp: job_ready_def)
  have remote: "CreateFromRemoteAddr L c (bh_finder s) (bh_engine s) (rq_RemoteAddr rq) = Ok (Inr (j\<lparr>j_ip := ParseIP host\<rparr>))"
    unfolding assms(8,9) by (rule remote_job_of_dhcp_job [OF cr assms(7,10-13)])
  have same: "AllowPXE ?j = AllowPXE (j\<lparr>j_ip := ParseIP host\<rparr>)" by (rule AllowPXE_cong) simp_all
  from ServeDHCP_ipxe_file [OF assms(1,2) ready assms(3) sv p] cr show ?thesis
    by (auto simp: same serveJobFile_auto [OF remote _ assms(14)])
qed

section \<open>A sample\<close>

text \<open>The sample request, sent by Tinkerbell's iPXE.\<close>

definition sample_ipxe_req :: rpacket where
  "sample_ipxe_req = sample_req\<lparr>r_opts := (r_opts sample_req)(77 \<mapsto> ''Tinkerbell'')\<rparr>"

lemma sample_ipxe_request:
  "pk_GetCHAddr ref_dhcp4 sample_ipxe_req = sample_mac" "pk_GetGIAddr ref_dhcp4 sample_ipxe_req = replicate 4 (CHR 0x00)"
  "getCircuitID ref_dhcp4 sample_ipxe_req = Ok ([], None)" "IsPXE ref_dhcp4 sample_ipxe_req"
  "pk_GetMessageType ref_dhcp4 sample_ipxe_req = MessageTypeDiscover" "IsTinkerbellIPXE ref_dhcp4 sample_ipxe_req"
  by (simp_all add: ref_dhcp4_def sample_ipxe_req_def sample_req_def sample_mac_def getCircuitID_def option_codes IsPXE_def
      HasPrefix_def ref_type_def MessageTypeDiscover_def IsTinkerbellIPXE_def)

lemma sample_urls:
  "''http://'' @ path_Join [''192.168.1.1'', ''auto.ipxe''] = ''http://192.168.1.1/auto.ipxe''"
  "''http://'' @ path_Join [''192.168.1.1'', ''nonexistent''] = ''http://192.168.1.1/nonexistent''"
  by code_simp+

lemma sample_ipxe_name: "boot_name ref_dhcp4 (sample_dhcp_job dh) sample_ipxe_req True zero_os = ''http://192.168.1.1/auto.ipxe''"
  using sample_urls by (simp add: boot_name_def boot_url_def sample_may_boot sample_ipxe_request(6))

lemma sample_ipxe_served:
  "\<exists>p tr'. serve ref_dhcp4 key_order sample_conf sample_sc noOpReporter (\<lambda>p. None) sample_handler sample_ipxe_req [] = Ok ([p], tr') \<and>
     pk_File ref_dhcp4 p = file_field ''http://192.168.1.1/auto.ipxe''"
  using sample_serve_request [OF sample_ipxe_request(1-5)] by (simp add: sample_ipxe_name)

theorem boot_chain_witness:
  "\<exists>p tr' i j. serve ref_dhcp4 key_order sample_conf sample_sc noOpReporter (\<lambda>p. None) sample_handler sample_ipxe_req [] = Ok ([p], tr') \<and>
     registerInstallers sample_env_pkg sample_conf noOpReporter sample_cf = Ok (Inr i) \<and>
     pk_File ref_dhcp4 p = file_field ''http://192.168.1.1/auto.ipxe'' \<and>
     serveJobFile ref_dhcp4 sample_conf sample_sc i sample_server (sample_rq ''/auto.ipxe'' []) new_writer [] =
       serveBootScript sample_conf i sample_sc j ''auto'' new_writer []"
proof -
  obtain p tr' where s: "serve ref_dhcp4 key_order sample_conf sample_sc noOpReporter (\<lambda>p. None) sample_handler sample_ipxe_req [] = Ok ([p], tr')"
    and f: "pk_File ref_dhcp4 p = file_field ''http://192.168.1.1/auto.ipxe''"
    using sample_ipxe_served by blast
  have m: "mac_String sample_mac \<noteq> MACAddr_String MinMAC" by code_simp
  have p: "SplitHostPort (rq_RemoteAddr (sample_rq ''/auto.ipxe'' [])) = Some ''10.1.2.3''"
    by (simp add: sample_rq_def SplitHostPort_def sample_remote_def)
  have d: "ByMAC (dh_finder sample_handler) mac gi cid = Ok (Inr (DCacher sample_dc))"
      "ByIP (dh_finder sample_handler) ip = Ok (Inr (DCacher sample_dc))"
      "bh_finder sample_server = dh_finder sample_handler" "bh_engine sample_server = dh_engine sample_handler"
      "disc_GetMAC (DCacher sample_dc) ip = Ok sample_mac" for mac gi cid ip
    by (simp_all add: sample_handler_def sample_server_def sample_finder_def dc_GetMAC_def sample_primary)
  have "file_field ''http://192.168.1.1/auto.ipxe'' \<noteq> file_field []"
      "file_field ''http://192.168.1.1/auto.ipxe'' \<noteq> file_field (boot_url b (dh_bootsBaseURL sample_handler) ''nonexistent'')" for b
    using sample_urls(2) by (simp_all add: file_field_def boot_url_def sample_handler_def numeral_eq_Suc)
  with boot_chain [OF ref_dhcp4_ok sample_sc_ok sample_ipxe_request(6) s _ sample_ipxe_request(3) d(1,3,4) p d(2)
      d(5) [folded sample_ipxe_request(1)] m [folded sample_ipxe_request(1)] sample_auto_path, of p sample_sc _ "[]"] s f
    sample_registered
  show ?thesis by fastforce
qed

end
